(* ===== verification/Prelude.thy ===== *)
theory Prelude
  imports Complex_Main "HOL-Library.Word" "HOL-Library.Sublist" "HOL-Library.Char_ord" "HOL-Library.List_Lexorder"
begin

text \<open>
  What every component shares: the result type of a call that may throw, the
  state-and-exception type of a method that changes its object, the searches of
  \<^verbatim>\<open>std::string\<close> the sources use, decimal printing, and the lemma
  collections. \<^verbatim>\<open>std::string\<close> is a list of bytes (\<open>char list\<close>); a search that
  returns \<^verbatim>\<open>std::string::npos\<close> returns \<open>None\<close>.
\<close>

named_theorems result_simps \<open>unfolding of the result and state monads\<close>
named_theorems str_simps \<open>facts on the string searches\<close>

section \<open>Results: a value or an exception\<close>

definition bindR :: "'e + 'a \<Rightarrow> ('a \<Rightarrow> 'e + 'b) \<Rightarrow> 'e + 'b" where
  "bindR r f = (case r of Inl e \<Rightarrow> Inl e | Inr x \<Rightarrow> f x)"

lemma bindR_simps [simp]:
  "bindR (Inl e) f = Inl e"
  "bindR (Inr x) f = f x"
  by (simp_all add: bindR_def)

lemma bindR_Inr_iff: "bindR r f = Inr y \<longleftrightarrow> (\<exists>x. r = Inr x \<and> f x = Inr y)"
  by (cases r) simp_all

lemma bindR_Inl_iff: "bindR r f = Inl e \<longleftrightarrow> r = Inl e \<or> (\<exists>x. r = Inr x \<and> f x = Inl e)"
  by (cases r) auto

lemma bindR_assoc: "bindR (bindR r f) g = bindR r (\<lambda>x. bindR (f x) g)"
  by (cases r) simp_all

lemma bindR_cong [fundef_cong]:
  "r = r' \<Longrightarrow> (\<And>x. r' = Inr x \<Longrightarrow> f x = f' x) \<Longrightarrow> bindR r f = bindR r' f'"
  by (cases r') simp_all

fun mapR :: "('a \<Rightarrow> 'e + 'b) \<Rightarrow> 'a list \<Rightarrow> 'e + 'b list" where
  "mapR f [] = Inr []"
| "mapR f (x # xs) = bindR (f x) (\<lambda>y. bindR (mapR f xs) (\<lambda>ys. Inr (y # ys)))"

lemma mapR_cong [fundef_cong]:
  "xs = ys \<Longrightarrow> (\<And>x. x \<in> set ys \<Longrightarrow> f x = g x) \<Longrightarrow> mapR f xs = mapR g ys"
  by (induction ys arbitrary: xs) auto

text \<open>A loop that updates an accumulator and stops at the first exception.\<close>

fun foldR :: "('x \<Rightarrow> 't \<Rightarrow> 'e + 't) \<Rightarrow> 'x list \<Rightarrow> 't \<Rightarrow> 'e + 't" where
  "foldR f [] t = Inr t"
| "foldR f (x # xs) t = bindR (f x t) (foldR f xs)"

lemma foldR_append: "foldR f (xs @ ys) t = bindR (foldR f xs t) (foldR f ys)"
  by (induction xs arbitrary: t) (simp_all add: bindR_def split: sum.splits)

lemma mapR_Inr_length: "mapR f xs = Inr ys \<Longrightarrow> length ys = length xs"
  by (induction xs arbitrary: ys) (auto simp: bindR_Inr_iff)

lemma mapR_inverse:
  "(\<And>x. x \<in> set xs \<Longrightarrow> f (g x) = Inr x) \<Longrightarrow> mapR f (map g xs) = Inr xs"
  by (induction xs) simp_all

section \<open>Methods: state passing with exceptions\<close>

text \<open>
  A method of an object takes the object's state and returns the value or the exception
  it leaves with, and the state it leaves behind: C++ keeps the changes made before a
  \<^verbatim>\<open>throw\<close>.
\<close>

definition ret :: "'a \<Rightarrow> 's \<Rightarrow> ('e + 'a) \<times> 's" where
  "ret x s = (Inr x, s)"

definition throw :: "'e \<Rightarrow> 's \<Rightarrow> ('e + 'a) \<times> 's" where
  "throw e s = (Inl e, s)"

definition bindM ::
  "('s \<Rightarrow> ('e + 'a) \<times> 's) \<Rightarrow> ('a \<Rightarrow> 's \<Rightarrow> ('e + 'b) \<times> 's) \<Rightarrow> 's \<Rightarrow> ('e + 'b) \<times> 's" where
  "bindM m f s = (case m s of (Inl e, s') \<Rightarrow> (Inl e, s') | (Inr x, s') \<Rightarrow> f x s')"

definition thenM ::
  "('s \<Rightarrow> ('e + 'a) \<times> 's) \<Rightarrow> ('s \<Rightarrow> ('e + 'b) \<times> 's) \<Rightarrow> 's \<Rightarrow> ('e + 'b) \<times> 's" where
  "thenM m n = bindM m (\<lambda>_. n)"

definition modifyM :: "('s \<Rightarrow> 's) \<Rightarrow> 's \<Rightarrow> ('e + unit) \<times> 's" where
  "modifyM f s = (Inr (), f s)"

definition getM :: "('s \<Rightarrow> 'a) \<Rightarrow> 's \<Rightarrow> ('e + 'a) \<times> 's" where
  "getM f s = (Inr (f s), s)"

definition liftR :: "'e + 'a \<Rightarrow> 's \<Rightarrow> ('e + 'a) \<times> 's" where
  "liftR r s = (r, s)"

text \<open>
  A scope guard: \<open>enter\<close> runs first, \<open>leave\<close> is the destructor that runs however the body
  ends.
\<close>

definition scoped ::
  "('s \<Rightarrow> 's) \<Rightarrow> ('s \<Rightarrow> 's) \<Rightarrow> ('s \<Rightarrow> ('e + 'a) \<times> 's) \<Rightarrow> 's \<Rightarrow> ('e + 'a) \<times> 's" where
  "scoped enter leave m s = (case m (enter s) of (r, s') \<Rightarrow> (r, leave s'))"

lemmas monad_defs = ret_def throw_def bindM_def thenM_def modifyM_def getM_def liftR_def scoped_def

text \<open>\<open>steady R m\<close>: however \<open>m\<close> leaves, the states before and after are related by \<open>R\<close>. For a
  reflexive and transitive \<open>R\<close> that is kept by every composition.\<close>

definition steady :: "('s \<Rightarrow> 's \<Rightarrow> bool) \<Rightarrow> ('s \<Rightarrow> ('e + 'a) \<times> 's) \<Rightarrow> bool" where
  "steady R m \<longleftrightarrow> (\<forall>s. R s (snd (m s)))"

named_theorems steady_intros \<open>composition of steady methods\<close>

lemma steadyD: "steady R m \<Longrightarrow> m s = (r, s') \<Longrightarrow> R s s'"
  by (auto simp: steady_def dest: spec [of _ s])

lemma steady_pure [steady_intros]:
  "reflp R \<Longrightarrow> steady R (ret x)" "reflp R \<Longrightarrow> steady R (throw e)"
  "reflp R \<Longrightarrow> steady R (liftR r)" "reflp R \<Longrightarrow> steady R (getM f)"
  by (simp_all add: steady_def ret_def throw_def liftR_def getM_def reflp_def)

lemma steady_bindM [steady_intros]:
  assumes "transp R" "steady R m" "\<And>x. steady R (f x)"
  shows "steady R (bindM m f)"
  unfolding steady_def
proof
  fix s
  obtain r s' where m: "m s = (r, s')" by fastforce
  from steadyD [OF assms(2) m] have 1: "R s s'" .
  show "R s (snd (bindM m f s))"
  proof (cases r)
    case (Inr x)
    from assms(3) [of x] have "R s' (snd (f x s'))" by (simp add: steady_def)
    with 1 assms(1) have "R s (snd (f x s'))" by (blast dest: transpD)
    with m Inr show ?thesis by (simp add: bindM_def)
  qed (use m 1 in \<open>simp add: bindM_def\<close>)
qed

lemma steady_thenM [steady_intros]:
  "transp R \<Longrightarrow> steady R m \<Longrightarrow> steady R n \<Longrightarrow> steady R (thenM m n)"
  unfolding thenM_def by (rule steady_bindM)

lemma steady_if [steady_intros]: "(b \<Longrightarrow> steady R m) \<Longrightarrow> (\<not> b \<Longrightarrow> steady R n) \<Longrightarrow> steady R (if b then m else n)"
  by simp

lemma steady_case [steady_intros]:
  "(v = None \<Longrightarrow> steady R m) \<Longrightarrow> (\<And>x. v = Some x \<Longrightarrow> steady R (f x)) \<Longrightarrow> steady R (case v of None \<Rightarrow> m | Some x \<Rightarrow> f x)"
  "(\<And>x y. p = (x, y) \<Longrightarrow> steady R (g x y)) \<Longrightarrow> steady R (case p of (x, y) \<Rightarrow> g x y)"
  by (auto split: option.splits prod.splits)

fun mapMs :: "('x \<Rightarrow> 's \<Rightarrow> ('e + unit) \<times> 's) \<Rightarrow> 'x list \<Rightarrow> 's \<Rightarrow> ('e + unit) \<times> 's" where
  "mapMs f [] = ret ()"
| "mapMs f (x # xs) = thenM (f x) (mapMs f xs)"

lemma mapMs_cong [fundef_cong]:
  "xs = ys \<Longrightarrow> (\<And>x. x \<in> set ys \<Longrightarrow> f x = g x) \<Longrightarrow> mapMs f xs = mapMs g ys"
  by (induction ys arbitrary: xs) auto

lemma steady_mapMs [steady_intros]:
  "reflp R \<Longrightarrow> transp R \<Longrightarrow> (\<And>x. x \<in> set xs \<Longrightarrow> steady R (f x)) \<Longrightarrow> steady R (mapMs f xs)"
  by (induction xs) (auto intro: steady_pure steady_thenM)

lemma bindM_run [result_simps]:
  "m s = (Inr x, s') \<Longrightarrow> bindM m f s = f x s'"
  "m s = (Inl e, s') \<Longrightarrow> bindM m f s = (Inl e, s')"
  by (simp_all add: bindM_def)

section \<open>Searching and cutting byte strings\<close>

fun find_str :: "string \<Rightarrow> string \<Rightarrow> nat option" where
  "find_str p [] = (if p = [] then Some 0 else None)"
| "find_str p (c # cs) = (if prefix p (c # cs) then Some 0 else map_option Suc (find_str p cs))"

text \<open>\<^verbatim>\<open>s.find(p, i)\<close>.\<close>

definition find_from :: "string \<Rightarrow> string \<Rightarrow> nat \<Rightarrow> nat option" where
  "find_from s p i = (if i \<le> length s then map_option (\<lambda>k. k + i) (find_str p (drop i s)) else None)"

text \<open>\<^verbatim>\<open>s.substr(i, n)\<close> for an \<open>i\<close> inside the string, and \<^verbatim>\<open>s.substr(i)\<close>, which throws
  \<^verbatim>\<open>std::out_of_range\<close> (\<open>None\<close>) when \<open>i\<close> is past the end.\<close>

definition substr :: "string \<Rightarrow> nat \<Rightarrow> nat \<Rightarrow> string" where
  "substr s i n = take n (drop i s)"

definition substr_from :: "string \<Rightarrow> nat \<Rightarrow> string option" where
  "substr_from s i = (if i \<le> length s then Some (drop i s) else None)"

fun find_char :: "char \<Rightarrow> string \<Rightarrow> nat option" where
  "find_char c [] = None"
| "find_char c (x # xs) = (if x = c then Some 0 else map_option Suc (find_char c xs))"

text \<open>\<^verbatim>\<open>s.find_last_of(c)\<close> and \<^verbatim>\<open>s.rfind(c)\<close>.\<close>

fun rfind_char :: "char \<Rightarrow> string \<Rightarrow> nat option" where
  "rfind_char c [] = None"
| "rfind_char c (x # xs) =
     (case rfind_char c xs of Some k \<Rightarrow> Some (Suc k) | None \<Rightarrow> (if x = c then Some 0 else None))"

lemma find_str_Some:
  "find_str p s = Some k \<Longrightarrow>
     k \<le> length s \<and> prefix p (drop k s) \<and> (\<forall>j<k. \<not> prefix p (drop j s))"
proof (induction p s arbitrary: k rule: find_str.induct)
  case (1 p)
  then show ?case by (auto split: if_splits)
next
  case (2 p c cs)
  show ?case
  proof (cases "prefix p (c # cs)")
    case True
    with "2.prems" show ?thesis by simp
  next
    case False
    with "2.prems" obtain k' where k': "find_str p cs = Some k'" "k = Suc k'" by auto
    with "2.IH" [OF False k'(1)] have
      ih: "k' \<le> length cs" "prefix p (drop k' cs)" "\<forall>j<k'. \<not> prefix p (drop j cs)" by auto
    have "\<not> prefix p (drop j (c # cs))" if "j < k" for j
      using that False ih(3) k'(2) by (cases j) auto
    with ih k' show ?thesis by simp
  qed
qed

lemma all_le_Suc_iff: "(\<forall>j\<le>Suc n. P j) \<longleftrightarrow> P 0 \<and> (\<forall>j\<le>n. P (Suc j))"
  by (metis Suc_le_mono not0_implies_Suc zero_le)

lemma find_str_None: "find_str p s = None \<longleftrightarrow> (\<forall>j\<le>length s. \<not> prefix p (drop j s))"
proof (induction p s rule: find_str.induct)
  case (2 p c cs)
  show ?case
  proof (cases "prefix p (c # cs)")
    case True
    then have "\<not> (\<forall>j\<le>length (c # cs). \<not> prefix p (drop j (c # cs)))"
      by (metis drop0 zero_le)
    with True show ?thesis by simp
  next
    case False
    with 2 show ?thesis by (simp add: all_le_Suc_iff)
  qed
qed simp

lemma find_char_None [simp]: "find_char c s = None \<longleftrightarrow> c \<notin> set s"
  by (induction s) auto

lemma find_char_Some:
  "find_char c s = Some k \<Longrightarrow> k < length s \<and> s ! k = c \<and> c \<notin> set (take k s)"
  by (induction s arbitrary: k) (auto split: if_splits)

lemma find_char_append [str_simps]:
  "c \<notin> set xs \<Longrightarrow> find_char c (xs @ c # ys) = Some (length xs)"
  by (induction xs) auto

lemma find_char_append_notin [str_simps]:
  "c \<notin> set xs \<Longrightarrow> find_char c (xs @ ys) = map_option (\<lambda>k. k + length xs) (find_char c ys)"
  by (induction xs) (auto simp: option.map_comp comp_def option.map_ident)

lemma rfind_char_None [simp]: "rfind_char c s = None \<longleftrightarrow> c \<notin> set s"
  by (induction s) (auto split: option.splits)

lemma rfind_char_Some:
  "rfind_char c s = Some k \<Longrightarrow> k < length s \<and> s ! k = c \<and> c \<notin> set (drop (Suc k) s)"
  by (induction s arbitrary: k) (auto split: option.splits if_splits)

text \<open>A C string ends at its first NUL byte.\<close>

definition c_str :: "string \<Rightarrow> string" where
  "c_str s = takeWhile (\<lambda>c. c \<noteq> CHR 0x00) s"

lemma c_str_id [simp]: "CHR 0x00 \<notin> set s \<Longrightarrow> c_str s = s"
  unfolding c_str_def by (rule takeWhile_eq_all_conv [THEN iffD2]) auto

lemma c_str_idem [simp]: "c_str (c_str s) = c_str s"
  by (simp add: c_str_def)

lemma c_str_eq_iff: "c_str s = s \<longleftrightarrow> CHR 0x00 \<notin> set s"
  by (auto simp: c_str_def takeWhile_eq_all_conv)

section \<open>Decimal printing\<close>

definition digit_char :: "nat \<Rightarrow> char" where
  "digit_char n = char_of (48 + n)"

definition digit_val :: "char \<Rightarrow> int" where
  "digit_val c = int (of_char c) - 48"

definition is_digit :: "char \<Rightarrow> bool" where
  "is_digit c \<longleftrightarrow> 48 \<le> (of_char c :: nat) \<and> (of_char c :: nat) \<le> 57"

fun dec_of_nat :: "nat \<Rightarrow> string" where
  "dec_of_nat n = (if n < 10 then [digit_char n] else dec_of_nat (n div 10) @ [digit_char (n mod 10)])"

declare dec_of_nat.simps [simp del]

definition dec_of_int :: "int \<Rightarrow> string" where
  "dec_of_int i = (if i < 0 then CHR ''-'' # dec_of_nat (nat (- i)) else dec_of_nat (nat i))"

lemma of_char_digit_char: "n < 10 \<Longrightarrow> (of_char (digit_char n) :: nat) = 48 + n"
  by (simp add: digit_char_def)

lemma digit_chars:
  "digit_char 0 = CHR ''0''" "digit_char 1 = CHR ''1''" "digit_char 2 = CHR ''2''" "digit_char 3 = CHR ''3''"
  "digit_char 4 = CHR ''4''" "digit_char 5 = CHR ''5''" "digit_char 6 = CHR ''6''" "digit_char 7 = CHR ''7''"
  "digit_char 8 = CHR ''8''" "digit_char 9 = CHR ''9''"
  by (simp_all add: digit_char_def char_of_def bit_0)

lemma digit_val_digit_char [simp]: "n < 10 \<Longrightarrow> digit_val (digit_char n) = int n"
  by (simp add: digit_val_def of_char_digit_char [where n = n] digit_char_def)

lemma is_digit_digit_char [simp]: "n < 10 \<Longrightarrow> is_digit (digit_char n)"
  by (simp add: is_digit_def of_char_digit_char)

lemma dec_of_nat_digits: "\<forall>c \<in> set (dec_of_nat n). is_digit c"
proof (induction n rule: dec_of_nat.induct)
  case (1 n)
  then show ?case by (subst dec_of_nat.simps) auto
qed

lemma dec_of_nat_nonempty [simp]: "dec_of_nat n \<noteq> []"
  by (subst dec_of_nat.simps) simp

definition dec_value :: "string \<Rightarrow> int" where
  "dec_value s = foldl (\<lambda>a c. a * 10 + digit_val c) 0 s"

lemma dec_value_dec_of_nat: "dec_value (dec_of_nat n) = int n"
proof (induction n rule: dec_of_nat.induct)
  case (1 n)
  show ?case
  proof (cases "n < 10")
    case True
    then show ?thesis by (subst dec_of_nat.simps) (simp add: dec_value_def)
  next
    case False
    with 1 have "dec_value (dec_of_nat (n div 10)) = int (n div 10)" by simp
    with False show ?thesis
      by (subst dec_of_nat.simps) (simp add: dec_value_def zdiv_int zmod_int)
  qed
qed

end
