(* ===== verification/Exceptions.thy ===== *)
theory Exceptions
  imports Prelude
begin

text \<open>
  The exceptions of \<^verbatim>\<open>include/mujincontrollerclient/mujinexceptions.h\<close>, those of
  \<^verbatim>\<open>mujinjson.h\<close> and \<^verbatim>\<open>utf8/checked.h\<close>, and the other ways a call can leave: a
  standard-library exception, undefined behaviour, a thread that blocks for ever on its
  own mutex. Messages keep the fixed text and the arguments of the sources' formats;
  the \<^verbatim>\<open>[function:line]\<close> prefix the macros add is left out.
\<close>

datatype MujinErrorCode =
    MEC_Failed | MEC_InvalidArguments | MEC_CommandNotSupported | MEC_Assert
  | MEC_NotInitialized | MEC_InvalidState | MEC_Timeout | MEC_HTTPClient | MEC_HTTPServer
  | MEC_UserAuthentication | MEC_AlreadyExists | MEC_BinPickingError
  | MEC_HandEyeCalibrationError | MEC_ZMQNoResponse | MEC_GraphQueryError

fun error_code_value :: "MujinErrorCode \<Rightarrow> nat" where
  "error_code_value MEC_Failed = 0"
| "error_code_value MEC_InvalidArguments = 1"
| "error_code_value MEC_CommandNotSupported = 3"
| "error_code_value MEC_Assert = 4"
| "error_code_value MEC_NotInitialized = 9"
| "error_code_value MEC_InvalidState = 10"
| "error_code_value MEC_Timeout = 11"
| "error_code_value MEC_HTTPClient = 12"
| "error_code_value MEC_HTTPServer = 13"
| "error_code_value MEC_UserAuthentication = 14"
| "error_code_value MEC_AlreadyExists = 15"
| "error_code_value MEC_BinPickingError = 16"
| "error_code_value MEC_HandEyeCalibrationError = 17"
| "error_code_value MEC_ZMQNoResponse = 20"
| "error_code_value MEC_GraphQueryError = 21"

fun GetErrorCodeString :: "MujinErrorCode \<Rightarrow> string" where
  "GetErrorCodeString MEC_Failed = ''Failed''"
| "GetErrorCodeString MEC_InvalidArguments = ''InvalidArguments''"
| "GetErrorCodeString MEC_CommandNotSupported = ''CommandNotSupported''"
| "GetErrorCodeString MEC_Assert = ''Assert''"
| "GetErrorCodeString MEC_NotInitialized = ''NotInitialized''"
| "GetErrorCodeString MEC_InvalidState = ''InvalidState''"
| "GetErrorCodeString MEC_Timeout = ''Timeout''"
| "GetErrorCodeString MEC_HTTPClient = ''HTTPClient''"
| "GetErrorCodeString MEC_HTTPServer = ''HTTPServer''"
| "GetErrorCodeString MEC_UserAuthentication = ''UserAuthentication''"
| "GetErrorCodeString MEC_AlreadyExists = ''AlreadyExists''"
| "GetErrorCodeString MEC_BinPickingError = ''BinPickingError''"
| "GetErrorCodeString MEC_HandEyeCalibrationError = ''HandEyeCalibrationError''"
| "GetErrorCodeString MEC_ZMQNoResponse = ''NoResponse''"
| "GetErrorCodeString MEC_GraphQueryError = ''GraphQueryError''"

datatype error =
    MujinExc MujinErrorCode string        \<comment> \<open>code and \<^verbatim>\<open>what()\<close>\<close>
  | GraphQueryExc string string           \<comment> \<open>\<^verbatim>\<open>what()\<close> and the GraphQL error code\<close>
  | JsonExc string                        \<comment> \<open>\<^verbatim>\<open>GetSubMessage()\<close>\<close>
  | UserInterruptExc string
  | InvalidCodePoint "32 word"
  | InvalidUtf8 "8 word"
  | InvalidUtf16 "16 word"
  | NotEnoughRoom
  | BadLexicalCast
  | BadAlloc                              \<comment> \<open>\<^verbatim>\<open>std::bad_alloc\<close>\<close>
  | OutOfRange                            \<comment> \<open>\<^verbatim>\<open>std::out_of_range\<close>\<close>
  | LengthError                           \<comment> \<open>\<^verbatim>\<open>std::length_error\<close>\<close>
  | ZmqError int                          \<comment> \<open>\<^verbatim>\<open>zmq::error_t\<close> with its number\<close>
  | FilesystemError string                \<comment> \<open>\<^verbatim>\<open>boost::filesystem::filesystem_error\<close> on a path\<close>
  | UndefinedBehaviour string
  | Deadlock                              \<comment> \<open>locking a mutex the thread already holds\<close>

type_synonym 'a result = "error + 'a"

text \<open>The constructors \<^verbatim>\<open>MujinException(s, error)\<close> and \<^verbatim>\<open>MujinGraphQueryError(s, code)\<close>.\<close>

definition MujinException :: "string \<Rightarrow> MujinErrorCode \<Rightarrow> error" where
  "MujinException s c = MujinExc c (''mujin ('' @ GetErrorCodeString c @ ''): '' @ s)"

definition MujinGraphQueryError :: "string \<Rightarrow> string \<Rightarrow> error" where
  "MujinGraphQueryError s code =
     GraphQueryExc (''mujin ('' @ GetErrorCodeString MEC_GraphQueryError @ ''): '' @ s) (c_str code)"

text \<open>\<^verbatim>\<open>MujinException::GetCode\<close>: the classes derived from \<^verbatim>\<open>MujinException\<close> have a code.\<close>

fun GetCode :: "error \<Rightarrow> MujinErrorCode option" where
  "GetCode (MujinExc c _) = Some c"
| "GetCode (GraphQueryExc _ _) = Some MEC_GraphQueryError"
| "GetCode _ = None"

text \<open>\<^verbatim>\<open>MujinJSONException(s)\<close> and its \<^verbatim>\<open>message()\<close>: the code string is not written
  between the brackets.\<close>

definition json_message :: "string \<Rightarrow> string" where
  "json_message s = ''mujin (): '' @ s"

text \<open>\<^verbatim>\<open>BOOST_ASSERT\<close> with the handler of \<^verbatim>\<open>boost_assertion_failed.cpp\<close>.\<close>

definition assertion_failed :: "string \<Rightarrow> error" where
  "assertion_failed expr = MujinException expr MEC_Assert"

text \<open>\<^verbatim>\<open>RAPIDJSON_ASSERT\<close> is \<^verbatim>\<open>BOOST_ASSERT\<close> in this build (\<^verbatim>\<open>CMakeLists.txt\<close>), so what rapidjson
  asserts of its arguments is thrown as well; the asserted expression is rapidjson's own and
  is not kept.\<close>

definition rapidjson_assertion :: error where
  "rapidjson_assertion = assertion_failed ''RAPIDJSON_ASSERT''"

definition check_assert :: "bool \<Rightarrow> string \<Rightarrow> unit result" where
  "check_assert b expr = (if b then Inr () else Inl (assertion_failed expr))"

lemma GetCode_MujinException [simp]:
  "GetCode (MujinException s c) = Some c"
  "GetCode (MujinGraphQueryError s g) = Some MEC_GraphQueryError"
  "GetCode (assertion_failed e) = Some MEC_Assert"
  "GetCode rapidjson_assertion = Some MEC_Assert"
  by (simp_all add: MujinException_def MujinGraphQueryError_def assertion_failed_def rapidjson_assertion_def)

lemma MujinException_neq [simp]:
  "MujinException s c \<noteq> ZmqError n" "assertion_failed e \<noteq> ZmqError n"
  "MujinException s c \<noteq> JsonExc t" "assertion_failed e \<noteq> JsonExc t"
  "rapidjson_assertion \<noteq> ZmqError n" "rapidjson_assertion \<noteq> JsonExc t"
  by (simp_all add: MujinException_def assertion_failed_def rapidjson_assertion_def)

lemma check_assert_Inr [simp]: "check_assert b e = Inr u \<longleftrightarrow> b"
  by (simp add: check_assert_def)

lemma GetErrorCodeString_inj: "inj GetErrorCodeString"
proof (rule injI)
  fix a b assume "GetErrorCodeString a = GetErrorCodeString b"
  then show "a = b" by (cases a; cases b; simp)
qed

end
