(* ===== verification/TextTools.thy ===== *)
theory TextTools
  imports Exceptions
begin

text \<open>
  \<^verbatim>\<open>src/common.cpp\<close>: the multi-pattern \<^verbatim>\<open>SearchAndReplace\<close> and
  \<^verbatim>\<open>ConvertTimestampToFloat\<close>. Each is translated loop by loop and compared with a
  reference definition that scans the text from left to right.
\<close>

section \<open>SearchAndReplace\<close>

type_synonym subst = "string \<times> string"

definition PairStringLengthCompare :: "subst \<Rightarrow> subst \<Rightarrow> bool" where
  "PairStringLengthCompare p0 p1 \<longleftrightarrow> length (fst p0) > length (fst p1)"

text \<open>\<^verbatim>\<open>std::stable_sort\<close> with that comparison: longest key first, equal lengths in the
  given order.\<close>

definition sort_pairs :: "subst list \<Rightarrow> subst list" where
  "sort_pairs ps = sort_key (\<lambda>p. - int (length (fst p))) ps"

text \<open>The inner \<^verbatim>\<open>for\<close> over the pairs, with \<^verbatim>\<open>nextindex\<close> (\<open>None\<close> is \<^verbatim>\<open>npos\<close>) and
  \<^verbatim>\<open>itbestp\<close>.\<close>

fun find_next :: "string \<Rightarrow> nat \<Rightarrow> subst list \<Rightarrow> nat option \<Rightarrow> subst \<Rightarrow> nat option \<times> subst" where
  "find_next inp start [] nextindex best = (nextindex, best)"
| "find_next inp start (p # ps) nextindex best =
     (let index = find_from inp (fst p) start in
      case nextindex of
        None \<Rightarrow> find_next inp start ps index p
      | Some n \<Rightarrow>
          (case index of
             None \<Rightarrow> find_next inp start ps nextindex best
           | Some i \<Rightarrow> if i < n then find_next inp start ps index p
                       else find_next inp start ps nextindex best))"

text \<open>The outer \<^verbatim>\<open>while\<close>; \<open>None\<close> is a loop that never ends.\<close>

partial_function (option) replace_loop ::
  "subst list \<Rightarrow> string \<Rightarrow> nat \<Rightarrow> string \<Rightarrow> string option" where
  "replace_loop pairs inp start out =
     (if start < length inp then
        (case find_next inp start pairs None ([], []) of
           (None, best) \<Rightarrow> Some (out @ drop start inp)
         | (Some next, best) \<Rightarrow>
             replace_loop pairs inp (next + length (fst best))
               (out @ substr inp start (next - start) @ snd best))
      else Some out)"

definition SearchAndReplace :: "string \<Rightarrow> subst list \<Rightarrow> string option result" where
  "SearchAndReplace inp pairs =
     bindR (check_assert (\<forall>p \<in> set pairs. length (fst p) > 0) ''itp->first.size()>0'')
       (\<lambda>_. Inr (replace_loop (sort_pairs pairs) inp 0 []))"

subsection \<open>The reference: leftmost longest match\<close>

text \<open>The pair whose key is the longest of those that begin the text, the earliest in the
  list among keys of one length.\<close>

fun longest_match :: "subst list \<Rightarrow> string \<Rightarrow> subst option" where
  "longest_match [] s = None"
| "longest_match (p # ps) s =
     (case longest_match ps s of
        None \<Rightarrow> if prefix (fst p) s then Some p else None
      | Some q \<Rightarrow> if prefix (fst p) s \<and> length (fst q) \<le> length (fst p) then Some p else Some q)"

function replace_spec :: "subst list \<Rightarrow> string \<Rightarrow> string" where
  "replace_spec ps [] = []"
| "replace_spec ps (c # cs) =
     (case longest_match ps (c # cs) of
        None \<Rightarrow> c # replace_spec ps cs
      | Some q \<Rightarrow> snd q @ replace_spec ps (drop (length (fst q) - 1) cs))"
  by pat_completeness auto
termination
  by (relation "measure (\<lambda>(ps, s). length s)") auto

subsection \<open>The loop computes the reference\<close>

lemma longest_match_None: "longest_match ps s = None \<longleftrightarrow> (\<forall>p \<in> set ps. \<not> prefix (fst p) s)"
  by (induction ps) (auto split: option.splits)

lemma longest_match_Some:
  "longest_match ps s = Some q \<Longrightarrow>
     q \<in> set ps \<and> prefix (fst q) s \<and> (\<forall>p \<in> set ps. prefix (fst p) s \<longrightarrow> length (fst p) \<le> length (fst q))"
proof (induction ps arbitrary: q)
  case (Cons a ps)
  show ?case
  proof (cases "longest_match ps s")
    case None
    with Cons.prems show ?thesis by (auto simp: longest_match_None split: if_splits)
  next
    case (Some r)
    from Cons.IH [OF Some] have
      r: "r \<in> set ps" "prefix (fst r) s" "\<forall>p \<in> set ps. prefix (fst p) s \<longrightarrow> length (fst p) \<le> length (fst r)"
      by auto
    show ?thesis
    proof (cases "prefix (fst a) s \<and> length (fst r) \<le> length (fst a)")
      case True
      with Cons.prems Some have "q = a" by simp
      with True r(3) show ?thesis by (auto dest: order_trans)
    next
      case False
      with Cons.prems Some have "q = r" by auto
      with False r show ?thesis by auto
    qed
  qed
qed simp

text \<open>On a list sorted longest first, the longest match is the first that matches.\<close>

lemma longest_match_sorted:
  assumes "sorted_wrt (\<lambda>p q. length (fst q) \<le> length (fst p)) ps"
  shows "longest_match ps s = find (\<lambda>p. prefix (fst p) s) ps"
  using assms
proof (induction ps)
  case (Cons p ps)
  then have IH: "longest_match ps s = find (\<lambda>p. prefix (fst p) s) ps"
    and le: "\<forall>q \<in> set ps. length (fst q) \<le> length (fst p)" by auto
  show ?case
  proof (cases "longest_match ps s")
    case None
    with IH show ?thesis by simp
  next
    case (Some q)
    then have "length (fst q) \<le> length (fst p)" using le longest_match_Some by blast
    with Some IH show ?thesis by simp
  qed
qed simp

lemma sort_pairs_sorted:
  "sorted_wrt (\<lambda>p q. length (fst q) \<le> length (fst p)) (sort_pairs ps)"
proof -
  have "sorted (map (\<lambda>p. - int (length (fst p))) (sort_pairs ps))"
    by (simp add: sort_pairs_def)
  then show ?thesis
    by (auto simp: sorted_map elim!: sorted_wrt_mono_rel [rotated])
qed

lemma set_sort_pairs [simp]: "set (sort_pairs ps) = set ps"
  by (simp add: sort_pairs_def)

lemma longest_match_insort:
  assumes "sorted_wrt (\<lambda>p q. length (fst q) \<le> length (fst p)) ps"
  shows "longest_match (insort_key (\<lambda>p. - int (length (fst p))) p ps) s = longest_match (p # ps) s"
  using assms
proof (induction ps)
  case (Cons a ps)
  show ?case
  proof (cases "length (fst a) \<le> length (fst p)")
    case False
    with Cons show ?thesis
      by (auto split: option.splits dest: longest_match_Some)
  qed auto
qed simp

lemma longest_match_sort_pairs: "longest_match (sort_pairs ps) s = longest_match ps s"
proof (induction ps)
  case (Cons p ps)
  have "longest_match (sort_pairs (p # ps)) s = longest_match (p # sort_pairs ps) s"
    using longest_match_insort [OF sort_pairs_sorted [of ps], of p s]
    by (simp add: sort_pairs_def)
  also have "\<dots> = longest_match (p # ps) s"
    by (simp only: longest_match.simps Cons.IH)
  finally show ?case .
qed (simp add: sort_pairs_def)

text \<open>What the inner loop knows after the pairs \<open>done\<close>: nothing occurs, or the leftmost
  occurrence and the first pair that has it.\<close>

definition scan_inv :: "string \<Rightarrow> nat \<Rightarrow> subst list \<Rightarrow> nat option \<times> subst \<Rightarrow> bool" where
  "scan_inv inp start ps r \<longleftrightarrow>
     (case r of
        (None, _) \<Rightarrow> \<forall>p \<in> set ps. find_from inp (fst p) start = None
      | (Some n, q) \<Rightarrow>
          find (\<lambda>p. find_from inp (fst p) start = Some n) ps = Some q \<and>
          (\<forall>p \<in> set ps. \<forall>i. find_from inp (fst p) start = Some i \<longrightarrow> n \<le> i))"

lemma find_append: "find P (xs @ ys) = (case find P xs of None \<Rightarrow> find P ys | Some x \<Rightarrow> Some x)"
  by (induction xs) auto

lemma find_next_inv:
  "scan_inv inp start pre (ni, best) \<Longrightarrow>
   scan_inv inp start (pre @ ps) (find_next inp start ps ni best)"
proof (induction ps arbitrary: pre ni best)
  case (Cons p ps)
  let ?ff = "\<lambda>p. find_from inp (fst p) start"
  have step: "scan_inv inp start (pre @ [p]) (ni', b') \<Longrightarrow>
    scan_inv inp start (pre @ p # ps) (find_next inp start ps ni' b')" for ni' b'
    using Cons.IH [of "pre @ [p]" ni' b'] by simp
  show ?case
  proof (cases ni)
    case None
    then have pre: "\<forall>q \<in> set pre. ?ff q = None" using Cons.prems by (simp add: scan_inv_def)
    have "find (\<lambda>q. ?ff q = Some n) pre = None" for n using pre by (force simp: find_None_iff)
    with pre have "scan_inv inp start (pre @ [p]) (?ff p, p)"
      by (auto simp: scan_inv_def find_append split: option.splits)
    with None step show ?thesis by simp
  next
    case (Some n)
    then have old: "find (\<lambda>q. ?ff q = Some n) pre = Some best"
      "\<forall>q \<in> set pre. \<forall>i. ?ff q = Some i \<longrightarrow> n \<le> i"
      using Cons.prems by (simp_all add: scan_inv_def)
    show ?thesis
    proof (cases "\<exists>i. ?ff p = Some i \<and> i < n")
      case True
      then obtain i where i: "?ff p = Some i" "i < n" by blast
      with old(2) have "find (\<lambda>q. ?ff q = Some i) pre = None"
        by (auto simp: find_None_iff)
      with i old(2) have "scan_inv inp start (pre @ [p]) (Some i, p)"
        by (fastforce simp: scan_inv_def find_append)
      with i Some step show ?thesis by (simp add: Let_def)
    next
      case False
      with old have "scan_inv inp start (pre @ [p]) (Some n, best)"
        by (fastforce simp: scan_inv_def find_append not_less)
      with False Some step show ?thesis by (auto simp: Let_def split: option.splits)
    qed
  qed
qed simp

lemma find_from_Some:
  assumes "find_from s p i = Some n"
  shows "i \<le> n" "n \<le> length s" "prefix p (drop n s)" "\<And>j. i \<le> j \<Longrightarrow> j < n \<Longrightarrow> \<not> prefix p (drop j s)"
proof -
  from assms obtain k where i: "i \<le> length s" and k: "find_str p (drop i s) = Some k" "n = k + i"
    by (auto simp: find_from_def split: if_splits)
  note f = find_str_Some [OF k(1)]
  from k(2) show "i \<le> n" by simp
  from f have "k \<le> length (drop i s)" by blast
  with k(2) i show "n \<le> length s" by simp
  from f k(2) show "prefix p (drop n s)" by simp
  show "\<not> prefix p (drop j s)" if "i \<le> j" "j < n" for j
  proof -
    from that k(2) have "j - i < k" by simp
    with f have "\<not> prefix p (drop (j - i) (drop i s))" by blast
    with that show ?thesis by simp
  qed
qed

lemma find_from_None:
  assumes "find_from s p i = None" and "i \<le> j" and "j \<le> length s"
  shows "\<not> prefix p (drop j s)"
proof -
  from assms have "find_str p (drop i s) = None" by (simp add: find_from_def)
  then have "\<forall>j\<le>length (drop i s). \<not> prefix p (drop j (drop i s))"
    by (rule find_str_None [THEN iffD1])
  moreover have "j - i \<le> length (drop i s)" using assms(3) by simp
  ultimately have "\<not> prefix p (drop (j - i) (drop i s))" by blast
  with assms(2) show ?thesis by simp
qed

lemma find_next_None:
  assumes "find_next inp start ps None b = (None, q)" and "start \<le> j" and "j \<le> length inp"
  shows "longest_match ps (drop j inp) = None"
proof -
  have "scan_inv inp start ps (None, q)"
    using find_next_inv [of inp start "[]" None b ps] assms(1) by (simp add: scan_inv_def)
  then show ?thesis
    using assms(2,3) by (auto simp: scan_inv_def longest_match_None dest: find_from_None)
qed

lemma find_next_Some:
  assumes res: "find_next inp start ps None b = (Some n, q)"
    and sorted: "sorted_wrt (\<lambda>p q. length (fst q) \<le> length (fst p)) ps"
  shows "start \<le> n" "n \<le> length inp" "longest_match ps (drop n inp) = Some q"
    "\<And>j. start \<le> j \<Longrightarrow> j < n \<Longrightarrow> longest_match ps (drop j inp) = None"
proof -
  have "scan_inv inp start ps (Some n, q)"
    using find_next_inv [of inp start "[]" None b ps] res by (simp add: scan_inv_def)
  then have q: "find (\<lambda>p. find_from inp (fst p) start = Some n) ps = Some q"
    and least: "\<And>p i. p \<in> set ps \<Longrightarrow> find_from inp (fst p) start = Some i \<Longrightarrow> n \<le> i"
    by (auto simp: scan_inv_def)
  then have ffq: "find_from inp (fst q) start = Some n" by (auto simp: find_Some_iff)
  from find_from_Some [OF ffq] show n: "start \<le> n" "n \<le> length inp" by auto
  have none: "\<not> prefix (fst p) (drop j inp)" if "p \<in> set ps" "start \<le> j" "j < n" for p j
  proof (cases "find_from inp (fst p) start")
    case None
    show ?thesis by (rule find_from_None [OF None that(2)]) (use that n in simp)
  next
    case (Some i)
    show ?thesis by (rule find_from_Some(4) [OF Some that(2)]) (use least [OF that(1) Some] that in simp)
  qed
  then show "longest_match ps (drop j inp) = None" if "start \<le> j" "j < n" for j
    using that by (auto simp: longest_match_None)
  have hit: "find_from inp (fst p) start = Some n \<longleftrightarrow> prefix (fst p) (drop n inp)" if "p \<in> set ps" for p
  proof
    assume pre: "prefix (fst p) (drop n inp)"
    with n obtain i where i: "find_from inp (fst p) start = Some i"
      using find_from_None [of inp "fst p" start n] by (cases "find_from inp (fst p) start") auto
    with pre n(1) have "i \<le> n" using find_from_Some(4) [OF i] not_less by blast
    with least [OF that i] i show "find_from inp (fst p) start = Some n" by simp
  qed (rule find_from_Some(3))
  have "find (\<lambda>p. prefix (fst p) (drop n inp)) ps = find (\<lambda>p. find_from inp (fst p) start = Some n) ps"
    by (rule find_cong [OF refl]) (use hit in blast)
  with q have "find (\<lambda>p. prefix (fst p) (drop n inp)) ps = Some q" by simp
  with longest_match_sorted [OF sorted] show "longest_match ps (drop n inp) = Some q" by simp
qed

lemma replace_spec_skip:
  "k \<le> length s \<Longrightarrow> (\<forall>j<k. longest_match ps (drop j s) = None) \<Longrightarrow>
   replace_spec ps s = take k s @ replace_spec ps (drop k s)"
proof (induction k arbitrary: s)
  case (Suc k)
  then obtain c cs where s: "s = c # cs" by (cases s) auto
  with Suc.prems(2) have "longest_match ps (c # cs) = None" by fastforce
  moreover have "\<forall>j<k. longest_match ps (drop j cs) = None" using Suc.prems(2) s by fastforce
  ultimately show ?case using Suc s by simp
qed simp

lemma replace_spec_match:
  "longest_match ps s = Some q \<Longrightarrow> fst q \<noteq> [] \<Longrightarrow>
   replace_spec ps s = snd q @ replace_spec ps (drop (length (fst q)) s)"
  using longest_match_Some [of ps s q] by (cases s; cases "fst q") auto

lemma replace_loop_spec:
  assumes keys: "\<forall>p \<in> set pairs. fst p \<noteq> []"
    and sorted: "sorted_wrt (\<lambda>p q. length (fst q) \<le> length (fst p)) pairs"
  shows "replace_loop pairs inp start out = Some (out @ replace_spec pairs (drop start inp))"
proof (induction "length inp - start" arbitrary: start out rule: less_induct)
  case less
  show ?case
  proof (cases "start < length inp")
    case False
    then show ?thesis by (subst replace_loop.simps) simp
  next
    case True
    obtain r q where rq: "find_next inp start pairs None ([], []) = (r, q)"
      by (cases "find_next inp start pairs None ([], [])")
    show ?thesis
    proof (cases r)
      case None
      with rq have "\<forall>j<length inp - start. longest_match pairs (drop j (drop start inp)) = None"
        by (auto intro: find_next_None)
      from replace_spec_skip [OF _ this] rq None True show ?thesis
        by (subst replace_loop.simps) simp
    next
      case (Some n)
      note f = find_next_Some [OF rq [unfolded Some] sorted]
      have q: "q \<in> set pairs" "prefix (fst q) (drop n inp)"
        using longest_match_Some [OF f(3)] by auto
      with keys have ne: "fst q \<noteq> []" by auto
      then have len: "0 < length (fst q)" by simp
      have "replace_spec pairs (drop start inp) =
          take (n - start) (drop start inp) @ replace_spec pairs (drop n inp)"
        using replace_spec_skip [of "n - start" "drop start inp" pairs] f(1,2,4) True by auto
      also have "replace_spec pairs (drop n inp) = snd q @ replace_spec pairs (drop (n + length (fst q)) inp)"
        using replace_spec_match [OF f(3) ne] by (simp add: add.commute)
      finally have eq: "replace_spec pairs (drop start inp) = substr inp start (n - start) @ snd q
          @ replace_spec pairs (drop (n + length (fst q)) inp)" by (simp add: substr_def)
      have "length inp - (n + length (fst q)) < length inp - start" using len f(1) True by linarith
      from less [OF this] rq Some True eq show ?thesis
        by (subst replace_loop.simps) simp
    qed
  qed
qed

lemma replace_spec_sort: "replace_spec (sort_pairs ps) s = replace_spec ps s"
  by (induction ps s rule: replace_spec.induct)
     (auto simp: longest_match_sort_pairs split: option.splits)

section \<open>ConvertTimestampToFloat\<close>

text \<open>The \<^verbatim>\<open>while\<close> loop: what it returns or throws, and what it has written to the
  stream by then. The smaller of two positions is that of the other when one is
  \<^verbatim>\<open>npos\<close>.\<close>

definition timestamp_key :: string where
  "timestamp_key = CHR 0x22 # ''timestamp'' @ CHR 0x22 # '':''"

definition timestamp_error :: "string \<Rightarrow> error" where
  "timestamp_error inp =
     MujinException (''error while converting timestamp value format for '' @ inp) MEC_Failed"

definition min_npos :: "nat option \<Rightarrow> nat option \<Rightarrow> nat option" where
  "min_npos a b = (case a of None \<Rightarrow> b | Some m \<Rightarrow> (case b of None \<Rightarrow> a | Some n \<Rightarrow> if m < n then a else b))"

lemma timestamp_key_chars: "CHR '','' \<notin> set timestamp_key" "CHR ''}'' \<notin> set timestamp_key"
  by (simp_all add: timestamp_key_def)

lemma timestamp_key_length [simp]: "length timestamp_key = 12"
  by (simp add: timestamp_key_def)

lemma find_char_prefix_length:
  assumes "prefix p t" and "c \<notin> set p" and "find_char c t = Some e"
  shows "length p \<le> e"
proof (rule ccontr)
  from assms(1) obtain u where t: "t = p @ u" by (auto simp: prefix_def)
  assume "\<not> length p \<le> e"
  with t have "t ! e = p ! e" "p ! e \<in> set p" by (simp_all add: nth_append)
  with find_char_Some [OF assms(3)] assms(2) show False by auto
qed

text \<open>The value of a time stamp ends after its key.\<close>

lemma timestamp_end_after_key:
  assumes "find_str timestamp_key s = Some d"
    and "min_npos (find_char (CHR '','') (drop d s)) (find_char (CHR ''}'') (drop d s)) = Some e"
  shows "12 \<le> e \<and> d + e < length s \<and> (drop d s ! e = CHR '','' \<or> drop d s ! e = CHR ''}'')
    \<and> CHR '','' \<notin> set (take e (drop d s)) \<and> CHR ''}'' \<notin> set (take e (drop d s))"
proof -
  let ?t = "drop d s"
  have pre: "prefix timestamp_key ?t" using find_str_Some [OF assms(1)] by blast
  have sub: "x \<notin> set (take m ?t)" if "m \<le> n" "x \<notin> set (take n ?t)" for x m n
    using that set_take_subset_set_take [of m n "drop d s"] by blast
  from assms(2) consider
      "find_char (CHR '','') ?t = Some e"
        "\<And>n. find_char (CHR ''}'') ?t = Some n \<Longrightarrow> e < n"
    | "find_char (CHR ''}'') ?t = Some e"
        "\<And>n. find_char (CHR '','') ?t = Some n \<Longrightarrow> e \<le> n"
    by (auto simp: min_npos_def split: option.splits if_splits)
  then show ?thesis
  proof cases
    case 1
    note f = find_char_Some [OF 1(1)]
    from f have "CHR ''}'' \<notin> set (take e ?t)"
    proof (cases "find_char (CHR ''}'') ?t")
      case None
      then show ?thesis by (auto dest: in_set_takeD)
    next
      case (Some n)
      then show ?thesis using 1(2) [OF Some] find_char_Some [OF Some] sub [of e n] by simp
    qed
    with f find_char_prefix_length [OF pre timestamp_key_chars(1) 1(1)] show ?thesis by auto
  next
    case 2
    note f = find_char_Some [OF 2(1)]
    from f have "CHR '','' \<notin> set (take e ?t)"
    proof (cases "find_char (CHR '','') ?t")
      case None
      then show ?thesis by (auto dest: in_set_takeD)
    next
      case (Some n)
      then show ?thesis using 2(2) [OF Some] find_char_Some [OF Some] sub [of e n] by simp
    qed
    with f find_char_prefix_length [OF pre timestamp_key_chars(2) 2(1)] show ?thesis by auto
  qed
qed

function timestamp_loop :: "string \<Rightarrow> nat \<Rightarrow> string \<Rightarrow> unit result \<times> string" where
  "timestamp_loop inp processed outss =
     (if processed < length inp then
        (case find_str timestamp_key (drop processed inp) of
           None \<Rightarrow> (Inr (), outss @ drop processed inp)
         | Some deltabegin \<Rightarrow>
             (let timestampbegin = processed + deltabegin;
                  comma = find_char (CHR '','') (drop timestampbegin inp);
                  closingCurly = find_char (CHR ''}'') (drop timestampbegin inp) in
              case min_npos comma closingCurly of
                None \<Rightarrow> (Inl (timestamp_error inp), outss)
              | Some e \<Rightarrow>
                  (let timestampend = timestampbegin + e;
                       period = find_char (CHR ''.'') (drop timestampbegin inp);
                       integer = (case period of None \<Rightarrow> True
                                  | Some p \<Rightarrow> timestampbegin + p > timestampend) in
                   timestamp_loop inp timestampend
                     (outss @ substr inp processed (timestampend - processed) @
                      (if integer then ''.'' else [])))))
      else (Inr (), outss))"
  by pat_completeness auto
termination
proof (relation "measure (\<lambda>(inp, processed, out). length inp - processed)", goal_cases)
  case (2 inp processed outss d tb comma curly e te period integer)
  from timestamp_end_after_key [of "drop processed inp" d e] 2
  have "12 \<le> e" "d + e < length inp - processed" by (simp_all add: add.commute)
  with 2 show ?case by simp
qed simp

declare timestamp_loop.simps [simp del]

definition ConvertTimestampToFloat :: "string \<Rightarrow> string \<Rightarrow> unit result \<times> string" where
  "ConvertTimestampToFloat inp outss = timestamp_loop inp 0 outss"

subsection \<open>The reference: text to text\<close>

text \<open>The same conversion on the text itself, without indices.\<close>

function timestamp_spec :: "string \<Rightarrow> string option" where
  "timestamp_spec s =
     (case find_str timestamp_key s of
        None \<Rightarrow> Some s
      | Some d \<Rightarrow>
          (case min_npos (find_char (CHR '','') (drop d s)) (find_char (CHR ''}'') (drop d s)) of
             None \<Rightarrow> None
           | Some e \<Rightarrow>
               map_option (\<lambda>rest.
                 take (d + e) s @ (if CHR ''.'' \<in> set (take e (drop d s)) then [] else ''.'') @ rest)
                 (timestamp_spec (drop (d + e) s))))"
  by pat_completeness auto
termination
proof (relation "measure length", goal_cases)
  case (2 s d e)
  from timestamp_end_after_key [OF 2] show ?case by auto
qed simp

declare timestamp_spec.simps [simp del]

lemma find_char_beyond:
  assumes "t ! e \<noteq> c" and "e < length t"
  shows "(case find_char c t of None \<Rightarrow> True | Some p \<Rightarrow> e < p) \<longleftrightarrow> c \<notin> set (take e t)"
proof (cases "find_char c t")
  case None
  then have "c \<notin> set (take e t)" by (auto dest: in_set_takeD)
  with None show ?thesis by (simp del: find_char_None)
next
  case (Some p)
  note f = find_char_Some [OF Some]
  show ?thesis
  proof (cases "e < p")
    case True
    with f have "c \<notin> set (take e t)" using set_take_subset_set_take [of e p t] by auto
    with Some True show ?thesis by simp
  next
    case False
    with f assms have "p < e" by (metis linorder_neqE_nat)
    with f have "c \<in> set (take e t)" by (auto simp: in_set_conv_nth intro!: exI [of _ p])
    with Some False show ?thesis by simp
  qed
qed

lemma timestamp_loop_spec:
  "case timestamp_spec (drop processed inp) of
     Some r \<Rightarrow> timestamp_loop inp processed outss = (Inr (), outss @ r)
   | None \<Rightarrow> fst (timestamp_loop inp processed outss) = Inl (timestamp_error inp)"
proof (induction inp processed outss rule: timestamp_loop.induct)
  case (1 inp processed outss)
  let ?s = "drop processed inp"
  show ?case
  proof (cases "processed < length inp")
    case False
    moreover have "timestamp_spec [] = Some []"
      by (subst timestamp_spec.simps) (simp add: timestamp_key_def)
    ultimately show ?thesis by (subst timestamp_loop.simps) simp
  next
    case True
    show ?thesis
    proof (cases "find_str timestamp_key ?s")
      case None
      then show ?thesis
        by (subst timestamp_loop.simps, subst timestamp_spec.simps) (simp add: True)
    next
      case (Some d)
      let ?t = "drop (processed + d) inp"
      have t: "drop d ?s = ?t" by (simp add: add.commute)
      show ?thesis
      proof (cases "min_npos (find_char (CHR '','') ?t) (find_char (CHR ''}'') ?t)")
        case None
        with Some True show ?thesis
          by (subst timestamp_loop.simps, subst timestamp_spec.simps) (simp add: t add.commute)
      next
        case e: (Some e)
        have "min_npos (find_char (CHR '','') (drop d ?s)) (find_char (CHR ''}'') (drop d ?s)) = Some e"
          using e by (simp add: t add.commute)
        note fin = timestamp_end_after_key [OF Some this, unfolded t]
        then have "e < length ?t" "?t ! e \<noteq> CHR ''.''" by auto
        note period = find_char_beyond [OF this(2,1)]
        then have int: "(case find_char (CHR ''.'') ?t of None \<Rightarrow> True
            | Some p \<Rightarrow> processed + d + e < processed + d + p) \<longleftrightarrow> CHR ''.'' \<notin> set (take e ?t)"
          by (cases "find_char (CHR ''.'') ?t") (simp_all del: find_char_None)
        note ih = "1.IH" [OF True Some refl refl refl e refl refl refl]
        have spec: "timestamp_spec ?s = map_option (\<lambda>rest. take (d + e) ?s @
            (if CHR ''.'' \<in> set (take e ?t) then [] else ''.'') @ rest) (timestamp_spec (drop (processed + d + e) inp))"
          using Some e by (subst timestamp_spec.simps) (simp add: t ac_simps)
        have loop: "timestamp_loop inp processed outss = timestamp_loop inp (processed + d + e)
            (outss @ take (d + e) ?s @ (if CHR ''.'' \<in> set (take e ?t) then [] else ''.''))"
          using True Some e int by (subst timestamp_loop.simps) (simp add: Let_def substr_def add.commute [of d])
        show ?thesis using ih int unfolding spec loop
          by (auto simp: substr_def Let_def add.commute [of d] split: option.splits)
      qed
    qed
  qed
qed

lemma find_str_eq_SomeI:
  assumes "prefix p (drop k s)" and "k \<le> length s" and "\<And>j. j < k \<Longrightarrow> \<not> prefix p (drop j s)"
  shows "find_str p s = Some k"
proof (cases "find_str p s")
  case None
  with assms show ?thesis by (auto simp: find_str_None)
next
  case (Some k')
  with assms find_str_Some [OF Some] show ?thesis by (metis linorder_neqE_nat)
qed

lemma prefix_take_iff: "prefix p t \<longleftrightarrow> take (length p) t = p"
  by (auto simp: prefix_def intro: append_take_drop_id [symmetric]) (metis append_take_drop_id)

lemma find_str_take_append:
  assumes "find_str p s = Some d" and "d + length p \<le> m" and "m \<le> length s"
  shows "find_str p (take m s @ u) = Some d"
proof -
  note f = find_str_Some [OF assms(1)]
  have cut: "prefix p (drop j (take m s @ u)) \<longleftrightarrow> prefix p (drop j s)" if "j \<le> d" for j
  proof -
    have "length p \<le> m - j" "m - j \<le> length s - j" using that assms(2,3) by simp_all
    then have "take (length p) (drop j (take m s @ u)) = take (length p) (drop j s)"
      by (simp add: drop_take min_def)
    then show ?thesis by (simp add: prefix_take_iff)
  qed
  show ?thesis
    by (rule find_str_eq_SomeI) (use f cut assms in auto)
qed

lemma min_npos_first:
  assumes "CHR '','' \<notin> set xs" "CHR ''}'' \<notin> set xs" "c = CHR '','' \<or> c = CHR ''}''"
  shows "min_npos (find_char (CHR '','') (xs @ c # ys)) (find_char (CHR ''}'') (xs @ c # ys)) = Some (length xs)"
  using assms by (auto simp: min_npos_def find_char_append_notin split: option.splits)

text \<open>One round of the conversion: the text up to the end of the value, then the rest.\<close>

lemma timestamp_spec_cases:
  assumes "timestamp_spec s = Some r"
  obtains (no_key) "find_str timestamp_key s = None" "r = s"
  | (key) d e c rest rest' where "find_str timestamp_key s = Some d" "12 \<le> e" "d + e < length s"
      "CHR '','' \<notin> set (take e (drop d s))" "CHR ''}'' \<notin> set (take e (drop d s))"
      "drop (d + e) s = c # rest" "c = CHR '','' \<or> c = CHR ''}''"
      "timestamp_spec (c # rest) = Some rest'"
      "r = take (d + e) s @ (if CHR ''.'' \<in> set (take e (drop d s)) then [] else ''.'') @ rest'"
proof (cases "find_str timestamp_key s")
  case None
  with assms show ?thesis by (intro no_key) (simp_all add: timestamp_spec.simps [of s])
next
  case (Some d)
  with assms obtain e where
    e: "min_npos (find_char (CHR '','') (drop d s)) (find_char (CHR ''}'') (drop d s)) = Some e"
    by (auto simp: timestamp_spec.simps [of s] split: option.splits)
  note f = timestamp_end_after_key [OF Some e]
  have dr: "drop (d + e) s = s ! (d + e) # drop (Suc (d + e)) s"
    using f by (simp add: Cons_nth_drop_Suc)
  have c: "s ! (d + e) = CHR '','' \<or> s ! (d + e) = CHR ''}''"
    using f nth_drop [of d s e] by force
  from assms Some e obtain rest' where "timestamp_spec (drop (d + e) s) = Some rest'"
    "r = take (d + e) s @ (if CHR ''.'' \<in> set (take e (drop d s)) then [] else ''.'') @ rest'"
    by (auto simp: timestamp_spec.simps [of s])
  with key [OF Some _ _ _ _ dr c, of rest'] f dr show ?thesis by simp
qed

lemma timestamp_spec_hd:
  assumes "timestamp_spec (c # s) = Some r"
  shows "\<exists>r'. r = c # r'"
  using assms
proof (cases rule: timestamp_spec_cases)
  case (key d e c' rest rest')
  from key(2) have "d + e = Suc (d + e - 1)" by simp
  with key(9) show ?thesis by (metis append_Cons take_Suc_Cons)
qed simp

lemma timestamp_spec_idem: "timestamp_spec s = Some r \<Longrightarrow> timestamp_spec r = Some r"
proof (induction "length s" arbitrary: s r rule: less_induct)
  case less
  from less.prems show ?case
  proof (cases rule: timestamp_spec_cases)
    case no_key
    with less.prems show ?thesis by simp
  next
    case (key d e c rest rest')
    let ?ins = "if CHR ''.'' \<in> set (take e (drop d s)) then [] else ''.''"
    have "length (c # rest) < length s" using key(2,3) by (simp add: key(6) [symmetric])
    from less.hyps [OF this key(8)] have ih: "timestamp_spec rest' = Some rest'" .
    from timestamp_spec_hd [OF key(8)] obtain rest'' where rest': "rest' = c # rest''" by blast
    have k: "find_str timestamp_key r = Some d"
      using find_str_take_append [OF key(1), of "d + e"] key(2,3,9) by simp
    have dr: "drop d r = (take e (drop d s) @ ?ins) @ c # rest''"
      using key(3,9) rest' by (simp add: drop_take)
    have len: "length (take e (drop d s) @ ?ins) = e + length ?ins" using key(3) by simp
    have m: "min_npos (find_char (CHR '','') (drop d r)) (find_char (CHR ''}'') (drop d r)) = Some (e + length ?ins)"
      unfolding dr len [symmetric] by (rule min_npos_first) (use key in auto)
    have "take (e + length ?ins) (drop d r) = take e (drop d s) @ ?ins"
      unfolding dr using len by (metis append_eq_conv_conj)
    then have dot: "CHR ''.'' \<in> set (take (e + length ?ins) (drop d r))" by simp
    have r: "r = (take (d + e) s @ ?ins) @ rest'" using key(9) by simp
    have "length (take (d + e) s @ ?ins) = d + (e + length ?ins)" using key(3) by simp
    then have "take (d + (e + length ?ins)) r = take (d + e) s @ ?ins" "drop (d + (e + length ?ins)) r = rest'"
      using r by (metis append_eq_conv_conj)+
    with k m dot ih r show ?thesis by (subst timestamp_spec.simps) simp
  qed
qed

lemma timestamp_spec_text:
  "timestamp_spec s = Some r \<Longrightarrow> subseq s r \<and> filter (\<lambda>c. c \<noteq> CHR ''.'') r = filter (\<lambda>c. c \<noteq> CHR ''.'') s"
proof (induction "length s" arbitrary: s r rule: less_induct)
  case less
  from less.prems show ?case
  proof (cases rule: timestamp_spec_cases)
    case (key d e c rest rest')
    have "length (c # rest) < length s" using key(2,3) by (simp add: key(6) [symmetric])
    note ih = less.hyps [OF this key(8)]
    have s: "s = take (d + e) s @ c # rest" using key(6) by (metis append_take_drop_id)
    have "subseq (c # rest) ((if CHR ''.'' \<in> set (take e (drop d s)) then [] else ''.'') @ rest')"
      by (rule list_emb_append2) (use ih in blast)
    then have "subseq (take (d + e) s @ c # rest) r"
      unfolding key(9) by (rule list_emb_append_mono [OF subseq_order.order_refl])
    moreover have "filter (\<lambda>c. c \<noteq> CHR ''.'') r = filter (\<lambda>c. c \<noteq> CHR ''.'') (take (d + e) s @ c # rest)"
      using key(9) ih by simp
    ultimately show ?thesis using s by simp
  qed simp
qed

section \<open>Properties\<close>

text \<open>C10: \<^verbatim>\<open>SearchAndReplace\<close> always returns when no key is empty, and returns the text in
  which, read from left to right, the longest key that matches at a place (the first such
  pair of the list) is replaced and scanning goes on after it; an empty key is refused by
  the assertion.\<close>

theorem SearchAndReplace_correct:
  "SearchAndReplace inp pairs =
     (if [] \<in> fst ` set pairs then Inl (assertion_failed ''itp->first.size()>0'')
      else Inr (Some (replace_spec pairs inp)))"
proof (cases "[] \<in> fst ` set pairs")
  case True
  then show ?thesis by (force simp: SearchAndReplace_def check_assert_def)
next
  case False
  then have "\<forall>p \<in> set pairs. fst p \<noteq> []" by force
  with False show ?thesis
    using replace_loop_spec [of "sort_pairs pairs" inp 0 "[]"] sort_pairs_sorted [of pairs]
    by (simp add: SearchAndReplace_def check_assert_def replace_spec_sort)
qed

text \<open>When \<^verbatim>\<open>ConvertTimestampToFloat\<close> does not throw, it appends a text that differs from
  the input by inserted periods only, and a second conversion changes nothing.\<close>

lemma ConvertTimestampToFloat_stable:
  assumes "ConvertTimestampToFloat inp outss = (Inr (), out)"
  shows "\<exists>r. out = outss @ r \<and> subseq inp r \<and>
    filter (\<lambda>c. c \<noteq> CHR ''.'') r = filter (\<lambda>c. c \<noteq> CHR ''.'') inp \<and>
    ConvertTimestampToFloat r [] = (Inr (), r)"
proof -
  from assms timestamp_loop_spec [where inp = inp and processed = 0 and outss = outss] obtain r where
    r: "timestamp_spec inp = Some r" "out = outss @ r"
    by (auto simp: ConvertTimestampToFloat_def split: option.splits)
  from timestamp_loop_spec [where inp = r and processed = 0 and outss = "[]"] timestamp_spec_idem [OF r(1)]
  have "ConvertTimestampToFloat r [] = (Inr (), r)" by (simp add: ConvertTimestampToFloat_def)
  with r timestamp_spec_text [OF r(1)] show ?thesis by blast
qed

end
