(* ===== verification/Json.thy ===== *)
theory Json
  imports Exceptions
begin

text \<open>
  \<^verbatim>\<open>include/mujincontrollerclient/mujinjson.h\<close>: the conversions between JSON values and
  C++ data. A \<^verbatim>\<open>rapidjson::Value\<close> is the tree it stores; its members are a list, in the
  order of insertion, that may hold a name twice. Numbers are integers of 64 bits, signed
  or unsigned, or doubles, whose type is the parameter \<open>'d\<close>. What rapidjson and
  \<^verbatim>\<open>boost::lexical_cast\<close> compute is the record \<open>lib\<close>, an argument of the definitions
  that use it.

  A \<^verbatim>\<open>LoadJsonValue(v, t)\<close> is a function of \<open>v\<close> and of the content of \<open>t\<close> before the
  call; it returns the content after it, or the exception.
\<close>

section \<open>Values\<close>

datatype 'd json =
    IsNull: JNull
  | IsBool: JBool (GetBool: bool)
  | is_integer: JInt (integer: int)
  | IsDouble: JDouble (double: 'd)
  | IsString: JString (GetString: string)
  | IsArray: JArray (elements: "'d json list")
  | IsObject: JObject (members: "(string \<times> 'd json) list")

definition IsInt :: "'d json \<Rightarrow> bool" where
  "IsInt v \<longleftrightarrow> is_integer v \<and> - (2 ^ 31) \<le> integer v \<and> integer v < 2 ^ 31"

definition IsUint :: "'d json \<Rightarrow> bool" where
  "IsUint v \<longleftrightarrow> is_integer v \<and> 0 \<le> integer v \<and> integer v < 2 ^ 32"

definition IsInt64 :: "'d json \<Rightarrow> bool" where
  "IsInt64 v \<longleftrightarrow> is_integer v \<and> - (2 ^ 63) \<le> integer v \<and> integer v < 2 ^ 63"

definition IsUint64 :: "'d json \<Rightarrow> bool" where
  "IsUint64 v \<longleftrightarrow> is_integer v \<and> 0 \<le> integer v \<and> integer v < 2 ^ 64"

definition IsNumber :: "'d json \<Rightarrow> bool" where
  "IsNumber v \<longleftrightarrow> is_integer v \<or> IsDouble v"

lemmas number_defs = IsInt_def IsUint_def IsInt64_def IsUint64_def IsNumber_def

text \<open>\<^verbatim>\<open>FindMember\<close>: the first member of that name.\<close>

definition FindMember :: "'d json \<Rightarrow> string \<Rightarrow> 'd json option" where
  "FindMember v key = map_of (members v) key"

definition HasMember :: "'d json \<Rightarrow> string \<Rightarrow> bool" where
  "HasMember v key \<longleftrightarrow> FindMember v key \<noteq> None"

text \<open>The value of the first member of that name is replaced.\<close>

fun put_member :: "string \<Rightarrow> 'd json \<Rightarrow> (string \<times> 'd json) list \<Rightarrow> (string \<times> 'd json) list" where
  "put_member key x [] = []"
| "put_member key x ((k, y) # ms) = (if k = key then (k, x) # ms else (k, y) # put_member key x ms)"

lemma map_of_put_member:
  "map_of (put_member key x ms) k =
     (if k = key \<and> map_of ms key \<noteq> None then Some x else map_of ms k)"
  by (induction ms) auto

lemma fst_put_member [simp]: "map fst (put_member key x ms) = map fst ms"
  by (induction ms) auto

section \<open>What the libraries compute\<close>

record 'd lib =
  write_json :: "nat \<Rightarrow> 'd json \<Rightarrow> string option"      \<comment> \<open>\<^verbatim>\<open>Accept(writer)\<close>, with the indent\<close>
  parse_json :: "string \<Rightarrow> (nat \<times> string) + 'd json"   \<comment> \<open>or the offset and the message of the error\<close>
  parse_json_default :: "string \<Rightarrow> (nat \<times> string) + 'd json" \<comment> \<open>with rapidjson's default flags\<close>
  json_eq :: "'d json \<Rightarrow> 'd json \<Rightarrow> bool"              \<comment> \<open>\<^verbatim>\<open>operator==\<close>\<close>
  pointer_get :: "string \<Rightarrow> 'd json \<Rightarrow> 'd json option" \<comment> \<open>\<^verbatim>\<open>Pointer(path).Get(v)\<close>\<close>
  pointer_set :: "string \<Rightarrow> 'd json \<Rightarrow> 'd json \<Rightarrow> 'd json" \<comment> \<open>\<^verbatim>\<open>Pointer(path).Swap(d, v)\<close>, the new \<^verbatim>\<open>d\<close>\<close>
  lex_int :: "string \<Rightarrow> int option"                    \<comment> \<open>\<^verbatim>\<open>lexical_cast\<close> to \<^verbatim>\<open>int\<close>, and so on\<close>
  lex_int16 :: "string \<Rightarrow> int option"
  lex_uint16 :: "string \<Rightarrow> int option"
  lex_uint :: "string \<Rightarrow> int option"
  lex_int64 :: "string \<Rightarrow> int option"
  lex_uint64 :: "string \<Rightarrow> int option"
  lex_bool :: "string \<Rightarrow> bool option"
  lex_double :: "string \<Rightarrow> 'd option"
  int64_string :: "int \<Rightarrow> string"
  double_of_int :: "int \<Rightarrow> 'd"                         \<comment> \<open>\<^verbatim>\<open>GetDouble\<close> of an integer\<close>
  float_of_double :: "'d \<Rightarrow> 'd"                        \<comment> \<open>rounding to \<^verbatim>\<open>float\<close>\<close>

type_synonym ('d, 'a) loader = "'d json \<Rightarrow> 'a \<Rightarrow> 'a result"

definition quoted :: "string \<Rightarrow> string" where
  "quoted s = CHR 0x22 # s @ [CHR 0x22]"

section \<open>Writing and parsing\<close>

fun GetJsonTypeName :: "'d json \<Rightarrow> string" where
  "GetJsonTypeName JNull = ''Null''"
| "GetJsonTypeName (JBool False) = ''False''"
| "GetJsonTypeName (JBool True) = ''True''"
| "GetJsonTypeName (JObject _) = ''Object''"
| "GetJsonTypeName (JArray _) = ''Array''"
| "GetJsonTypeName (JString _) = ''String''"
| "GetJsonTypeName (JInt _) = ''Number''"
| "GetJsonTypeName (JDouble _) = ''Number''"

definition DumpJson :: "'d lib \<Rightarrow> 'd json \<Rightarrow> nat \<Rightarrow> string result" where
  "DumpJson lib v indent =
     (case write_json lib indent v of
        None \<Rightarrow> Inl (JsonExc ''Failed to write json writer'')
      | Some s \<Rightarrow> Inr s)"

definition DumpJson_stream :: "'d lib \<Rightarrow> 'd json \<Rightarrow> string \<Rightarrow> nat \<Rightarrow> string result" where
  "DumpJson_stream lib v os indent =
     (case write_json lib indent v of
        None \<Rightarrow> Inl (JsonExc ''Failed to write json writer'')
      | Some s \<Rightarrow> Inr (os @ s))"

definition GetJsonString :: "'d lib \<Rightarrow> 'd json \<Rightarrow> string result" where
  "GetJsonString lib t = DumpJson lib t 0"

definition ParseJson :: "'d lib \<Rightarrow> string \<Rightarrow> 'd json result" where
  "ParseJson lib str =
     (case parse_json lib str of
        Inl (offset, msg) \<Rightarrow>
          Inl (JsonExc (''Json string is invalid (offset '' @ dec_of_nat (offset mod 2 ^ 32) @ '') '' @
            msg @ '' data is '' @ [CHR 0x27] @
            take (if length str < 200 then length str else 200) str @ [CHR 0x27] @ ''.''))
      | Inr v \<Rightarrow> Inr v)"

definition ParseJson_stream :: "'d lib \<Rightarrow> string \<Rightarrow> 'd json result" where
  "ParseJson_stream lib input =
     (case parse_json lib input of
        Inl (offset, msg) \<Rightarrow>
          Inl (JsonExc (''Json stream is invalid (offset '' @ dec_of_nat (offset mod 2 ^ 32) @ '') '' @ msg))
      | Inr v \<Rightarrow> Inr v)"

text \<open>The overload that parses into a value \<open>r\<close>: on an error \<open>r\<close> stays as it was.\<close>

definition ParseJson_value :: "'d lib \<Rightarrow> 'd json \<Rightarrow> string \<Rightarrow> unit result \<times> 'd json" where
  "ParseJson_value lib r input =
     (case ParseJson_stream lib input of Inl e \<Rightarrow> (Inl e, r) | Inr v \<Rightarrow> (Inr (), v))"

definition ValidateJsonString :: "'d lib \<Rightarrow> string \<Rightarrow> unit result" where
  "ValidateJsonString lib str =
     (case parse_json_default lib (c_str str) of
        Inl (offset, msg) \<Rightarrow> Inl (JsonExc (''json string '' @ str @ '' is invalid.'' @ msg))
      | Inr v \<Rightarrow> Inr ())"

section \<open>LoadJsonValue on scalars\<close>

definition LexicalCast :: "(string \<Rightarrow> 'a option) \<Rightarrow> string \<Rightarrow> string \<Rightarrow> 'a result" where
  "LexicalCast cast v typeName =
     (case cast (c_str v) of
        Some t \<Rightarrow> Inr t
      | None \<Rightarrow> Inl (JsonExc (''Cannot convert '' @ quoted (c_str v) @ '' to type '' @ typeName)))"

definition cannot_convert :: "'d lib \<Rightarrow> 'd json \<Rightarrow> string \<Rightarrow> 'a result" where
  "cannot_convert lib v typeName =
     bindR (GetJsonString lib v) (\<lambda>s.
       Inl (JsonExc (''Cannot convert json type '' @ s @ '' to '' @ typeName)))"

definition LoadJsonString :: "'d lib \<Rightarrow> ('d, string) loader" where
  "LoadJsonString lib v t =
     (if IsString v then Inr (GetString v)
      else if IsInt64 v then Inr (int64_string lib (integer v))
      else cannot_convert lib v ''String'')"

definition bool_word :: "bool \<Rightarrow> 'w::len word" where
  "bool_word b = (if b then 1 else 0)"

definition LoadJsonInt :: "'d lib \<Rightarrow> ('d, 32 word) loader" where
  "LoadJsonInt lib v t =
     (if IsInt v then Inr (word_of_int (integer v))
      else if IsUint v then Inr (word_of_int (integer v))
      else if IsString v then
        bindR (LexicalCast (lex_int lib) (GetString v) ''Int'') (\<lambda>i. Inr (word_of_int i))
      else if IsBool v then Inr (bool_word (GetBool v))
      else cannot_convert lib v ''Int'')"

definition LoadJsonInt16 :: "'d lib \<Rightarrow> ('d, 16 word) loader" where
  "LoadJsonInt16 lib v t =
     (if IsInt v then Inr (word_of_int (integer v))
      else if IsString v then
        (case lex_int16 lib (c_str (GetString v)) of
           Some i \<Rightarrow> Inr (word_of_int i) | None \<Rightarrow> Inl BadLexicalCast)
      else if IsBool v then Inr (bool_word (GetBool v))
      else bindR (GetJsonString lib v) (\<lambda>s. Inl (JsonExc (''Cannot convert JSON type %s to Int'' @ s))))"

definition LoadJsonInt8 :: "'d lib \<Rightarrow> ('d, 8 word) loader" where
  "LoadJsonInt8 lib v t =
     (if IsInt v then Inr (word_of_int (integer v))
      else if IsUint v then Inr (word_of_int (integer v))
      else if IsString v then
        bindR (LexicalCast (lex_int lib) (GetString v) ''Int8'') (\<lambda>i. Inr (word_of_int i))
      else if IsBool v then Inr (bool_word (GetBool v))
      else cannot_convert lib v ''Int8'')"

definition LoadJsonUint8 :: "'d lib \<Rightarrow> ('d, 8 word) loader" where
  "LoadJsonUint8 lib v t =
     (if IsUint v then Inr (word_of_int (integer v))
      else if IsString v then
        bindR (LexicalCast (lex_uint lib) (GetString v) ''UInt8'') (\<lambda>i. Inr (word_of_int i))
      else if IsBool v then Inr (bool_word (GetBool v))
      else cannot_convert lib v ''UInt8'')"

definition LoadJsonUint16 :: "'d lib \<Rightarrow> ('d, 16 word) loader" where
  "LoadJsonUint16 lib v t =
     (if IsUint v then Inr (word_of_int (integer v))
      else if IsString v then
        bindR (LexicalCast (lex_uint16 lib) (GetString v) ''UInt'') (\<lambda>i. Inr (word_of_int i))
      else if IsBool v then Inr (bool_word (GetBool v))
      else cannot_convert lib v ''UInt'')"

definition LoadJsonUint :: "'d lib \<Rightarrow> ('d, 32 word) loader" where
  "LoadJsonUint lib v t =
     (if IsUint v then Inr (word_of_int (integer v))
      else if IsString v then
        bindR (LexicalCast (lex_uint lib) (GetString v) ''UInt'') (\<lambda>i. Inr (word_of_int i))
      else if IsBool v then Inr (bool_word (GetBool v))
      else cannot_convert lib v ''UInt'')"

definition LoadJsonULongLong :: "'d lib \<Rightarrow> ('d, 64 word) loader" where
  "LoadJsonULongLong lib v t =
     (if IsUint64 v then Inr (word_of_int (integer v))
      else if IsString v then
        bindR (LexicalCast (lex_uint64 lib) (GetString v) ''ULongLong'') (\<lambda>i. Inr (word_of_int i))
      else if IsBool v then Inr (bool_word (GetBool v))
      else cannot_convert lib v ''ULongLong'')"

definition LoadJsonUint64 :: "'d lib \<Rightarrow> ('d, 64 word) loader" where
  "LoadJsonUint64 lib v t =
     (if IsUint64 v then Inr (word_of_int (integer v))
      else if IsString v then
        bindR (LexicalCast (lex_uint64 lib) (GetString v) ''UInt64'') (\<lambda>i. Inr (word_of_int i))
      else if IsBool v then Inr (bool_word (GetBool v))
      else cannot_convert lib v ''UInt64'')"

definition LoadJsonInt64 :: "'d lib \<Rightarrow> ('d, 64 word) loader" where
  "LoadJsonInt64 lib v t =
     (if IsInt64 v then Inr (word_of_int (integer v))
      else if IsString v then
        bindR (LexicalCast (lex_int64 lib) (GetString v) ''Int64'') (\<lambda>i. Inr (word_of_int i))
      else if IsBool v then Inr (bool_word (GetBool v))
      else cannot_convert lib v ''Int64'')"

definition GetDouble :: "'d lib \<Rightarrow> 'd json \<Rightarrow> 'd" where
  "GetDouble lib v = (if IsDouble v then double v else double_of_int lib (integer v))"

definition LoadJsonDouble :: "'d lib \<Rightarrow> ('d, 'd) loader" where
  "LoadJsonDouble lib v t =
     (if IsNumber v then Inr (GetDouble lib v)
      else if IsString v then LexicalCast (lex_double lib) (GetString v) ''Double''
      else cannot_convert lib v ''Double'')"

definition LoadJsonFloat :: "'d lib \<Rightarrow> ('d, 'd) loader" where
  "LoadJsonFloat lib v t =
     (if IsNumber v then Inr (float_of_double lib (GetDouble lib v))
      else if IsString v then
        bindR (LexicalCast (lex_double lib) (GetString v) ''Float'') (\<lambda>x. Inr (float_of_double lib x))
      else cannot_convert lib v ''Float'')"

definition LoadJsonBool :: "'d lib \<Rightarrow> ('d, bool) loader" where
  "LoadJsonBool lib v t =
     (if IsInt v then Inr (integer v \<noteq> 0)
      else if IsBool v then Inr (GetBool v)
      else if IsString v then LexicalCast (lex_bool lib) (GetString v) ''Bool''
      else cannot_convert lib v ''Bool'')"

section \<open>LoadJsonValue on containers\<close>

text \<open>A \<^verbatim>\<open>std::map\<close> is the list of its entries in the order of the keys; \<open>map_at\<close> and
  \<open>map_put\<close> are \<^verbatim>\<open>t[key]\<close> read and written. An unordered container is a map or a set.\<close>

fun map_put :: "'k::linorder \<Rightarrow> 'v \<Rightarrow> ('k \<times> 'v) list \<Rightarrow> ('k \<times> 'v) list" where
  "map_put k x [] = [(k, x)]"
| "map_put k x ((k', y) # m) =
     (if k = k' then (k, x) # m else if k < k' then (k, x) # (k', y) # m else (k', y) # map_put k x m)"

definition map_at :: "'v \<Rightarrow> 'k \<Rightarrow> ('k \<times> 'v) list \<Rightarrow> 'v" where
  "map_at dflt k m = (case map_of m k of None \<Rightarrow> dflt | Some x \<Rightarrow> x)"

definition wrong_type :: "'d json \<Rightarrow> string \<Rightarrow> 'a result" where
  "wrong_type v typeName =
     Inl (JsonExc (''Cannot convert json type '' @ GetJsonTypeName v @ '' to '' @ typeName))"

text \<open>The loop over the elements of a JSON array into the places of \<open>ts\<close>.\<close>

fun load_elements :: "('d, 'a) loader \<Rightarrow> 'd json list \<Rightarrow> 'a list \<Rightarrow> 'a list result" where
  "load_elements load (v # vs) (t # ts) =
     bindR (load v t) (\<lambda>x. bindR (load_elements load vs ts) (\<lambda>xs. Inr (x # xs)))"
| "load_elements load _ ts = Inr ts"

definition LoadJsonSharedPtr :: "'a \<Rightarrow> ('d, 'a) loader \<Rightarrow> ('d, 'a option) loader" where
  "LoadJsonSharedPtr dflt load v ptr = bindR (load v dflt) (\<lambda>x. Inr (Some x))"

definition LoadJsonPair :: "('d, 'a) loader \<Rightarrow> ('d, 'b) loader \<Rightarrow> ('d, 'a \<times> 'b) loader" where
  "LoadJsonPair loadT loadU v t =
     (if IsArray v then
        (if length (elements v) = 2 then
           bindR (loadT (elements v ! 0) (fst t)) (\<lambda>a.
           bindR (loadU (elements v ! 1) (snd t)) (\<lambda>b. Inr (a, b)))
         else Inl (JsonExc ''List-based map has entry with size != 2''))
      else wrong_type v ''Pair'')"

definition LoadJsonCArray :: "('d, 'a) loader \<Rightarrow> ('d, 'a list) loader" where
  "LoadJsonCArray load v p =
     (if IsArray v then
        (if length (elements v) \<noteq> length p then Inl (JsonExc (''Json array size doesn'' @ [CHR 0x27] @ ''t match''))
         else load_elements load (elements v) p)
      else wrong_type v ''Array'')"

definition LoadJsonVector :: "'a \<Rightarrow> ('d, 'a) loader \<Rightarrow> ('d, 'a list) loader" where
  "LoadJsonVector dflt load v t =
     (if IsArray v then load_elements load (elements v) (replicate (length (elements v)) dflt)
      else wrong_type v ''Vector'')"

definition LoadJsonArray :: "('d, 'a) loader \<Rightarrow> ('d, 'a list) loader" where
  "LoadJsonArray load v t =
     (if IsArray v then
        (if length (elements v) \<noteq> length t then
           Inl (JsonExc (''Cannot convert json type '' @ GetJsonTypeName v @ '' to Array. '' @
             ''Array length does not match ('' @ dec_of_nat (length t) @ '' != '' @
             dec_of_nat (length (elements v)) @ '')''))
         else load_elements load (elements v) t)
      else wrong_type v ''Array'')"

definition LoadJsonMap :: "'a \<Rightarrow> 'd lib \<Rightarrow> ('d, 'a) loader \<Rightarrow> ('d, (string \<times> 'a) list) loader" where
  "LoadJsonMap dflt lib load v t =
     (if IsArray v then
        foldR (\<lambda>e t. bindR (LoadJsonPair (LoadJsonString lib) load e ([], dflt))
                 (\<lambda>value. Inr (map_put (fst value) (snd value) t)))
          (elements v) t
      else if IsObject v then
        foldR (\<lambda>(name, value) t. bindR (load value (map_at dflt name t)) (\<lambda>x. Inr (map_put name x t)))
          (members v) []
      else wrong_type v ''Map'')"

definition LoadJsonDeque :: "'a \<Rightarrow> ('d, 'a) loader \<Rightarrow> ('d, 'a list) loader" where
  "LoadJsonDeque dflt load v t =
     (if \<not> IsArray v then wrong_type v ''deque''
      else load_elements load (elements v) (replicate (length (elements v)) dflt))"

definition LoadJsonSet :: "'a::linorder \<Rightarrow> ('d, 'a) loader \<Rightarrow> ('d, 'a list) loader" where
  "LoadJsonSet dflt load v t =
     (if \<not> IsArray v then wrong_type v ''set''
      else foldR (\<lambda>e t. bindR (load e dflt) (\<lambda>u. Inr (insort_insert u t))) (elements v) [])"

definition LoadJsonUnorderedSet :: "'a \<Rightarrow> ('d, 'a) loader \<Rightarrow> ('d, 'a set) loader" where
  "LoadJsonUnorderedSet dflt load v t =
     (if \<not> IsArray v then wrong_type v ''set''
      else foldR (\<lambda>e t. bindR (load e dflt) (\<lambda>u. Inr (insert u t))) (elements v) {})"

definition LoadJsonUnorderedMap :: "'a \<Rightarrow> ('d, 'a) loader \<Rightarrow> ('d, string \<rightharpoonup> 'a) loader" where
  "LoadJsonUnorderedMap dflt load v t =
     (if \<not> IsObject v then wrong_type v ''unordered_map''
      else foldR (\<lambda>(name, value) t.
             bindR (load value (case t name of None \<Rightarrow> dflt | Some x \<Rightarrow> x)) (\<lambda>x. Inr (t(name \<mapsto> x))))
           (members v) Map.empty)"

definition LoadJsonOptional :: "'a \<Rightarrow> ('d, 'a) loader \<Rightarrow> ('d, 'a option) loader" where
  "LoadJsonOptional dflt load v t =
     (if IsNull v then Inr None else bindR (load v dflt) (\<lambda>x. Inr (Some x)))"

section \<open>SaveJsonValue\<close>

definition SaveJsonString :: "string \<Rightarrow> 'd json" where
  "SaveJsonString t = JString (c_str t)"

definition SaveJsonCString :: "string \<Rightarrow> 'd json" where
  "SaveJsonCString t = JString (c_str t)"

definition SaveJsonInt :: "32 word \<Rightarrow> 'd json" where
  "SaveJsonInt t = JInt (sint t)"

definition SaveJsonUint :: "32 word \<Rightarrow> 'd json" where
  "SaveJsonUint t = JInt (uint t)"

definition SaveJsonLongLong :: "64 word \<Rightarrow> 'd json" where
  "SaveJsonLongLong t = JInt (sint t)"

definition SaveJsonInt64 :: "64 word \<Rightarrow> 'd json" where
  "SaveJsonInt64 t = JInt (sint t)"

definition SaveJsonULongLong :: "64 word \<Rightarrow> 'd json" where
  "SaveJsonULongLong t = JInt (uint t)"

definition SaveJsonUint64 :: "64 word \<Rightarrow> 'd json" where
  "SaveJsonUint64 t = JInt (uint t)"

definition SaveJsonBool :: "bool \<Rightarrow> 'd json" where
  "SaveJsonBool t = JBool t"

definition SaveJsonInt8 :: "8 word \<Rightarrow> 'd json" where
  "SaveJsonInt8 t = JInt (sint t)"

definition SaveJsonDouble :: "'d \<Rightarrow> 'd json" where
  "SaveJsonDouble t = JDouble t"

definition SaveJsonFloat :: "'d \<Rightarrow> 'd json" where
  "SaveJsonFloat t = JDouble t"

definition SaveJsonCopy :: "'d json \<Rightarrow> 'd json" where
  "SaveJsonCopy t = t"

definition SaveJsonSharedPtr :: "('a \<Rightarrow> 'd json) \<Rightarrow> 'a option \<Rightarrow> 'd json result" where
  "SaveJsonSharedPtr save ptr =
     (case ptr of Some x \<Rightarrow> Inr (save x) | None \<Rightarrow> Inl (assertion_failed ''px != 0''))"

definition SaveJsonPair :: "('a \<Rightarrow> 'd json) \<Rightarrow> ('b \<Rightarrow> 'd json) \<Rightarrow> 'a \<times> 'b \<Rightarrow> 'd json" where
  "SaveJsonPair saveT saveU t = JArray [saveT (fst t), saveU (snd t)]"

definition SaveJsonVector :: "('a \<Rightarrow> 'd json) \<Rightarrow> 'a list \<Rightarrow> 'd json" where
  "SaveJsonVector save t = JArray (map save t)"

definition SaveJsonArray :: "('a \<Rightarrow> 'd json) \<Rightarrow> 'a list \<Rightarrow> 'd json" where
  "SaveJsonArray save t = JArray (map save t)"

definition SaveJsonDoubles :: "'d list \<Rightarrow> 'd json" where
  "SaveJsonDoubles t = JArray (map JDouble t)"

definition SaveJsonCArray :: "('a \<Rightarrow> 'd json) \<Rightarrow> 'a list \<Rightarrow> 'd json" where
  "SaveJsonCArray save t = JArray (map save t)"

text \<open>\<open>t\<close> is the entries in the order in which the container iterates over them.\<close>

definition SaveJsonMap :: "('a \<Rightarrow> 'd json) \<Rightarrow> (string \<times> 'a) list \<Rightarrow> 'd json" where
  "SaveJsonMap save t = JObject (map (\<lambda>(k, x). (GetString (SaveJsonString k :: 'd json), save x)) t)"

definition SaveJsonUnorderedMap :: "('a \<Rightarrow> 'd json) \<Rightarrow> (string \<times> 'a) list \<Rightarrow> 'd json" where
  "SaveJsonUnorderedMap save t = JObject (map (\<lambda>(k, x). (GetString (SaveJsonString k :: 'd json), save x)) t)"

definition SaveJsonDeque :: "('a \<Rightarrow> 'd json) \<Rightarrow> 'a list \<Rightarrow> 'd json" where
  "SaveJsonDeque save t = JArray (map save t)"

definition SaveJsonSet :: "('a \<Rightarrow> 'd json) \<Rightarrow> 'a list \<Rightarrow> 'd json" where
  "SaveJsonSet save t = JArray (map save t)"

definition SaveJsonUnorderedSet :: "('a \<Rightarrow> 'd json) \<Rightarrow> 'a list \<Rightarrow> 'd json" where
  "SaveJsonUnorderedSet save t = JArray (map save t)"

definition SaveJsonOptional :: "('a \<Rightarrow> 'd json) \<Rightarrow> 'a option \<Rightarrow> 'd json" where
  "SaveJsonOptional save t = (case t of None \<Rightarrow> JNull | Some x \<Rightarrow> save x)"

section \<open>Members by key and by path\<close>

text \<open>A \<^verbatim>\<open>MujinJSONException\<close> of the value gets the key around it; other exceptions
  pass.\<close>

definition parsing_value_of :: "string \<Rightarrow> 'a result \<Rightarrow> 'a result" where
  "parsing_value_of key r =
     (case r of
        Inl (JsonExc s) \<Rightarrow>
          Inl (JsonExc (''Got '' @ quoted (json_message s) @ '' while parsing the value of '' @ quoted key))
      | _ \<Rightarrow> r)"

definition LoadJsonValueByKey :: "('d, 'a) loader \<Rightarrow> 'd json \<Rightarrow> string \<Rightarrow> 'a \<Rightarrow> (bool \<times> 'a) result" where
  "LoadJsonValueByKey load v key t =
     (if \<not> IsObject v then Inl (JsonExc ''Cannot load value of non-object.'')
      else case FindMember v key of
             None \<Rightarrow> Inr (False, t)
           | Some rMember \<Rightarrow>
               if \<not> IsNull rMember
               then bindR (parsing_value_of key (load rMember t)) (\<lambda>x. Inr (True, x))
               else Inr (False, t))"

definition LoadJsonValueByKey_default ::
  "('d, 'a) loader \<Rightarrow> 'd json \<Rightarrow> string \<Rightarrow> 'a \<Rightarrow> 'a \<Rightarrow> 'a result" where
  "LoadJsonValueByKey_default load v key t d =
     (if \<not> IsObject v then Inl (JsonExc ''Cannot load value of non-object.'')
      else case FindMember v key of
             None \<Rightarrow> Inr d
           | Some rMember \<Rightarrow>
               if \<not> IsNull rMember then parsing_value_of key (load rMember t) else Inr d)"

text \<open>The macro \<^verbatim>\<open>MUJINJSON_LOAD_REQUIRED_JSON_VALUE_BY_KEY\<close>, with the text of its
  exception left to \<open>place\<close>.\<close>

definition LoadRequiredJsonValueByKey ::
  "string \<Rightarrow> ('d, 'a) loader \<Rightarrow> 'd json \<Rightarrow> string \<Rightarrow> 'a \<Rightarrow> 'a result" where
  "LoadRequiredJsonValueByKey place load v key t =
     bindR (LoadJsonValueByKey load v key t) (\<lambda>(found, x).
       if \<not> found then Inl (JsonExc place) else Inr x)"

definition LoadJsonValueByPath :: "'d lib \<Rightarrow> ('d, 'a) loader \<Rightarrow> 'd json \<Rightarrow> string \<Rightarrow> 'a \<Rightarrow> 'a result" where
  "LoadJsonValueByPath lib load v key t =
     (case pointer_get lib key v of
        Some child \<Rightarrow> if \<not> IsNull child then load child t else Inr t
      | None \<Rightarrow> Inr t)"

definition LoadJsonValueByPath_default ::
  "'d lib \<Rightarrow> ('d, 'a) loader \<Rightarrow> 'd json \<Rightarrow> string \<Rightarrow> 'a \<Rightarrow> 'a \<Rightarrow> 'a result" where
  "LoadJsonValueByPath_default lib load v key t d =
     (case pointer_get lib key v of
        Some child \<Rightarrow> if \<not> IsNull child then load child t else Inr d
      | None \<Rightarrow> Inr d)"

text \<open>\<open>dflt\<close> is the content of the local \<^verbatim>\<open>r\<close> before it is loaded: \<^verbatim>\<open>T()\<close>, or whatever \<^verbatim>\<open>T r;\<close>
  leaves there in the functions by path.\<close>

definition GetJsonValueByKey_default ::
  "'a \<Rightarrow> ('d, 'a) loader \<Rightarrow> 'd json \<Rightarrow> string \<Rightarrow> 'a \<Rightarrow> 'a result" where
  "GetJsonValueByKey_default dflt load v key t =
     (if \<not> IsObject v then
        Inl (JsonExc (''Cannot get value of non-object ('' @ quoted (GetJsonTypeName v) @
          '') for key '' @ quoted key @ ''.''))
      else case FindMember v key of
             None \<Rightarrow> Inr t
           | Some child \<Rightarrow>
               if \<not> IsNull child then parsing_value_of key (load child dflt) else Inr t)"

definition GetJsonValueByKey :: "'a \<Rightarrow> ('d, 'a) loader \<Rightarrow> 'd json \<Rightarrow> string \<Rightarrow> 'a result" where
  "GetJsonValueByKey dflt load v key =
     (if \<not> IsObject v then Inl (JsonExc ''Cannot load value of non-object.'')
      else case FindMember v key of
             None \<Rightarrow> Inr dflt
           | Some child \<Rightarrow>
               if \<not> IsNull child then parsing_value_of key (load child dflt) else Inr dflt)"

definition GetStringJsonValueByKey :: "'d lib \<Rightarrow> 'd json \<Rightarrow> string \<Rightarrow> string \<Rightarrow> string result" where
  "GetStringJsonValueByKey lib v key defaultValue =
     GetJsonValueByKey_default [] (LoadJsonString lib) v key defaultValue"

text \<open>\<open>None\<close> is the null pointer; a pointer is the C string it points to.\<close>

definition GetCStringJsonValueByKey ::
  "'d json \<Rightarrow> string \<Rightarrow> string option \<Rightarrow> string option result" where
  "GetCStringJsonValueByKey v key pDefaultValue =
     (if \<not> IsObject v then Inl (JsonExc ''Cannot load value of non-object.'')
      else case FindMember v key of
             None \<Rightarrow> Inr pDefaultValue
           | Some child \<Rightarrow>
               if \<not> IsNull child then
                 (if IsString child then Inr (Some (c_str (GetString child)))
                  else Inl (JsonExc
                    ''In GetCStringJsonValueByKey, expecting a String, but got a different object type''))
               else Inr pDefaultValue)"

definition GetJsonValueByPath :: "'a \<Rightarrow> 'd lib \<Rightarrow> ('d, 'a) loader \<Rightarrow> 'd json \<Rightarrow> string \<Rightarrow> 'a result" where
  "GetJsonValueByPath dflt lib load v key =
     (case pointer_get lib key v of
        Some child \<Rightarrow> if \<not> IsNull child then load child dflt else Inr dflt
      | None \<Rightarrow> Inr dflt)"

definition GetJsonValueByPath_default ::
  "'a \<Rightarrow> 'd lib \<Rightarrow> ('d, 'a) loader \<Rightarrow> 'd json \<Rightarrow> string \<Rightarrow> 'a \<Rightarrow> 'a result" where
  "GetJsonValueByPath_default dflt lib load v key t =
     (case pointer_get lib key v of
        Some child \<Rightarrow> if \<not> IsNull child then load child dflt else Inr t
      | None \<Rightarrow> Inr t)"

text \<open>The variadic template: one argument a key. \<^verbatim>\<open>FindMember\<close> asserts an object.\<close>

fun GetJsonPointerByPath :: "'d json \<Rightarrow> string list \<Rightarrow> 'd json option result" where
  "GetJsonPointerByPath value [] = Inr (Some value)"
| "GetJsonPointerByPath value (key # ps) =
     bindR (check_assert (IsObject value) ''IsObject()'') (\<lambda>_.
       case FindMember value key of
         Some x \<Rightarrow> GetJsonPointerByPath x ps
       | None \<Rightarrow> Inr None)"

definition SetJsonValueByPath :: "'d lib \<Rightarrow> ('a \<Rightarrow> 'd json) \<Rightarrow> 'd json \<Rightarrow> string \<Rightarrow> 'a \<Rightarrow> 'd json" where
  "SetJsonValueByPath lib save d path t = pointer_set lib path (save t) d"

definition set_member :: "'d json \<Rightarrow> string \<Rightarrow> 'd json \<Rightarrow> 'd json result" where
  "set_member v key x =
     (if \<not> IsObject v then Inl (JsonExc ''Cannot set value for non-object.'')
      else if HasMember v key then Inr (JObject (put_member key x (members v)))
      else Inr (JObject (members v @ [(GetString (SaveJsonCString key :: 'd json), x)])))"

definition SetJsonValueByKey :: "('a \<Rightarrow> 'd json) \<Rightarrow> 'd json \<Rightarrow> string \<Rightarrow> 'a \<Rightarrow> 'd json result" where
  "SetJsonValueByKey save v key t = set_member v (c_str key) (save t)"

definition SetJsonValueByKey_copy :: "'d json \<Rightarrow> string \<Rightarrow> 'd json \<Rightarrow> 'd json result" where
  "SetJsonValueByKey_copy v key t = set_member v (c_str key) (SaveJsonCopy t)"

definition GetJsonStringByKey :: "'d lib \<Rightarrow> ('a \<Rightarrow> 'd json) \<Rightarrow> string \<Rightarrow> 'a \<Rightarrow> string result" where
  "GetJsonStringByKey lib save key t =
     bindR (SetJsonValueByKey save (JObject []) key t) (\<lambda>d. DumpJson lib d 0)"

section \<open>Merging values\<close>

definition UpdateJson :: "'d lib \<Rightarrow> 'd json \<Rightarrow> 'd json \<Rightarrow> 'd json result" where
  "UpdateJson lib a b =
     (if \<not> IsObject a then
        bindR (GetJsonString lib a) (\<lambda>s. Inl (JsonExc (''json object should be a dict to be updated: '' @ s)))
      else if \<not> IsObject b then
        bindR (GetJsonString lib b)
          (\<lambda>s. Inl (JsonExc (''json object should be a dict to update another dict: '' @ s)))
      else foldR (\<lambda>(name, value) a. SetJsonValueByKey_copy a name value) (members b) a)"

text \<open>Whether \<^verbatim>\<open>sourceValue\<close> has changed, and its new content; the loop over the members of
  \<^verbatim>\<open>overrideValue\<close> is the second function.\<close>

fun UpdateJsonRecursively :: "'d lib \<Rightarrow> 'd json \<Rightarrow> 'd json \<Rightarrow> bool \<times> 'd json"
  and update_members ::
    "'d lib \<Rightarrow> (string \<times> 'd json) list \<Rightarrow> bool \<Rightarrow> (string \<times> 'd json) list \<Rightarrow> bool \<times> (string \<times> 'd json) list"
where
  "UpdateJsonRecursively lib sourceValue (JObject overrides) =
     (if json_eq lib sourceValue (JObject overrides) then (False, sourceValue)
      else case sourceValue of
             JObject ms \<Rightarrow>
               (case update_members lib overrides False ms of (changed, ms') \<Rightarrow> (changed, JObject ms'))
           | _ \<Rightarrow> (True, JObject overrides))"
| "UpdateJsonRecursively lib sourceValue overrideValue =
     (if json_eq lib sourceValue overrideValue then (False, sourceValue)
      else (True, overrideValue))"
| "update_members lib [] hasChanged ms = (hasChanged, ms)"
| "update_members lib ((name, x) # overrides) hasChanged ms =
     (case map_of ms name of
        Some y \<Rightarrow>
          (case UpdateJsonRecursively lib y x of
             (c, y') \<Rightarrow> update_members lib overrides (hasChanged \<or> c) (put_member name y' ms))
      | None \<Rightarrow> update_members lib overrides True (ms @ [(name, x)]))"

end
