(* ===== verification/JsonLaws.thy ===== *)
theory JsonLaws
  imports Json
begin

text \<open>
  What the conversions of \<^verbatim>\<open>mujinjson.h\<close> promise: saving and loading give the value back,
  a member that is set is found again, merging is the recursive union of objects. The
  locale \<open>json_codec\<close> is the contract between a type's \<^verbatim>\<open>SaveJsonValue\<close> and
  \<^verbatim>\<open>LoadJsonValue\<close>; the containers and the access by key need nothing else of their
  element type.
\<close>

section \<open>The contract of a type\<close>

lemma foldl_insert: "foldl (\<lambda>t u. insert u t) A xs = A \<union> set xs"
  by (induction xs arbitrary: A) auto

lemma insort_insert_greatest:
  "sorted (xs @ [x]) \<Longrightarrow> x \<notin> set xs \<Longrightarrow> insort_insert x xs = xs @ [x]"
  by (induction xs) (auto simp: insort_insert_key_def)

lemma map_put_greatest:
  "sorted_wrt (<) (map fst m @ [k]) \<Longrightarrow> map_put k x m = m @ [(k, x)]"
  by (induction m) auto

lemma map_at_absent [simp]: "k \<notin> fst ` set m \<Longrightarrow> map_at d k m = d"
  by (simp add: map_at_def map_of_eq_None_iff [THEN iffD2])

locale json_codec =
  fixes save :: "'a \<Rightarrow> 'd json" and load :: "'d json \<Rightarrow> 'a \<Rightarrow> 'a result" and valid :: "'a \<Rightarrow> bool"
  assumes load_save: "valid x \<Longrightarrow> load (save x) t = Inr x"
begin

lemma load_elements_save:
  "\<forall>x \<in> set xs. valid x \<Longrightarrow> length ts = length xs \<Longrightarrow> load_elements load (map save xs) ts = Inr xs"
proof (induction xs arbitrary: ts)
  case (Cons x xs)
  then obtain t ts' where "ts = t # ts'" by (cases ts) auto
  with Cons show ?case by (simp add: load_save)
qed simp

lemma load_vector: "list_all valid xs \<Longrightarrow> LoadJsonVector d load (SaveJsonVector save xs) t = Inr xs"
  by (simp add: LoadJsonVector_def SaveJsonVector_def load_elements_save list_all_iff)

lemma load_deque: "list_all valid xs \<Longrightarrow> LoadJsonDeque d load (SaveJsonDeque save xs) t = Inr xs"
  by (simp add: LoadJsonDeque_def SaveJsonDeque_def load_elements_save list_all_iff)

lemma load_array:
  "list_all valid xs \<Longrightarrow> length t = length xs \<Longrightarrow> LoadJsonArray load (SaveJsonArray save xs) t = Inr xs"
  by (simp add: LoadJsonArray_def SaveJsonArray_def load_elements_save list_all_iff)

lemma load_array_length:
  "length t \<noteq> length xs \<Longrightarrow> \<exists>e. LoadJsonArray load (SaveJsonArray save xs) t = Inl e"
  by (simp add: LoadJsonArray_def SaveJsonArray_def)

lemma load_set:
  "list_all valid xs \<Longrightarrow> foldR (\<lambda>e t. bindR (load e d) (\<lambda>u. Inr (f u t))) (map save xs) t = Inr (foldl (\<lambda>t u. f u t) t xs)"
  by (induction xs arbitrary: t) (simp_all add: load_save)

lemma load_unordered_set:
  "list_all valid xs \<Longrightarrow> LoadJsonUnorderedSet d load (SaveJsonUnorderedSet save xs) t = Inr (set xs)"
  by (simp add: LoadJsonUnorderedSet_def SaveJsonUnorderedSet_def load_set foldl_insert)

lemma load_map_members:
  assumes "sorted_wrt (<) (map fst (m @ m'))" and "list_all valid (map snd m')"
  shows "foldR (\<lambda>(name, value) t. bindR (load value (map_at d name t)) (\<lambda>x. Inr (map_put name x t)))
    (map (\<lambda>(k, x). (k, save x)) m') m = Inr (m @ m')"
  using assms
proof (induction m' arbitrary: m)
  case (Cons e m')
  obtain k x where e: "e = (k, x)" by fastforce
  with Cons.prems have "map_put k x m = m @ [(k, x)]"
    by (intro map_put_greatest) (auto simp: sorted_wrt_append)
  with Cons.IH [of "m @ [(k, x)]"] Cons.prems e show ?case by (simp add: load_save)
qed simp

lemma load_map:
  assumes "sorted_wrt (<) (map fst m)" "list_all valid (map snd m)" "CHR 0x00 \<notin> (\<Union>k \<in> fst ` set m. set k)"
  shows "LoadJsonMap d lib load (SaveJsonMap save m) t = Inr m"
proof -
  have "SaveJsonMap save m = JObject (map (\<lambda>(k, x). (k, save x)) m)"
    unfolding SaveJsonMap_def SaveJsonString_def json.sel
    by (intro arg_cong [where f = JObject] map_cong refl) (use assms(3) in \<open>force intro: c_str_id\<close>)
  with load_map_members [of "[]" m d] assms(1,2) show ?thesis
    by (simp add: LoadJsonMap_def)
qed

lemma load_c_array:
  "list_all valid xs \<Longrightarrow> length t = length xs \<Longrightarrow> LoadJsonCArray load (SaveJsonCArray save xs) t = Inr xs"
  by (simp add: LoadJsonCArray_def SaveJsonCArray_def load_elements_save list_all_iff)

end

text \<open>A type whose values are never saved as \<^verbatim>\<open>null\<close>: only those survive an optional or
  the access by key, which take \<^verbatim>\<open>null\<close> for an absent value.\<close>

locale json_value_codec = json_codec +
  assumes save_not_null: "valid x \<Longrightarrow> save x \<noteq> JNull"
begin

lemma load_optional:
  "pred_option valid x \<Longrightarrow> LoadJsonOptional d load (SaveJsonOptional save x) t = Inr x"
proof (cases x)
  case (Some y)
  moreover assume "pred_option valid x"
  ultimately have "valid y" by simp
  moreover from save_not_null [OF this] have "\<not> IsNull (save y)" by (cases "save y") auto
  ultimately show ?thesis using Some by (simp add: LoadJsonOptional_def SaveJsonOptional_def load_save)
qed (simp add: LoadJsonOptional_def SaveJsonOptional_def)

lemma load_by_key:
  assumes "FindMember v key = Some (save x)" "IsObject v" "valid x"
  shows "LoadJsonValueByKey load v key t = Inr (True, x)"
    and "LoadJsonValueByKey_default load v key t d = Inr x"
    and "GetJsonValueByKey d load v key = Inr x"
    and "GetJsonValueByKey_default d load v key e = Inr x"
proof -
  have "\<not> IsNull (save x)" using save_not_null [OF assms(3)] by (cases "save x") auto
  with assms show "LoadJsonValueByKey load v key t = Inr (True, x)"
    and "LoadJsonValueByKey_default load v key t d = Inr x"
    and "GetJsonValueByKey d load v key = Inr x"
    and "GetJsonValueByKey_default d load v key e = Inr x"
  by (auto simp: LoadJsonValueByKey_def LoadJsonValueByKey_default_def GetJsonValueByKey_def
      GetJsonValueByKey_default_def load_save parsing_value_of_def)
qed

end

section \<open>The types that keep the contract\<close>

lemma sint_range:
  fixes w :: "32 word" and w8 :: "8 word" and w64 :: "64 word"
  shows "- 2147483648 \<le> sint w" "sint w < 2147483648" "- 128 \<le> sint w8" "sint w8 < 128"
    "- 9223372036854775808 \<le> sint w64" "sint w64 < 9223372036854775808"
  using sint_greater_eq [of w] sint_lt [of w] sint_greater_eq [of w8] sint_lt [of w8]
    sint_greater_eq [of w64] sint_lt [of w64] by simp_all

lemma uint_range:
  fixes w :: "32 word" and w64 :: "64 word"
  shows "uint w < 4294967296" "uint w64 < 18446744073709551616"
  using uint_lt2p [of w] uint_lt2p [of w64] by simp_all

interpretation int_codec: json_value_codec SaveJsonInt "LoadJsonInt lib" "\<lambda>_. True" for lib :: "'d lib"
  by unfold_locales (simp_all add: SaveJsonInt_def LoadJsonInt_def IsInt_def sint_range)

interpretation uint_codec: json_value_codec SaveJsonUint "LoadJsonUint lib" "\<lambda>_. True" for lib :: "'d lib"
  by unfold_locales (simp_all add: SaveJsonUint_def LoadJsonUint_def IsUint_def uint_range)

interpretation int8_codec: json_value_codec SaveJsonInt8 "LoadJsonInt8 lib" "\<lambda>_. True" for lib :: "'d lib"
proof unfold_locales
  fix w :: "8 word" and t
  have "- 2147483648 \<le> sint w" "sint w < 2147483648" using sint_range(3,4) [of w] by linarith+
  then show "LoadJsonInt8 lib (SaveJsonInt8 w) t = Inr w"
    by (simp add: SaveJsonInt8_def LoadJsonInt8_def IsInt_def)
qed (simp add: SaveJsonInt8_def)

interpretation int64_codec: json_value_codec SaveJsonInt64 "LoadJsonInt64 lib" "\<lambda>_. True" for lib :: "'d lib"
  by unfold_locales (simp_all add: SaveJsonInt64_def LoadJsonInt64_def IsInt64_def sint_range)

interpretation uint64_codec: json_value_codec SaveJsonUint64 "LoadJsonUint64 lib" "\<lambda>_. True" for lib :: "'d lib"
  by unfold_locales (simp_all add: SaveJsonUint64_def LoadJsonUint64_def IsUint64_def uint_range)

interpretation bool_codec: json_value_codec SaveJsonBool "LoadJsonBool lib" "\<lambda>_. True" for lib :: "'d lib"
  by unfold_locales (simp_all add: SaveJsonBool_def LoadJsonBool_def IsInt_def)

interpretation double_codec: json_value_codec SaveJsonDouble "LoadJsonDouble lib" "\<lambda>_. True" for lib :: "'d lib"
  by unfold_locales (simp_all add: SaveJsonDouble_def LoadJsonDouble_def IsNumber_def GetDouble_def)

text \<open>\<^verbatim>\<open>SaveJsonValue\<close> cuts a string at its first NUL byte, \<^verbatim>\<open>LoadJsonValue\<close> does not.\<close>

interpretation string_codec:
  json_value_codec SaveJsonString "LoadJsonString lib" "\<lambda>s. CHR 0x00 \<notin> set s" for lib :: "'d lib"
  by unfold_locales (simp_all add: SaveJsonString_def LoadJsonString_def)

text \<open>Containers of such types keep it in turn.\<close>

lemma load_pair_save:
  assumes "json_codec saveT loadT validT" "json_codec saveU loadU validU" "validT (fst x)" "validU (snd x)"
  shows "LoadJsonPair loadT loadU (SaveJsonPair saveT saveU x) t = Inr x"
  using assms by (simp add: LoadJsonPair_def SaveJsonPair_def json_codec.load_save)

interpretation int64_optional_codec:
  json_codec "SaveJsonOptional SaveJsonInt64" "LoadJsonOptional d (LoadJsonInt64 lib)" "\<lambda>_. True"
  for lib :: "'d lib" and d :: "64 word"
  by unfold_locales (simp add: int64_codec.load_optional option.pred_True)

interpretation tagged_codec:
  json_value_codec "SaveJsonPair SaveJsonString (SaveJsonOptional SaveJsonInt64)"
    "LoadJsonPair (LoadJsonString lib) (LoadJsonOptional d (LoadJsonInt64 lib))" "\<lambda>p. CHR 0x00 \<notin> set (fst p)"
  for lib :: "'d lib" and d :: "64 word"
proof unfold_locales
  fix x :: "string \<times> 64 word option" and t
  assume "CHR 0x00 \<notin> set (fst x)"
  then show "LoadJsonPair (LoadJsonString lib) (LoadJsonOptional d (LoadJsonInt64 lib))
      (SaveJsonPair SaveJsonString (SaveJsonOptional SaveJsonInt64) x) t = Inr x"
    by (intro load_pair_save [OF string_codec.json_codec_axioms int64_optional_codec.json_codec_axioms]) auto
qed (simp add: SaveJsonPair_def)

interpretation tagged_list_codec:
  json_value_codec "SaveJsonVector (SaveJsonPair SaveJsonString (SaveJsonOptional SaveJsonInt64))"
    "LoadJsonVector ([], None) (LoadJsonPair (LoadJsonString lib) (LoadJsonOptional d (LoadJsonInt64 lib)))"
    "list_all (\<lambda>p. CHR 0x00 \<notin> set (fst p))"
  for lib :: "'d lib" and d :: "64 word"
  by unfold_locales (rule tagged_codec.load_vector, assumption, simp add: SaveJsonVector_def)

section \<open>Access by key\<close>

lemma set_member_find:
  assumes "set_member v key x = Inr w" "CHR 0x00 \<notin> set key"
  shows "IsObject v" "IsObject w" "FindMember w k = (if k = key then Some x else FindMember v k)"
    "distinct (map fst (members v)) \<Longrightarrow> distinct (map fst (members w))"
proof -
  show obj: "IsObject v" using assms(1) by (auto simp: set_member_def split: if_splits)
  have "IsObject w \<and> FindMember w k = (if k = key then Some x else FindMember v k) \<and>
    (distinct (map fst (members v)) \<longrightarrow> distinct (map fst (members w)))"
  proof (cases "map_of (members v) key")
    case None
    with assms obj have w: "w = JObject (members v @ [(key, x)])"
      by (auto simp: set_member_def HasMember_def FindMember_def SaveJsonCString_def)
    from None have "key \<notin> fst ` set (members v)" by (simp add: map_of_eq_None_iff)
    with w None show ?thesis by (auto simp: FindMember_def map_add_def split: option.splits)
  next
    case (Some y)
    with assms obj have w: "w = JObject (put_member key x (members v))"
      by (auto simp: set_member_def HasMember_def FindMember_def)
    with Some show ?thesis by (simp add: FindMember_def map_of_put_member)
  qed
  then show "IsObject w" "FindMember w k = (if k = key then Some x else FindMember v k)"
    "distinct (map fst (members v)) \<Longrightarrow> distinct (map fst (members w))" by auto
qed

section \<open>Recursive merging\<close>

text \<open>The objects inside a value have no name twice.\<close>

fun distinct_names :: "'d json \<Rightarrow> bool" where
  "distinct_names (JArray vs) = list_all distinct_names vs"
| "distinct_names (JObject ms) = (distinct (map fst ms) \<and> list_all (\<lambda>(k, x). distinct_names x) ms)"
| "distinct_names _ = True"

text \<open>The values that are compared when a value is merged twice.\<close>

fun member_values :: "'d json \<Rightarrow> 'd json set" where
  "member_values (JObject ms) = insert (JObject ms) (\<Union>m \<in> set ms. member_values (snd m))"
| "member_values v = {v}"

lemma put_member_same: "map_of ms key = Some x \<Longrightarrow> put_member key x ms = ms"
  by (induction ms) auto

lemma update_unchanged:
  "fst (UpdateJsonRecursively lib s v) = False \<Longrightarrow> snd (UpdateJsonRecursively lib s v) = s"
  "fst (update_members lib os b ms) = False \<Longrightarrow> \<not> b \<and> snd (update_members lib os b ms) = ms"
proof (induction lib s v and lib os b ms rule: UpdateJsonRecursively_update_members.induct)
  case (1 lib s os)
  show ?case
  proof (cases s)
    case (JObject ms)
    show ?thesis
    proof (cases "json_eq lib s (JObject os)")
      case False
      obtain c ms' where u: "update_members lib os False ms = (c, ms')" by fastforce
      with "1.prems" False JObject have "\<not> c" by simp
      with "1.IH" [OF False JObject] u have "ms' = ms" by simp
      with u False JObject show ?thesis by simp
    qed simp
  qed (use 1 in \<open>auto split: if_splits\<close>)
next
  case (4 lib name x os b ms)
  show ?case
  proof (cases "map_of ms name")
    case None
    with 4 show ?thesis by (auto dest: "4.IH"(1))
  next
    case (Some y)
    obtain c y' where u: "UpdateJsonRecursively lib y x = (c, y')" by fastforce
    have rest: "\<not> (b \<or> c) \<and> snd (update_members lib os (b \<or> c) (put_member name y' ms)) = put_member name y' ms"
      by (rule "4.IH"(3) [OF Some u [symmetric]]) (use "4.prems" Some u in simp)
    moreover from rest "4.IH"(2) [OF Some] u have "y' = y" by simp
    ultimately show ?thesis using Some u by (cases b; cases c) (simp_all add: put_member_same)
  qed
qed (auto split: if_splits)


text \<open>The members after the loop: the names of both, each value of both merged.\<close>

lemma update_members_lookup:
  "distinct (map fst os) \<Longrightarrow>
   map_of (snd (update_members lib os b ms)) k =
     (case map_of os k of
        None \<Rightarrow> map_of ms k
      | Some x \<Rightarrow> (case map_of ms k of
                    None \<Rightarrow> Some x
                  | Some y \<Rightarrow> Some (snd (UpdateJsonRecursively lib y x))))"
proof (induction os arbitrary: b ms)
  case (Cons o' os)
  obtain name x where o': "o' = (name, x)" by fastforce
  with Cons.prems have none: "map_of os name = None" by (simp add: map_of_eq_None_iff)
  from Cons.prems have d: "distinct (map fst os)" by simp
  show ?case
  proof (cases "map_of ms name")
    case None
    with o' none Cons.IH [OF d, of True "ms @ [(name, x)]"] show ?thesis
      by (auto simp: map_add_def split: option.splits)
  next
    case (Some y)
    obtain c y' where u: "UpdateJsonRecursively lib y x = (c, y')" by fastforce
    with o' none Some Cons.IH [OF d, of "b \<or> c" "put_member name y' ms"] show ?thesis
      by (auto simp: map_of_put_member split: option.splits)
  qed
qed simp

lemma update_members_fixed:
  "(\<And>name x. (name, x) \<in> set os \<Longrightarrow> \<exists>y. map_of ms name = Some y \<and> UpdateJsonRecursively lib y x = (False, y)) \<Longrightarrow>
   update_members lib os False ms = (False, ms)"
proof (induction os)
  case (Cons o' os)
  obtain name x where o': "o' = (name, x)" by fastforce
  with Cons.prems [of name x] obtain y where
    "map_of ms name = Some y" "UpdateJsonRecursively lib y x = (False, y)" by auto
  with o' Cons.IH Cons.prems show ?case by (simp add: put_member_same)
qed simp

lemma update_again:
  "distinct_names v \<Longrightarrow> \<forall>x \<in> member_values v. json_eq lib x x \<Longrightarrow>
   UpdateJsonRecursively lib (snd (UpdateJsonRecursively lib s v)) v =
     (False, snd (UpdateJsonRecursively lib s v))"
proof (induction v arbitrary: s)
  case (JObject os)
  have self: "UpdateJsonRecursively lib x x = (False, x)" if "(name, x) \<in> set os" for name x
  proof -
    have "x \<in> member_values x" by (cases x) auto
    with that JObject.prems(2) have "json_eq lib x x" by fastforce
    then show ?thesis by (cases x) auto
  qed
  have ih: "UpdateJsonRecursively lib (snd (UpdateJsonRecursively lib y x)) x =
      (False, snd (UpdateJsonRecursively lib y x))" if "(name, x) \<in> set os" for name x y
    using JObject.IH [OF that, of x y] JObject.prems that by (fastforce simp: list_all_iff)
  show ?case
  proof (cases "json_eq lib s (JObject os)")
    case neq: False
    show ?thesis
    proof (cases s)
      case s: (JObject ms)
      obtain c ms' where u: "update_members lib os False ms = (c, ms')" by fastforce
      have d: "distinct (map fst os)" using JObject.prems(1) by simp
      have "update_members lib os False ms' = (False, ms')"
      proof (rule update_members_fixed)
        fix name x assume mem: "(name, x) \<in> set os"
        with d have "map_of os name = Some x" by simp
        with update_members_lookup [OF d, of lib False ms name] u self [OF mem] ih [OF mem]
        show "\<exists>y. map_of ms' name = Some y \<and> UpdateJsonRecursively lib y x = (False, y)"
          by (auto split: option.splits)
      qed
      with s neq u show ?thesis by simp
    qed (use neq JObject.prems(2) in auto)
  qed simp
qed auto


section \<open>Properties\<close>

text \<open>A library for the witnesses, with natural numbers for the doubles: integers are printed
  in decimal, nothing is cast from text, and two values are equal when they are the same
  tree.\<close>

definition sample_lib :: "nat lib" where
  "sample_lib = \<lparr> write_json = (\<lambda>indent v. Some (GetJsonTypeName v)), parse_json = (\<lambda>s. Inr (JString s)),
     parse_json_default = (\<lambda>s. Inr (JString s)), json_eq = (=), pointer_get = (\<lambda>p v. Some v),
     pointer_set = (\<lambda>p x v. x), lex_int = (\<lambda>s. None), lex_int16 = (\<lambda>s. None), lex_uint16 = (\<lambda>s. None),
     lex_uint = (\<lambda>s. None), lex_int64 = (\<lambda>s. None), lex_uint64 = (\<lambda>s. None), lex_bool = (\<lambda>s. None),
     lex_double = (\<lambda>s. None), int64_string = dec_of_int, double_of_int = nat, float_of_double = id \<rparr>"

text \<open>C27: A \<^verbatim>\<open>std::map\<close> of strings to vectors of pairs of a string and an optional 64-bit
  integer survives \<^verbatim>\<open>SaveJsonValue\<close> and \<^verbatim>\<open>LoadJsonValue\<close>, whatever the target held, when its
  strings hold no NUL byte: each level keeps the contract of the one below.\<close>

theorem nested_container_roundtrip:
  fixes m :: "(string \<times> (string \<times> 64 word option) list) list"
  assumes "sorted_wrt (<) (map fst m)"
    and "CHR 0x00 \<notin> (\<Union>k \<in> fst ` set m. set k)"
    and "list_all (list_all (\<lambda>p. CHR 0x00 \<notin> set (fst p))) (map snd m)"
  shows "LoadJsonMap [] lib
      (LoadJsonVector ([], None) (LoadJsonPair (LoadJsonString lib) (LoadJsonOptional 0 (LoadJsonInt64 lib))))
      (SaveJsonMap (SaveJsonVector (SaveJsonPair SaveJsonString (SaveJsonOptional SaveJsonInt64))) m) t = Inr m"
  using assms by (intro tagged_list_codec.load_map) auto

lemma nested_container_roundtrip_witness:
  "LoadJsonMap [] sample_lib
      (LoadJsonVector ([], None) (LoadJsonPair (LoadJsonString sample_lib) (LoadJsonOptional 0 (LoadJsonInt64 sample_lib))))
      (SaveJsonMap (SaveJsonVector (SaveJsonPair SaveJsonString (SaveJsonOptional SaveJsonInt64)))
        [(''a'', [(''x'', Some (- 5)), (''y'', None)]), (''b'', [])]) [] =
    Inr [(''a'', [(''x'', Some (- 5)), (''y'', None)]), (''b'', [])]"
  by (rule nested_container_roundtrip) simp_all

text \<open>A member that \<^verbatim>\<open>SetJsonValueByKey\<close> sets is what \<^verbatim>\<open>LoadJsonValueByKey\<close> then finds, the
  other members stay as they were and no name becomes double; the type may be any whose
  values come back from JSON and are not saved as \<^verbatim>\<open>null\<close>.\<close>

lemma SetJsonValueByKey_get:
  assumes "IsObject v" "CHR 0x00 \<notin> set key" "save x \<noteq> JNull" "\<And>t. load (save x) t = Inr x"
  shows "\<exists>w. SetJsonValueByKey save v key x = Inr w \<and>
    LoadJsonValueByKey load w key t = Inr (True, x) \<and>
    (\<forall>k. k = key \<or> FindMember w k = FindMember v k) \<and>
    (distinct (map fst (members v)) \<le> distinct (map fst (members w)))"
proof -
  have codec: "json_value_codec save load (\<lambda>y. y = x)"
    by unfold_locales (use assms(3,4) in auto)
  from assms(1,2) obtain w where set: "set_member v key (save x) = Inr w"
    by (cases "HasMember v key") (auto simp: set_member_def)
  with assms(2) have w: "SetJsonValueByKey save v key x = Inr w" by (simp add: SetJsonValueByKey_def)
  note f = set_member_find [OF set assms(2)]
  have "FindMember w key = Some (save x)" using f(3) [of key] by simp
  from json_value_codec.load_by_key(1) [OF codec this f(2) refl]
  have "LoadJsonValueByKey load w key t = Inr (True, x)" .
  with w f(3,4) show ?thesis by auto
qed

lemma SetJsonValueByKey_get_witness:
  "\<exists>w. SetJsonValueByKey SaveJsonInt64 (JObject [(''a'', JInt 1), (''b'', JNull)]) ''a'' (7 :: 64 word) = Inr w \<and>
    LoadJsonValueByKey (LoadJsonInt64 sample_lib) w ''a'' 0 = Inr (True, 7) \<and>
    FindMember w ''b'' = Some JNull"
proof -
  let ?v = "JObject [(''a'', JInt 1), (''b'', JNull)] :: nat json"
  have "\<exists>w. SetJsonValueByKey SaveJsonInt64 ?v ''a'' 7 = Inr w \<and>
    LoadJsonValueByKey (LoadJsonInt64 sample_lib) w ''a'' 0 = Inr (True, 7) \<and>
    (\<forall>k. k = ''a'' \<or> FindMember w k = FindMember ?v k) \<and>
    (distinct (map fst (members ?v)) \<le> distinct (map fst (members w)))"
    by (rule SetJsonValueByKey_get) (simp_all add: SaveJsonInt64_def LoadJsonInt64_def IsInt64_def)
  moreover have "''b'' \<noteq> ''a''" "FindMember ?v ''b'' = Some JNull" by (simp_all add: FindMember_def)
  ultimately show ?thesis by metis
qed

text \<open>C25: \<^verbatim>\<open>UpdateJsonRecursively\<close> returns \<open>false\<close> only when it left the value as it was, and
  merging the same value once more changes nothing and returns \<open>false\<close>. The hypotheses are on
  the override: no object in it has a name twice, and its values equal themselves (none is
  a NaN).\<close>

theorem UpdateJsonRecursively_idempotent:
  assumes "distinct_names v" "\<forall>x \<in> member_values v. json_eq lib x x"
    and "UpdateJsonRecursively lib s v = (changed, s')"
  shows "UpdateJsonRecursively lib s' v = (False, s') \<and> (s' = s \<or> changed)"
  using update_again [OF assms(1,2), of s] update_unchanged(1) [of lib s v] assms(3) by auto

lemma UpdateJsonRecursively_idempotent_witness:
  "UpdateJsonRecursively sample_lib (JObject [(''a'', JInt 1), (''b'', JObject [(''c'', JNull)])])
      (JObject [(''b'', JObject [(''d'', JInt 2)])]) =
    (True, JObject [(''a'', JInt 1), (''b'', JObject [(''c'', JNull), (''d'', JInt 2)])]) \<and>
   UpdateJsonRecursively sample_lib (JObject [(''a'', JInt 1), (''b'', JObject [(''c'', JNull), (''d'', JInt 2)])])
      (JObject [(''b'', JObject [(''d'', JInt 2)])]) =
    (False, JObject [(''a'', JInt 1), (''b'', JObject [(''c'', JNull), (''d'', JInt 2)])])"
proof -
  have u: "UpdateJsonRecursively sample_lib (JObject [(''a'', JInt 1), (''b'', JObject [(''c'', JNull)])])
      (JObject [(''b'', JObject [(''d'', JInt 2)])]) =
    (True, JObject [(''a'', JInt 1), (''b'', JObject [(''c'', JNull), (''d'', JInt 2)])])"
    by (simp add: sample_lib_def)
  from UpdateJsonRecursively_idempotent [OF _ _ u] u show ?thesis by (simp add: sample_lib_def)
qed

text \<open>C9: When two objects differ, \<^verbatim>\<open>UpdateJsonRecursively\<close> leaves an object that has the
  members of both: a name of one of them keeps its value, a name of both gets the merged
  value.\<close>

theorem UpdateJsonRecursively_members:
  assumes "distinct (map fst os)" "\<not> json_eq lib (JObject ms) (JObject os)"
    and "UpdateJsonRecursively lib (JObject ms) (JObject os) = (changed, s')"
  shows "IsObject s' \<and> FindMember s' k =
     (case (FindMember (JObject ms) k, FindMember (JObject os) k) of
        (y, None) \<Rightarrow> y
      | (None, Some x) \<Rightarrow> Some x
      | (Some y, Some x) \<Rightarrow> Some (snd (UpdateJsonRecursively lib y x)))"
proof -
  obtain c ms' where u: "update_members lib os False ms = (c, ms')" by fastforce
  with assms(2,3) have s': "s' = JObject ms'" by simp
  from update_members_lookup [OF assms(1), of lib False ms k] u s' show ?thesis
    by (auto simp: FindMember_def split: option.splits)
qed

lemma UpdateJsonRecursively_members_witness:
  "FindMember (snd (UpdateJsonRecursively sample_lib (JObject [(''a'', JInt 1), (''b'', JObject [(''c'', JNull)])])
      (JObject [(''b'', JObject [(''d'', JInt 2)])]))) ''b'' =
    Some (JObject [(''c'', JNull), (''d'', JInt 2)])"
  using UpdateJsonRecursively_members [of "[(''b'', JObject [(''d'', JInt 2)])]" sample_lib
      "[(''a'', JInt 1), (''b'', JObject [(''c'', JNull)])]" _ _ "''b''"]
  by (simp add: sample_lib_def FindMember_def)

text \<open>C37: \<^verbatim>\<open>LoadJsonValue\<close> into an \<^verbatim>\<open>int\<close> or an \<^verbatim>\<open>int8_t\<close> accepts every integer of 32 bits,
  signed or unsigned, and throws nothing when it does not fit the target: the value loaded
  is the integer itself exactly when it fits, else another one. Every other integer is refused with an
  exception of the JSON library.\<close>

theorem LoadJsonInt_narrows:
  "if - (2 ^ 31) \<le> i \<and> i < 2 ^ 32
   then \<exists>w w8. LoadJsonInt lib (JInt i) t = Inr w \<and> LoadJsonInt8 lib (JInt i) t8 = Inr w8 \<and>
     (sint w = i \<longleftrightarrow> i < 2 ^ 31) \<and> (sint w8 = i \<longleftrightarrow> - 128 \<le> i \<and> i < 128)
   else \<exists>m m8. LoadJsonInt lib (JInt i) t = Inl (JsonExc m) \<and> LoadJsonInt8 lib (JInt i) t8 = Inl (JsonExc m8)"
proof (cases "- (2 ^ 31) \<le> i \<and> i < 2 ^ 32")
  case False
  then have other: "\<not> IsInt (JInt i :: 'a json)" "\<not> IsUint (JInt i :: 'a json)" by (auto simp: IsInt_def IsUint_def)
  have refused: "\<exists>m. (cannot_convert lib (JInt i) s :: 'c result) = Inl (JsonExc m)" for s
    by (simp add: cannot_convert_def GetJsonString_def DumpJson_def split: option.split)
  have "\<exists>m. LoadJsonInt lib (JInt i) t = Inl (JsonExc m)" "\<exists>m. LoadJsonInt8 lib (JInt i) t8 = Inl (JsonExc m)"
    using refused by (simp_all add: LoadJsonInt_def LoadJsonInt8_def other)
  then show ?thesis unfolding if_not_P [OF False] by blast
next
  case True
  then have r: "IsInt (JInt i) \<or> IsUint (JInt i)" by (auto simp: IsInt_def IsUint_def)
  have "sint (word_of_int i :: 32 word) = i \<longleftrightarrow> - 2147483648 \<le> i \<and> i < 2147483648"
    by (auto simp: sint_sbintrunc' signed_take_bit_int_eq_self_iff)
  then have "sint (word_of_int i :: 32 word) = i \<longleftrightarrow> i < 2 ^ 31" using True by simp
  moreover have "sint (word_of_int i :: 8 word) = i \<longleftrightarrow> - 128 \<le> i \<and> i < 128"
    by (auto simp: sint_sbintrunc' signed_take_bit_int_eq_self_iff)
  ultimately show ?thesis using r True by (auto simp: LoadJsonInt_def LoadJsonInt8_def)
qed

lemma LoadJsonInt_narrows_witness:
  "(\<exists>w8. LoadJsonInt8 sample_lib (JInt 300) 0 = Inr w8 \<and> sint w8 \<noteq> 300) \<and>
   (\<exists>m. LoadJsonInt sample_lib (JInt (2 ^ 40)) 0 = Inl (JsonExc m))"
  using LoadJsonInt_narrows [of 300 sample_lib 0 0] LoadJsonInt_narrows [of "2 ^ 40" sample_lib 0 0] by auto

end
