(* ===== verification/ClientInfo.thy ===== *)
theory ClientInfo
  imports JsonLaws
begin

text \<open>
  \<^verbatim>\<open>ControllerClientInfo\<close> of \<^verbatim>\<open>src/mujincontrollerclient.cpp\<close> and the parser of URLs of
  \<^verbatim>\<open>src/controllerclientimpl.cpp\<close>. A C string pointer is an offset into the text of the URL;
  \<^verbatim>\<open>httpPort\<close> has 16 bits.
\<close>

record ControllerClientInfo =
  host :: string
  httpPort :: "16 word"
  username :: string
  password :: string
  additionalHeaders :: "string list"
  unixEndpoint :: string
  userAgent :: string

definition Reset :: "ControllerClientInfo \<Rightarrow> ControllerClientInfo" where
  "Reset info = info \<lparr> host := [], httpPort := 0, username := [], password := [],
     additionalHeaders := [], unixEndpoint := [] \<rparr>"

definition info_eq :: "ControllerClientInfo \<Rightarrow> ControllerClientInfo \<Rightarrow> bool" where
  "info_eq lhs rhs \<longleftrightarrow> host lhs = host rhs \<and> httpPort lhs = httpPort rhs \<and>
     username lhs = username rhs \<and> password lhs = password rhs \<and>
     additionalHeaders lhs = additionalHeaders rhs \<and> unixEndpoint lhs = unixEndpoint rhs"

section \<open>JSON\<close>

definition load_field ::
  "('d, 'f) loader \<Rightarrow> 'd json \<Rightarrow> string \<Rightarrow> ('r \<Rightarrow> 'f) \<Rightarrow> ('f \<Rightarrow> 'r \<Rightarrow> 'r) \<Rightarrow> 'r \<Rightarrow> 'r result" where
  "load_field load v key get upd r =
     bindR (LoadJsonValueByKey load v key (get r)) (\<lambda>(found, x). Inr (upd x r))"

definition LoadFromJson :: "'d lib \<Rightarrow> 'd json \<Rightarrow> ControllerClientInfo \<Rightarrow> ControllerClientInfo result" where
  "LoadFromJson lib rClientInfo info =
     bindR (load_field (LoadJsonString lib) rClientInfo ''host'' host (\<lambda>x. host_update (\<lambda>_. x)) info) (\<lambda>info.
     bindR (load_field (LoadJsonUint16 lib) rClientInfo ''httpPort'' httpPort (\<lambda>x. httpPort_update (\<lambda>_. x)) info) (\<lambda>info.
     bindR (load_field (LoadJsonString lib) rClientInfo ''username'' username (\<lambda>x. username_update (\<lambda>_. x)) info) (\<lambda>info.
     bindR (load_field (LoadJsonString lib) rClientInfo ''password'' password (\<lambda>x. password_update (\<lambda>_. x)) info) (\<lambda>info.
     bindR (load_field (LoadJsonVector [] (LoadJsonString lib)) rClientInfo ''additionalHeaders'' additionalHeaders
       (\<lambda>x. additionalHeaders_update (\<lambda>_. x)) info) (\<lambda>info.
     load_field (LoadJsonString lib) rClientInfo ''unixEndpoint'' unixEndpoint
       (\<lambda>x. unixEndpoint_update (\<lambda>_. x)) info)))))"

text \<open>\<^verbatim>\<open>if( present ) SetJsonValueByKey(...)\<close>.\<close>

definition set_if :: "bool \<Rightarrow> ('a \<Rightarrow> 'd json) \<Rightarrow> string \<Rightarrow> 'a \<Rightarrow> 'd json \<Rightarrow> 'd json result" where
  "set_if present save key x v = (if present then SetJsonValueByKey save v key x else Inr v)"

text \<open>An \<^verbatim>\<open>uint16_t\<close> is saved through the overload for \<^verbatim>\<open>int\<close>.\<close>

definition SaveToJson :: "ControllerClientInfo \<Rightarrow> 'd json result" where
  "SaveToJson info =
     bindR (set_if (host info \<noteq> []) SaveJsonString ''host'' (host info) (JObject [])) (\<lambda>v.
     bindR (set_if (httpPort info \<noteq> 0) SaveJsonInt ''httpPort'' (ucast (httpPort info)) v) (\<lambda>v.
     bindR (set_if (username info \<noteq> []) SaveJsonString ''username'' (username info) v) (\<lambda>v.
     bindR (set_if (password info \<noteq> []) SaveJsonString ''password'' (password info) v) (\<lambda>v.
     bindR (set_if (additionalHeaders info \<noteq> []) (SaveJsonVector SaveJsonString) ''additionalHeaders''
       (additionalHeaders info) v) (\<lambda>v.
     set_if (unixEndpoint info \<noteq> []) SaveJsonString ''unixEndpoint'' (unixEndpoint info) v)))))"

section \<open>URLs\<close>

text \<open>\<^verbatim>\<open>getaddrinfo\<close> is the argument \<open>resolve\<close>: the addresses in text, or a failure.\<close>

definition ResolveIpFromHostIfUnique :: "(string \<Rightarrow> string list option) \<Rightarrow> string \<Rightarrow> string" where
  "ResolveIpFromHostIfUnique resolve hostname =
     (case resolve (c_str hostname) of
        None \<Rightarrow> []
      | Some addrs \<Rightarrow> (case remdups addrs of [ip] \<Rightarrow> ip | _ \<Rightarrow> []))"

definition GetURL :: "(string \<Rightarrow> string list option) \<Rightarrow> ControllerClientInfo \<Rightarrow> bool \<Rightarrow> bool \<Rightarrow> string" where
  "GetURL resolve info bIncludeNamePassword bResolveIpFromHostIfUnique =
     (if host info = [] then []
      else ''http://'' @
        (if bIncludeNamePassword then username info @ '':'' @ password info @ ''@'' else []) @
        (if bResolveIpFromHostIfUnique
         then (let ip = ResolveIpFromHostIfUnique resolve (host info) in if ip = [] then host info else ip)
         else host info) @
        (if httpPort info \<noteq> 0 then '':'' @ dec_of_nat (unat (httpPort info)) else []))"

text \<open>\<^verbatim>\<open>*port - '0'\<close> on a signed \<^verbatim>\<open>char\<close>, the sum in \<^verbatim>\<open>int\<close> and then cut to 16 bits.\<close>

definition char_int :: "char \<Rightarrow> int" where
  "char_int c = (let n = int (of_char c) in if n < 128 then n else n - 256)"

fun ParseClientInfoPort_loop :: "string \<Rightarrow> 16 word \<Rightarrow> 16 word" where
  "ParseClientInfoPort_loop [] p = p"
| "ParseClientInfoPort_loop (c # cs) p =
     ParseClientInfoPort_loop cs (word_of_int (uint p * 10 + (char_int c - 48)))"

definition ParseClientInfoPort :: "string \<Rightarrow> ControllerClientInfo \<Rightarrow> ControllerClientInfo" where
  "ParseClientInfoPort port info = info \<lparr> httpPort := ParseClientInfoPort_loop port 0 \<rparr>"

text \<open>The offset from \<open>i\<close> on of a character, and \<^verbatim>\<open>std::string(begin, end - begin)\<close>, which throws
  \<^verbatim>\<open>std::length_error\<close> when the end is before the begin.\<close>

definition str_chr :: "char \<Rightarrow> string \<Rightarrow> nat \<Rightarrow> nat option" where
  "str_chr c s i = map_option (\<lambda>k. k + i) (find_char c (drop i s))"

definition range_string :: "string \<Rightarrow> nat \<Rightarrow> nat \<Rightarrow> string result" where
  "range_string s b e = (if b \<le> e then Inr (substr s b (e - b)) else Inl LengthError)"

definition before :: "nat option \<Rightarrow> nat option \<Rightarrow> bool" where
  "before a slash \<longleftrightarrow> (case a of None \<Rightarrow> False | Some i \<Rightarrow> (case slash of None \<Rightarrow> True | Some j \<Rightarrow> i < j))"

text \<open>The part between \<^verbatim>\<open>://\<close> and \<^verbatim>\<open>@\<close>; \<open>b\<close> is its begin.\<close>

definition ParseUserPassword :: "string \<Rightarrow> nat \<Rightarrow> nat \<Rightarrow> ControllerClientInfo \<Rightarrow> unit result \<times> ControllerClientInfo" where
  "ParseUserPassword url b atpos info =
     (case str_chr (CHR '':'') url b of
        Some colon \<Rightarrow>
          (case range_string url b colon of
             Inl e \<Rightarrow> (Inl e, info)
           | Inr user \<Rightarrow>
               (case range_string url (colon + 1) atpos of
                  Inl e \<Rightarrow> (Inl e, info \<lparr> username := user \<rparr>)
                | Inr pass \<Rightarrow> (Inr (), info \<lparr> username := user, password := pass \<rparr>)))
      | None \<Rightarrow> (Inr (), info \<lparr> username := substr url b (atpos - b) \<rparr>))"

text \<open>The part from the host name on.\<close>

definition ParseHostPort :: "string \<Rightarrow> nat \<Rightarrow> nat option \<Rightarrow> ControllerClientInfo \<Rightarrow> ControllerClientInfo" where
  "ParseHostPort url h slash info =
     (let port = str_chr (CHR '':'') url h in
      case slash of
        None \<Rightarrow>
          (case port of
             None \<Rightarrow> info \<lparr> host := drop h url \<rparr>
           | Some p \<Rightarrow> ParseClientInfoPort (drop (p + 1) url) info \<lparr> host := substr url h (p - h) \<rparr>)
      | Some sl \<Rightarrow>
          (if before port slash
           then ParseClientInfoPort (substr url (the port + 1) (sl - (the port + 1))) info
                  \<lparr> host := substr url h (the port - h) \<rparr>
           else info \<lparr> host := substr url h (sl - h) \<rparr>))"

definition ParseClientInfoFromURL :: "string \<Rightarrow> ControllerClientInfo \<Rightarrow> unit result \<times> ControllerClientInfo" where
  "ParseClientInfoFromURL url info =
     (let info = Reset info in
      case find_str ''://'' url of
        None \<Rightarrow> (Inr (), info)
      | Some colonSlashSlash \<Rightarrow>
          (let hostname = colonSlashSlash + 3;
               atpos = str_chr (CHR ''@'') url hostname;
               slash = str_chr (CHR ''/'') url hostname in
           if before atpos slash
           then (case ParseUserPassword url hostname (the atpos) info of
                   (Inl e, info) \<Rightarrow> (Inl e, info)
                 | (Inr _, info) \<Rightarrow> (Inr (), ParseHostPort url (the atpos + 1) slash info))
           else (Inr (), ParseHostPort url hostname slash info)))"

section \<open>Parsing what was printed\<close>

lemma digit_not_special:
  assumes "is_digit c"
  shows "c \<noteq> CHR ''/''" "c \<noteq> CHR '':''" "c \<noteq> CHR ''@''"
  using assms by (auto simp: is_digit_def)

lemma char_int_digit: "is_digit c \<Longrightarrow> char_int c - 48 = digit_val c"
  by (simp add: is_digit_def char_int_def digit_val_def Let_def)

lemma ParseClientInfoPort_loop_value:
  "\<forall>c \<in> set s. is_digit c \<Longrightarrow>
   ParseClientInfoPort_loop s (word_of_int a) = word_of_int (foldl (\<lambda>a c. a * 10 + digit_val c) a s)"
proof (induction s arbitrary: a)
  case (Cons c cs)
  have w: "(word_of_int (uint (word_of_int a :: 16 word) * 10 + (char_int c - 48)) :: 16 word) =
      word_of_int (a * 10 + digit_val c)"
    using Cons.prems by (simp add: char_int_digit)
  show ?case unfolding ParseClientInfoPort_loop.simps foldl_Cons w
    by (rule Cons.IH) (use Cons.prems in simp)
qed simp

lemma ParseClientInfoPort_dec: "ParseClientInfoPort_loop (dec_of_nat n) 0 = word_of_nat n"
  using ParseClientInfoPort_loop_value [OF dec_of_nat_digits, of n 0] dec_value_dec_of_nat [of n]
  by (simp add: dec_value_def)

definition url_text :: "string \<Rightarrow> bool" where
  "url_text s \<longleftrightarrow> CHR '':'' \<notin> set s \<and> CHR ''/'' \<notin> set s \<and> CHR ''@'' \<notin> set s"

lemma find_scheme: "find_str ''://'' (''http://'' @ s) = Some 4"
  by simp

lemma ParseHostPort_printed:
  assumes "url_text h" and "n = length pre"
  shows "ParseHostPort (pre @ h @ (if p \<noteq> 0 then '':'' @ dec_of_nat (unat p) else [])) n None info =
    info \<lparr> host := h, httpPort := (if p \<noteq> 0 then p else httpPort info) \<rparr>"
  using assms
  by (simp add: ParseHostPort_def str_chr_def url_text_def str_simps ParseClientInfoPort_def substr_def
      ParseClientInfoPort_dec)

lemma no_slash_port: "CHR ''/'' \<notin> set (dec_of_nat n)"
  using dec_of_nat_digits [of n] digit_not_special by blast

lemma find_first:
  "c \<notin> set xs \<Longrightarrow> d \<noteq> c \<Longrightarrow> c \<notin> set ys \<Longrightarrow> find_char c (xs @ d # ys @ c # zs) = Some (length xs + Suc (length ys))"
  by (induction xs) (auto simp: find_char_append)

lemma ParseUserPassword_printed:
  assumes "CHR '':'' \<notin> set user" and "b = length pre" and "atpos = b + length user + 1 + length pass"
  shows "ParseUserPassword (pre @ user @ '':'' @ pass @ ''@'' @ post) b atpos info =
    (Inr (), info \<lparr> username := user, password := pass \<rparr>)"
  using assms
  by (simp add: ParseUserPassword_def str_chr_def range_string_def substr_def str_simps)

section \<open>Loading what was saved\<close>

lemma set_if_find:
  assumes "IsObject v" "CHR 0x00 \<notin> set key"
  shows "\<exists>w. set_if present save key x v = Inr w \<and> IsObject w \<and>
    (\<forall>k. FindMember w k = (if present \<and> k = key then Some (save x) else FindMember v k))"
proof (cases present)
  case True
  from assms(1) obtain w where w: "set_member v key (save x) = Inr w"
    by (cases "HasMember v key") (auto simp: set_member_def)
  with set_member_find [OF w assms(2)] True assms(2) show ?thesis
    by (auto simp: set_if_def SetJsonValueByKey_def)
qed (use assms in \<open>simp add: set_if_def\<close>)

lemma load_field_saved:
  assumes "json_value_codec save load valid" "valid x" "IsObject v"
    and "FindMember v key = (if present then Some (save x) else None)"
  shows "load_field load v key get upd r = Inr (upd (if present then x else get r) r)"
proof (cases present)
  case True
  with assms(4) have "FindMember v key = Some (save x)" by simp
  from json_value_codec.load_by_key(1) [OF assms(1) this assms(3,2)] True show ?thesis
    by (simp add: load_field_def)
qed (use assms(3,4) in \<open>simp add: load_field_def LoadJsonValueByKey_def\<close>)

interpretation string_list_codec:
  json_value_codec "SaveJsonVector SaveJsonString" "LoadJsonVector [] (LoadJsonString lib)"
    "list_all (\<lambda>s. CHR 0x00 \<notin> set s)" for lib :: "'d lib"
  by unfold_locales (rule string_codec.load_vector, assumption, simp add: SaveJsonVector_def)

text \<open>The port is saved as an \<^verbatim>\<open>int\<close> and loaded as an \<^verbatim>\<open>uint16_t\<close>.\<close>

interpretation port_codec:
  json_value_codec "\<lambda>p :: 16 word. SaveJsonInt (ucast p)" "LoadJsonUint16 lib" "\<lambda>_. True" for lib :: "'d lib"
proof unfold_locales
  fix p :: "16 word" and t
  have u: "uint (ucast p :: 32 word) = uint p" by (simp add: uint_up_ucast is_up)
  have "signed_take_bit 31 (uint p) = uint p"
  proof (rule signed_take_bit_int_eq_self)
    show "- (2 ^ 31) \<le> uint p" by (rule order_trans [OF _ uint_ge_0]) simp
    show "uint p < 2 ^ 31" using uint_lt2p [of p] by simp
  qed
  then have "sint (ucast p :: 32 word) = uint p" by (simp add: sint_uint u)
  moreover have "uint p < 4294967296" using uint_lt2p [of p] by simp
  ultimately show "LoadJsonUint16 lib (SaveJsonInt (ucast p)) t = Inr p"
    by (simp add: SaveJsonInt_def LoadJsonUint16_def IsUint_def)
qed (simp add: SaveJsonInt_def)

section \<open>Properties\<close>

text \<open>C12: \<^verbatim>\<open>_ParseClientInfoFromURL\<close> reads back what \<^verbatim>\<open>GetURL\<close> printed with the credentials: the
  host, the user, the password (which may contain colons) and the port, 0 standing for no
  port.\<close>

theorem GetURL_parse:
  assumes "url_text (host info)" "host info \<noteq> []" "url_text (username info)"
    and "CHR ''/'' \<notin> set (password info)" "CHR ''@'' \<notin> set (password info)"
  shows "ParseClientInfoFromURL (GetURL resolve info True False) old =
    (Inr (), info \<lparr> additionalHeaders := [], unixEndpoint := [], userAgent := userAgent old \<rparr>)"
proof -
  let ?port = "if httpPort info \<noteq> 0 then '':'' @ dec_of_nat (unat (httpPort info)) else []"
  let ?tail = "host info @ ?port"
  let ?u = "username info" and ?p = "password info"
  have url: "GetURL resolve info True False = ''http://'' @ ?u @ '':'' @ ?p @ ''@'' @ ?tail"
    using assms(2) by (simp add: GetURL_def)
  have "CHR ''/'' \<notin> set (?u @ '':'' @ ?p @ ''@'' @ ?tail)"
    using assms no_slash_port by (auto simp: url_text_def)
  then have slash: "str_chr (CHR ''/'') (''http://'' @ ?u @ '':'' @ ?p @ ''@'' @ ?tail) (4 + 3) = None"
    unfolding str_chr_def by simp
  have atpos: "str_chr (CHR ''@'') (''http://'' @ ?u @ '':'' @ ?p @ ''@'' @ ?tail) (4 + 3) =
      Some (7 + length ?u + 1 + length ?p)"
    using find_first [of "CHR ''@''" ?u "CHR '':''" ?p ?tail] assms
    by (simp add: str_chr_def url_text_def)
  have cred: "ParseUserPassword (''http://'' @ ?u @ '':'' @ ?p @ ''@'' @ ?tail) (4 + 3) (7 + length ?u + 1 + length ?p) i =
      (Inr (), i \<lparr> username := ?u, password := ?p \<rparr>)" for i
    by (rule ParseUserPassword_printed) (use assms(3) in \<open>simp_all add: url_text_def\<close>)
  have "ParseHostPort ((''http://'' @ ?u @ '':'' @ ?p @ ''@'') @ ?tail) (7 + length ?u + 1 + length ?p + 1) None i =
      i \<lparr> host := host info, httpPort := (if httpPort info \<noteq> 0 then httpPort info else httpPort i) \<rparr>" for i
    by (rule ParseHostPort_printed [OF assms(1)]) simp
  then have hp: "ParseHostPort (''http://'' @ ?u @ '':'' @ ?p @ ''@'' @ ?tail) (7 + length ?u + 1 + length ?p + 1) None i =
      i \<lparr> host := host info, httpPort := (if httpPort info \<noteq> 0 then httpPort info else httpPort i) \<rparr>" for i
    by (simp only: append_assoc)
  show ?thesis
    unfolding url ParseClientInfoFromURL_def Let_def find_scheme option.case
    by (simp only: atpos slash cred hp before_def option.case option.sel if_True prod.case sum.case)
      (simp add: Reset_def)
qed

definition sample_info :: ControllerClientInfo where
  "sample_info = \<lparr> host = ''mujin'', httpPort = 8080, username = ''bob'', password = ''a:b'',
     additionalHeaders = [], unixEndpoint = [], userAgent = [] \<rparr>"

lemma GetURL_parse_witness:
  "GetURL (\<lambda>h. None) sample_info True False = ''http://bob:a:b@mujin:8080'' \<and>
   ParseClientInfoFromURL ''http://bob:a:b@mujin:8080'' (Reset sample_info) = (Inr (), sample_info)"
proof -
  have url: "GetURL (\<lambda>h. None) sample_info True False = ''http://bob:a:b@mujin:8080''"
    by (simp add: GetURL_def sample_info_def dec_of_nat.simps digit_chars)
  show ?thesis
    using GetURL_parse [of sample_info "\<lambda>h. None" "Reset sample_info", unfolded url] url
    by (simp add: sample_info_def url_text_def Reset_def)
qed

text \<open>C32: \<^verbatim>\<open>ControllerClientInfo::LoadFromJson\<close> after \<^verbatim>\<open>SaveToJson\<close> gives every field back but
  the user agent, which neither touches, when the strings hold no NUL byte.\<close>

theorem ControllerClientInfo_roundtrip:
  fixes lib :: "'d lib"
  assumes "CHR 0x00 \<notin> set (host info) \<union> set (username info) \<union> set (password info) \<union> set (unixEndpoint info)"
    and "list_all (\<lambda>s. CHR 0x00 \<notin> set s) (additionalHeaders info)"
  shows "\<exists>v. SaveToJson info = Inr v \<and>
    LoadFromJson lib v (Reset old) = Inr (info \<lparr> userAgent := userAgent old \<rparr>)"
proof -
  obtain v1 :: "'d json" where v1: "set_if (host info \<noteq> []) SaveJsonString ''host'' (host info) (JObject []) = Inr v1"
    "IsObject v1" "\<And>k. FindMember v1 k = (if host info \<noteq> [] \<and> k = ''host'' then Some (SaveJsonString (host info))
       else FindMember (JObject []) k)"
    using set_if_find [of "JObject []" "''host''" "host info \<noteq> []" SaveJsonString "host info"] by auto
  obtain v2 where v2: "set_if (httpPort info \<noteq> 0) SaveJsonInt ''httpPort'' (ucast (httpPort info)) v1 = Inr v2"
    "IsObject v2" "\<And>k. FindMember v2 k = (if httpPort info \<noteq> 0 \<and> k = ''httpPort''
       then Some (SaveJsonInt (ucast (httpPort info))) else FindMember v1 k)"
    using set_if_find [OF v1(2), of "''httpPort''" "httpPort info \<noteq> 0" SaveJsonInt "ucast (httpPort info)"] by auto
  obtain v3 where v3: "set_if (username info \<noteq> []) SaveJsonString ''username'' (username info) v2 = Inr v3"
    "IsObject v3" "\<And>k. FindMember v3 k = (if username info \<noteq> [] \<and> k = ''username''
       then Some (SaveJsonString (username info)) else FindMember v2 k)"
    using set_if_find [OF v2(2), of "''username''" "username info \<noteq> []" SaveJsonString "username info"] by auto
  obtain v4 where v4: "set_if (password info \<noteq> []) SaveJsonString ''password'' (password info) v3 = Inr v4"
    "IsObject v4" "\<And>k. FindMember v4 k = (if password info \<noteq> [] \<and> k = ''password''
       then Some (SaveJsonString (password info)) else FindMember v3 k)"
    using set_if_find [OF v3(2), of "''password''" "password info \<noteq> []" SaveJsonString "password info"] by auto
  obtain v5 where v5: "set_if (additionalHeaders info \<noteq> []) (SaveJsonVector SaveJsonString) ''additionalHeaders''
       (additionalHeaders info) v4 = Inr v5"
    "IsObject v5" "\<And>k. FindMember v5 k = (if additionalHeaders info \<noteq> [] \<and> k = ''additionalHeaders''
       then Some (SaveJsonVector SaveJsonString (additionalHeaders info)) else FindMember v4 k)"
    using set_if_find [OF v4(2), of "''additionalHeaders''" "additionalHeaders info \<noteq> []"
        "SaveJsonVector SaveJsonString" "additionalHeaders info"] by auto
  obtain v where v: "set_if (unixEndpoint info \<noteq> []) SaveJsonString ''unixEndpoint'' (unixEndpoint info) v5 = Inr v"
    "IsObject v" "\<And>k. FindMember v k = (if unixEndpoint info \<noteq> [] \<and> k = ''unixEndpoint''
       then Some (SaveJsonString (unixEndpoint info)) else FindMember v5 k)"
    using set_if_find [OF v5(2), of "''unixEndpoint''" "unixEndpoint info \<noteq> []" SaveJsonString "unixEndpoint info"]
    by auto
  have save: "SaveToJson info = Inr v"
    by (simp only: SaveToJson_def v1(1) v2(1) v3(1) v4(1) v5(1) v(1) bindR_simps)
  note find = v(3) v5(3) v4(3) v3(3) v2(3) v1(3)
  note str = load_field_saved [OF string_codec.json_value_codec_axioms _ v(2)]
  have "LoadFromJson lib v (Reset old) = Inr (info \<lparr> userAgent := userAgent old \<rparr>)"
    unfolding LoadFromJson_def
    using assms
    by (simp add: str [where x = "host info" and key = "''host''" and present = "host info \<noteq> []"]
        str [where x = "username info" and key = "''username''" and present = "username info \<noteq> []"]
        str [where x = "password info" and key = "''password''" and present = "password info \<noteq> []"]
        str [where x = "unixEndpoint info" and key = "''unixEndpoint''" and present = "unixEndpoint info \<noteq> []"]
        load_field_saved [OF port_codec.json_value_codec_axioms _ v(2), where x = "httpPort info" and key = "''httpPort''" and present = "httpPort info \<noteq> 0"]
        load_field_saved [OF string_list_codec.json_value_codec_axioms _ v(2), where x = "additionalHeaders info" and key = "''additionalHeaders''" and present = "additionalHeaders info \<noteq> []"]
        find FindMember_def [of "JObject []"] Reset_def)
  with save show ?thesis by blast
qed

lemma ControllerClientInfo_roundtrip_witness:
  "\<exists>v. SaveToJson sample_info = Inr v \<and> LoadFromJson sample_lib v (Reset sample_info) = Inr sample_info"
  using ControllerClientInfo_roundtrip [of sample_info sample_lib sample_info] by (simp add: sample_info_def)

text \<open>C38: For a URL with a user name, no password and a port, as in
  \<^verbatim>\<open>http://user@host:8080\<close>, \<^verbatim>\<open>_ParseClientInfoFromURL\<close> does not return: it takes the colon of
  the port for the one before the password and \<^verbatim>\<open>std::string\<close> throws
  \<^verbatim>\<open>std::length_error\<close> on the negative length.\<close>

theorem ParseClientInfoFromURL_user_port:
  assumes "url_text u" "url_text h"
  shows "fst (ParseClientInfoFromURL (''http://'' @ u @ ''@'' @ h @ '':'' @ dec_of_nat p) old) = Inl LengthError"
proof -
  let ?t = "u @ ''@'' @ h @ '':'' @ dec_of_nat p"
  have slash: "str_chr (CHR ''/'') (''http://'' @ ?t) (4 + 3) = None"
    using assms no_slash_port by (simp add: str_chr_def url_text_def)
  have atpos: "str_chr (CHR ''@'') (''http://'' @ ?t) (4 + 3) = Some (7 + length u)"
    using assms by (simp add: str_chr_def url_text_def str_simps)
  have colon: "str_chr (CHR '':'') (''http://'' @ ?t) (4 + 3) = Some (8 + length u + length h)"
    using assms by (simp add: str_chr_def url_text_def str_simps)
  have "fst (ParseUserPassword (''http://'' @ ?t) (4 + 3) (7 + length u) i) = Inl LengthError" for i
    unfolding ParseUserPassword_def colon by (simp add: range_string_def)
  then have "\<exists>j. ParseUserPassword (''http://'' @ ?t) (4 + 3) (7 + length u) i = (Inl LengthError, j)" for i
    by (metis prod.collapse)
  then obtain j where j: "ParseUserPassword (''http://'' @ ?t) (4 + 3) (7 + length u) (Reset old) = (Inl LengthError, j)"
    by blast
  show ?thesis
    unfolding ParseClientInfoFromURL_def Let_def find_scheme option.case
    by (simp only: atpos slash before_def option.case option.sel if_True j prod.case sum.case fst_conv)
qed

lemma ParseClientInfoFromURL_user_port_witness:
  "fst (ParseClientInfoFromURL ''http://bob@mujin:80'' (Reset sample_info)) = Inl LengthError"
proof -
  have "dec_of_nat 80 = ''80''" by (simp add: dec_of_nat.simps digit_chars)
  with ParseClientInfoFromURL_user_port [of "''bob''" "''mujin''" 80 "Reset sample_info"] show ?thesis
    by (simp add: url_text_def)
qed

end
