(* ===== verification/Subscription.thy ===== *)
theory Subscription
  imports ClientInfo
begin

text \<open>
  The GraphQL subscriptions over a websocket: \<^verbatim>\<open>GraphSubscriptionWebSocketHandler\<close>,
  \<^verbatim>\<open>GraphSubscriptionHandlerImpl\<close> and the chain of asynchronous reads
  \<^verbatim>\<open>_ReadFromSubscriptionStream\<close> of \<^verbatim>\<open>src/controllerclientimpl.cpp\<close>. The handlers are listed in
  the order in which the unordered map iterates over them; an empty \<^verbatim>\<open>std::function\<close> is
  \<open>False\<close>. The calls of the callbacks are a log of the id with the errors and the data
  passed. The lambdas and methods each hold the mutex of the object from begin to end, so
  each is one step.
\<close>

record 'd websocket =
  ws_open :: bool                                   \<comment> \<open>\<^verbatim>\<open>is_open()\<close> of the stream\<close>
  ws_handlers :: "(string \<times> bool) list"
  ws_sent :: "string list"
  ws_calls :: "(string \<times> 'd json \<times> 'd json) list"
  ws_reading :: bool                                \<comment> \<open>an asynchronous read is pending\<close>

record 'd ws_env =
  ws_lib :: "'d lib"
  ws_throws :: "string \<Rightarrow> 'd json \<Rightarrow> 'd json \<Rightarrow> error option"  \<comment> \<open>what a callback throws\<close>
  ws_write_error :: "string \<Rightarrow> error option"
  ws_writer :: "'d json \<Rightarrow> string"                   \<comment> \<open>what a default \<^verbatim>\<open>Writer\<close> has written\<close>
  ws_base64 :: "string \<Rightarrow> string"
  ws_connect_error :: "string \<Rightarrow> error option"
  ws_handshake_error :: "string \<Rightarrow> error option"
  ws_first_reply :: "error + string"

type_synonym ('d, 'a) ws = "'d websocket \<Rightarrow> 'a result \<times> 'd websocket"

definition SendMessage :: "'d ws_env \<Rightarrow> string \<Rightarrow> ('d, unit) ws" where
  "SendMessage env message s =
     (if ws_open s then
        (case ws_write_error env message of
           Some e \<Rightarrow> (Inl e, s)
         | None \<Rightarrow> (Inr (), s \<lparr> ws_sent := ws_sent s @ [message] \<rparr>))
      else (Inr (), s))"

definition ConstructErrorsFromErrorCode :: "string \<Rightarrow> 'd json" where
  "ConstructErrorsFromErrorCode message = JArray [JObject [(''message'', JString (c_str message))]]"

text \<open>The call of a callback: it is logged, and returns or throws.\<close>

definition invoke :: "'d ws_env \<Rightarrow> string \<Rightarrow> 'd json \<Rightarrow> 'd json \<Rightarrow> ('d, unit) ws" where
  "invoke env k errors data s =
     (let s' = s \<lparr> ws_calls := ws_calls s @ [(k, errors, data)] \<rparr> in
      case ws_throws env k errors data of Some e \<Rightarrow> (Inl e, s') | None \<Rightarrow> (Inr (), s'))"

definition ignoring :: "('d, unit) ws \<Rightarrow> 'd websocket \<Rightarrow> 'd websocket" where
  "ignoring m s = snd (m s)"

section \<open>Reading\<close>

text \<open>The completion of a read with an error: every callback gets it and no further read is
  started.\<close>

definition on_read_error :: "'d ws_env \<Rightarrow> string \<Rightarrow> 'd websocket \<Rightarrow> 'd websocket" where
  "on_read_error env errorCode s =
     fold (\<lambda>(k, callable) s.
         if callable then ignoring (invoke env k (ConstructErrorsFromErrorCode errorCode) JNull) s else s)
       (ws_handlers s) (s \<lparr> ws_reading := False \<rparr>)"

definition has_string :: "'d json \<Rightarrow> string \<Rightarrow> bool" where
  "has_string v key \<longleftrightarrow> (case FindMember v key of Some x \<Rightarrow> IsString x | None \<Rightarrow> False)"

text \<open>\<^verbatim>\<open>v[key].GetString()\<close> read as a C string.\<close>

definition c_string_of :: "'d json \<Rightarrow> string \<Rightarrow> string" where
  "c_string_of v key = (case FindMember v key of Some x \<Rightarrow> c_str (GetString x) | None \<Rightarrow> [])"

text \<open>The part of a payload that goes to the callback.\<close>

definition payload_args :: "'d json \<Rightarrow> ('d json \<times> 'd json) option" where
  "payload_args rPayload =
     (case FindMember rPayload ''errors'' of
        Some errors \<Rightarrow>
          if IsArray errors then Some (errors, JNull)
          else (case FindMember rPayload ''data'' of
                  Some data \<Rightarrow> if IsObject data then Some (JNull, data) else None
                | None \<Rightarrow> None)
      | None \<Rightarrow>
          (case FindMember rPayload ''data'' of
             Some data \<Rightarrow> if IsObject data then Some (JNull, data) else None
           | None \<Rightarrow> None))"

text \<open>The completion of a read with a message; in every case the next read is started.\<close>

definition dispatch :: "'d ws_env \<Rightarrow> 'd json \<Rightarrow> 'd websocket \<Rightarrow> 'd websocket" where
  "dispatch env rResult s =
     (if \<not> IsObject rResult \<or> \<not> has_string rResult ''type'' then s
      else if c_string_of rResult ''type'' = ''pong'' \<or> c_string_of rResult ''type'' = ''ka'' then s
      else if \<not> has_string rResult ''id'' then s
      else
        (let subscriptionId = c_string_of rResult ''id'' in
         if map_of (ws_handlers s) subscriptionId = Some True then
           (case FindMember rResult ''payload'' of
              Some rPayload \<Rightarrow>
                if IsObject rPayload then
                  (case payload_args rPayload of
                     Some (errors, data) \<Rightarrow> ignoring (invoke env subscriptionId errors data) s
                   | None \<Rightarrow> s)
                else s
            | None \<Rightarrow> s)
         else s))"

definition on_read_message :: "'d ws_env \<Rightarrow> string \<Rightarrow> 'd websocket \<Rightarrow> 'd websocket" where
  "on_read_message env message s =
     (if length message > 0 then
        (case ParseJson_stream (ws_lib env) message of
           Inl e \<Rightarrow> s
         | Inr rResult \<Rightarrow> dispatch env rResult s)
      else dispatch env JNull s)"

section \<open>Starting and stopping\<close>

definition subscription_request :: "string \<Rightarrow> string \<Rightarrow> 'd json \<Rightarrow> string \<Rightarrow> 'd json" where
  "subscription_request operationName query rVariables subscriptionId =
     JObject [(''type'', JString ''start''),
       (''payload'', JObject [(''operationName'', JString (c_str operationName)),
          (''query'', JString (c_str query)), (''variables'', rVariables)]),
       (''id'', JString (c_str subscriptionId))]"

text \<open>\<^verbatim>\<open>_onReadHandlers[id] = handler\<close>.\<close>

fun put_handler :: "string \<Rightarrow> bool \<Rightarrow> (string \<times> bool) list \<Rightarrow> (string \<times> bool) list" where
  "put_handler k h [] = [(k, h)]"
| "put_handler k h ((k', h') # hs) = (if k = k' then (k, h) # hs else (k', h') # put_handler k h hs)"

definition StartSubscription ::
  "'d ws_env \<Rightarrow> string \<Rightarrow> string \<Rightarrow> string \<Rightarrow> 'd json \<Rightarrow> bool \<Rightarrow> ('d, string) ws" where
  "StartSubscription env subscriptionId operationName query rVariables onReadHandler s =
     (let subscriptionMessage = c_str (ws_writer env (subscription_request operationName query rVariables subscriptionId));
          s = s \<lparr> ws_handlers := put_handler subscriptionId onReadHandler (ws_handlers s) \<rparr> in
      case SendMessage env subscriptionMessage s of
        (Inl e, s) \<Rightarrow> (Inl e, s)
      | (Inr _, s) \<Rightarrow> (Inr subscriptionId, s))"

definition stop_message :: "string \<Rightarrow> string" where
  "stop_message subscriptionId = ''{\"id\":\"'' @ subscriptionId @ ''\",\"type\":\"stop\"}''"

definition StopSubscription :: "'d ws_env \<Rightarrow> string \<Rightarrow> 'd websocket \<Rightarrow> 'd websocket" where
  "StopSubscription env subscriptionId s =
     (if map_of (ws_handlers s) subscriptionId = None then s
      else ignoring (SendMessage env (stop_message subscriptionId))
        (s \<lparr> ws_handlers := filter (\<lambda>x. fst x \<noteq> subscriptionId) (ws_handlers s) \<rparr>))"

text \<open>The destructor of a \<^verbatim>\<open>GraphSubscriptionHandlerImpl\<close>, and \<^verbatim>\<open>IsStreamOpen\<close>.\<close>

definition release_subscription :: "'d ws_env \<Rightarrow> string \<Rightarrow> 'd websocket \<Rightarrow> 'd websocket" where
  "release_subscription env subscriptionId = StopSubscription env subscriptionId"

definition IsStreamOpen :: "'d websocket \<Rightarrow> bool" where
  "IsStreamOpen s = ws_open s"

text \<open>\<^verbatim>\<open>StopAllSubscriptions\<close>: the stream is closed and every callback gets the error "closed"; an
  exception of a callback leaves the function. The handlers stay.\<close>

definition closed_message :: string where
  "closed_message = ''The WebSocket stream was gracefully closed at both endpoints''"

fun notify_closed :: "'d ws_env \<Rightarrow> (string \<times> bool) list \<Rightarrow> ('d, unit) ws" where
  "notify_closed env [] s = (Inr (), s)"
| "notify_closed env ((k, callable) # hs) s =
     (if callable then
        (case invoke env k (ConstructErrorsFromErrorCode closed_message) JNull s of
           (Inl e, s) \<Rightarrow> (Inl e, s)
         | (Inr _, s) \<Rightarrow> notify_closed env hs s)
      else notify_closed env hs s)"

definition StopAllSubscriptions :: "'d ws_env \<Rightarrow> ('d, unit) ws" where
  "StopAllSubscriptions env s = notify_closed env (ws_handlers s) (s \<lparr> ws_open := False \<rparr>)"

text \<open>The destructor closes the stream, waits for the thread that completes the reads, and resets the streams
  and the context. The reads that the thread completes until then, each with an error or a message, are
  given; a callback that throws there leaves a destructor and ends the process, and without a failed read the
  destructor does not return.\<close>

fun complete_reads :: "'d ws_env \<Rightarrow> (string + string) list \<Rightarrow> 'd websocket \<Rightarrow> 'd websocket" where
  "complete_reads env [] s = s"
| "complete_reads env (r # rs) s =
     (if ws_reading s then
        complete_reads env rs (case r of Inl e \<Rightarrow> on_read_error env e s | Inr m \<Rightarrow> on_read_message env m s)
      else s)"

definition destroy_websocket :: "'d ws_env \<Rightarrow> (string + string) list \<Rightarrow> 'd websocket \<Rightarrow> 'd websocket option" where
  "destroy_websocket env reads s =
     (case StopAllSubscriptions env s of
        (Inl e, s) \<Rightarrow> None
      | (Inr _, s) \<Rightarrow> (let s = complete_reads env reads s in if ws_reading s then None else Some s))"

text \<open>The constructor: connect, upgrade, \<^verbatim>\<open>connection_init\<close>, wait for \<^verbatim>\<open>connection_ack\<close>, start to
  read.\<close>

definition connection_init_message :: "'d ws_env \<Rightarrow> ControllerClientInfo \<Rightarrow> string" where
  "connection_init_message env info =
     ''{\"type\":\"connection_init\",\"payload\":{\"Authorization\":\"Basic '' @
     ws_base64 env (username info @ '':'' @ password info) @ ''\"}}''"

definition open_websocket :: "'d ws_env \<Rightarrow> ControllerClientInfo \<Rightarrow> 'd websocket result" where
  "open_websocket env info =
     (let port = (if unixEndpoint info = [] then (if httpPort info = 0 then 80 else unat (httpPort info)) else 80);
          hostname = (if unixEndpoint info = [] then host info else ''localhost'');
          endpoint = (if unixEndpoint info = [] then host info @ '':'' @ dec_of_nat port else unixEndpoint info);
          s = \<lparr> ws_open = True, ws_handlers = [], ws_sent = [], ws_calls = [], ws_reading = False \<rparr> in
      case ws_connect_error env endpoint of
        Some e \<Rightarrow> Inl e
      | None \<Rightarrow>
          (case ws_handshake_error env (hostname @ '':'' @ dec_of_nat port) of
             Some e \<Rightarrow> Inl e
           | None \<Rightarrow>
               (case SendMessage env (connection_init_message env info) s of
                  (Inl e, s) \<Rightarrow> Inl e
                | (Inr _, s) \<Rightarrow>
                    (case ws_first_reply env of
                       Inl e \<Rightarrow> Inl e
                     | Inr message \<Rightarrow>
                         if find_str ''connection_ack'' message = None
                         then Inl (MujinException (''Failed to initialize websocket connection, Expected '' @ [CHR 0x27] @ ''connection_ack'' @ [CHR 0x27] @ '' in response, but got: '' @ message) MEC_HTTPServer)
                         else Inr (s \<lparr> ws_reading := True \<rparr>)))))"

section \<open>The object as a state machine\<close>

text \<open>What happens to the object: the calls of its client, and the completions of the pending
  read, which come on the thread of the I/O service.\<close>

datatype 'd ws_event =
    EStart string string string "'d json" bool
  | EStop string
  | EStopAll
  | EReadError string
  | EMessage string

inductive ws_step :: "'d ws_env \<Rightarrow> 'd websocket \<Rightarrow> 'd ws_event \<Rightarrow> 'd websocket \<Rightarrow> bool" for env where
  start: "StartSubscription env k operationName query vars h s = (r, s') \<Longrightarrow>
    ws_step env s (EStart k operationName query vars h) s'"
| stop: "ws_step env s (EStop k) (StopSubscription env k s)"
| stop_all: "StopAllSubscriptions env s = (r, s') \<Longrightarrow> ws_step env s EStopAll s'"
| read_error: "ws_reading s \<Longrightarrow> ws_step env s (EReadError e) (on_read_error env e s)"
| message: "ws_reading s \<Longrightarrow> ws_step env s (EMessage m) (on_read_message env m s)"

inductive_cases ws_step_cases:
  "ws_step env s (EStart k op q v h) s'" "ws_step env s (EStop k) s'" "ws_step env s EStopAll s'"
  "ws_step env s (EReadError e) s'" "ws_step env s (EMessage m) s'"

inductive ws_run :: "'d ws_env \<Rightarrow> 'd websocket \<Rightarrow> 'd ws_event list \<Rightarrow> 'd websocket \<Rightarrow> bool" for env where
  finished: "ws_run env s [] s"
| step: "ws_step env s e s1 \<Longrightarrow> ws_run env s1 es s' \<Longrightarrow> ws_run env s (e # es) s'"

inductive_simps ws_run_simps: "ws_run env s [] s'" "ws_run env s (e # es) s'"

section \<open>What a step leaves\<close>

definition callable_ids :: "'d websocket \<Rightarrow> string set" where
  "callable_ids s = {k. (k, True) \<in> set (ws_handlers s)}"

definition call_ids :: "'d websocket \<Rightarrow> string set" where
  "call_ids s = fst ` set (ws_calls s)"

lemma SendMessage_fields:
  assumes "SendMessage env m s = (r, s')"
  shows "ws_handlers s' = ws_handlers s" "ws_calls s' = ws_calls s" "ws_reading s' = ws_reading s"
  using assms by (auto simp: SendMessage_def split: if_splits option.splits)

lemma invoke_fields:
  assumes "invoke env k x y s = (r, s')"
  shows "ws_handlers s' = ws_handlers s" "ws_calls s' = ws_calls s @ [(k, x, y)]" "ws_reading s' = ws_reading s"
  using assms by (auto simp: invoke_def Let_def split: option.splits)

lemma ignoring_invoke [simp]:
  "ws_handlers (ignoring (invoke env k x y) s) = ws_handlers s"
  "ws_calls (ignoring (invoke env k x y) s) = ws_calls s @ [(k, x, y)]"
  "ws_reading (ignoring (invoke env k x y) s) = ws_reading s"
  by (simp_all add: ignoring_def invoke_def Let_def split: option.splits)

lemma put_handler_ids: "set (put_handler k h hs) \<subseteq> insert (k, h) (set hs)"
  by (induction k h hs rule: put_handler.induct) auto

lemma put_handler_distinct: "distinct (map fst hs) \<Longrightarrow> distinct (map fst (put_handler k h hs))"
proof (induction k h hs rule: put_handler.induct)
  case (2 k h k' h' hs)
  have "fst ` set (put_handler k h hs) \<subseteq> insert k (fst ` set hs)" using put_handler_ids [of k h hs] by auto
  with 2 show ?case by auto
qed simp

text \<open>\<open>calls_only K s s'\<close>: from \<open>s\<close> to \<open>s'\<close> only callbacks with an id of \<open>K\<close> have been called.\<close>

definition calls_only :: "string set \<Rightarrow> 'd websocket \<Rightarrow> 'd websocket \<Rightarrow> bool" where
  "calls_only K s s' \<longleftrightarrow> (\<exists>cs. ws_calls s' = ws_calls s @ cs \<and> fst ` set cs \<subseteq> K)"

lemma calls_only_same: "ws_calls s' = ws_calls s \<Longrightarrow> calls_only K s s'"
  by (simp add: calls_only_def)

lemma calls_only_one: "ws_calls s' = ws_calls s @ [(k, x, y)] \<Longrightarrow> k \<in> K \<Longrightarrow> calls_only K s s'"
  by (simp add: calls_only_def)

lemma calls_only_trans: "calls_only K s s' \<Longrightarrow> calls_only L s' s'' \<Longrightarrow> calls_only (K \<union> L) s s''"
  unfolding calls_only_def by (elim exE conjE, rule exI, rule conjI, simp, auto)

lemma calls_only_mono: "calls_only K s s' \<Longrightarrow> K \<subseteq> L \<Longrightarrow> calls_only L s s'"
  by (auto simp: calls_only_def)

lemma calls_only_ids: "calls_only K s s' \<Longrightarrow> call_ids s' \<subseteq> call_ids s \<union> K"
  by (force simp: calls_only_def call_ids_def)

lemma calls_only_filter:
  "calls_only K s s' \<Longrightarrow> k \<notin> K \<Longrightarrow> filter (\<lambda>c. fst c = k) (ws_calls s') = filter (\<lambda>c. fst c = k) (ws_calls s)"
  by (force simp: calls_only_def filter_empty_conv)

lemma notify_closed_fields:
  assumes "notify_closed env hs s = (r, s')"
  shows "ws_handlers s' = ws_handlers s" "ws_reading s' = ws_reading s"
    "calls_only {k. (k, True) \<in> set hs} s s'"
proof -
  have "ws_handlers s' = ws_handlers s \<and> ws_reading s' = ws_reading s \<and>
    calls_only {k. (k, True) \<in> set hs} s s'"
    using assms
  proof (induction hs arbitrary: s)
    case (Cons x hs)
    obtain k c where x: "x = (k, c)" by fastforce
    obtain r1 s1 where i: "invoke env k (ConstructErrorsFromErrorCode closed_message) JNull s = (r1, s1)" by fastforce
    note f = invoke_fields [OF i]
    have one: "calls_only {k} s s1" using f(2) by (rule calls_only_one) simp
    show ?case
    proof (cases "c \<and> (\<exists>u. r1 = Inr u)")
      case True
      then obtain u where "c" "r1 = Inr u" by blast
      with Cons.prems have "notify_closed env hs s1 = (r, s')" by (simp add: x i)
      note ih = Cons.IH [OF this]
      from ih have "calls_only {k. (k, True) \<in> set hs} s1 s'" by simp
      then have "calls_only {k. (k, True) \<in> set (x # hs)} s s'"
        by (rule calls_only_mono [OF calls_only_trans [OF one]]) (use True x in auto)
      with ih f show ?thesis by simp
    next
      case False
      with Cons.prems consider "\<not> c" "notify_closed env hs s = (r, s')" | "c" "s' = s1"
        by (cases r1) (simp_all add: x i split: if_splits)
      then show ?thesis
      proof cases
        case 1
        note ih = Cons.IH [OF 1(2)]
        from ih have "calls_only {k. (k, True) \<in> set (x # hs)} s s'"
          by (elim conjE calls_only_mono) auto
        with ih show ?thesis by simp
      next
        case 2
        have "calls_only {k. (k, True) \<in> set (x # hs)} s s'"
          unfolding 2(2) by (rule calls_only_mono [OF one]) (use 2(1) x in simp)
        with 2 f show ?thesis by simp
      qed
    qed
  qed (simp add: calls_only_same)
  then show "ws_handlers s' = ws_handlers s" "ws_reading s' = ws_reading s"
    "calls_only {k. (k, True) \<in> set hs} s s'" by auto
qed

lemma on_read_error_fields:
  "ws_handlers (on_read_error env e s) = ws_handlers s" "\<not> ws_reading (on_read_error env e s)"
  "ws_calls (on_read_error env e s) = ws_calls s @
     map (\<lambda>(k, c). (k, ConstructErrorsFromErrorCode e, JNull)) (filter snd (ws_handlers s))"
proof -
  let ?f = "\<lambda>(k, callable) s. if callable
    then ignoring (invoke env k (ConstructErrorsFromErrorCode e) JNull) s else (s :: 'a websocket)"
  have "ws_handlers (fold ?f hs s0) = ws_handlers s0 \<and> ws_reading (fold ?f hs s0) = ws_reading s0 \<and>
      ws_calls (fold ?f hs s0) = ws_calls s0 @ map (\<lambda>(k, c). (k, ConstructErrorsFromErrorCode e, JNull)) (filter snd hs)"
    for hs s0
  proof (induction hs arbitrary: s0)
    case (Cons x hs)
    show ?case by (cases x) (simp add: Cons.IH)
  qed simp
  from this [of "ws_handlers s" "s \<lparr> ws_reading := False \<rparr>"]
  show "ws_handlers (on_read_error env e s) = ws_handlers s" "\<not> ws_reading (on_read_error env e s)"
    "ws_calls (on_read_error env e s) = ws_calls s @
     map (\<lambda>(k, c). (k, ConstructErrorsFromErrorCode e, JNull)) (filter snd (ws_handlers s))"
    by (auto simp: on_read_error_def)
qed

lemma on_read_error_calls: "calls_only (callable_ids s) s (on_read_error env e s)"
  unfolding calls_only_def on_read_error_fields(3)
  by (auto simp: callable_ids_def)

lemma dispatch_fields:
  "ws_handlers (dispatch env v s) = ws_handlers s \<and> ws_reading (dispatch env v s) = ws_reading s \<and>
   calls_only (callable_ids s) s (dispatch env v s)"
  by (auto simp: dispatch_def calls_only_def callable_ids_def Let_def dest!: map_of_SomeD
      split: if_splits option.splits)

lemma on_read_message_fields:
  "ws_handlers (on_read_message env m s) = ws_handlers s" "ws_reading (on_read_message env m s) = ws_reading s"
  "calls_only (callable_ids s) s (on_read_message env m s)"
  using dispatch_fields by (auto simp: on_read_message_def calls_only_same split: sum.splits)

lemma StartSubscription_fields:
  assumes "StartSubscription env k op q vars h s = (r, s')"
  shows "ws_handlers s' = put_handler k h (ws_handlers s)" "ws_calls s' = ws_calls s" "ws_reading s' = ws_reading s"
  using assms by (auto simp: StartSubscription_def Let_def dest: SendMessage_fields split: prod.splits sum.splits)

lemma ignoring_SendMessage [simp]:
  "ws_handlers (ignoring (SendMessage env m) s) = ws_handlers s"
  "ws_calls (ignoring (SendMessage env m) s) = ws_calls s"
  "ws_reading (ignoring (SendMessage env m) s) = ws_reading s"
  by (simp_all add: ignoring_def SendMessage_def split: option.splits)

lemma StopSubscription_fields:
  "ws_handlers (StopSubscription env k s) = filter (\<lambda>x. fst x \<noteq> k) (ws_handlers s)"
  "ws_calls (StopSubscription env k s) = ws_calls s" "ws_reading (StopSubscription env k s) = ws_reading s"
  by (auto simp: StopSubscription_def map_of_eq_None_iff image_iff intro!: filter_True [symmetric])

lemma StopAllSubscriptions_fields:
  assumes "StopAllSubscriptions env s = (r, s')"
  shows "ws_handlers s' = ws_handlers s" "ws_reading s' = ws_reading s" "calls_only (callable_ids s) s s'"
  using notify_closed_fields [OF assms [unfolded StopAllSubscriptions_def]]
  by (auto simp: calls_only_def callable_ids_def)

text \<open>The ids an event subscribes with a callback that can be called.\<close>

fun starts :: "'d ws_event \<Rightarrow> string set" where
  "starts (EStart k _ _ _ h) = (if h then {k} else {})"
| "starts _ = {}"

definition starts_in :: "'d ws_event list \<Rightarrow> string set" where
  "starts_in es = \<Union> (starts ` set es)"

fun is_read :: "'d ws_event \<Rightarrow> bool" where
  "is_read (EReadError _) = True"
| "is_read (EMessage _) = True"
| "is_read _ = False"

lemma ws_step_fields:
  assumes "ws_step env s e s'"
  shows "calls_only (callable_ids s) s s'" "callable_ids s' \<subseteq> callable_ids s \<union> starts e"
    "distinct (map fst (ws_handlers s)) \<Longrightarrow> distinct (map fst (ws_handlers s'))"
    "ws_reading s' \<Longrightarrow> ws_reading s" "is_read e \<Longrightarrow> ws_reading s"
proof -
  have "calls_only (callable_ids s) s s' \<and> callable_ids s' \<subseteq> callable_ids s \<union> starts e \<and>
    (distinct (map fst (ws_handlers s)) \<longrightarrow> distinct (map fst (ws_handlers s'))) \<and>
    (ws_reading s' \<longrightarrow> ws_reading s) \<and> (is_read e \<longrightarrow> ws_reading s)"
    using assms
  proof (cases rule: ws_step.cases)
    case (start k op q vars h r)
    note f = StartSubscription_fields [OF start(2)]
    show ?thesis using put_handler_ids [of k h "ws_handlers s"]
      by (auto simp: f callable_ids_def start(1) put_handler_distinct intro: calls_only_same)
  next
    case (stop k)
    then show ?thesis
      by (auto simp: callable_ids_def StopSubscription_fields distinct_map_filter intro: calls_only_same)
  next
    case (stop_all r)
    then show ?thesis using StopAllSubscriptions_fields [OF stop_all(2)] by (simp add: callable_ids_def)
  next
    case (read_error x)
    then show ?thesis using on_read_error_calls [where env = env and e = x and s = s] by (simp add: callable_ids_def on_read_error_fields)
  next
    case (message m)
    then show ?thesis using on_read_message_fields [where env = env and m = m and s = s] by (simp add: callable_ids_def)
  qed
  then show "calls_only (callable_ids s) s s'" "callable_ids s' \<subseteq> callable_ids s \<union> starts e"
    "distinct (map fst (ws_handlers s)) \<Longrightarrow> distinct (map fst (ws_handlers s'))"
    "ws_reading s' \<Longrightarrow> ws_reading s" "is_read e \<Longrightarrow> ws_reading s" by blast+
qed

lemma ws_run_calls:
  "ws_run env s es s' \<Longrightarrow> calls_only (callable_ids s \<union> starts_in es) s s' \<and>
     callable_ids s' \<subseteq> callable_ids s \<union> starts_in es"
proof (induction rule: ws_run.induct)
  case (step s e s1 es s')
  note f = ws_step_fields [OF step.hyps(1)]
  have m: "callable_ids s1 \<union> starts_in es \<subseteq> callable_ids s \<union> starts_in (e # es)"
    using f(2) by (auto simp: starts_in_def)
  have "calls_only (callable_ids s \<union> starts_in (e # es)) s s'"
    by (rule calls_only_mono [OF calls_only_trans [OF f(1) conjunct1 [OF step.IH]]]) (use m in auto)
  with step.IH m show ?case by blast
qed (simp add: calls_only_same)

lemma ws_run_distinct:
  "ws_run env s es s' \<Longrightarrow> distinct (map fst (ws_handlers s)) \<Longrightarrow> distinct (map fst (ws_handlers s'))"
  by (induction rule: ws_run.induct) (auto dest: ws_step_fields(3))

lemma ws_run_not_reading:
  "ws_run env s es s' \<Longrightarrow> \<not> ws_reading s \<Longrightarrow> \<not> ws_reading s' \<and> filter is_read es = []"
  by (induction rule: ws_run.induct) (auto dest: ws_step_fields(4,5))

section \<open>Properties\<close>

lemma open_websocket_initial:
  "open_websocket env info = Inr s \<Longrightarrow> ws_handlers s = [] \<and> ws_calls s = [] \<and> ws_reading s"
  by (auto simp: open_websocket_def Let_def SendMessage_def split: option.splits sum.splits if_splits prod.splits)

lemma open_websocket_distinct:
  "open_websocket env info = Inr s \<Longrightarrow> ws_run env s es s' \<Longrightarrow> distinct (map fst (ws_handlers s'))"
  using open_websocket_initial [of env info s] ws_run_distinct [of env s es s'] by simp

lemma callable_filter:
  "distinct (map fst hs) \<Longrightarrow> (k, True) \<in> set hs \<Longrightarrow> filter (\<lambda>x. fst x = k) (filter snd hs) = [(k, True)]"
proof (induction hs)
  case (Cons x hs)
  then show ?case by (cases x) (auto simp: filter_empty_conv)
qed simp

lemma filter_error_calls:
  "filter (\<lambda>c. fst c = k) (map (\<lambda>(k, c). (k, x, y)) hs) =
   map (\<lambda>(k, c). (k, x, y)) (filter (\<lambda>h. fst h = k) hs)"
  by (induction hs) auto

text \<open>A library and an environment to try the definitions on: every message is the object
  \<open>reply\<close>, nothing fails.\<close>

definition sample_ws :: "'d lib \<Rightarrow> string \<Rightarrow> 'd ws_env" where
  "sample_ws lib reply = \<lparr> ws_lib = lib, ws_throws = (\<lambda>_ _ _. None), ws_write_error = (\<lambda>_. None),
     ws_writer = (\<lambda>_. []), ws_base64 = id, ws_connect_error = (\<lambda>_. None), ws_handshake_error = (\<lambda>_. None),
     ws_first_reply = Inr reply \<rparr>"

text \<open>C5: From the opening of the websocket on, whatever the client calls and the server sends,
  only callbacks that the client has subscribed, and that can be called, are called, and an
  id has one callback at a time.\<close>

theorem ws_run_only_subscribed:
  assumes "open_websocket env info = Inr s" and "ws_run env s es s'"
  shows "call_ids s' \<subseteq> starts_in es \<and> distinct (map fst (ws_handlers s'))"
proof -
  note i = open_websocket_initial [OF assms(1)]
  then have "callable_ids s = {}" "call_ids s = {}" by (simp_all add: callable_ids_def call_ids_def)
  with calls_only_ids [OF conjunct1 [OF ws_run_calls [OF assms(2)]]]
  have "call_ids s' \<subseteq> starts_in es" by simp
  with open_websocket_distinct [OF assms] show ?thesis by simp
qed

text \<open>C22: When a read fails, every callback that can be called gets the error exactly once, no
  other callback is called, and nothing is read any more: neither a message nor a second
  failure can follow.\<close>

theorem read_error_is_final:
  assumes "open_websocket env info = Inr s" and "ws_run env s es s1"
    and "ws_step env s1 (EReadError e) s2" and "ws_run env s2 es' s3"
  shows "filter is_read es' = [] \<and>
    filter (\<lambda>c. fst c = k) (ws_calls s2) = filter (\<lambda>c. fst c = k) (ws_calls s1) @
      (if (k, True) \<in> set (ws_handlers s1) then [(k, ConstructErrorsFromErrorCode e, JNull)] else [])"
proof -
  from assms(3) have s2: "s2 = on_read_error env e s1" by (cases rule: ws_step_cases(4)) simp
  have d: "distinct (map fst (ws_handlers s1))" by (rule open_websocket_distinct [OF assms(1,2)])
  have "filter is_read es' = []"
    using ws_run_not_reading [OF assms(4)] on_read_error_fields(2) s2 by blast
  moreover have "filter (\<lambda>x. fst x = k) (filter snd (ws_handlers s1)) =
      (if (k, True) \<in> set (ws_handlers s1) then [(k, True)] else [])"
    using callable_filter [OF d] by (auto simp: filter_empty_conv)
  ultimately show ?thesis
    by (simp add: s2 on_read_error_fields(3) filter_error_calls del: filter_filter)
qed

text \<open>C21: After the client has stopped a subscription its callback is not called again, until the
  client subscribes with the same id.\<close>

theorem stopped_is_silent:
  assumes "ws_run env (StopSubscription env k s) es s'" and "k \<notin> starts_in es"
  shows "filter (\<lambda>c. fst c = k) (ws_calls s') = filter (\<lambda>c. fst c = k) (ws_calls s)"
proof -
  have "k \<notin> callable_ids (StopSubscription env k s) \<union> starts_in es"
    using assms(2) by (simp add: callable_ids_def StopSubscription_fields)
  from calls_only_filter [OF conjunct1 [OF ws_run_calls [OF assms(1)]] this]
  show ?thesis by (simp add: StopSubscription_fields)
qed

text \<open>C20: A message of the server for a subscribed id reaches the callback of that id and no
  other: with the errors when there is a list of errors, even beside data, and with the data
  otherwise.\<close>

theorem message_delivery:
  assumes "ParseJson_stream (ws_lib env) m = Inr (JObject ms)" and "m \<noteq> []"
    and "FindMember (JObject ms) ''type'' = Some (JString t)" and "c_str t \<notin> {''pong'', ''ka''}"
    and "FindMember (JObject ms) ''id'' = Some (JString k)" and "map_of (ws_handlers s) (c_str k) = Some True"
    and "FindMember (JObject ms) ''payload'' = Some (JObject ps)"
  shows "ws_calls (on_read_message env m s) = ws_calls s @
    (case FindMember (JObject ps) ''errors'' of
       Some (JArray es) \<Rightarrow> [(c_str k, JArray es, JNull)]
     | _ \<Rightarrow> (case FindMember (JObject ps) ''data'' of
          Some (JObject ds) \<Rightarrow> [(c_str k, JNull, JObject ds)]
        | _ \<Rightarrow> []))"
  using assms
  by (simp add: on_read_message_def dispatch_def has_string_def c_string_of_def payload_args_def
      split: option.splits json.splits)

lemma notify_closed_calls:
  "notify_closed env hs s = (Inr (), s') \<Longrightarrow>
   ws_calls s' = ws_calls s @ map (\<lambda>(k, c). (k, ConstructErrorsFromErrorCode closed_message, JNull)) (filter snd hs)"
proof (induction hs arbitrary: s)
  case (Cons x hs)
  obtain k c where x: "x = (k, c)" by fastforce
  show ?case
  proof (cases c)
    case True
    obtain r1 s1 where i: "invoke env k (ConstructErrorsFromErrorCode closed_message) JNull s = (r1, s1)" by fastforce
    with Cons.prems True have "notify_closed env hs s1 = (Inr (), s')" by (cases r1) (simp_all add: x)
    from Cons.IH [OF this] invoke_fields(2) [OF i] True show ?thesis by (simp add: x)
  next
    case False
    with Cons.prems have "notify_closed env hs s = (Inr (), s')" by (simp add: x)
    from Cons.IH [OF this] False show ?thesis by (simp add: x)
  qed
qed simp

text \<open>When all handles are gone, no callback is left: destroying the object then calls none, and it returns as
  soon as the closing makes the pending read fail.\<close>

lemma complete_reads_silent:
  "ws_handlers s = [] \<Longrightarrow> ws_calls (complete_reads env rs s) = ws_calls s \<and> ws_handlers (complete_reads env rs s) = []"
proof (induction rs arbitrary: s)
  case (Cons r rs)
  have "dispatch env v s = s" for v using Cons.prems by (simp add: dispatch_def Let_def)
  then have "on_read_message env m s = s" for m by (simp add: on_read_message_def split: sum.split)
  with Cons show ?case by (auto simp: on_read_error_def split: sum.split)
qed simp

lemma complete_reads_ends: "Inl e \<in> set rs \<Longrightarrow> \<not> ws_reading (complete_reads env rs s)"
proof (induction rs arbitrary: s)
  case (Cons r rs)
  have "\<not> ws_reading s \<Longrightarrow> \<not> ws_reading (complete_reads env rs s)" for s by (cases rs) simp_all
  from this [OF on_read_error_fields(2)] Cons show ?case by (cases r) auto
qed simp

lemma released_destroyed:
  assumes "ws_handlers s = []" and "Inl e \<in> set reads"
  shows "\<exists>s'. destroy_websocket env reads s = Some s' \<and> ws_calls s' = ws_calls s"
  using assms(1) complete_reads_ends [OF assms(2)] complete_reads_silent [of "s \<lparr> ws_open := False \<rparr>"]
  by (simp add: destroy_websocket_def StopAllSubscriptions_def Let_def)

text \<open>C40: \<^verbatim>\<open>StopAllSubscriptions\<close> tells every callback that the stream was closed and forgets none
  of them: the read that the closing makes fail tells each of them a second time.\<close>

theorem stop_all_tells_twice:
  assumes "open_websocket env info = Inr s0" and "ws_run env s0 es s"
    and "StopAllSubscriptions env s = (Inr (), s1)" and "ws_step env s1 (EReadError e) s2"
    and "(k, True) \<in> set (ws_handlers s)"
  shows "filter (\<lambda>c. fst c = k) (ws_calls s2) = filter (\<lambda>c. fst c = k) (ws_calls s) @
    [(k, ConstructErrorsFromErrorCode closed_message, JNull), (k, ConstructErrorsFromErrorCode e, JNull)]"
proof -
  have d: "distinct (map fst (ws_handlers s))" by (rule open_websocket_distinct [OF assms(1,2)])
  have s2: "s2 = on_read_error env e s1" using assms(4) by (cases rule: ws_step_cases(4)) simp
  have h: "ws_handlers s1 = ws_handlers s" by (rule StopAllSubscriptions_fields [OF assms(3)])
  show ?thesis
    using notify_closed_calls [OF assms(3) [unfolded StopAllSubscriptions_def]] callable_filter [OF d assms(5)]
    by (simp add: s2 h on_read_error_fields(3) filter_error_calls del: filter_filter)
qed

section \<open>Concrete runs\<close>

definition sample_socket :: "nat websocket" where
  "sample_socket = \<lparr> ws_open = True, ws_handlers = [], ws_sent = [''{\"type\":\"connection_init\",\"payload\":{\"Authorization\":\"Basic :\"}}''],
     ws_calls = [], ws_reading = True \<rparr>"

definition sample_message :: "nat json" where
  "sample_message = JObject [(''type'', JString ''next''), (''id'', JString ''a''),
     (''payload'', JObject [(''data'', JObject [])])]"

definition message_lib :: "nat lib" where
  "message_lib = sample_lib \<lparr> parse_json := (\<lambda>_. Inr sample_message) \<rparr>"

definition sample_env :: "nat ws_env" where
  "sample_env = sample_ws message_lib ''connection_ack''"

definition sample_info0 :: ControllerClientInfo where
  "sample_info0 = \<lparr> host = [], httpPort = 0, username = [], password = [], additionalHeaders = [],
     unixEndpoint = [], userAgent = [] \<rparr>"

lemma sample_open: "open_websocket sample_env sample_info0 = Inr sample_socket"
  by (simp add: open_websocket_def sample_env_def sample_ws_def sample_info0_def sample_socket_def
      SendMessage_def connection_init_message_def)

definition sample_started :: "nat websocket" where
  "sample_started = sample_socket \<lparr> ws_handlers := [(''a'', True)], ws_sent := ws_sent sample_socket @ [[]] \<rparr>"

definition sample_error :: "nat json" where
  "sample_error = ConstructErrorsFromErrorCode ''eof''"

lemma sample_start:
  "ws_step sample_env sample_socket (EStart ''a'' ''op'' ''q'' JNull True) sample_started"
  by (rule ws_step.start [where r = "Inr ''a''"])
    (simp add: StartSubscription_def SendMessage_def sample_env_def sample_ws_def sample_started_def
      sample_socket_def c_str_def)

lemma sample_failed:
  "ws_step sample_env sample_started (EReadError ''eof'') (on_read_error sample_env ''eof'' sample_started)"
  by (rule ws_step.read_error) (simp add: sample_started_def sample_socket_def)

lemma sample_run: "ws_run sample_env sample_socket [EStart ''a'' ''op'' ''q'' JNull True] sample_started"
  by (rule ws_run.step [OF sample_start ws_run.finished])

lemma ws_run_only_subscribed_witness:
  "call_ids (on_read_error sample_env ''eof'' sample_started) \<subseteq>
    starts_in [EStart ''a'' ''op'' ''q'' (JNull :: nat json) True, EReadError ''eof''] \<and>
   distinct (map fst (ws_handlers (on_read_error sample_env ''eof'' sample_started)))"
  by (rule ws_run_only_subscribed [OF sample_open ws_run.step [OF sample_start ws_run.step [OF sample_failed ws_run.finished]]])

lemma read_error_is_final_witness:
  "filter (\<lambda>c. fst c = ''a'') (ws_calls (on_read_error sample_env ''eof'' sample_started)) =
   [(''a'', JArray [JObject [(''message'', JString ''eof'')]], JNull)]"
  using read_error_is_final [OF sample_open sample_run sample_failed ws_run.finished, of "''a''"]
  by (simp add: sample_started_def sample_socket_def ConstructErrorsFromErrorCode_def)

lemma stopped_is_silent_witness:
  "filter (\<lambda>c. fst c = ''a'') (ws_calls (StopSubscription sample_env ''a'' sample_started)) =
   filter (\<lambda>c. fst c = ''a'') (ws_calls sample_started)"
  by (rule stopped_is_silent [OF ws_run.finished]) (simp add: starts_in_def)

lemma message_delivery_witness:
  "ws_calls (on_read_message sample_env ''m'' sample_started) = [(''a'', JNull, JObject [])]"
  using message_delivery [of sample_env "''m''" "[(''type'', JString ''next''), (''id'', JString ''a''),
     (''payload'', JObject [(''data'', JObject [])])]" "''next''" "''a''" sample_started "[(''data'', JObject [])]"]
  by (simp add: sample_env_def sample_ws_def message_lib_def sample_message_def ParseJson_stream_def
      FindMember_def members_def sample_started_def sample_socket_def)

lemma sample_stop_all:
  "StopAllSubscriptions sample_env sample_started =
   (Inr (), sample_started \<lparr> ws_open := False, ws_calls := [(''a'', ConstructErrorsFromErrorCode closed_message, JNull)] \<rparr>)"
  by (simp add: StopAllSubscriptions_def invoke_def sample_env_def sample_ws_def sample_started_def sample_socket_def)

lemma stop_all_tells_twice_witness:
  "\<exists>s2 :: nat websocket. map fst (ws_calls s2) = [''a'', ''a''] \<and> filter (\<lambda>c. fst c = ''a'') (ws_calls s2) =
     [(''a'', ConstructErrorsFromErrorCode closed_message, JNull), (''a'', ConstructErrorsFromErrorCode ''eof'', JNull)]"
proof -
  let ?s = "sample_started \<lparr> ws_open := False, ws_calls := [(''a'', ConstructErrorsFromErrorCode closed_message, JNull)] \<rparr>"
  have "ws_step sample_env ?s (EReadError ''eof'') (on_read_error sample_env ''eof'' ?s)"
    by (rule ws_step.read_error) (simp add: sample_started_def sample_socket_def)
  from stop_all_tells_twice [OF sample_open sample_run sample_stop_all this, of "''a''"]
  have 1: "filter (\<lambda>c. fst c = ''a'') (ws_calls (on_read_error sample_env ''eof'' ?s)) =
     [(''a'', ConstructErrorsFromErrorCode closed_message, JNull), (''a'', ConstructErrorsFromErrorCode ''eof'', JNull)]"
    by (simp add: sample_started_def sample_socket_def)
  have 2: "map fst (ws_calls (on_read_error sample_env ''eof'' ?s)) = [''a'', ''a'']"
    by (simp add: on_read_error_fields sample_started_def sample_socket_def)
  show ?thesis by (rule exI, rule conjI, rule 2, rule 1)
qed

end
