(* ===== verification/Utf8.thy ===== *)
theory Utf8
  imports Exceptions
begin

unbundle bit_operations_syntax

text \<open>
  The conversions between UTF-8 and UTF-16 that the client uses, from \<^verbatim>\<open>src/utf8/core.h\<close>
  and \<^verbatim>\<open>src/utf8/checked.h\<close>. A byte string is a list of 8-bit words, a \<^verbatim>\<open>std::wstring\<close> a
  list of 32-bit words (\<^verbatim>\<open>wchar_t\<close>) of which \<^verbatim>\<open>mask16\<close> keeps 16 bits. An iterator into the
  input is the rest of the input.
\<close>

type_synonym octets = "8 word list"
type_synonym wstring = "32 word list"

section \<open>Core\<close>

definition mask16 :: "32 word \<Rightarrow> 32 word" where
  "mask16 oc = 0xffff AND oc"

definition is_trail :: "8 word \<Rightarrow> bool" where
  "is_trail oc \<longleftrightarrow> drop_bit 6 oc = 0x2"

definition is_lead_surrogate :: "32 word \<Rightarrow> bool" where
  "is_lead_surrogate cp \<longleftrightarrow> cp \<ge> 0xd800 \<and> cp \<le> 0xdbff"

definition is_trail_surrogate :: "32 word \<Rightarrow> bool" where
  "is_trail_surrogate cp \<longleftrightarrow> cp \<ge> 0xdc00 \<and> cp \<le> 0xdfff"

definition is_surrogate :: "32 word \<Rightarrow> bool" where
  "is_surrogate cp \<longleftrightarrow> cp \<ge> 0xd800 \<and> cp \<le> 0xdfff"

definition is_code_point_valid :: "32 word \<Rightarrow> bool" where
  "is_code_point_valid cp \<longleftrightarrow> cp \<le> 0x10ffff \<and> \<not> is_surrogate cp"

definition SURROGATE_OFFSET :: "32 word" where
  "SURROGATE_OFFSET = 0x10000 - push_bit 10 0xd800 - 0xdc00"

definition LEAD_OFFSET :: "16 word" where
  "LEAD_OFFSET = ucast (0xd800 - drop_bit 10 0x10000 :: 32 word)"

definition sequence_length :: "8 word \<Rightarrow> nat" where
  "sequence_length lead =
     (if lead < 0x80 then 1
      else if drop_bit 5 lead = 0x6 then 2
      else if drop_bit 4 lead = 0xe then 3
      else if drop_bit 3 lead = 0x1e then 4
      else 0)"

definition is_overlong_sequence :: "32 word \<Rightarrow> nat \<Rightarrow> bool" where
  "is_overlong_sequence cp n =
     (if cp < 0x80 then n \<noteq> 1
      else if cp < 0x800 then n \<noteq> 2
      else if cp < 0x10000 then n \<noteq> 3
      else False)"

datatype utf_error = NOT_ENOUGH_ROOM | INVALID_LEAD | INCOMPLETE_SEQUENCE | OVERLONG_SEQUENCE | INVALID_CODE_POINT

text \<open>\<^verbatim>\<open>++it\<close>, which must give a trail octet: the octet and the rest after it.\<close>

fun increase_safely :: "octets \<Rightarrow> utf_error + 8 word \<times> octets" where
  "increase_safely [] = Inl NOT_ENOUGH_ROOM"
| "increase_safely (oc # it) = (if is_trail oc then Inr (oc, it) else Inl INCOMPLETE_SEQUENCE)"

definition get_sequence_2 :: "8 word \<Rightarrow> octets \<Rightarrow> utf_error + 32 word \<times> octets" where
  "get_sequence_2 lead it =
     bindR (increase_safely it) (\<lambda>(oc1, it).
     Inr ((push_bit 6 (ucast lead) AND 0x7ff) + (ucast oc1 AND 0x3f), it))"

definition get_sequence_3 :: "8 word \<Rightarrow> octets \<Rightarrow> utf_error + 32 word \<times> octets" where
  "get_sequence_3 lead it =
     bindR (increase_safely it) (\<lambda>(oc1, it).
     bindR (increase_safely it) (\<lambda>(oc2, it).
     Inr ((push_bit 12 (ucast lead) AND 0xffff) + (push_bit 6 (ucast oc1) AND 0xfff) + (ucast oc2 AND 0x3f), it)))"

definition get_sequence_4 :: "8 word \<Rightarrow> octets \<Rightarrow> utf_error + 32 word \<times> octets" where
  "get_sequence_4 lead it =
     bindR (increase_safely it) (\<lambda>(oc1, it).
     bindR (increase_safely it) (\<lambda>(oc2, it).
     bindR (increase_safely it) (\<lambda>(oc3, it).
     Inr ((push_bit 18 (ucast lead) AND 0x1fffff) + (push_bit 12 (ucast oc1) AND 0x3ffff) +
          (push_bit 6 (ucast oc2) AND 0xfff) + (ucast oc3 AND 0x3f), it))))"

definition get_sequence :: "nat \<Rightarrow> 8 word \<Rightarrow> octets \<Rightarrow> utf_error + 32 word \<times> octets" where
  "get_sequence n lead it =
     (if n = 0 then Inl INVALID_LEAD
      else if n = 1 then Inr (ucast lead, it)
      else if n = 2 then get_sequence_2 lead it
      else if n = 3 then get_sequence_3 lead it
      else get_sequence_4 lead it)"

text \<open>On a failure the iterator is not moved.\<close>

definition validate_next :: "8 word \<Rightarrow> octets \<Rightarrow> utf_error + 32 word \<times> octets" where
  "validate_next lead it =
     (let len = sequence_length lead in
      bindR (get_sequence len lead it) (\<lambda>(cp, it).
        if is_code_point_valid cp then
          (if \<not> is_overlong_sequence cp len then Inr (cp, it) else Inl OVERLONG_SEQUENCE)
        else Inl INVALID_CODE_POINT))"

section \<open>Checked conversions\<close>

text \<open>\<^verbatim>\<open>next\<close>: the code point of the exception is still zero, since \<^verbatim>\<open>validate_next\<close> assigns it only
  on success.\<close>

definition utf8_next :: "8 word \<Rightarrow> octets \<Rightarrow> (32 word \<times> octets) result" where
  "utf8_next lead it =
     (case validate_next lead it of
        Inr r \<Rightarrow> Inr r
      | Inl NOT_ENOUGH_ROOM \<Rightarrow> Inl NotEnoughRoom
      | Inl INVALID_CODE_POINT \<Rightarrow> Inl (InvalidCodePoint 0)
      | Inl _ \<Rightarrow> Inl (InvalidUtf8 lead))"

definition utf8_append :: "32 word \<Rightarrow> octets result" where
  "utf8_append cp =
     (if \<not> is_code_point_valid cp then Inl (InvalidCodePoint cp)
      else if cp < 0x80 then Inr [ucast cp]
      else if cp < 0x800 then
        Inr [ucast (drop_bit 6 cp OR 0xc0), ucast ((cp AND 0x3f) OR 0x80)]
      else if cp < 0x10000 then
        Inr [ucast (drop_bit 12 cp OR 0xe0), ucast ((drop_bit 6 cp AND 0x3f) OR 0x80),
             ucast ((cp AND 0x3f) OR 0x80)]
      else
        Inr [ucast (drop_bit 18 cp OR 0xf0), ucast ((drop_bit 12 cp AND 0x3f) OR 0x80),
             ucast ((drop_bit 6 cp AND 0x3f) OR 0x80), ucast ((cp AND 0x3f) OR 0x80)])"

fun utf16to8 :: "wstring \<Rightarrow> octets result" where
  "utf16to8 [] = Inr []"
| "utf16to8 (c # start) =
     (let cp = mask16 c in
      if is_lead_surrogate cp then
        (case start of
           [] \<Rightarrow> Inl (InvalidUtf16 (ucast cp))
         | t # start \<Rightarrow>
             (let trail_surrogate = mask16 t in
              if is_trail_surrogate trail_surrogate then
                bindR (utf8_append (push_bit 10 cp + trail_surrogate + SURROGATE_OFFSET)) (\<lambda>octets.
                bindR (utf16to8 start) (\<lambda>rest. Inr (octets @ rest)))
              else Inl (InvalidUtf16 (ucast trail_surrogate))))
      else if is_trail_surrogate cp then Inl (InvalidUtf16 (ucast cp))
      else bindR (utf8_append cp) (\<lambda>octets. bindR (utf16to8 start) (\<lambda>rest. Inr (octets @ rest))))"

definition utf16_units :: "32 word \<Rightarrow> 16 word list" where
  "utf16_units cp =
     (if cp > 0xffff then
        [ucast (drop_bit 10 cp + ucast LEAD_OFFSET), ucast ((cp AND 0x3ff) + 0xdc00)]
      else [ucast cp])"

lemma increase_safely_shorter: "increase_safely it = Inr (oc, it') \<Longrightarrow> length it' < length it"
  by (cases it) (auto split: if_splits)

lemma get_sequence_shorter: "get_sequence n lead it = Inr (cp, it') \<Longrightarrow> length it' \<le> length it"
  by (auto simp: get_sequence_def get_sequence_2_def get_sequence_3_def get_sequence_4_def bindR_Inr_iff
      dest!: increase_safely_shorter split: if_splits prod.splits)

lemma utf8_next_shorter: "utf8_next lead it = Inr (cp, it') \<Longrightarrow> length it' \<le> length it"
  by (auto simp: utf8_next_def validate_next_def Let_def bindR_Inr_iff dest!: get_sequence_shorter
      split: if_splits sum.splits utf_error.splits prod.splits)

function utf8to16 :: "octets \<Rightarrow> wstring result" where
  "utf8to16 [] = Inr []"
| "utf8to16 (lead # it) =
     (case utf8_next lead it of
        Inl e \<Rightarrow> Inl e
      | Inr (cp, it) \<Rightarrow> bindR (utf8to16 it) (\<lambda>rest. Inr (map ucast (utf16_units cp) @ rest)))"
  by pat_completeness auto
termination by (relation "measure length") (auto dest: utf8_next_shorter)

section \<open>Bits of the masks and markers\<close>

lemma bit_run: "(w :: int) = push_bit k (mask m) \<Longrightarrow> bit w n \<longleftrightarrow> k \<le> n \<and> n < k + m"
  by (auto simp: bit_push_bit_iff bit_mask_iff)

lemma bit_80: "bit (0x80 :: int) n \<longleftrightarrow> n = 7"
  by (rule trans [OF bit_run [where k = 7 and m = 1]]) (auto simp: mask_eq_exp_minus_1)

lemma bit_c0: "bit (0xc0 :: int) n \<longleftrightarrow> n = 6 \<or> n = 7"
  by (rule trans [OF bit_run [where k = 6 and m = 2]]) (auto simp: mask_eq_exp_minus_1)

lemma bit_e0: "bit (0xe0 :: int) n \<longleftrightarrow> 5 \<le> n \<and> n \<le> 7"
  by (rule trans [OF bit_run [where k = 5 and m = 3]]) (auto simp: mask_eq_exp_minus_1)

lemma bit_f0: "bit (0xf0 :: int) n \<longleftrightarrow> 4 \<le> n \<and> n \<le> 7"
  by (rule trans [OF bit_run [where k = 4 and m = 4]]) (auto simp: mask_eq_exp_minus_1)

lemma bit_3f: "bit (0x3f :: int) n \<longleftrightarrow> n < 6"
  by (rule trans [OF bit_run [where k = 0 and m = 6]]) (auto simp: mask_eq_exp_minus_1)

lemma bit_7ff: "bit (0x7ff :: int) n \<longleftrightarrow> n < 11"
  by (rule trans [OF bit_run [where k = 0 and m = 11]]) (auto simp: mask_eq_exp_minus_1)

lemma bit_fff: "bit (0xfff :: int) n \<longleftrightarrow> n < 12"
  by (rule trans [OF bit_run [where k = 0 and m = 12]]) (auto simp: mask_eq_exp_minus_1)

lemma bit_ffff: "bit (0xffff :: int) n \<longleftrightarrow> n < 16"
  by (rule trans [OF bit_run [where k = 0 and m = 16]]) (auto simp: mask_eq_exp_minus_1)

lemma bit_3ffff: "bit (0x3ffff :: int) n \<longleftrightarrow> n < 18"
  by (rule trans [OF bit_run [where k = 0 and m = 18]]) (auto simp: mask_eq_exp_minus_1)

lemma bit_1fffff: "bit (0x1fffff :: int) n \<longleftrightarrow> n < 21"
  by (rule trans [OF bit_run [where k = 0 and m = 21]]) (auto simp: mask_eq_exp_minus_1)

lemma bit_02: "bit (0x2 :: int) n \<longleftrightarrow> n = 1"
  by (rule trans [OF bit_run [where k = 1 and m = 1]]) (auto simp: mask_eq_exp_minus_1)

lemma bit_06: "bit (0x6 :: int) n \<longleftrightarrow> n = 1 \<or> n = 2"
  by (rule trans [OF bit_run [where k = 1 and m = 2]]) (auto simp: mask_eq_exp_minus_1)

lemma bit_0e: "bit (0xe :: int) n \<longleftrightarrow> 1 \<le> n \<and> n \<le> 3"
  by (rule trans [OF bit_run [where k = 1 and m = 3]]) (auto simp: mask_eq_exp_minus_1)

lemma bit_1e: "bit (0x1e :: int) n \<longleftrightarrow> 1 \<le> n \<and> n \<le> 4"
  by (rule trans [OF bit_run [where k = 1 and m = 4]]) (auto simp: mask_eq_exp_minus_1)

lemmas bit_consts = bit_80 bit_c0 bit_e0 bit_f0 bit_3f bit_7ff bit_fff bit_ffff bit_3ffff bit_1fffff bit_02 bit_06 bit_0e bit_1e

lemma bit_less:
  assumes "unat (w :: 'a::len word) < 2 ^ k" "bit w i" shows "i < k"
proof (rule ccontr)
  assume "\<not> i < k"
  then have "(2 :: nat) ^ k \<le> 2 ^ i" by (simp add: power_increasing)
  with assms(1) have "unat w < 2 ^ i" by (rule less_le_trans)
  then have "\<not> bit (unat w) i" by (simp add: bit_iff_odd)
  with assms(2) show False by (simp add: bit_unsigned_iff)
qed

lemmas octet_bits = bit_consts bit_and_iff bit_or_iff bit_drop_bit_eq bit_push_bit_iff bit_unsigned_iff

abbreviation lead_octet :: "nat \<Rightarrow> 32 word \<Rightarrow> 32 word \<Rightarrow> 8 word" where
  "lead_octet k marker cp \<equiv> ucast (drop_bit k cp OR marker)"

abbreviation trail_octet :: "32 word \<Rightarrow> 8 word" where
  "trail_octet x \<equiv> ucast ((x AND 0x3f) OR 0x80)"

lemma is_trail_octet [simp]: "is_trail (trail_octet x)"
  unfolding is_trail_def by (rule bit_word_eqI) (auto simp: octet_bits)

lemma encoded_2:
  assumes "(cp :: 32 word) < 0x800"
  shows "drop_bit 5 (lead_octet 6 0xc0 cp) = 0x6"
    "(push_bit 6 (ucast (lead_octet 6 0xc0 cp)) AND 0x7ff) + (ucast (trail_octet cp) AND 0x3f) = cp"
proof -
  have t: "bit cp i \<Longrightarrow> i < 11" for i by (rule bit_less) (use assms in \<open>simp_all add: word_less_nat_alt\<close>)
  show "drop_bit 5 (lead_octet 6 0xc0 cp) = 0x6"
    by (rule bit_word_eqI) (auto simp: octet_bits dest: t)
  show "(push_bit 6 (ucast (lead_octet 6 0xc0 cp)) AND 0x7ff) + (ucast (trail_octet cp) AND 0x3f) = cp"
    apply (subst disjunctive_add_eq_or, rule bit_word_eqI, force simp: octet_bits,
        rule bit_word_eqI)
    subgoal for n
      by (auto simp: octet_bits dest: t)
    done
qed

lemma encoded_3:
  assumes "(cp :: 32 word) < 0x10000"
  shows "drop_bit 4 (lead_octet 12 0xe0 cp) = 0xe"
    "(push_bit 12 (ucast (lead_octet 12 0xe0 cp)) AND 0xffff) +
       (push_bit 6 (ucast (trail_octet (drop_bit 6 cp))) AND 0xfff) + (ucast (trail_octet cp) AND 0x3f) = cp"
proof -
  have t: "bit cp i \<Longrightarrow> i < 16" for i by (rule bit_less) (use assms in \<open>simp_all add: word_less_nat_alt\<close>)
  show "drop_bit 4 (lead_octet 12 0xe0 cp) = 0xe"
    by (rule bit_word_eqI) (auto simp: octet_bits dest: t)
  show "(push_bit 12 (ucast (lead_octet 12 0xe0 cp)) AND 0xffff) +
       (push_bit 6 (ucast (trail_octet (drop_bit 6 cp))) AND 0xfff) + (ucast (trail_octet cp) AND 0x3f) = cp"
    apply (subst disjunctive_add_eq_or, rule bit_word_eqI, force simp: octet_bits,
        subst disjunctive_add_eq_or, rule bit_word_eqI, force simp: octet_bits,
        rule bit_word_eqI)
    subgoal for n
      using le_add_diff_inverse [of 12 n]
      by (cases "n < 6"; cases "n < 12") (auto simp: octet_bits dest: t)
    done
qed

lemma encoded_4:
  assumes "(cp :: 32 word) < 0x200000"
  shows "drop_bit 3 (lead_octet 18 0xf0 cp) = 0x1e"
    "(push_bit 18 (ucast (lead_octet 18 0xf0 cp)) AND 0x1fffff) + (push_bit 12 (ucast (trail_octet (drop_bit 12 cp))) AND 0x3ffff) +
       (push_bit 6 (ucast (trail_octet (drop_bit 6 cp))) AND 0xfff) + (ucast (trail_octet cp) AND 0x3f) = cp"
proof -
  have t: "bit cp i \<Longrightarrow> i < 21" for i by (rule bit_less) (use assms in \<open>simp_all add: word_less_nat_alt\<close>)
  show "drop_bit 3 (lead_octet 18 0xf0 cp) = 0x1e"
    by (rule bit_word_eqI) (auto simp: octet_bits dest: t)
  show "(push_bit 18 (ucast (lead_octet 18 0xf0 cp)) AND 0x1fffff) + (push_bit 12 (ucast (trail_octet (drop_bit 12 cp))) AND 0x3ffff) +
       (push_bit 6 (ucast (trail_octet (drop_bit 6 cp))) AND 0xfff) + (ucast (trail_octet cp) AND 0x3f) = cp"
    apply (subst disjunctive_add_eq_or, rule bit_word_eqI, force simp: octet_bits,
        subst disjunctive_add_eq_or, rule bit_word_eqI, force simp: octet_bits,
        subst disjunctive_add_eq_or, rule bit_word_eqI, force simp: octet_bits,
        rule bit_word_eqI)
    subgoal for n
      using le_add_diff_inverse [of 12 n] le_add_diff_inverse [of 18 n]
      by (cases "n < 6"; cases "n < 12"; cases "n < 18") (auto simp: octet_bits dest: t)
    done
qed

section \<open>Decoding what was encoded\<close>

lemma drop_bit_eq_iff: "drop_bit n l = v \<longleftrightarrow> unat l div 2 ^ n = unat v" for l :: "'a::len word"
  by (simp only: word_unat_eq_iff unat_drop_bit_eq) (simp only: drop_bit_eq_div)

lemma sequence_length_lead:
  "drop_bit 5 l = 0x6 \<Longrightarrow> sequence_length l = 2"
  "drop_bit 4 l = 0xe \<Longrightarrow> sequence_length l = 3"
  "drop_bit 3 l = 0x1e \<Longrightarrow> sequence_length l = 4"
  by (auto simp: sequence_length_def word_less_nat_alt drop_bit_eq_iff)

lemma ucast_small:
  assumes "unat (w :: 'a::len word) < 2 ^ LENGTH('b)"
  shows "unat (ucast w :: 'b::len word) = unat w"
  using assms by (simp add: unsigned_ucast_eq unsigned_take_bit_eq take_bit_nat_eq_self)

lemma one_octet: "cp < 0x80 \<Longrightarrow> ucast (ucast cp :: 8 word) = cp \<and> sequence_length (ucast cp) = 1" for cp :: "32 word"
  by (auto simp: sequence_length_def word_less_nat_alt word_unat_eq_iff ucast_small)

lemma utf8_next_append:
  assumes "utf8_append cp = Inr os"
  shows "\<exists>l tl. os = l # tl \<and> utf8_next l (tl @ rest) = Inr (cp, rest)"
proof -
  have v: "is_code_point_valid cp" using assms by (auto simp: utf8_append_def split: if_splits)
  then have "cp < 0x200000" by (auto simp: is_code_point_valid_def word_le_nat_alt word_less_nat_alt)
  consider "cp < 0x80" | "\<not> cp < 0x80" "cp < 0x800" | "\<not> cp < 0x800" "cp < 0x10000" | "\<not> cp < 0x10000"
    by blast
  then show ?thesis
  proof cases
    case 1
    with v assms one_octet [OF 1] show ?thesis
      by (auto simp: utf8_append_def utf8_next_def validate_next_def get_sequence_def is_overlong_sequence_def)
  next
    case 2
    then have o: "\<not> is_overlong_sequence cp 2" by (simp add: is_overlong_sequence_def)
    from 2 v assms sequence_length_lead(1) [OF encoded_2(1) [OF 2(2)]] encoded_2(2) [OF 2(2)] o show ?thesis
      by (auto simp: utf8_append_def utf8_next_def validate_next_def get_sequence_def get_sequence_2_def)
  next
    case 3
    then have o: "\<not> is_overlong_sequence cp 3" "\<not> cp < 0x80"
      by (auto simp: is_overlong_sequence_def word_less_nat_alt)
    from 3 v assms sequence_length_lead(2) [OF encoded_3(1) [OF 3(2)]] encoded_3(2) [OF 3(2)] o show ?thesis
      by (auto simp: utf8_append_def utf8_next_def validate_next_def get_sequence_def get_sequence_3_def)
  next
    case 4
    then have o: "\<not> is_overlong_sequence cp 4" "\<not> cp < 0x80" "\<not> cp < 0x800"
      by (auto simp: is_overlong_sequence_def word_less_nat_alt)
    note l = \<open>cp < 0x200000\<close>
    from 4 v assms sequence_length_lead(3) [OF encoded_4(1) [OF l]] encoded_4(2) [OF l] o show ?thesis
      by (auto simp: utf8_append_def utf8_next_def validate_next_def get_sequence_def get_sequence_4_def)
  qed
qed

lemma surrogate_value:
  assumes "is_lead_surrogate c" "is_trail_surrogate t"
  defines "cp \<equiv> push_bit 10 c + t + SURROGATE_OFFSET"
  shows "is_code_point_valid cp" "map ucast (utf16_units cp) = [c, t]"
proof -
  obtain i where i: "unat c = 0xd800 + i" "i < 0x400"
    using assms(1) by (auto simp: is_lead_surrogate_def word_le_nat_alt nat_le_iff_add)
  obtain j where j: "unat t = 0xdc00 + j" "j < 0x400"
    using assms(2) by (auto simp: is_trail_surrogate_def word_le_nat_alt nat_le_iff_add)
  have c: "c = of_nat (0xd800 + i)" and t: "t = of_nat (0xdc00 + j)"
    by (simp_all add: word_unat_eq_iff unat_of_nat i(2) j(2) flip: i(1) j(1))
  have "cp = of_nat (i * 1024 + j + 0x10000)"
    unfolding cp_def c t by (simp add: SURROGATE_OFFSET_def push_bit_eq_mult algebra_simps)
  then have u: "unat cp = i * 1024 + j + 0x10000"
    using i(2) j(2) by (simp only: unat_of_nat) (simp add: take_bit_nat_eq_self)
  show "is_code_point_valid cp"
    using u i j by (simp add: is_code_point_valid_def is_surrogate_def word_le_nat_alt)
  have "cp > 0xffff" using u by (simp add: word_less_nat_alt)
  moreover have "ucast (ucast (drop_bit 10 cp + ucast LEAD_OFFSET) :: 16 word) = c"
  proof -
    have "unat (drop_bit 10 cp) = drop_bit 10 (i * 1024 + j + 0x10000)"
      by (simp only: unat_drop_bit_eq u)
    also have "\<dots> = i + 64" using j(2) by (simp add: drop_bit_eq_div)
    finally have "unat (drop_bit 10 cp + ucast LEAD_OFFSET) = 0xd800 + i"
      using i(2) by (simp add: LEAD_OFFSET_def unat_word_ariths)
    then show ?thesis using i by (simp add: word_unat_eq_iff ucast_small)
  qed
  moreover have "ucast (ucast ((cp AND 0x3ff) + 0xdc00) :: 16 word) = t"
  proof -
    have "cp AND 0x3ff = take_bit 10 cp" by (simp add: take_bit_eq_mask mask_eq_exp_minus_1)
    then have "unat (cp AND 0x3ff) = take_bit 10 (unat cp)" by (simp only: unsigned_take_bit_eq)
    also have "\<dots> = (j + (i + 64) * 1024) mod 1024" by (simp add: u take_bit_eq_mod algebra_simps)
    also have "\<dots> = j" using j(2) by (simp only: mod_mult_self1 mod_less)
    finally have "unat (cp AND 0x3ff) = j" .
    then have "unat ((cp AND 0x3ff) + 0xdc00) = 0xdc00 + j" using j(2) by (simp add: unat_word_ariths)
    then show ?thesis using j by (simp add: word_unat_eq_iff ucast_small)
  qed
  ultimately show "map ucast (utf16_units cp) = [c, t]" by (simp add: utf16_units_def)
qed

lemma utf8to16_append:
  assumes "utf8_append cp = Inr os"
  shows "utf8to16 (os @ rest) = bindR (utf8to16 rest) (\<lambda>w. Inr (map ucast (utf16_units cp) @ w))"
  using utf8_next_append [OF assms, of rest] by auto

lemma utf16_units_plain:
  assumes "unat c < 0x10000"
  shows "map ucast (utf16_units c) = [c]"
  using assms by (simp add: utf16_units_def word_less_nat_alt word_unat_eq_iff ucast_small)

lemma mask16_less: "unat (mask16 c) < 0x10000"
proof -
  have "mask16 c = take_bit 16 c" by (simp add: mask16_def take_bit_eq_mask mask_eq_exp_minus_1 and.commute)
  then have "unat (mask16 c) = take_bit 16 (unat c)" by (simp only: unsigned_take_bit_eq)
  also have "\<dots> < 2 ^ 16" by (rule take_bit_nat_less_exp)
  finally show ?thesis by simp
qed

text \<open>A sequence of 16-bit units in which the surrogates stand in pairs.\<close>

fun paired :: "wstring \<Rightarrow> bool" where
  "paired [] = True"
| "paired [c] = (\<not> is_surrogate (mask16 c))"
| "paired (c # t # cs) =
     (if is_lead_surrogate (mask16 c) then is_trail_surrogate (mask16 t) \<and> paired cs
      else \<not> is_trail_surrogate (mask16 c) \<and> paired (t # cs))"

lemma is_surrogate_iff: "is_surrogate c \<longleftrightarrow> is_lead_surrogate c \<or> is_trail_surrogate c"
  by (auto simp: is_surrogate_def is_lead_surrogate_def is_trail_surrogate_def word_le_nat_alt)

lemma append_valid: "is_code_point_valid cp \<Longrightarrow> \<exists>os. utf8_append cp = Inr os"
  by (auto simp: utf8_append_def)

lemma unit_valid: "\<not> is_surrogate c \<Longrightarrow> unat c < 0x10000 \<Longrightarrow> is_code_point_valid c"
  by (simp add: is_code_point_valid_def word_le_nat_alt)

text \<open>C11: The UTF-8 encoding of a wide string exists exactly when its surrogates stand in pairs, and
  decoding it gives the 16-bit units of the string back.\<close>

theorem utf16to8_roundtrip:
  "case utf16to8 ws of
     Inr bs \<Rightarrow> paired ws \<and> utf8to16 bs = Inr (map mask16 ws)
   | Inl e \<Rightarrow> \<not> paired ws \<and> (\<exists>u. e = InvalidUtf16 u)"
proof (induction ws rule: utf16to8.induct)
  case (2 c start)
  let ?c = "mask16 c"
  consider (pair) t rest where "is_lead_surrogate ?c" "start = t # rest" "is_trail_surrogate (mask16 t)"
    | (lone) "is_lead_surrogate ?c" "\<not> (\<exists>t rest. start = t # rest \<and> is_trail_surrogate (mask16 t))"
    | (trail) "\<not> is_lead_surrogate ?c" "is_trail_surrogate ?c"
    | (plain) "\<not> is_surrogate ?c"
    by (auto simp: is_surrogate_iff)
  then show ?case
  proof cases
    case pair
    note v = surrogate_value [OF pair(1,3)]
    obtain os where os: "utf8_append (push_bit 10 ?c + mask16 t + SURROGATE_OFFSET) = Inr os"
      using append_valid [OF v(1)] by blast
    from 2(1) [OF refl pair(1,2) refl pair(3)] show ?thesis
      by (auto simp: pair os utf8to16_append [OF os] v(2) split: sum.splits)
  next
    case lone
    then show ?thesis by (cases start) (auto simp: is_surrogate_iff)
  next
    case trail
    then show ?thesis by (cases start) (auto simp: is_surrogate_iff)
  next
    case plain
    then have n: "\<not> is_lead_surrogate ?c" "\<not> is_trail_surrogate ?c" by (simp_all add: is_surrogate_iff)
    obtain os where os: "utf8_append ?c = Inr os"
      using append_valid [OF unit_valid [OF plain mask16_less]] by blast
    have p: "paired (c # start) = paired start" using n plain by (cases start) auto
    from 2(2) [OF refl n] show ?thesis
      by (auto simp: n os p utf8to16_append [OF os] utf16_units_plain [OF mask16_less] simp del: paired.simps split: sum.splits)
  qed
qed simp

end
