(* ===== verification/Http.thy ===== *)
theory Http
  imports Subscription Utf8
begin

text \<open>
  The HTTP side of \<^verbatim>\<open>ControllerClientImpl\<close> (\<^verbatim>\<open>src/controllerclientimpl.cpp\<close>): requests through one
  curl handle, under one mutex. The record \<open>client\<close> is the object: its mutex, the options
  of the handle, the log of the requests performed, each with the options it was performed
  with, and the members. \<open>http_env\<close> is what libcurl, the server and the file system answer.
  A value passed as \<^verbatim>\<open>NULL\<close> is \<open>Null\<close>, a callback and its target are named by constructors.
\<close>

section \<open>The curl handle\<close>

datatype copt =
    TIMEOUT_MS | HTTPHEADER | URL | POST | POSTFIELDSIZE | POSTFIELDS | WRITEFUNCTION | WRITEDATA
  | HTTPGET | HTTPPOST | CUSTOMREQUEST | FILETIME | NOBODY | TIMECONDITION | TIMEVALUE | READFUNCTION
  | PROXY | PROXYUSERPWD | UNIX_SOCKET_PATH | USERAGENT | ERRORBUFFER | SSL_VERIFYPEER | HTTPAUTH | USERPWD
  | COOKIEFILE | COOKIELIST | FOLLOWLOCATION | MAXREDIRS | NOSIGNAL | ACCEPT_ENCODING

fun copt_name :: "copt \<Rightarrow> string" where
  "copt_name TIMEOUT_MS = ''CURLOPT_TIMEOUT_MS''"
| "copt_name HTTPHEADER = ''CURLOPT_HTTPHEADER''"
| "copt_name URL = ''CURLOPT_URL''"
| "copt_name POST = ''CURLOPT_POST''"
| "copt_name POSTFIELDSIZE = ''CURLOPT_POSTFIELDSIZE''"
| "copt_name POSTFIELDS = ''CURLOPT_POSTFIELDS''"
| "copt_name WRITEFUNCTION = ''CURLOPT_WRITEFUNCTION''"
| "copt_name WRITEDATA = ''CURLOPT_WRITEDATA''"
| "copt_name HTTPGET = ''CURLOPT_HTTPGET''"
| "copt_name HTTPPOST = ''CURLOPT_HTTPPOST''"
| "copt_name CUSTOMREQUEST = ''CURLOPT_CUSTOMREQUEST''"
| "copt_name FILETIME = ''CURLOPT_FILETIME''"
| "copt_name NOBODY = ''CURLOPT_NOBODY''"
| "copt_name TIMECONDITION = ''CURLOPT_TIMECONDITION''"
| "copt_name TIMEVALUE = ''CURLOPT_TIMEVALUE''"
| "copt_name READFUNCTION = ''CURLOPT_READFUNCTION''"
| "copt_name PROXY = ''CURLOPT_PROXY''"
| "copt_name PROXYUSERPWD = ''CURLOPT_PROXYUSERPWD''"
| "copt_name UNIX_SOCKET_PATH = ''CURLOPT_UNIX_SOCKET_PATH''"
| "copt_name USERAGENT = ''CURLOPT_USERAGENT''"
| "copt_name ERRORBUFFER = ''CURLOPT_ERRORBUFFER''"
| "copt_name SSL_VERIFYPEER = ''CURLOPT_SSL_VERIFYPEER''"
| "copt_name HTTPAUTH = ''CURLOPT_HTTPAUTH''"
| "copt_name USERPWD = ''CURLOPT_USERPWD''"
| "copt_name COOKIEFILE = ''CURLOPT_COOKIEFILE''"
| "copt_name COOKIELIST = ''CURLOPT_COOKIELIST''"
| "copt_name FOLLOWLOCATION = ''CURLOPT_FOLLOWLOCATION''"
| "copt_name MAXREDIRS = ''CURLOPT_MAXREDIRS''"
| "copt_name NOSIGNAL = ''CURLOPT_NOSIGNAL''"
| "copt_name ACCEPT_ENCODING = ''CURLOPT_ACCEPT_ENCODING''"

datatype callback = WriteStringStream | WriteOStream | WriteVector | ReadIStream

datatype sink = BufferSink | StreamSink | VectorSink | ErrorSink

text \<open>One \<^verbatim>\<open>curl_formadd\<close>: a field, a file read from a stream with its length, a file in
  memory with or without its length.\<close>

datatype form_part =
    FormField string string "string option"          \<comment> \<open>name, contents, content type\<close>
  | FormStream string string string nat              \<comment> \<open>name, file name, contents, length\<close>
  | FormBuffer string string string "nat option"     \<comment> \<open>name, file name, contents, length\<close>

datatype cval =
    Null
  | Long int
  | Text string
  | Headers "string list"
  | Form "form_part list"
  | Callback callback
  | Target sink

record http_result =
  r_code :: nat
  r_status :: int
  r_chunks :: "string list"
  r_filetime :: int
  r_errormessage :: string                           \<comment> \<open>what libcurl leaves in the error buffer\<close>

text \<open>A directory as it is listed: the files with their contents (\<open>None\<close> when they cannot be
  opened), the directories (\<open>None\<close> when they cannot be listed), and the rest.\<close>

datatype fs_node =
    RegularFile "string option"
  | Directory "(string \<times> fs_node) list option"
  | OtherFile

record 'd http_env =
  json_lib :: "'d lib"
  setopt_code :: "copt \<Rightarrow> cval \<Rightarrow> nat"
  perform_result :: "nat \<Rightarrow> (copt \<Rightarrow> cval) \<Rightarrow> http_result"
  curl_error :: "nat \<Rightarrow> string"
  escape :: "string \<Rightarrow> string"
  unescape :: "string \<Rightarrow> string"
  read_file :: "string \<Rightarrow> string option"             \<comment> \<open>\<open>None\<close> when it cannot be opened\<close>
  read_dir :: "string \<Rightarrow> (string \<times> fs_node) list option"
  widen :: "char \<Rightarrow> 32 word"                         \<comment> \<open>what a wide stream makes of a \<^verbatim>\<open>char\<close>\<close>
  has_libz :: bool
  url_host :: "string \<Rightarrow> (bool \<times> string) + string"     \<comment> \<open>the host, or whether the URL parsed, and the error\<close>
  client_version :: string
  websocket_env :: "'d ws_env"
  print_real :: "'d \<Rightarrow> string"                      \<comment> \<open>the format \<^verbatim>\<open>%.15f\<close>\<close>

record 'd client =
  m_locked :: bool
  m_opts :: "copt \<Rightarrow> cval"
  m_requests :: "(copt \<Rightarrow> cval) list"
  m_buffer :: string
  m_vector :: string                                 \<comment> \<open>the \<^verbatim>\<open>std::vector\<close> of the current call\<close>
  m_stream :: string                                 \<comment> \<open>the \<^verbatim>\<open>std::ostream\<close> of the current call\<close>
  m_stdout :: string
  m_errormessage :: string
  m_filetime :: int                                  \<comment> \<open>of the last transfer of the handle\<close>
  m_uri :: string
  m_fulluri :: string
  m_baseuri :: string
  m_baseapiuri :: string
  m_basewebdavuri :: string
  m_username :: string
  m_clientInfo :: ControllerClientInfo
  m_charset :: string
  m_language :: string
  m_csrfmiddlewaretoken :: string
  m_additionalHeaders :: "string list"
  m_httpheadersjson :: "string list"
  m_httpheadersstl :: "string list"
  m_httpheadersmultipartformdata :: "string list"
  m_profile :: "'d json"
  m_defaultscenetype :: string
  m_defaulttasktype :: string
  m_websocket :: "'d websocket option"               \<comment> \<open>\<open>None\<close> when the weak pointer is empty\<close>

type_synonym ('d, 'a) http = "'d client \<Rightarrow> 'a result \<times> 'd client"

definition squoted :: "string \<Rightarrow> string" where
  "squoted s = [CHR 0x27] @ s @ [CHR 0x27]"

definition http_error :: "string \<Rightarrow> error" where
  "http_error s = MujinException s MEC_HTTPServer"

text \<open>\<^verbatim>\<open>boost::mutex::scoped_lock lock(_mutex)\<close>, up to the end of the scope. The mutex is not
  recursive.\<close>

definition with_lock :: "('d, 'a) http \<Rightarrow> ('d, 'a) http" where
  "with_lock m s =
     (if m_locked s then (Inl Deadlock, s)
      else case m (s \<lparr> m_locked := True \<rparr>) of (r, s') \<Rightarrow> (r, s' \<lparr> m_locked := False \<rparr>))"

text \<open>\<^verbatim>\<open>CHECKCURLCODE(code, msg)\<close>.\<close>

definition CHECKCURLCODE :: "'d http_env \<Rightarrow> nat \<Rightarrow> string \<Rightarrow> ('d, unit) http" where
  "CHECKCURLCODE env code msg s =
     (if code \<noteq> 0 then
        (Inl (MujinException (''curl function '' @ msg @ '' with error '' @ squoted (curl_error env code) @ '': '' @ m_errormessage s) MEC_HTTPClient), s)
      else (Inr (), s))"

definition put_opt :: "copt \<Rightarrow> cval \<Rightarrow> 'd client \<Rightarrow> 'd client" where
  "put_opt opt v s = s \<lparr> m_opts := (m_opts s)(opt := v) \<rparr>"

definition CURL_OPTION_SETTER :: "'d http_env \<Rightarrow> copt \<Rightarrow> cval \<Rightarrow> ('d, unit) http" where
  "CURL_OPTION_SETTER env opt v =
     thenM (CHECKCURLCODE env (setopt_code env opt v) (''curl_easy_setopt '' @ copt_name opt)) (modifyM (put_opt opt v))"

text \<open>\<^verbatim>\<open>CURL_OPTION_SAVE_SETTER(curl, opt, cur, new)\<close>: the option is set to \<open>cur\<close>, whatever it
  was before, when the scope is left, also when the setter throws.\<close>

definition with_option :: "'d http_env \<Rightarrow> copt \<Rightarrow> cval \<Rightarrow> cval \<Rightarrow> ('d, 'a) http \<Rightarrow> ('d, 'a) http" where
  "with_option env opt cur new m s =
     (case thenM (CURL_OPTION_SETTER env opt new) m s of (r, s') \<Rightarrow> (r, put_opt opt cur s'))"

text \<open>\<^verbatim>\<open>(long)(timeout * 1000L)\<close>, cut towards zero.\<close>

definition timeout_ms :: "rat \<Rightarrow> int" where
  "timeout_ms timeout = (if timeout < 0 then - \<lfloor>- timeout * 1000\<rfloor> else \<lfloor>timeout * 1000\<rfloor>)"

definition with_timeout :: "'d http_env \<Rightarrow> rat \<Rightarrow> ('d, 'a) http \<Rightarrow> ('d, 'a) http" where
  "with_timeout env timeout = with_option env TIMEOUT_MS (Long 0) (Long (timeout_ms timeout))"

text \<open>A header list member is read when the option is set.\<close>

definition with_headers :: "'d http_env \<Rightarrow> ('d client \<Rightarrow> string list) \<Rightarrow> ('d, 'a) http \<Rightarrow> ('d, 'a) http" where
  "with_headers env hdr m s = with_option env HTTPHEADER Null (Headers (hdr s)) m s"

definition with_url :: "'d http_env \<Rightarrow> string \<Rightarrow> ('d, 'a) http \<Rightarrow> ('d, 'a) http" where
  "with_url env uri = with_option env URL Null (Text (c_str uri))"

definition clear_buffer :: "('d, unit) http" where
  "clear_buffer = modifyM (\<lambda>s. s \<lparr> m_buffer := [] \<rparr>)"

definition writing_to :: "'d http_env \<Rightarrow> callback \<Rightarrow> sink \<Rightarrow> ('d, 'a) http \<Rightarrow> ('d, 'a) http" where
  "writing_to env f t m =
     with_option env WRITEFUNCTION Null (Callback f) (with_option env WRITEDATA Null (Target t) m)"

text \<open>The write callbacks append what they are given and return its length; without a
  callback libcurl writes to the standard output.\<close>

definition WriteStringStreamCallback :: "string \<Rightarrow> 'd client \<Rightarrow> nat \<times> 'd client" where
  "WriteStringStreamCallback chunk s = (length chunk, s \<lparr> m_buffer := m_buffer s @ chunk \<rparr>)"

definition WriteOStreamCallback :: "string \<Rightarrow> 'd client \<Rightarrow> nat \<times> 'd client" where
  "WriteOStreamCallback chunk s = (length chunk, s \<lparr> m_stream := m_stream s @ chunk \<rparr>)"

definition WriteVectorCallback :: "string \<Rightarrow> 'd client \<Rightarrow> nat \<times> 'd client" where
  "WriteVectorCallback chunk s = (length chunk, s \<lparr> m_vector := m_vector s @ chunk \<rparr>)"

definition deliver :: "string \<Rightarrow> 'd client \<Rightarrow> 'd client" where
  "deliver chunk s =
     (case m_opts s WRITEFUNCTION of
        Callback WriteStringStream \<Rightarrow> snd (WriteStringStreamCallback chunk s)
      | Callback WriteOStream \<Rightarrow> snd (WriteOStreamCallback chunk s)
      | Callback WriteVector \<Rightarrow> snd (WriteVectorCallback chunk s)
      | _ \<Rightarrow> s \<lparr> m_stdout := m_stdout s @ chunk \<rparr>)"

text \<open>\<^verbatim>\<open>CURL_PERFORM(_curl)\<close>, and the two \<^verbatim>\<open>CURL_INFO_GETTER\<close>.\<close>

definition CURL_PERFORM :: "'d http_env \<Rightarrow> ('d, http_result) http" where
  "CURL_PERFORM env s =
     (let r = perform_result env (length (m_requests s)) (m_opts s);
          s' = fold deliver (r_chunks r) (s \<lparr> m_requests := m_requests s @ [m_opts s] \<rparr>) in
      thenM (CHECKCURLCODE env (r_code r) ''curl_easy_perform'') (ret r) (s' \<lparr> m_errormessage := r_errormessage r, m_filetime := r_filetime r \<rparr>))"

definition EscapeString :: "'d http_env \<Rightarrow> string \<Rightarrow> string" where
  "EscapeString env raw = c_str (escape env raw)"

definition UnescapeString :: "'d http_env \<Rightarrow> string \<Rightarrow> string" where
  "UnescapeString env raw = unescape env raw"

definition key_string :: "'d http_env \<Rightarrow> 'd json \<Rightarrow> string \<Rightarrow> string result" where
  "key_string env v key = GetJsonValueByKey [] (LoadJsonString (json_lib env)) v key"

section \<open>GET\<close>

definition status_text :: "int \<Rightarrow> string" where
  "status_text http_code = dec_of_int http_code"

text \<open>The exception when the status is not the expected one, 0 expecting any.\<close>

definition unexpected :: "int \<Rightarrow> int \<Rightarrow> bool" where
  "unexpected expectedhttpcode http_code \<longleftrightarrow> expectedhttpcode \<noteq> 0 \<and> http_code \<noteq> expectedhttpcode"

definition http_failed :: "string \<Rightarrow> string \<Rightarrow> int \<Rightarrow> error" where
  "http_failed verb uri http_code =
     http_error (''HTTP '' @ verb @ '' to '' @ squoted uri @ '' returned HTTP status '' @ status_text http_code)"

definition http_failed_with :: "string \<Rightarrow> string \<Rightarrow> int \<Rightarrow> string \<Rightarrow> error" where
  "http_failed_with verb uri http_code error_message =
     http_error (''HTTP '' @ verb @ '' to '' @ squoted uri @ '' returned HTTP status '' @ status_text http_code @ '': '' @ error_message)"

text \<open>\<^verbatim>\<open>_CallGet\<close> into a JSON value, whose content before the call is \<open>rResponse\<close>.\<close>

definition CallGet_json :: "'d http_env \<Rightarrow> string \<Rightarrow> 'd json \<Rightarrow> int \<Rightarrow> rat \<Rightarrow> ('d, int \<times> 'd json) http" where
  "CallGet_json env desturi rResponse expectedhttpcode timeout =
     with_timeout env timeout (with_headers env m_httpheadersjson (with_url env desturi (
     thenM clear_buffer (
     writing_to env WriteStringStream BufferSink (
     with_option env HTTPGET (Long 0) (Long 1) (
     bindM (CURL_PERFORM env) (\<lambda>r.
     bindM (getM m_buffer) (\<lambda>buffer.
     bindM (if buffer \<noteq> [] then liftR (ParseJson_stream (json_lib env) buffer) else ret rResponse) (\<lambda>rResponse.
     if unexpected expectedhttpcode (r_status r) then
       bindM (liftR (key_string env rResponse ''error_message'')) (\<lambda>error_message.
         throw (http_failed_with ''GET'' desturi (r_status r) error_message))
     else ret (r_status r, rResponse))))))))))"

definition CallGet_string :: "'d http_env \<Rightarrow> string \<Rightarrow> int \<Rightarrow> rat \<Rightarrow> ('d, int \<times> string) http" where
  "CallGet_string env desturi expectedhttpcode timeout =
     with_timeout env timeout (with_headers env m_httpheadersjson (with_url env desturi (
     thenM clear_buffer (
     writing_to env WriteStringStream BufferSink (
     with_option env HTTPGET (Long 0) (Long 1) (
     bindM (CURL_PERFORM env) (\<lambda>r.
     bindM (getM m_buffer) (\<lambda>outputdata.
     if unexpected expectedhttpcode (r_status r) then
       (if length outputdata > 0 then
          bindM (liftR (ParseJson (json_lib env) outputdata)) (\<lambda>d.
          bindM (liftR (key_string env d ''error_message'')) (\<lambda>error_message.
            throw (http_failed_with ''GET'' desturi (r_status r) error_message)))
        else throw (http_failed ''GET'' desturi (r_status r)))
     else ret (r_status r, outputdata)))))))))"

text \<open>Into a stream, which keeps what it held.\<close>

definition CallGet_stream :: "'d http_env \<Rightarrow> string \<Rightarrow> int \<Rightarrow> rat \<Rightarrow> ('d, int) http" where
  "CallGet_stream env desturi expectedhttpcode timeout =
     with_timeout env timeout (with_headers env m_httpheadersjson (with_url env desturi (
     writing_to env WriteOStream StreamSink (
     with_option env HTTPGET (Long 0) (Long 1) (
     bindM (CURL_PERFORM env) (\<lambda>r.
     if unexpected expectedhttpcode (r_status r) then
       throw (http_error (''HTTP GET to '' @ squoted desturi @ '' returned HTTP status '' @ status_text (r_status r) @
         '' (outputStream might have information)''))
     else ret (r_status r)))))))"

definition CallGet_vector :: "'d http_env \<Rightarrow> string \<Rightarrow> int \<Rightarrow> rat \<Rightarrow> ('d, int \<times> string) http" where
  "CallGet_vector env desturi expectedhttpcode timeout =
     with_timeout env timeout (with_headers env m_httpheadersjson (with_url env desturi (
     with_option env WRITEFUNCTION Null (Callback WriteVector) (
     thenM (modifyM (\<lambda>s. s \<lparr> m_vector := [] \<rparr>)) (
     with_option env WRITEDATA Null (Target VectorSink) (
     with_option env HTTPGET (Long 0) (Long 1) (
     bindM (CURL_PERFORM env) (\<lambda>r.
     bindM (getM m_vector) (\<lambda>outputdata.
     if unexpected expectedhttpcode (r_status r) then
       (if length outputdata > 0 then
          bindM (liftR (ParseJson (json_lib env) outputdata)) (\<lambda>d.
          bindM (liftR (key_string env d ''error_message'')) (\<lambda>error_message.
            throw (http_failed_with ''GET'' desturi (r_status r) error_message)))
        else throw (http_failed ''GET'' desturi (r_status r)))
     else ret (r_status r, outputdata))))))))))"

text \<open>The public calls: the URI is relative to \<^verbatim>\<open>_baseapiuri\<close>.\<close>

definition at_api_uri :: "string \<Rightarrow> (string \<Rightarrow> ('d, 'a) http) \<Rightarrow> ('d, 'a) http" where
  "at_api_uri relativeuri m =
     with_lock (thenM (modifyM (\<lambda>s. s \<lparr> m_uri := m_baseapiuri s @ relativeuri \<rparr>)) (bindM (getM m_uri) m))"

definition CallGet :: "'d http_env \<Rightarrow> string \<Rightarrow> 'd json \<Rightarrow> int \<Rightarrow> rat \<Rightarrow> ('d, int \<times> 'd json) http" where
  "CallGet env relativeuri pt expectedhttpcode timeout =
     at_api_uri relativeuri (\<lambda>uri. CallGet_json env uri pt expectedhttpcode timeout)"

definition CallGet_to_string :: "'d http_env \<Rightarrow> string \<Rightarrow> int \<Rightarrow> rat \<Rightarrow> ('d, int \<times> string) http" where
  "CallGet_to_string env relativeuri expectedhttpcode timeout =
     at_api_uri relativeuri (\<lambda>uri. CallGet_string env uri expectedhttpcode timeout)"

definition CallGet_to_stream :: "'d http_env \<Rightarrow> string \<Rightarrow> int \<Rightarrow> rat \<Rightarrow> ('d, int) http" where
  "CallGet_to_stream env relativeuri expectedhttpcode timeout =
     at_api_uri relativeuri (\<lambda>uri. CallGet_stream env uri expectedhttpcode timeout)"

definition CallGet_to_vector :: "'d http_env \<Rightarrow> string \<Rightarrow> int \<Rightarrow> rat \<Rightarrow> ('d, int \<times> string) http" where
  "CallGet_to_vector env relativeuri expectedhttpcode timeout =
     at_api_uri relativeuri (\<lambda>uri. CallGet_vector env uri expectedhttpcode timeout)"

section \<open>POST, PUT and DELETE\<close>

text \<open>The reply in \<^verbatim>\<open>_buffer\<close>, an empty object when there is none, and the check of the
  status.\<close>

definition json_reply ::
  "'d http_env \<Rightarrow> ('d lib \<Rightarrow> string \<Rightarrow> 'd json result) \<Rightarrow> string \<Rightarrow> string \<Rightarrow> int \<Rightarrow> http_result \<Rightarrow> ('d, int \<times> 'd json) http"
where
  "json_reply env parse verb uri expectedhttpcode r =
     bindM (getM m_buffer) (\<lambda>buffer.
     bindM (if buffer \<noteq> [] then liftR (parse (json_lib env) buffer) else ret (JObject [])) (\<lambda>rResult.
     if unexpected expectedhttpcode (r_status r) then
       bindM (liftR (key_string env rResult ''error_message'')) (\<lambda>error_message.
         throw (http_failed_with verb uri (r_status r) error_message))
     else ret (r_status r, rResult)))"

definition CallPost_data ::
  "'d http_env \<Rightarrow> string \<Rightarrow> string \<Rightarrow> int \<Rightarrow> rat \<Rightarrow> ('d, int \<times> 'd json) http" where
  "CallPost_data env desturi data expectedhttpcode timeout =
     with_timeout env timeout (with_headers env m_httpheadersjson (with_url env desturi (
     thenM clear_buffer (
     writing_to env WriteStringStream BufferSink (
     with_option env POST (Long 0) (Long 1) (
     with_option env POSTFIELDSIZE (Long 0) (Long (int (length data))) (
     with_option env POSTFIELDS Null (if length data > 0 then Text data else Null) (
     bindM (CURL_PERFORM env) (json_reply env ParseJson_stream ''POST'' desturi expectedhttpcode)))))))))"

definition CallPost_form ::
  "'d http_env \<Rightarrow> string \<Rightarrow> form_part list \<Rightarrow> int \<Rightarrow> rat \<Rightarrow> ('d, int \<times> 'd json) http" where
  "CallPost_form env desturi data expectedhttpcode timeout =
     with_timeout env timeout (with_url env desturi (
     thenM clear_buffer (
     writing_to env WriteStringStream BufferSink (
     with_option env HTTPPOST Null (Form data) (
     with_headers env m_httpheadersmultipartformdata (
     bindM (CURL_PERFORM env) (json_reply env ParseJson_stream ''POST'' desturi expectedhttpcode)))))))"

definition CallPost :: "'d http_env \<Rightarrow> string \<Rightarrow> string \<Rightarrow> int \<Rightarrow> rat \<Rightarrow> ('d, int \<times> 'd json) http" where
  "CallPost env relativeuri data expectedhttpcode timeout =
     at_api_uri relativeuri (\<lambda>uri. CallPost_data env uri data expectedhttpcode timeout)"

definition CallPut ::
  "'d http_env \<Rightarrow> string \<Rightarrow> string \<Rightarrow> ('d client \<Rightarrow> string list) \<Rightarrow> int \<Rightarrow> rat \<Rightarrow> ('d, int \<times> 'd json) http" where
  "CallPut env relativeuri pdata headers expectedhttpcode timeout =
     with_lock (
     with_headers env headers (with_timeout env timeout (
     thenM (modifyM (\<lambda>s. s \<lparr> m_uri := m_baseapiuri s @ relativeuri \<rparr>)) (
     bindM (getM m_uri) (\<lambda>uri.
     with_url env uri (
     thenM clear_buffer (
     writing_to env WriteStringStream BufferSink (
     with_option env CUSTOMREQUEST Null (Text ''PUT'') (
     with_option env POSTFIELDSIZE (Long 0) (Long (int (length pdata))) (
     with_option env POSTFIELDS Null (Text pdata) (
     bindM (CURL_PERFORM env) (json_reply env ParseJson ''PUT'' relativeuri expectedhttpcode))))))))))))"

definition CallPutSTL :: "'d http_env \<Rightarrow> string \<Rightarrow> string \<Rightarrow> int \<Rightarrow> rat \<Rightarrow> ('d, int \<times> 'd json) http" where
  "CallPutSTL env relativeuri data expectedhttpcode timeout =
     CallPut env relativeuri data m_httpheadersstl expectedhttpcode timeout"

definition CallPutJSON :: "'d http_env \<Rightarrow> string \<Rightarrow> string \<Rightarrow> int \<Rightarrow> rat \<Rightarrow> ('d, int \<times> 'd json) http" where
  "CallPutJSON env relativeuri data expectedhttpcode timeout =
     CallPut env relativeuri data m_httpheadersjson expectedhttpcode timeout"

text \<open>The body is parsed, whatever it is, when the status is another than the expected one.\<close>

definition CallDelete :: "'d http_env \<Rightarrow> string \<Rightarrow> int \<Rightarrow> rat \<Rightarrow> ('d, unit) http" where
  "CallDelete env relativeuri expectedhttpcode timeout =
     with_lock (
     with_timeout env timeout (
     thenM (modifyM (\<lambda>s. s \<lparr> m_uri := m_baseapiuri s @ relativeuri \<rparr>)) (
     bindM (getM m_uri) (\<lambda>uri.
     with_headers env m_httpheadersjson (with_url env uri (
     with_option env CUSTOMREQUEST Null (Text ''DELETE'') (
     thenM clear_buffer (
     writing_to env WriteStringStream BufferSink (
     bindM (CURL_PERFORM env) (\<lambda>r.
     if r_status r \<noteq> expectedhttpcode then
       bindM (getM m_buffer) (\<lambda>buffer.
       bindM (liftR (ParseJson (json_lib env) buffer)) (\<lambda>d.
       bindM (liftR (key_string env d ''error_message'')) (\<lambda>error_message.
         throw (http_failed_with ''DELETE'' relativeuri (r_status r) error_message))))
     else ret ()))))))))))"

end
