(* ===== verification/ControllerClient.thy ===== *)
theory ControllerClient
  imports Http
begin

text \<open>
  The operations of \<^verbatim>\<open>ControllerClientImpl\<close> on top of the requests of the theory Http
  (\<^verbatim>\<open>src/controllerclientimpl.cpp\<close>): construction and settings, GraphQL queries and
  subscriptions, scenes and objects, the WebDAV files, backup and upgrade, log entries.
\<close>

section \<open>Headers and settings\<close>

definition header_X :: "'d client \<Rightarrow> string" where
  "header_X s = c_str (''X-CSRFToken: '' @ m_csrfmiddlewaretoken s)"

text \<open>The three header lists; only the last two get the additional headers.\<close>

definition SetupHTTPHeadersJSON :: "'d client \<Rightarrow> 'd client" where
  "SetupHTTPHeadersJSON s = s \<lparr> m_httpheadersjson :=
     [c_str (''Content-Type: application/json; charset='' @ m_charset s),
      c_str (''Accept-Language: '' @ m_language s @ '',en-us''),
      c_str (''Accept-Charset: '' @ m_charset s),
      header_X s, ''Connection: Keep-Alive'', ''Keep-Alive: 20''] \<rparr>"

definition SetupHTTPHeadersSTL :: "'d client \<Rightarrow> 'd client" where
  "SetupHTTPHeadersSTL s = s \<lparr> m_httpheadersstl :=
     [''Content-Type: application/sla'', header_X s, ''Connection: Keep-Alive'', ''Keep-Alive: 20''] @
     map c_str (m_additionalHeaders s) \<rparr>"

definition SetupHTTPHeadersMultipartFormData :: "'d client \<Rightarrow> 'd client" where
  "SetupHTTPHeadersMultipartFormData s = s \<lparr> m_httpheadersmultipartformdata :=
     [''Content-Type: multipart/form-data'', header_X s, ''Connection: Keep-Alive'', ''Keep-Alive: 20''] @
     map c_str (m_additionalHeaders s) \<rparr>"

definition SetCharacterEncoding :: "string \<Rightarrow> ('d, unit) http" where
  "SetCharacterEncoding newencoding =
     with_lock (modifyM (\<lambda>s. SetupHTTPHeadersJSON (s \<lparr> m_charset := newencoding \<rparr>)))"

definition SetLanguage :: "string \<Rightarrow> ('d, unit) http" where
  "SetLanguage language =
     with_lock (modifyM (\<lambda>s. SetupHTTPHeadersJSON (if language \<noteq> [] then s \<lparr> m_language := language \<rparr> else s)))"

definition SetUserAgent :: "'d http_env \<Rightarrow> string \<Rightarrow> ('d, unit) http" where
  "SetUserAgent env userAgent' =
     thenM (CURL_OPTION_SETTER env USERAGENT (Text (c_str userAgent')))
       (modifyM (\<lambda>s. s \<lparr> m_clientInfo := m_clientInfo s \<lparr> userAgent := userAgent' \<rparr> \<rparr>))"

definition SetAdditionalHeaders :: "string list \<Rightarrow> ('d, unit) http" where
  "SetAdditionalHeaders headers =
     with_lock (modifyM (\<lambda>s. SetupHTTPHeadersMultipartFormData (SetupHTTPHeadersSTL (SetupHTTPHeadersJSON
       (s \<lparr> m_additionalHeaders := headers, m_clientInfo := m_clientInfo s \<lparr> additionalHeaders := headers \<rparr> \<rparr>)))))"

text \<open>The websocket of the subscriptions is closed and forgotten; when a callback throws, it is
  kept.\<close>

definition stop_subscriptions :: "'d http_env \<Rightarrow> ('d, unit) http" where
  "stop_subscriptions env s =
     (case m_websocket s of
        None \<Rightarrow> (Inr (), s)
      | Some w \<Rightarrow>
          if IsStreamOpen w then
            (case StopAllSubscriptions (websocket_env env) w of
               (Inl e, w) \<Rightarrow> (Inl e, s \<lparr> m_websocket := Some w \<rparr>)
             | (Inr _, w) \<Rightarrow> (Inr (), s \<lparr> m_websocket := None \<rparr>))
          else (Inr (), s))"

definition SetProxy :: "'d http_env \<Rightarrow> string \<Rightarrow> string \<Rightarrow> ('d, unit) http" where
  "SetProxy env serverport userpw =
     thenM (CURL_OPTION_SETTER env UNIX_SOCKET_PATH Null) (
     thenM (CURL_OPTION_SETTER env PROXY (Text (c_str serverport))) (
     thenM (CURL_OPTION_SETTER env PROXYUSERPWD (Text (c_str userpw))) (
     thenM (modifyM (\<lambda>s. s \<lparr> m_clientInfo := m_clientInfo s \<lparr> unixEndpoint := [] \<rparr> \<rparr>)) (
     with_lock (stop_subscriptions env)))))"

definition SetUnixEndpoint :: "'d http_env \<Rightarrow> string \<Rightarrow> ('d, unit) http" where
  "SetUnixEndpoint env unixendpoint =
     thenM (CURL_OPTION_SETTER env PROXY Null) (
     thenM (CURL_OPTION_SETTER env PROXYUSERPWD Null) (
     thenM (CURL_OPTION_SETTER env UNIX_SOCKET_PATH (Text (c_str unixendpoint))) (
     thenM (modifyM (\<lambda>s. s \<lparr> m_clientInfo := m_clientInfo s \<lparr> unixEndpoint := unixendpoint \<rparr> \<rparr>)) (
     with_lock (stop_subscriptions env)))))"

text \<open>The defaults for the types of new scenes and tasks, which take no lock, and what the object tells of itself.\<close>

definition SetDefaultSceneType :: "string \<Rightarrow> ('d, unit) http" where
  "SetDefaultSceneType scenetype = modifyM (\<lambda>s. s \<lparr> m_defaultscenetype := scenetype \<rparr>)"

definition GetDefaultSceneType :: "('d, string) http" where
  "GetDefaultSceneType = getM m_defaultscenetype"

definition SetDefaultTaskType :: "string \<Rightarrow> ('d, unit) http" where
  "SetDefaultTaskType tasktype = modifyM (\<lambda>s. s \<lparr> m_defaulttasktype := tasktype \<rparr>)"

definition GetDefaultTaskType :: "('d, string) http" where
  "GetDefaultTaskType = getM m_defaulttasktype"

definition GetUserName :: "('d, string) http" where
  "GetUserName = getM m_username"

definition GetBaseURI :: "('d, string) http" where
  "GetBaseURI = getM m_baseuri"

definition GetClientInfo :: "('d, ControllerClientInfo) http" where
  "GetClientInfo = getM m_clientInfo"

definition GetBuffer :: "('d, string) http" where
  "GetBuffer = getM m_buffer"

text \<open>\<^verbatim>\<open>CallGet\<close> writes into \<^verbatim>\<open>_profile\<close> itself, so that the answer stays there when its status is then refused.\<close>

definition GetVersion :: "'d http_env \<Rightarrow> ('d, string) http" where
  "GetVersion env =
     bindM (getM m_profile) (\<lambda>profile.
     thenM
       (if IsObject profile then ret ()
        else thenM (modifyM (\<lambda>s. s \<lparr> m_profile := JObject [] \<rparr>))
          (bindM (CallGet env ''profile/'' (JObject []) 0 5) (\<lambda>(http_code, v).
           thenM (modifyM (\<lambda>s. s \<lparr> m_profile := v \<rparr>))
             (if unexpected 200 http_code then
                bindM (liftR (key_string env v ''error_message'')) (\<lambda>error_message.
                bindM (getM m_uri) (\<lambda>uri. throw (http_failed_with ''GET'' uri http_code error_message)))
              else ret ()))))
       (bindM (getM m_profile) (\<lambda>profile. liftR (key_string env profile ''version''))))"

section \<open>Construction\<close>

definition ends_with :: "string \<Rightarrow> string \<Rightarrow> bool" where
  "ends_with s t \<longleftrightarrow> length t \<le> length s \<and> drop (length s - length t) s = t"

definition ensure_slash :: "string \<Rightarrow> string" where
  "ensure_slash s = (if last s \<noteq> CHR ''/'' then s @ ''/'' else s)"

text \<open>The last character of an empty string is outside of it.\<close>

definition ensure_slash_checked :: "string \<Rightarrow> string result" where
  "ensure_slash_checked s =
     (if s = [] then Inl (UndefinedBehaviour ''operator[]'') else Inr (ensure_slash s))"

definition full_uri :: "string \<Rightarrow> string \<Rightarrow> string" where
  "full_uri usernamepassword baseuri =
     (case find_str ''//'' baseuri of
        Some authorityindex \<Rightarrow>
          substr baseuri 0 (authorityindex + 2) @ usernamepassword @ ''@'' @ drop (authorityindex + 2) baseuri
      | None \<Rightarrow> ''//'' @ usernamepassword @ ''@'' @ baseuri)"

text \<open>\<^verbatim>\<open>:8000/\<close> has six characters; the flag is the bit of \<^verbatim>\<open>0x80000000\<close>. A base URI of fewer than
  six characters wraps the length round, and the whole string is taken.\<close>

definition webdav_uri :: "string \<Rightarrow> string \<Rightarrow> bool \<Rightarrow> string" where
  "webdav_uri baseuri user flag =
     (if ends_with baseuri '':8000/'' \<or> flag
      then (if length baseuri < 6 then baseuri else take (length baseuri - 6) baseuri) @ ''/u/'' @ user @ ''/''
      else baseuri @ ''u/'' @ user @ ''/'')"

definition cookie_domain :: "'d http_env \<Rightarrow> string \<Rightarrow> ('d, string) http" where
  "cookie_domain env baseuri =
     (if find_char (CHR ''/'') baseuri = Some (length baseuri - 1)
      then ret (take (length baseuri - 1) baseuri)
      else case url_host env baseuri of
        Inr domain \<Rightarrow> ret domain
      | Inl (parsed, text) \<Rightarrow>
          bindM (getM m_errormessage) (\<lambda>msg.
            throw (MujinException (''curl function '' @
              (if parsed then ''cannot determine hostname from url'' else ''cannot parse url'') @ '' with error '' @ squoted text @ '': '' @ msg) MEC_HTTPClient)))"

text \<open>The options of a new handle: the number options are off, the post size is -1 (unknown).\<close>

fun curl_default :: "copt \<Rightarrow> cval" where
  "curl_default POSTFIELDSIZE = Long (-1)"
| "curl_default opt =
     (if opt \<in> {TIMEOUT_MS, POST, HTTPGET, FILETIME, NOBODY, TIMECONDITION, TIMEVALUE} then Long 0 else Null)"

text \<open>The object before the body of the constructor runs.\<close>

definition blank_client :: "ControllerClientInfo \<Rightarrow> 'd client" where
  "blank_client info = \<lparr> m_locked = False, m_opts = curl_default, m_requests = [], m_buffer = [], m_vector = [],
     m_stream = [], m_stdout = [], m_errormessage = replicate 256 (CHR 0x00), m_filetime = -1, m_uri = [], m_fulluri = [],
     m_baseuri = [], m_baseapiuri = [], m_basewebdavuri = [], m_username = [], m_clientInfo = info,
     m_charset = [], m_language = [], m_csrfmiddlewaretoken = [], m_additionalHeaders = [],
     m_httpheadersjson = [], m_httpheadersstl = [], m_httpheadersmultipartformdata = [], m_profile = JNull,
     m_defaultscenetype = [], m_defaulttasktype = [], m_websocket = None \<rparr>"

definition constructor_options :: "'d http_env \<Rightarrow> string \<Rightarrow> (copt \<times> cval) list" where
  "constructor_options env usernamepassword =
     [(HTTPAUTH, Long 1), (USERPWD, Text (c_str usernamepassword)), (COOKIEFILE, Text []),
      (USERAGENT, Text (c_str (''controllerclientcpp/'' @ client_version env))),
      (FOLLOWLOCATION, Long 1), (MAXREDIRS, Long 10), (NOSIGNAL, Long 1), (POSTFIELDSIZE, Long 0), (POSTFIELDS, Null)] @
     (if has_libz env then [(ACCEPT_ENCODING, Text ''gzip, deflate'')] else [])"

definition parse_base_uri :: "string \<Rightarrow> string \<Rightarrow> string \<Rightarrow> ('d, unit) http" where
  "parse_base_uri user usernamepassword baseuri s =
     (case ParseClientInfoFromURL (c_str baseuri) (m_clientInfo s) of
        (r, info) \<Rightarrow> (r, s \<lparr> m_username := user, m_fulluri := full_uri usernamepassword baseuri, m_clientInfo := info \<rparr>))"

definition set_addresses :: "string \<Rightarrow> string \<Rightarrow> string \<Rightarrow> bool \<Rightarrow> 'd client \<Rightarrow> 'd client" where
  "set_addresses user passwd base flag s = s \<lparr> m_clientInfo := m_clientInfo s \<lparr> username := user, password := passwd \<rparr>,
     m_baseuri := base, m_baseapiuri := base @ ''api/v1/'', m_basewebdavuri := webdav_uri base user flag \<rparr>"

definition set_cookie :: "'d http_env \<Rightarrow> string \<Rightarrow> ('d, unit) http" where
  "set_cookie env base =
     thenM (modifyM (\<lambda>s. s \<lparr> m_csrfmiddlewaretoken := ''csrftoken'' \<rparr>)) (
     bindM (cookie_domain env base) (\<lambda>domain.
       CURL_OPTION_SETTER env COOKIELIST (Text (c_str (''Set-Cookie: csrftoken=csrftoken; domain='' @ c_str domain)))))"

definition default_headers :: "'d client \<Rightarrow> 'd client" where
  "default_headers s = SetupHTTPHeadersMultipartFormData (SetupHTTPHeadersSTL (SetupHTTPHeadersJSON
     (s \<lparr> m_charset := ''utf-8'', m_language := ''en-us'' \<rparr>)))"

definition ControllerClientImpl ::
  "'d http_env \<Rightarrow> string \<Rightarrow> string \<Rightarrow> string \<Rightarrow> string \<Rightarrow> bool \<Rightarrow> ('d, unit) http" where
  "ControllerClientImpl env usernamepassword baseuri proxyserverport proxyuserpw flag =
     thenM (liftR (check_assert (baseuri \<noteq> []) ''!baseuri.empty()'')) (
     case find_char (CHR '':'') usernamepassword of
       None \<Rightarrow> throw (assertion_failed ''usernameindex != std::string::npos'')
     | Some usernameindex \<Rightarrow>
         (let user = take usernameindex usernamepassword;
              passwd = drop (usernameindex + 1) usernamepassword;
              base = ensure_slash baseuri in
          thenM (parse_base_uri user usernamepassword baseuri) (
          thenM (modifyM (set_addresses user passwd base flag)) (
          thenM (CURL_OPTION_SETTER env ERRORBUFFER (Target ErrorSink)) (
          thenM (CURL_OPTION_SETTER env SSL_VERIFYPEER (Long 0)) (
          thenM (if proxyserverport \<noteq> [] then SetProxy env proxyserverport proxyuserpw else ret ()) (
          thenM (mapMs (\<lambda>(opt, v). CURL_OPTION_SETTER env opt v) (constructor_options env usernamepassword)) (
          thenM (set_cookie env base) (modifyM default_headers)))))))))"

section \<open>GraphQL\<close>

definition graph_request :: "string \<Rightarrow> string \<Rightarrow> 'd json \<Rightarrow> 'd json" where
  "graph_request operationName query rVariables =
     JObject [(''operationName'', JString (c_str operationName)), (''query'', JString (c_str query)),
       (''variables'', rVariables)]"

definition dquoted :: "string \<Rightarrow> string" where
  "dquoted s = [CHR 0x22] @ s @ [CHR 0x22]"

definition dump :: "'d http_env \<Rightarrow> 'd json \<Rightarrow> string result" where
  "dump env v = DumpJson (json_lib env) v 0"

definition string_member :: "'d json \<Rightarrow> string \<Rightarrow> string option" where
  "string_member v key =
     (if IsObject v then
        (case FindMember v key of Some (JString s) \<Rightarrow> Some (c_str s) | _ \<Rightarrow> None)
      else None)"

text \<open>The first of the errors that is an object with a message is thrown.\<close>

fun throw_graph_error :: "string \<Rightarrow> 'd json list \<Rightarrow> error option" where
  "throw_graph_error operationName [] = None"
| "throw_graph_error operationName (rError # errors) =
     (case string_member rError ''message'' of
        Some message \<Rightarrow>
          Some (MujinGraphQueryError (''graph query has errors '' @ dquoted (c_str operationName) @ '': '' @ message)
            (case FindMember rError ''extensions'' of
               Some extensions \<Rightarrow> (case string_member extensions ''errorCode'' of Some code \<Rightarrow> code | None \<Rightarrow> ''unknown'')
             | None \<Rightarrow> ''unknown''))
      | None \<Rightarrow> throw_graph_error operationName errors)"

definition graph_invalid :: "'d http_env \<Rightarrow> string \<Rightarrow> string \<Rightarrow> string \<Rightarrow> 'd json \<Rightarrow> 'a result" where
  "graph_invalid env before_name after_name operationName v =
     bindR (dump env v) (\<lambda>text.
       Inl (http_error (before_name @ dquoted (c_str operationName) @ after_name @ text)))"

definition check_graph_errors :: "'d http_env \<Rightarrow> string \<Rightarrow> 'd json \<Rightarrow> unit result" where
  "check_graph_errors env operationName rResultDoc =
     (case FindMember rResultDoc ''errors'' of
        Some (JArray (e # es)) \<Rightarrow>
          (case throw_graph_error operationName (e # es) of
             Some x \<Rightarrow> Inl x
           | None \<Rightarrow> graph_invalid env ''graph query has undefined errors '' '': '' operationName rResultDoc)
      | _ \<Rightarrow> Inr ())"

definition graph_result :: "'d http_env \<Rightarrow> string \<Rightarrow> bool \<Rightarrow> bool \<Rightarrow> 'd json \<Rightarrow> 'd json result" where
  "graph_result env operationName checkForErrors returnRawResponse rResultDoc =
     (if \<not> IsObject rResultDoc then
        graph_invalid env ''Execute graph query does not return valid response '' '', invalid response: '' operationName rResultDoc
      else
        bindR (if checkForErrors then check_graph_errors env operationName rResultDoc else Inr ()) (\<lambda>_.
        case FindMember rResultDoc ''data'' of
          None \<Rightarrow> graph_invalid env (''Execute graph query does not have '' @ squoted ''data'' @ '' field in '')
            '', invalid response: '' operationName rResultDoc
        | Some data \<Rightarrow> Inr (if returnRawResponse then rResultDoc else data)))"

definition ExecuteGraphQuery' ::
  "'d http_env \<Rightarrow> string \<Rightarrow> string \<Rightarrow> 'd json \<Rightarrow> rat \<Rightarrow> bool \<Rightarrow> bool \<Rightarrow> ('d, 'd json) http" where
  "ExecuteGraphQuery' env operationName query rVariables timeout checkForErrors returnRawResponse =
     bindM (with_lock (
       thenM (modifyM (\<lambda>s. s \<lparr> m_uri := m_baseuri s @ ''api/v2/graphql'' \<rparr>)) (
       bindM (getM m_uri) (\<lambda>uri.
       CallPost_data env uri (c_str (ws_writer (websocket_env env) (graph_request operationName query rVariables))) 200 timeout))))
     (\<lambda>(_, rResultDoc). liftR (graph_result env operationName checkForErrors returnRawResponse rResultDoc))"

definition ExecuteGraphQuery :: "'d http_env \<Rightarrow> string \<Rightarrow> string \<Rightarrow> 'd json \<Rightarrow> rat \<Rightarrow> ('d, 'd json) http" where
  "ExecuteGraphQuery env operationName query rVariables timeout =
     ExecuteGraphQuery' env operationName query rVariables timeout True False"

definition ExecuteGraphQueryRaw :: "'d http_env \<Rightarrow> string \<Rightarrow> string \<Rightarrow> 'd json \<Rightarrow> rat \<Rightarrow> ('d, 'd json) http" where
  "ExecuteGraphQueryRaw env operationName query rVariables timeout =
     ExecuteGraphQuery' env operationName query rVariables timeout False True"

text \<open>A subscription goes through the open websocket, or a new one; the handle keeps the websocket
  and the id, which is a fresh random one.\<close>

definition ExecuteGraphSubscription ::
  "'d http_env \<Rightarrow> string \<Rightarrow> string \<Rightarrow> string \<Rightarrow> 'd json \<Rightarrow> bool \<Rightarrow> ('d, string) http" where
  "ExecuteGraphSubscription env uuid operationName query rVariables onReadHandler =
     with_lock (\<lambda>s.
       case (case m_websocket s of
               Some w \<Rightarrow> if IsStreamOpen w then Inr w else open_websocket (websocket_env env) (m_clientInfo s)
             | None \<Rightarrow> open_websocket (websocket_env env) (m_clientInfo s)) of
         Inl e \<Rightarrow> (Inl e, s)
       | Inr w \<Rightarrow>
           (case StartSubscription (websocket_env env) uuid operationName query rVariables onReadHandler w of
              (Inl e, w') \<Rightarrow> (Inl e, s \<lparr> m_websocket := map_option (\<lambda>v. if IsStreamOpen v then w' else v) (m_websocket s) \<rparr>)
            | (Inr subscriptionId, w') \<Rightarrow> (Inr subscriptionId, s \<lparr> m_websocket := Some w' \<rparr>)))"

section \<open>Jobs\<close>

datatype JobStatusCode =
    JSC_Pending | JSC_Active | JSC_Preempted | JSC_Succeeded | JSC_Aborted | JSC_Rejected
  | JSC_Preempting | JSC_Recalling | JSC_Recalled | JSC_Lost | JSC_Unknown

definition GetStatusCode :: "string \<Rightarrow> JobStatusCode result" where
  "GetStatusCode str =
     (if str = ''pending'' then Inr JSC_Pending
      else if str = ''active'' then Inr JSC_Active
      else if str = ''preempted'' then Inr JSC_Preempted
      else if str = ''succeeded'' then Inr JSC_Succeeded
      else if str = ''aborted'' then Inr JSC_Aborted
      else if str = ''rejected'' then Inr JSC_Rejected
      else if str = ''preempting'' then Inr JSC_Preempting
      else if str = ''recalling'' then Inr JSC_Recalling
      else if str = ''recalled'' then Inr JSC_Recalled
      else if str = ''lost'' then Inr JSC_Lost
      else if str = ''unknown'' then Inr JSC_Unknown
      else Inl (MujinException (''unknown staus '' @ str) MEC_InvalidArguments))"

record 'd JobStatus =
  js_code :: JobStatusCode
  js_type :: string
  js_message :: string
  js_elapsedtime :: 'd
  js_pk :: string

text \<open>\<^verbatim>\<open>pt["objects"]\<close> iterated over: rapidjson asserts the member and the array.\<close>

definition objects_of :: "'d json \<Rightarrow> 'd json list result" where
  "objects_of v =
     (if IsObject v then
        (case FindMember v ''objects'' of
           Some (JArray objects) \<Rightarrow> Inr objects
         | _ \<Rightarrow> Inl rapidjson_assertion)
      else Inl rapidjson_assertion)"

definition number_key :: "'d http_env \<Rightarrow> 'd json \<Rightarrow> string \<Rightarrow> 'd result" where
  "number_key env v key =
     GetJsonValueByKey (double_of_int (json_lib env) 0) (LoadJsonDouble (json_lib env)) v key"

definition load_job_status :: "'d http_env \<Rightarrow> nat \<Rightarrow> 'd json \<Rightarrow> 'd JobStatus result" where
  "load_job_status env options v =
     bindR (key_string env v ''pk'') (\<lambda>pk.
     bindR (key_string env v ''status'') (\<lambda>status.
     bindR (GetStatusCode status) (\<lambda>code.
     bindR (key_string env v ''fnname'') (\<lambda>fnname.
     bindR (number_key env v ''elapsedtime'') (\<lambda>elapsedtime.
     bindR (if odd options then key_string env v ''status_text'' else Inr []) (\<lambda>message.
     Inr \<lparr> js_code = code, js_type = fnname, js_message = message, js_elapsedtime = elapsedtime, js_pk = pk \<rparr>))))))"

definition CancelAllJobs :: "'d http_env \<Rightarrow> ('d, unit) http" where
  "CancelAllJobs env = CallDelete env ''job/?format=json'' 204 5"

definition GetRunTimeStatuses :: "'d http_env \<Rightarrow> nat \<Rightarrow> ('d, 'd JobStatus list) http" where
  "GetRunTimeStatuses env options =
     bindM (CallGet env (''job/?format=json&fields=pk,status,fnname,elapsedtime'' @
       (if odd options then '',status_text'' else [])) (JObject []) 200 5) (\<lambda>(_, pt).
     liftR (bindR (objects_of pt) (mapR (load_job_status env options))))"

definition RestartServer :: "'d http_env \<Rightarrow> rat \<Rightarrow> ('d, unit) http" where
  "RestartServer env timeout =
     with_lock (
     with_timeout env timeout (
     thenM (modifyM (\<lambda>s. s \<lparr> m_uri := m_baseuri s @ ''restartserver/'' \<rparr>)) (
     bindM (getM m_uri) (\<lambda>uri.
     with_headers env m_httpheadersjson (with_url env uri (
     with_option env POST (Long 0) (Long 1) (
     thenM clear_buffer (
     writing_to env WriteStringStream BufferSink (
     bindM (CURL_PERFORM env) (\<lambda>r.
     if r_status r \<noteq> 200 then
       throw (http_error ''Failed to restart server, please try again or contact MUJIN support'')
     else ret ()))))))))))"

section \<open>Scenes and objects\<close>

definition octets_string :: "octets \<Rightarrow> string" where
  "octets_string bs = map (\<lambda>b. char_of (unat b)) bs"

definition string_octets :: "string \<Rightarrow> octets" where
  "string_octets s = map (\<lambda>c. word_of_nat (of_char c)) s"

text \<open>A wide string as UTF-8, and a string in a wide format.\<close>

definition narrow :: "wstring \<Rightarrow> string result" where
  "narrow ws = bindR (utf16to8 ws) (\<lambda>bs. Inr (octets_string bs))"

definition wide :: "'d http_env \<Rightarrow> string \<Rightarrow> wstring" where
  "wide env s = map (widen env) s"

definition dquote :: string where
  "dquote = [CHR 0x22]"

text \<open>A JSON object written by hand; nothing in the values is escaped.\<close>

definition string_field :: "string \<Rightarrow> string \<Rightarrow> string \<Rightarrow> string" where
  "string_field key sep v = dquoted key @ '':'' @ sep @ dquoted v"

definition CallPost_UTF8 ::
  "'d http_env \<Rightarrow> string \<Rightarrow> string \<Rightarrow> int \<Rightarrow> rat \<Rightarrow> ('d, int \<times> 'd json) http" where
  "CallPost_UTF8 env relativeuri data expectedhttpcode timeout =
     CallPost env relativeuri data expectedhttpcode timeout"

definition CallPost_UTF16 ::
  "'d http_env \<Rightarrow> string \<Rightarrow> wstring \<Rightarrow> int \<Rightarrow> rat \<Rightarrow> ('d, int \<times> 'd json) http" where
  "CallPost_UTF16 env relativeuri data expectedhttpcode timeout =
     bindM (liftR (narrow data)) (\<lambda>text. CallPost env relativeuri text expectedhttpcode timeout)"

definition pk_of :: "'d http_env \<Rightarrow> (int \<times> 'd json) \<Rightarrow> ('d, string) http" where
  "pk_of env r = liftR (key_string env (snd r) ''pk'')"

definition GetScenePrimaryKeys :: "'d http_env \<Rightarrow> ('d, string list) http" where
  "GetScenePrimaryKeys env =
     bindM (CallGet env ''scene/?format=json&limit=0&fields=pk'' (JObject []) 200 5) (\<lambda>(_, pt).
     liftR (bindR (objects_of pt) (mapR (\<lambda>v. key_string env v ''pk''))))"

definition RegisterScene_UTF8 :: "'d http_env \<Rightarrow> string \<Rightarrow> string \<Rightarrow> ('d, string) http" where
  "RegisterScene_UTF8 env uri scenetype =
     thenM (liftR (check_assert (scenetype \<noteq> []) ''scenetype.size()>0'')) (
     bindM (CallPost_UTF8 env ''scene/?format=json&fields=pk''
       (''{'' @ string_field ''uri'' [] uri @ '', '' @ string_field ''scenetype'' [] scenetype @ ''}'') 201 5) (pk_of env))"

definition RegisterScene_UTF16 :: "'d http_env \<Rightarrow> wstring \<Rightarrow> string \<Rightarrow> ('d, string) http" where
  "RegisterScene_UTF16 env uri scenetype =
     thenM (liftR (check_assert (scenetype \<noteq> []) ''scenetype.size()>0'')) (
     bindM (CallPost_UTF16 env ''scene/?format=json&fields=pk''
       (wide env (''{'' @ dquoted ''uri'' @ '':'' @ dquote) @ uri @
        wide env (dquote @ '', '' @ string_field ''scenetype'' [] (c_str scenetype) @ ''}'')) 201 5) (pk_of env))"

definition ImportSceneToCOLLADA_UTF8 ::
  "'d http_env \<Rightarrow> string \<Rightarrow> string \<Rightarrow> string \<Rightarrow> bool \<Rightarrow> ('d, string) http" where
  "ImportSceneToCOLLADA_UTF8 env importuri importformat newuri overwrite =
     thenM (liftR (check_assert (importformat \<noteq> []) ''importformat.size()>0'')) (
     bindM (CallPost_UTF8 env (''scene/?format=json&fields=pk&overwrite='' @ (if overwrite then ''1'' else ''0''))
       (''{'' @ string_field ''reference_uri'' [] importuri @ '', '' @
        string_field ''reference_scenetype'' [] importformat @ '', '' @ string_field ''uri'' [] newuri @ ''}'') 201 5)
     (pk_of env))"

definition ImportSceneToCOLLADA_UTF16 ::
  "'d http_env \<Rightarrow> wstring \<Rightarrow> string \<Rightarrow> wstring \<Rightarrow> bool \<Rightarrow> ('d, string) http" where
  "ImportSceneToCOLLADA_UTF16 env importuri importformat newuri overwrite =
     thenM (liftR (check_assert (importformat \<noteq> []) ''importformat.size()>0'')) (
     bindM (CallPost_UTF16 env (''scene/?format=json&fields=pk&overwrite='' @ (if overwrite then ''1'' else ''0''))
       (wide env (''{'' @ dquoted ''reference_uri'' @ '':'' @ dquote) @ importuri @
        wide env (dquote @ '', '' @ string_field ''reference_scenetype'' [] (c_str importformat) @ '', '' @
          dquoted ''uri'' @ '':'' @ dquote) @ newuri @
        wide env (dquote @ ''}'')) 201 5)
     (pk_of env))"

definition GetScenePrimaryKeyFromURI_UTF8 :: "'d http_env \<Rightarrow> string \<Rightarrow> string result" where
  "GetScenePrimaryKeyFromURI_UTF8 env uri =
     (case find_str '':/'' uri of
        None \<Rightarrow> Inl (MujinException (''bad URI: '' @ uri) MEC_InvalidArguments)
      | Some index \<Rightarrow> Inr (EscapeString env (drop (index + 2) uri)))"

definition GetScenePrimaryKeyFromURI_UTF16 :: "'d http_env \<Rightarrow> wstring \<Rightarrow> string result" where
  "GetScenePrimaryKeyFromURI_UTF16 env uri = bindR (narrow uri) (GetScenePrimaryKeyFromURI_UTF8 env)"

definition GetPrimaryKeyFromName_UTF8 :: "'d http_env \<Rightarrow> string \<Rightarrow> string" where
  "GetPrimaryKeyFromName_UTF8 env name = EscapeString env name"

definition GetPrimaryKeyFromName_UTF16 :: "'d http_env \<Rightarrow> wstring \<Rightarrow> string result" where
  "GetPrimaryKeyFromName_UTF16 env name =
     bindR (narrow name) (\<lambda>name_utf8. Inr (GetPrimaryKeyFromName_UTF8 env name_utf8))"

definition GetNameFromPrimaryKey_UTF8 :: "'d http_env \<Rightarrow> string \<Rightarrow> string" where
  "GetNameFromPrimaryKey_UTF8 env pk = UnescapeString env pk"

definition GetNameFromPrimaryKey_UTF16 :: "'d http_env \<Rightarrow> string \<Rightarrow> wstring result" where
  "GetNameFromPrimaryKey_UTF16 env pk = utf8to16 (string_octets (GetNameFromPrimaryKey_UTF8 env pk))"

definition CreateObjectGeometry ::
  "'d http_env \<Rightarrow> string \<Rightarrow> string \<Rightarrow> string \<Rightarrow> string \<Rightarrow> rat \<Rightarrow> ('d, string) http" where
  "CreateObjectGeometry env objectPk geometryName linkPk geomtype timeout =
     bindM (CallPost env (''object/'' @ objectPk @ ''/geometry/'')
       (''{'' @ string_field ''name'' [] geometryName @ '', '' @ string_field ''linkpk'' [] linkPk @ '', '' @
        string_field ''geomtype'' '' '' geomtype @ ''}'') 201 timeout) (pk_of env)"

definition CreateIkParam :: "'d http_env \<Rightarrow> string \<Rightarrow> string \<Rightarrow> string \<Rightarrow> rat \<Rightarrow> ('d, string) http" where
  "CreateIkParam env objectPk name iktype timeout =
     bindM (CallPost env (''object/'' @ objectPk @ ''/ikparam/'')
       (''{'' @ string_field ''name'' [] name @ '', '' @ string_field ''iktype'' [] iktype @ ''}'') 201 timeout) (pk_of env)"

fun comma_separated :: "string list \<Rightarrow> string" where
  "comma_separated [] = []"
| "comma_separated [x] = x"
| "comma_separated (x # xs) = x @ '','' @ comma_separated xs"

definition reals_text :: "'d http_env \<Rightarrow> 'd list \<Rightarrow> string" where
  "reals_text env xs = comma_separated (map (print_real env) xs)"

definition CreateLink ::
  "'d http_env \<Rightarrow> string \<Rightarrow> string \<Rightarrow> string \<Rightarrow> 'd \<times> 'd \<times> 'd \<times> 'd \<Rightarrow> 'd \<times> 'd \<times> 'd \<Rightarrow> rat \<Rightarrow> ('d, string) http" where
  "CreateLink env objectPk parentlinkPk name quaternion translate timeout =
     (case quaternion of (q0, q1, q2, q3) \<Rightarrow> case translate of (t0, t1, t2) \<Rightarrow>
     bindM (CallPost env (''object/'' @ objectPk @ ''/link/'')
       (''{'' @ string_field ''name'' [] name @ '', '' @ dquoted ''quaternion'' @ '':['' @ reals_text env [q0, q1, q2, q3] @
        ''], '' @ dquoted ''translate'' @ '':['' @ reals_text env [t0, t1, t2] @ '']'' @
        (if parentlinkPk \<noteq> [] then '', '' @ string_field ''parentlinkpk'' '' '' parentlinkPk else []) @ ''}'') 201 timeout)
     (pk_of env))"

definition SetObjectGeometryMesh ::
  "'d http_env \<Rightarrow> string \<Rightarrow> string \<Rightarrow> string \<Rightarrow> string \<Rightarrow> rat \<Rightarrow> ('d, string) http" where
  "SetObjectGeometryMesh env objectPk geometryPk meshData unit_name timeout =
     bindM (CallPutSTL env (''object/'' @ objectPk @ ''/geometry/'' @ geometryPk @ ''/?unit='' @ unit_name) meshData 202 timeout)
     (pk_of env)"

section \<open>URIs of files\<close>

text \<open>\<^verbatim>\<open>_EncodeWithoutSeparator\<close>: \<open>i\<close> is the index of the next character of \<open>raw\<close>. The begin of the
  segment is moved only behind a slash that ends a segment that is not empty.\<close>

fun encode_loop :: "'d http_env \<Rightarrow> string \<Rightarrow> string \<Rightarrow> nat \<Rightarrow> nat \<Rightarrow> string \<Rightarrow> string" where
  "encode_loop env raw [] i startindex output =
     (if startindex \<noteq> length raw then output @ EscapeString env (drop startindex raw) else output)"
| "encode_loop env raw (c # cs) i startindex output =
     (if c = CHR ''/'' then
        (if startindex \<noteq> i then
           encode_loop env raw cs (i + 1) (i + 1) (output @ EscapeString env (substr raw startindex (i - startindex)) @ ''/'')
         else encode_loop env raw cs (i + 1) startindex (output @ ''/''))
      else encode_loop env raw cs (i + 1) startindex output)"

definition EncodeWithoutSeparator :: "'d http_env \<Rightarrow> string \<Rightarrow> string" where
  "EncodeWithoutSeparator env raw = encode_loop env raw raw 0 0 []"

fun directories_loop :: "'d http_env \<Rightarrow> string \<Rightarrow> string \<Rightarrow> nat \<Rightarrow> nat \<Rightarrow> string list" where
  "directories_loop env uri [] i startindex =
     (if startindex \<noteq> length uri then [EscapeString env (drop startindex uri)] else [])"
| "directories_loop env uri (c # cs) i startindex =
     (if c = CHR ''/'' \<and> startindex \<noteq> i then
        EscapeString env (substr uri startindex (i - startindex)) # directories_loop env uri cs (i + 1) (i + 1)
      else directories_loop env uri cs (i + 1) startindex)"

definition mkcol_failed :: "http_result \<Rightarrow> bool" where
  "mkcol_failed r \<longleftrightarrow> r_status r \<noteq> 201 \<and> r_status r \<noteq> 301"

text \<open>One \<^verbatim>\<open>MKCOL\<close> for each directory on the way, the longer ones later.\<close>

definition make_directory :: "'d http_env \<Rightarrow> string \<Rightarrow> ('d, unit) http" where
  "make_directory env totaluri =
     thenM (modifyM (\<lambda>s. s \<lparr> m_uri := m_basewebdavuri s @ totaluri \<rparr>)) (
     bindM (getM m_uri) (\<lambda>uri.
     with_headers env m_httpheadersjson (with_url env uri (
     thenM clear_buffer (
     bindM (CURL_PERFORM env) (\<lambda>r.
     if mkcol_failed r then
       bindM (getM m_errormessage) (\<lambda>msg.
         throw (http_error (''HTTP MKCOL failed with HTTP status '' @ status_text (r_status r) @ '': '' @ msg)))
     else ret ()))))))"

fun make_directories :: "'d http_env \<Rightarrow> string list \<Rightarrow> string \<Rightarrow> ('d, unit) http" where
  "make_directories env [] totaluri = ret ()"
| "make_directories env (dir # dirs) totaluri =
     (let totaluri = (if totaluri \<noteq> [] then totaluri @ ''/'' else totaluri) @ dir in
      thenM (make_directory env totaluri) (make_directories env dirs totaluri))"

definition EnsureWebDAVDirectories :: "'d http_env \<Rightarrow> string \<Rightarrow> rat \<Rightarrow> ('d, unit) http" where
  "EnsureWebDAVDirectories env relativeuri timeout =
     (if relativeuri = [] then ret ()
      else with_timeout env timeout (
        writing_to env WriteStringStream BufferSink (
        with_option env CUSTOMREQUEST Null (Text ''MKCOL'') (
        make_directories env (directories_loop env relativeuri relativeuri 0 0) []))))"

definition directory_part :: "string \<Rightarrow> string" where
  "directory_part s = (case rfind_char (CHR ''/'') s of Some k \<Rightarrow> take k s | None \<Rightarrow> [])"

definition PrepareDestinationURI_UTF8 ::
  "'d http_env \<Rightarrow> string \<Rightarrow> bool \<Rightarrow> bool \<Rightarrow> bool \<Rightarrow> ('d, string) http" where
  "PrepareDestinationURI_UTF8 env rawuri bEnsurePath bEnsureSlash bIsDirectory =
     (if prefix ''mujin:/'' rawuri then
        (let s = drop 7 rawuri in
         bindM (getM m_basewebdavuri) (\<lambda>basewebdavuri.
         thenM
           (if bEnsurePath
            then EnsureWebDAVDirectories env (if bIsDirectory then s else directory_part s) 3
            else ret ())
           (let baseuploaduri = basewebdavuri @ EncodeWithoutSeparator env s in
            if bEnsureSlash then liftR (ensure_slash_checked baseuploaduri) else ret baseuploaduri)))
      else if \<not> bEnsureSlash then ret rawuri
      else liftR (ensure_slash_checked rawuri))"

definition PrepareDestinationURI_UTF16 ::
  "'d http_env \<Rightarrow> wstring \<Rightarrow> bool \<Rightarrow> bool \<Rightarrow> bool \<Rightarrow> ('d, string) http" where
  "PrepareDestinationURI_UTF16 env rawuri_utf16 bEnsurePath bEnsureSlash bIsDirectory =
     bindM (liftR (narrow rawuri_utf16)) (\<lambda>desturi_utf8.
       PrepareDestinationURI_UTF8 env desturi_utf8 bEnsurePath bEnsureSlash bIsDirectory)"

section \<open>Upload, download and deletion\<close>

text \<open>What is left to read of an input stream, or the step that fails when its length is asked for.\<close>

datatype istream = Stream string | CannotSeek | CannotTell | CannotRewind

fun stream_contents :: "istream \<Rightarrow> string result" where
  "stream_contents (Stream text) = Inr text"
| "stream_contents CannotSeek = Inl (MujinException ''failed to seek inputStream to get the length'' MEC_InvalidArguments)"
| "stream_contents CannotTell = Inl (MujinException ''failed to tell the length of inputStream'' MEC_InvalidArguments)"
| "stream_contents CannotRewind = Inl (MujinException ''failed to rewind inputStream'' MEC_InvalidArguments)"

definition form_filename :: "string \<Rightarrow> string" where
  "form_filename filename = (if filename = [] then ''unused'' else c_str filename)"

definition filename_field :: "string \<Rightarrow> form_part list" where
  "filename_field filename = (if filename \<noteq> [] then [FormField ''filename'' (c_str filename) None] else [])"

definition UploadFileToControllerViaForm ::
  "'d http_env \<Rightarrow> istream \<Rightarrow> string \<Rightarrow> string \<Rightarrow> rat \<Rightarrow> ('d, unit) http" where
  "UploadFileToControllerViaForm env inputStream filename endpoint timeout =
     bindM (liftR (stream_contents inputStream)) (\<lambda>contents.
     with_option env READFUNCTION Null (Callback ReadIStream) (
     bindM (CallPost_form env endpoint
       (FormStream ''files[]'' (form_filename filename) contents (length contents) # filename_field filename) 200 timeout)
     (\<lambda>_. ret ())))"

text \<open>The length of the buffer is not given to \<^verbatim>\<open>curl_formadd\<close>.\<close>

definition UploadDataToControllerViaForm ::
  "'d http_env \<Rightarrow> string \<Rightarrow> string \<Rightarrow> string \<Rightarrow> rat \<Rightarrow> ('d, unit) http" where
  "UploadDataToControllerViaForm env data filename endpoint timeout =
     bindM (CallPost_form env endpoint
       (FormBuffer ''files[]'' (form_filename filename) data None # filename_field filename) 200 timeout)
     (\<lambda>_. ret ())"

text \<open>The part of an address behind the WebDAV directory.\<close>

definition webdav_filename :: "string \<Rightarrow> ('d, string) http" where
  "webdav_filename uri =
     bindM (getM m_basewebdavuri) (\<lambda>basewebdavuri.
       if \<not> prefix basewebdavuri uri then
         throw (http_error (''trying to upload a file outside of the webdav endpoint is not allowed: '' @ uri))
       else ret (drop (length basewebdavuri) uri))"

definition UploadFile :: "'d http_env \<Rightarrow> string \<Rightarrow> string option \<Rightarrow> string \<Rightarrow> ('d, unit) http" where
  "UploadFile env filename contents uri =
     bindM (webdav_filename uri) (\<lambda>filenameoncontroller.
     case contents of
       None \<Rightarrow> throw (MujinException (''failed to open filename '' @ filename @ '' for uploading'') MEC_InvalidArguments)
     | Some text \<Rightarrow>
         bindM (getM m_baseuri) (\<lambda>baseuri.
           UploadFileToControllerViaForm env (Stream text) filenameoncontroller (baseuri @ ''fileupload'') 0))"

definition path_join :: "string \<Rightarrow> string \<Rightarrow> string" where
  "path_join dir name = (if dir \<noteq> [] \<and> last dir = CHR ''/'' then dir @ name else dir @ ''/'' @ name)"

text \<open>The address of the directory on the controller.\<close>

definition upload_directory_uri :: "'d http_env \<Rightarrow> string \<Rightarrow> string \<Rightarrow> string result" where
  "upload_directory_uri env copydir rawuri =
     (if rawuri = [] \<or> copydir = [] then Inl (assertion_failed ''rawuri.size()>0 && copydir_utf8.size()>0'')
      else if last rawuri = CHR ''/'' then
        (if last copydir \<noteq> CHR ''/''
         then Inr (rawuri @ EscapeString env
           (case rfind_char (CHR ''/'') copydir of Some k \<Rightarrow> drop (k + 1) copydir | None \<Rightarrow> copydir))
         else Inr (butlast rawuri))
      else if last copydir = CHR ''/'' then
        Inl (MujinException (''copydir '' @ squoted copydir @ '' cannot end in slash '' @ squoted ''/'') MEC_InvalidArguments)
      else Inr rawuri)"

definition make_collection :: "'d http_env \<Rightarrow> string \<Rightarrow> ('d, unit) http" where
  "make_collection env uri =
     with_option env CUSTOMREQUEST Null (Text ''MKCOL'') (
     with_headers env m_httpheadersjson (with_url env uri (
     bindM (CURL_PERFORM env) (\<lambda>r.
     if mkcol_failed r then
       bindM (getM m_errormessage) (\<lambda>msg.
         throw (http_error (''HTTP MKCOL failed for '' @ uri @ '' with HTTP status '' @ status_text (r_status r) @ '': '' @ msg)))
     else ret ()))))"

lemma directory_size [termination_simp]:
  "(name, Directory inner) \<in> set entries \<Longrightarrow>
   size_option (size_list (size_prod (\<lambda>_. 0) size)) inner < Suc (size_list (size_prod (\<lambda>_. 0) size) entries)"
  by (rule less_SucI, erule size_list_estimation) simp

function (sequential) UploadDirectory ::
  "'d http_env \<Rightarrow> string \<Rightarrow> (string \<times> fs_node) list option \<Rightarrow> string \<Rightarrow> ('d, unit) http" where
  "UploadDirectory env copydir listing rawuri =
     bindM (liftR (upload_directory_uri env copydir rawuri)) (\<lambda>uri.
     writing_to env WriteStringStream BufferSink (
     thenM (make_collection env uri) (
     case listing of
       None \<Rightarrow> throw (FilesystemError copydir)
     | Some entries \<Rightarrow>
         mapMs (\<lambda>(dirfilename, node).
           case node of
             Directory inner \<Rightarrow>
               UploadDirectory env (path_join copydir dirfilename) inner (uri @ ''/'' @ EscapeString env dirfilename)
           | RegularFile contents \<Rightarrow>
               UploadFile env (path_join copydir dirfilename) contents (uri @ ''/'' @ EscapeString env dirfilename)
           | OtherFile \<Rightarrow> ret ()) entries)))"
  by pat_completeness auto
termination
  by (relation "measure (\<lambda>(_, _, listing, _). size_option (size_list (size_prod (\<lambda>_. 0) size)) listing)")
    (auto simp: directory_size)

section \<open>The public file operations\<close>

definition UploadFileToController_UTF8 :: "'d http_env \<Rightarrow> string \<Rightarrow> string \<Rightarrow> ('d, unit) http" where
  "UploadFileToController_UTF8 env filename desturi =
     with_lock (bindM (PrepareDestinationURI_UTF8 env desturi False False False) (\<lambda>uri.
       UploadFile env filename (read_file env filename) uri))"

text \<open>The file name is converted after the check of the address.\<close>

definition UploadFileToController_UTF16 :: "'d http_env \<Rightarrow> wstring \<Rightarrow> wstring \<Rightarrow> ('d, unit) http" where
  "UploadFileToController_UTF16 env filename_utf16 desturi_utf16 =
     with_lock (bindM (PrepareDestinationURI_UTF16 env desturi_utf16 False False False) (\<lambda>uri.
       thenM (bindM (webdav_filename uri) (\<lambda>_. ret ())) (
       bindM (liftR (narrow filename_utf16)) (\<lambda>filename.
         UploadFile env filename (read_file env filename) uri))))"

text \<open>Nothing checks that the address is inside the WebDAV directory.\<close>

definition upload_data :: "'d http_env \<Rightarrow> string \<Rightarrow> string \<Rightarrow> ('d, unit) http" where
  "upload_data env data uri =
     bindM (getM m_basewebdavuri) (\<lambda>basewebdavuri.
     case substr_from uri (length basewebdavuri) of
       None \<Rightarrow> throw OutOfRange
     | Some filename \<Rightarrow>
         bindM (getM m_baseuri) (\<lambda>baseuri.
           UploadDataToControllerViaForm env data filename (baseuri @ ''fileupload'') 0))"

definition UploadDataToController_UTF8 :: "'d http_env \<Rightarrow> string \<Rightarrow> string \<Rightarrow> ('d, unit) http" where
  "UploadDataToController_UTF8 env data desturi =
     with_lock (bindM (PrepareDestinationURI_UTF8 env desturi False False False) (upload_data env data))"

definition UploadDataToController_UTF16 :: "'d http_env \<Rightarrow> string \<Rightarrow> wstring \<Rightarrow> ('d, unit) http" where
  "UploadDataToController_UTF16 env data desturi =
     with_lock (bindM (PrepareDestinationURI_UTF16 env desturi False False False) (upload_data env data))"

definition UploadDirectoryToController_UTF8 :: "'d http_env \<Rightarrow> string \<Rightarrow> string \<Rightarrow> ('d, unit) http" where
  "UploadDirectoryToController_UTF8 env copydir desturi =
     with_lock (bindM (PrepareDestinationURI_UTF8 env desturi False False True) (\<lambda>uri.
       UploadDirectory env copydir (read_dir env copydir) uri))"

definition DownloadFileFromController_UTF8 :: "'d http_env \<Rightarrow> string \<Rightarrow> ('d, string) http" where
  "DownloadFileFromController_UTF8 env desturi =
     with_lock (bindM (PrepareDestinationURI_UTF8 env desturi False False False) (\<lambda>uri.
     bindM (CallGet_vector env uri 200 5) (\<lambda>(_, vdata). ret vdata)))"

definition DownloadFileFromController_UTF16 :: "'d http_env \<Rightarrow> wstring \<Rightarrow> ('d, string) http" where
  "DownloadFileFromController_UTF16 env desturi =
     with_lock (bindM (PrepareDestinationURI_UTF16 env desturi False False False) (\<lambda>uri.
     bindM (CallGet_vector env uri 200 5) (\<lambda>(_, vdata). ret vdata)))"

text \<open>The remote time (0 when the file is not newer) and the data.\<close>

definition DownloadFileFromController' ::
  "'d http_env \<Rightarrow> string \<Rightarrow> int \<Rightarrow> rat \<Rightarrow> ('d, int \<times> string) http" where
  "DownloadFileFromController' env desturi localtimeval timeout =
     with_option env FILETIME (Long 0) (Long 1) (
     with_option env TIMECONDITION (Long 0) (Long (if localtimeval > 0 then 1 else 0)) (
     with_option env TIMEVALUE (Long 0) (Long (if localtimeval > 0 then localtimeval else 0)) (
     bindM (CallGet_vector env desturi 0 timeout) (\<lambda>(http_code, outputdata).
     if http_code \<noteq> 200 \<and> http_code \<noteq> 304 then
       throw (if length outputdata > 0 then http_failed_with ''GET'' desturi http_code outputdata
              else http_failed ''GET'' desturi http_code)
     else if http_code \<noteq> 304 then bindM (getM m_filetime) (\<lambda>remotetimeval. ret (remotetimeval, outputdata))
     else ret (0, outputdata)))))"

definition DownloadFileFromControllerIfModifiedSince_UTF8 ::
  "'d http_env \<Rightarrow> string \<Rightarrow> int \<Rightarrow> rat \<Rightarrow> ('d, int \<times> string) http" where
  "DownloadFileFromControllerIfModifiedSince_UTF8 env desturi localtimeval timeout =
     with_lock (bindM (PrepareDestinationURI_UTF8 env desturi False False False) (\<lambda>uri.
       DownloadFileFromController' env uri localtimeval timeout))"

definition DownloadFileFromControllerIfModifiedSince_UTF16 ::
  "'d http_env \<Rightarrow> wstring \<Rightarrow> int \<Rightarrow> rat \<Rightarrow> ('d, int \<times> string) http" where
  "DownloadFileFromControllerIfModifiedSince_UTF16 env desturi localtimeval timeout =
     with_lock (bindM (PrepareDestinationURI_UTF16 env desturi False False False) (\<lambda>uri.
       DownloadFileFromController' env uri localtimeval timeout))"

definition GetModifiedTime :: "'d http_env \<Rightarrow> string \<Rightarrow> rat \<Rightarrow> ('d, int) http" where
  "GetModifiedTime env uri timeout =
     with_lock (
     with_headers env m_httpheadersjson (
     bindM (getM m_baseuri) (\<lambda>baseuri.
     with_url env (baseuri @ ''file/download/?filename='' @
       (if prefix ''mujin:/'' uri then EncodeWithoutSeparator env (drop 7 uri) else [])) (
     with_option env FILETIME (Long 0) (Long 1) (
     with_option env NOBODY (Long 0) (Long 1) (
     bindM (CURL_PERFORM env) (\<lambda>r.
     if r_status r \<noteq> 200 then
       throw (http_error (''Cannot get modified date of '' @ uri @ '' for HTTP HEAD call: return is '' @ status_text (r_status r)))
     else getM m_filetime)))))))"

text \<open>\<^verbatim>\<open>_DeleteFileOnController\<close> and \<^verbatim>\<open>_DeleteDirectoryOnController\<close>; the second does not look at the
  status and sets no write callback.\<close>

definition DeleteFile :: "'d http_env \<Rightarrow> string \<Rightarrow> ('d, unit) http" where
  "DeleteFile env desturi =
     bindM (webdav_filename desturi) (\<lambda>filename.
     bindM (getM m_baseuri) (\<lambda>baseuri.
     bindM (CallPost_data env (baseuri @ ''file/delete/?filename='' @ filename) [] 200 5) (\<lambda>_. ret ())))"

definition DeleteDirectory :: "'d http_env \<Rightarrow> string \<Rightarrow> ('d, unit) http" where
  "DeleteDirectory env desturi =
     with_option env CUSTOMREQUEST Null (Text ''DELETE'') (
     with_headers env m_httpheadersjson (with_url env desturi (
     bindM (CURL_PERFORM env) (\<lambda>r. ret ()))))"

definition DeleteFileOnController_UTF8 :: "'d http_env \<Rightarrow> string \<Rightarrow> ('d, unit) http" where
  "DeleteFileOnController_UTF8 env desturi =
     with_lock (bindM (PrepareDestinationURI_UTF8 env desturi False False False) (DeleteFile env))"

definition DeleteFileOnController_UTF16 :: "'d http_env \<Rightarrow> wstring \<Rightarrow> ('d, unit) http" where
  "DeleteFileOnController_UTF16 env desturi =
     with_lock (bindM (PrepareDestinationURI_UTF16 env desturi False False False) (DeleteFile env))"

definition DeleteDirectoryOnController_UTF8 :: "'d http_env \<Rightarrow> string \<Rightarrow> ('d, unit) http" where
  "DeleteDirectoryOnController_UTF8 env desturi =
     with_lock (bindM (PrepareDestinationURI_UTF8 env desturi False False True) (DeleteDirectory env))"

definition DeleteDirectoryOnController_UTF16 :: "'d http_env \<Rightarrow> wstring \<Rightarrow> ('d, unit) http" where
  "DeleteDirectoryOnController_UTF16 env desturi =
     with_lock (bindM (PrepareDestinationURI_UTF16 env desturi False False True) (DeleteDirectory env))"

text \<open>\<^verbatim>\<open>ParseWincapsWCNPath\<close>; reading XML and finding the path in it is the argument \<open>xml\<close>. The project is
  read two bytes at a time, in the order of the machine; a single byte at the end is not used.\<close>

fun read_units :: "string \<Rightarrow> wstring" where
  "read_units (a # b # bytes) = word_of_nat (of_char a + 256 * of_char b) # read_units bytes"
| "read_units _ = []"

text \<open>The first byte order mark is left out, wherever it is.\<close>

fun skip_bom :: "wstring \<Rightarrow> wstring" where
  "skip_bom [] = []"
| "skip_bom (c # cs) = (if c \<noteq> 0xfeff then c # skip_bom cs else cs)"

definition trim_wcn :: "wstring \<Rightarrow> wstring" where
  "trim_wcn path =
     (if path \<noteq> [] then
        (let path = (if last path = 0x3b then butlast path else path) in
         if length path \<ge> 2 \<and> path ! 0 = 0x2e \<and> path ! 1 = 0x5c then drop 2 path else path)
      else path)"

definition ParseWincapsWCNPath :: "'d http_env \<Rightarrow> (wstring \<Rightarrow> wstring result) \<Rightarrow> string \<Rightarrow> wstring result" where
  "ParseWincapsWCNPath env xml filename =
     (case read_file env filename of
        None \<Rightarrow> Inl (MujinException (''failed to open file '' @ filename) MEC_InvalidArguments)
      | Some bytes \<Rightarrow> bindR (xml (skip_bom (read_units bytes))) (\<lambda>path. Inr (trim_wcn path)))"

definition last_backslash :: "string \<Rightarrow> nat" where
  "last_backslash s = (case rfind_char (CHR 0x5C) s of Some k \<Rightarrow> k | None \<Rightarrow> 0)"

definition slashes :: "string \<Rightarrow> string" where
  "slashes s = map (\<lambda>c. if c = CHR 0x5C then CHR ''/'' else c) s"

definition SyncUpload_UTF8 ::
  "'d http_env \<Rightarrow> (wstring \<Rightarrow> wstring result) \<Rightarrow> string \<Rightarrow> string \<Rightarrow> string \<Rightarrow> ('d, unit) http" where
  "SyncUpload_UTF8 env xml sourcefilename destinationdir scenetype =
     with_lock (
     bindM
       (if prefix ''mujin:/'' destinationdir then
          thenM (EnsureWebDAVDirectories env (drop 7 destinationdir) 3)
            (bindM (getM m_basewebdavuri) (\<lambda>base. ret (base @ EncodeWithoutSeparator env (drop 7 destinationdir))))
        else ret destinationdir) (\<lambda>uri.
     bindM (liftR (ensure_slash_checked uri)) (\<lambda>baseuploaduri.
     let start = (case rfind_char (CHR ''/'') sourcefilename of Some k \<Rightarrow> k + 1 | None \<Rightarrow> 0);
         upload_file = UploadFile env sourcefilename (read_file env sourcefilename)
           (baseuploaduri @ EscapeString env (drop start sourcefilename)) in
     if scenetype = ''wincaps'' then
       bindM (liftR (ParseWincapsWCNPath env xml sourcefilename)) (\<lambda>strWCNPath_utf16.
       thenM
         (if strWCNPath_utf16 \<noteq> [] then
            bindM (liftR (narrow strWCNPath_utf16)) (\<lambda>strWCNPath.
            let sCopyDir = take start sourcefilename @ take (last_backslash strWCNPath) (slashes strWCNPath) in
            UploadDirectory env sCopyDir (read_dir env sCopyDir)
              (baseuploaduri @ EncodeWithoutSeparator env (take (last_backslash strWCNPath) (slashes strWCNPath))))
          else ret ())
         upload_file)
     else if scenetype = ''rttoolbox'' \<or> scenetype = ''cecrobodiaxml'' then
       (if start > 0 then UploadDirectory env (take start sourcefilename) (read_dir env (take start sourcefilename)) baseuploaduri
        else ret ())
     else upload_file)))"

section \<open>Backup, upgrade and the rest\<close>

definition bool_text :: "bool \<Rightarrow> string" where
  "bool_text b = (if b then ''true'' else ''false'')"

definition bit_text :: "bool \<Rightarrow> string" where
  "bit_text b = (if b then ''1'' else ''0'')"

definition SaveBackup :: "'d http_env \<Rightarrow> bool \<Rightarrow> bool \<Rightarrow> string \<Rightarrow> rat \<Rightarrow> ('d, unit) http" where
  "SaveBackup env config media backupscenepks timeout =
     with_lock (bindM (getM m_baseuri) (\<lambda>baseuri.
     bindM (CallGet_stream env (baseuri @ ''backup/'' @ ''?config='' @ bool_text config @ ''&media='' @ bool_text media @
       ''&backupscenepks='' @ backupscenepks) 200 timeout) (\<lambda>_. ret ())))"

definition RestoreBackup :: "'d http_env \<Rightarrow> istream \<Rightarrow> bool \<Rightarrow> bool \<Rightarrow> rat \<Rightarrow> ('d, unit) http" where
  "RestoreBackup env inputStream config media timeout =
     with_lock (bindM (getM m_baseuri) (\<lambda>baseuri.
     UploadFileToControllerViaForm env inputStream []
       (baseuri @ ''backup/'' @ ''?config='' @ bool_text config @ ''&media='' @ bool_text media) timeout))"

definition Upgrade :: "'d http_env \<Rightarrow> istream \<Rightarrow> bool \<Rightarrow> bool \<Rightarrow> rat \<Rightarrow> ('d, unit) http" where
  "Upgrade env inputStream autorestart uploadonly timeout =
     with_lock (
     bindM (liftR (stream_contents inputStream)) (\<lambda>contents.
     bindM (getM m_baseuri) (\<lambda>baseuri.
     let uri = baseuri @ ''upgrade/'' @ ''?autorestart='' @ bit_text autorestart @ ''&uploadonly='' @ bit_text uploadonly in
     if contents \<noteq> [] then UploadFileToControllerViaForm env inputStream [] uri timeout
     else bindM (CallPost_data env uri [] 200 timeout) (\<lambda>_. ret ()))))"

definition GetUpgradeStatus :: "'d http_env \<Rightarrow> rat \<Rightarrow> ('d, (string \<times> 'd) option) http" where
  "GetUpgradeStatus env timeout =
     with_lock (bindM (getM m_baseuri) (\<lambda>baseuri.
     bindM (CallGet_json env (baseuri @ ''upgrade/'') (JObject []) 200 timeout) (\<lambda>(_, pt).
     if IsNull pt then ret None
     else
       bindM (liftR (key_string env pt ''status'')) (\<lambda>status.
       bindM (liftR (number_key env pt ''progress'')) (\<lambda>progress. ret (Some (status, progress)))))))"

definition CancelUpgrade :: "'d http_env \<Rightarrow> rat \<Rightarrow> ('d, unit) http" where
  "CancelUpgrade env timeout =
     bindM (getM m_baseuri) (\<lambda>baseuri. CallDelete env (baseuri @ ''upgrade/'') 200 timeout)"

definition Reboot :: "'d http_env \<Rightarrow> rat \<Rightarrow> ('d, unit) http" where
  "Reboot env timeout =
     with_lock (bindM (getM m_baseuri) (\<lambda>baseuri.
     bindM (CallPost_data env (baseuri @ ''reboot/'') [] 200 timeout) (\<lambda>_. ret ())))"

definition DeleteAllScenes :: "'d http_env \<Rightarrow> rat \<Rightarrow> ('d, unit) http" where
  "DeleteAllScenes env timeout = with_lock (CallDelete env ''scene/'' 204 timeout)"

definition DeleteAllITLPrograms :: "'d http_env \<Rightarrow> rat \<Rightarrow> ('d, unit) http" where
  "DeleteAllITLPrograms env timeout = CallDelete env ''itl/'' 204 timeout"

definition reference_request :: "string \<Rightarrow> string \<Rightarrow> 'd json" where
  "reference_request scenepk referenceobjectpk =
     JObject [(''scenepk'', JString (c_str scenepk)), (''referenceobjectpk'', JString (c_str referenceobjectpk))]"

definition modify_references :: "'d http_env \<Rightarrow> string \<Rightarrow> string \<Rightarrow> string \<Rightarrow> rat \<Rightarrow> ('d, unit) http" where
  "modify_references env action scenepk referenceobjectpk timeout =
     with_lock (bindM (getM m_baseuri) (\<lambda>baseuri.
     bindM (liftR (dump env (reference_request scenepk referenceobjectpk))) (\<lambda>text.
     bindM (CallPost_data env (baseuri @ ''referenceobjectpks/'' @ action @ ''/'') text 200 timeout) (\<lambda>_. ret ()))))"

definition ModifySceneAddReferenceObjectPK :: "'d http_env \<Rightarrow> string \<Rightarrow> string \<Rightarrow> rat \<Rightarrow> ('d, unit) http" where
  "ModifySceneAddReferenceObjectPK env = modify_references env ''add''"

definition ModifySceneRemoveReferenceObjectPK :: "'d http_env \<Rightarrow> string \<Rightarrow> string \<Rightarrow> rat \<Rightarrow> ('d, unit) http" where
  "ModifySceneRemoveReferenceObjectPK env = modify_references env ''remove''"

text \<open>\<^verbatim>\<open>GetDebugInfos\<close>: the key, the description, the name and the size.\<close>

record DebugResource =
  dr_pk :: string
  dr_description :: string
  dr_name :: string
  dr_size :: "64 word"

definition load_debug_info :: "'d http_env \<Rightarrow> 'd json \<Rightarrow> DebugResource result" where
  "load_debug_info env v =
     bindR (key_string env v ''pk'') (\<lambda>pk.
     bindR (LoadJsonValueByKey (LoadJsonString (json_lib env)) v ''description'' []) (\<lambda>(_, description).
     bindR (LoadJsonValueByKey (LoadJsonString (json_lib env)) v ''name'' []) (\<lambda>(_, name).
     bindR (LoadJsonValueByKey (LoadJsonUint64 (json_lib env)) v ''size'' 0) (\<lambda>(_, size).
     Inr \<lparr> dr_pk = pk, dr_description = description, dr_name = name, dr_size = size \<rparr>))))"

definition GetDebugInfos :: "'d http_env \<Rightarrow> rat \<Rightarrow> ('d, DebugResource list) http" where
  "GetDebugInfos env timeout =
     bindM (CallGet env ''debug/?format=json&limit=0'' (JObject []) 200 timeout) (\<lambda>(_, pt).
     liftR (bindR (objects_of pt) (mapR (load_debug_info env))))"

record 'd FileEntry =
  fe_filename :: string
  fe_modified :: 'd
  fe_size :: "64 word"

definition load_file_entry :: "'d http_env \<Rightarrow> string \<times> 'd json \<Rightarrow> 'd FileEntry result" where
  "load_file_entry env entry =
     bindR (LoadJsonValueByKey (LoadJsonDouble (json_lib env)) (snd entry) ''modified'' (double_of_int (json_lib env) 0)) (\<lambda>(_, modified).
     bindR (LoadJsonValueByKey (LoadJsonUint64 (json_lib env)) (snd entry) ''size'' 0) (\<lambda>(_, size).
     Inr \<lparr> fe_filename = c_str (fst entry), fe_modified = modified, fe_size = size \<rparr>))"

text \<open>The call is made without the mutex.\<close>

definition ListFilesInController :: "'d http_env \<Rightarrow> string \<Rightarrow> rat \<Rightarrow> ('d, 'd FileEntry list) http" where
  "ListFilesInController env dirname timeout =
     bindM (getM m_baseuri) (\<lambda>baseuri.
     bindM (CallGet_json env (baseuri @ ''file/list/?dirname='' @ dirname) (JObject []) 200 timeout) (\<lambda>(_, pt).
     liftR (if IsObject pt then mapR (load_file_entry env) (members pt)
            else Inl rapidjson_assertion)))"

record 'd LogEntry =
  le_entry :: "'d json"
  le_type :: string
  le_attachments :: "(string \<times> string) list"

definition log_entry_parts :: "'d http_env \<Rightarrow> 'd LogEntry \<Rightarrow> form_part list" where
  "log_entry_parts env logEntry =
     FormField (c_str (''logEntry/'' @ le_type logEntry)) (c_str (ws_writer (websocket_env env) (le_entry logEntry)))
       (Some ''application/json'') #
     map (\<lambda>(filename, data). FormBuffer ''attachment'' (c_str filename) data (Some (length data))) (le_attachments logEntry)"

definition CreateLogEntries :: "'d http_env \<Rightarrow> 'd LogEntry list \<Rightarrow> string list \<Rightarrow> rat \<Rightarrow> ('d, string list) http" where
  "CreateLogEntries env logEntries createdLogEntryIds timeout =
     (if logEntries = [] then ret createdLogEntryIds
      else with_lock (
        thenM (modifyM (\<lambda>s. s \<lparr> m_uri := m_baseuri s @ ''api/v2/logEntry'' \<rparr>)) (
        bindM (getM m_uri) (\<lambda>uri.
        bindM (CallPost_form env uri (concat (map (log_entry_parts env) logEntries)) 201 timeout) (\<lambda>(_, rResultDoc).
        case (if IsObject rResultDoc then FindMember rResultDoc ''logEntryIds'' else None) of
          Some (JArray ids) \<Rightarrow> ret (createdLogEntryIds @ map (\<lambda>x. c_str (GetString x)) (filter IsString ids))
        | _ \<Rightarrow> bindM (liftR (dump env rResultDoc)) (\<lambda>text.
            throw (http_error (''invalid response received while uploading log entries: '' @ text))))))))"

text \<open>The callbacks that give libcurl the bytes to send: from a stream (\<open>gcount\<close> bytes of it), and
  from memory.\<close>

definition ReadIStreamCallback :: "nat \<Rightarrow> nat \<Rightarrow> string \<Rightarrow> string \<times> string" where
  "ReadIStreamCallback size' nmemb stream = (take (size' * nmemb) stream, drop (size' * nmemb) stream)"

definition ReadInMemoryUploadCallback :: "nat \<Rightarrow> nat \<Rightarrow> string \<times> nat \<Rightarrow> string \<times> (string \<times> nat)" where
  "ReadInMemoryUploadCallback size' nmemb pstreamdata =
     (case pstreamdata of (data, left) \<Rightarrow>
       (let nBytesToRead = size' * nmemb;
            nBytesToRead = (if nBytesToRead > left then left else nBytesToRead) in
        if nBytesToRead > 0 then (take nBytesToRead data, (drop nBytesToRead data, left - nBytesToRead))
        else ([], (data, left))))"

end
