(* ===== verification/WideUpload.thy ===== *)
theory WideUpload
  imports ControllerClient
begin

text \<open>
  Uploads with UTF-16 names (\<^verbatim>\<open>src/controllerclientimpl.cpp\<close>): \<^verbatim>\<open>_UploadFileToController_UTF16\<close>,
  \<^verbatim>\<open>_UploadDirectoryToController_UTF16\<close> and \<^verbatim>\<open>SyncUpload_UTF16\<close>. What \<^verbatim>\<open>boost::filesystem\<close> makes of a path, wide and in the encoding of the
  file system, is the record \<open>path_codec\<close>.
\<close>

section \<open>Wide paths\<close>

record path_codec =
  to_fs :: "wstring \<Rightarrow> string result"        \<comment> \<open>\<^verbatim>\<open>path(std::wstring)\<close>\<close>
  from_fs :: "string \<Rightarrow> wstring result"      \<comment> \<open>\<^verbatim>\<open>path::wstring()\<close>\<close>

definition wide_sep :: "32 word" where
  "wide_sep = 0x2f"

text \<open>The length of what stands before the last component, with its separator.\<close>

definition base_start :: "wstring \<Rightarrow> nat" where
  "base_start ws = length (dropWhile (\<lambda>c. c \<noteq> wide_sep) (rev ws))"

section \<open>Files and directories\<close>

text \<open>The name is converted after the check of the address; \<open>contents\<close> opens the file.\<close>

definition UploadFile_UTF16 :: "'d http_env \<Rightarrow> wstring \<Rightarrow> (string \<Rightarrow> string option) \<Rightarrow> string \<Rightarrow> ('d, unit) http" where
  "UploadFile_UTF16 env filename_utf16 contents uri =
     thenM (bindM (webdav_filename uri) (\<lambda>_. ret ())) (
     bindM (liftR (narrow filename_utf16)) (\<lambda>filename. UploadFile env filename (contents filename) uri))"

definition upload_directory_uri_UTF16 :: "'d http_env \<Rightarrow> wstring \<Rightarrow> string \<Rightarrow> string result" where
  "upload_directory_uri_UTF16 env copydir rawuri =
     (if rawuri = [] \<or> copydir = [] then Inl (assertion_failed ''rawuri.size()>0 && copydir_utf16.size()>0'')
      else if last rawuri = CHR ''/'' then
        (if last copydir \<noteq> wide_sep
         then bindR (narrow (drop (base_start copydir) copydir)) (\<lambda>name_utf8. Inr (rawuri @ EscapeString env name_utf8))
         else Inr (butlast rawuri))
      else if last copydir = wide_sep then
        bindR (narrow copydir) (\<lambda>d.
          Inl (MujinException (''copydir '' @ squoted d @ '' cannot end in slash '' @ squoted ''/'') MEC_InvalidArguments))
      else Inr rawuri)"

text \<open>The path of an entry is known to the file system in its own encoding, and is converted to a wide
  path; the log line converts the directory too.\<close>

function (sequential) UploadDirectory_UTF16 ::
  "'d http_env \<Rightarrow> path_codec \<Rightarrow> wstring \<Rightarrow> (string \<times> fs_node) list option \<Rightarrow> string \<Rightarrow> ('d, unit) http" where
  "UploadDirectory_UTF16 env conv copydir listing rawuri =
     bindM (liftR (upload_directory_uri_UTF16 env copydir rawuri)) (\<lambda>uri.
     writing_to env WriteStringStream BufferSink (
     thenM (make_collection env uri) (
     bindM (liftR (narrow copydir)) (\<lambda>_.
     bindM (liftR (to_fs conv copydir)) (\<lambda>dir.
     case listing of
       None \<Rightarrow> throw (FilesystemError dir)
     | Some entries \<Rightarrow>
         mapMs (\<lambda>(name, node).
           bindM (liftR (from_fs conv name)) (\<lambda>dirfilename_utf16.
           bindM (liftR (narrow dirfilename_utf16)) (\<lambda>dirfilename.
           case node of
             Directory inner \<Rightarrow>
               bindM (liftR (from_fs conv (path_join dir name))) (\<lambda>path.
               UploadDirectory_UTF16 env conv path inner (uri @ ''/'' @ EscapeString env dirfilename))
           | RegularFile contents \<Rightarrow>
               bindM (liftR (from_fs conv (path_join dir name))) (\<lambda>path.
               UploadFile_UTF16 env path (\<lambda>_. contents) (uri @ ''/'' @ EscapeString env dirfilename))
           | OtherFile \<Rightarrow> ret ()))) entries)))))"
  by pat_completeness auto
termination
  by (relation "measure (\<lambda>(_, _, _, listing, _). size_option (size_list (size_prod (\<lambda>_. 0) size)) listing)")
    (auto simp: directory_size)

declare UploadDirectory_UTF16.simps [simp del]

definition wide_listing :: "'d http_env \<Rightarrow> path_codec \<Rightarrow> wstring \<Rightarrow> (string \<times> fs_node) list option" where
  "wide_listing env conv copydir = (case to_fs conv copydir of Inl e \<Rightarrow> None | Inr dir \<Rightarrow> read_dir env dir)"

definition UploadDirectoryToController_UTF16 :: "'d http_env \<Rightarrow> path_codec \<Rightarrow> wstring \<Rightarrow> wstring \<Rightarrow> ('d, unit) http" where
  "UploadDirectoryToController_UTF16 env conv copydir desturi =
     with_lock (bindM (PrepareDestinationURI_UTF16 env desturi False False True) (\<lambda>uri.
       UploadDirectory_UTF16 env conv copydir (wide_listing env conv copydir) uri))"

section \<open>Synchronization\<close>

definition wide_last_backslash :: "wstring \<Rightarrow> nat" where
  "wide_last_backslash ws = (if 0x5c \<in> set ws then length (dropWhile (\<lambda>c. c \<noteq> 0x5c) (rev ws)) - 1 else 0)"

definition wide_slashes :: "wstring \<Rightarrow> wstring" where
  "wide_slashes ws = map (\<lambda>c. if c = 0x5c then wide_sep else c) ws"

definition SyncUpload_UTF16 ::
  "'d http_env \<Rightarrow> path_codec \<Rightarrow> (wstring \<Rightarrow> wstring result) \<Rightarrow> wstring \<Rightarrow> wstring \<Rightarrow> string \<Rightarrow> ('d, unit) http" where
  "SyncUpload_UTF16 env conv xml sourcefilename destinationdir_utf16 scenetype =
     with_lock (
     bindM (liftR (narrow destinationdir_utf16)) (\<lambda>destinationdir.
     bindM
       (if prefix ''mujin:/'' destinationdir then
          thenM (EnsureWebDAVDirectories env (drop 7 destinationdir) 3)
            (bindM (getM m_basewebdavuri) (\<lambda>base. ret (base @ EncodeWithoutSeparator env (drop 7 destinationdir))))
        else ret destinationdir) (\<lambda>uri.
     bindM (liftR (ensure_slash_checked uri)) (\<lambda>baseuploaduri.
     let start = base_start sourcefilename;
         upload_directory = (\<lambda>dir. UploadDirectory_UTF16 env conv dir (wide_listing env conv dir));
         upload_file = bindM (liftR (narrow (drop start sourcefilename))) (\<lambda>name.
           UploadFile_UTF16 env sourcefilename (read_file env) (baseuploaduri @ EscapeString env name)) in
     if scenetype = ''wincaps'' then
       bindM (liftR (bindR (narrow sourcefilename) (ParseWincapsWCNPath env xml))) (\<lambda>strWCNPath_utf16.
       thenM
         (if strWCNPath_utf16 \<noteq> [] then
            bindM (liftR (narrow strWCNPath_utf16)) (\<lambda>strWCNURI.
            upload_directory
              (take start sourcefilename @ take (wide_last_backslash strWCNPath_utf16) (wide_slashes strWCNPath_utf16))
              (baseuploaduri @ EncodeWithoutSeparator env (take (last_backslash strWCNURI) (slashes strWCNURI))))
          else ret ())
         upload_file)
     else if scenetype = ''rttoolbox'' \<or> scenetype = ''cecrobodiaxml'' then
       (if start > 0 then upload_directory (take start sourcefilename) baseuploaduri else ret ())
     else upload_file))))"

end
