(* ===== verification/HttpLaws.thy ===== *)
theory HttpLaws
  imports WideUpload
begin

text \<open>
  What holds of every operation of the client, however it ends. The locale \<open>http_relation\<close>
  states what a relation between the states before and after must satisfy; every operation
  then keeps it. Its instances are the restoration of the curl handle and the mutex, and
  the growth of the log of requests.
\<close>

section \<open>Relations that every operation keeps\<close>

text \<open>The value that an option has between two operations, for the options of one request.\<close>

definition request_options :: "(copt \<times> cval) list" where
  "request_options =
     [(TIMEOUT_MS, Long 0), (HTTPHEADER, Null), (URL, Null), (POST, Long 0), (POSTFIELDSIZE, Long 0),
      (POSTFIELDS, Null), (WRITEFUNCTION, Null), (WRITEDATA, Null), (HTTPGET, Long 0), (HTTPPOST, Null),
      (CUSTOMREQUEST, Null), (FILETIME, Long 0), (NOBODY, Long 0), (TIMECONDITION, Long 0), (TIMEVALUE, Long 0),
      (READFUNCTION, Null)]"

definition reset_value :: "copt \<Rightarrow> cval option" where
  "reset_value opt = map_of request_options opt"

lemma reset_values [simp]:
  "reset_value TIMEOUT_MS = Some (Long 0)" "reset_value HTTPHEADER = Some Null" "reset_value URL = Some Null"
  "reset_value POST = Some (Long 0)" "reset_value POSTFIELDSIZE = Some (Long 0)" "reset_value POSTFIELDS = Some Null"
  "reset_value WRITEFUNCTION = Some Null" "reset_value WRITEDATA = Some Null" "reset_value HTTPGET = Some (Long 0)"
  "reset_value HTTPPOST = Some Null" "reset_value CUSTOMREQUEST = Some Null" "reset_value FILETIME = Some (Long 0)"
  "reset_value NOBODY = Some (Long 0)" "reset_value TIMECONDITION = Some (Long 0)"
  "reset_value TIMEVALUE = Some (Long 0)" "reset_value READFUNCTION = Some Null"
  "reset_value PROXY = None" "reset_value PROXYUSERPWD = None" "reset_value UNIX_SOCKET_PATH = None"
  "reset_value USERAGENT = None"
  by (simp_all add: reset_value_def request_options_def)

lemma steady_with_headers:
  assumes "\<And>h. steady R (with_option env HTTPHEADER Null (Headers h) m)"
  shows "steady R (with_headers env hdr m)"
  using assms by (simp add: steady_def with_headers_def)

lemma steady_modifyM: "(\<And>s. R s (f s)) \<Longrightarrow> steady R (modifyM f)"
  by (simp add: steady_def modifyM_def)

locale http_relation =
  fixes env :: "'d http_env" and R :: "'d client \<Rightarrow> 'd client \<Rightarrow> bool"
  assumes reflexive: "reflp R" and transitive: "transp R"
    and uri_change: "R s (s \<lparr> m_uri := u \<rparr>)"
    and buffer_change: "R s (s \<lparr> m_buffer := b \<rparr>)"
    and vector_change: "R s (s \<lparr> m_vector := b \<rparr>)"
    and profile_change: "R s (s \<lparr> m_profile := v \<rparr>)"
    and websocket_change: "R s (s \<lparr> m_websocket := w \<rparr>)"
    and performed: "steady R (CURL_PERFORM env)"
    and option_reset: "reset_value opt = Some cur \<Longrightarrow> R s (put_opt opt cur s)"
    and option_scope: "reset_value opt = Some cur \<Longrightarrow> R (put_opt opt new s) s' \<Longrightarrow> R s (put_opt opt cur s')"
    and lock_scope: "\<not> m_locked s \<Longrightarrow> R (s \<lparr> m_locked := True \<rparr>) s' \<Longrightarrow> R s (s' \<lparr> m_locked := False \<rparr>)"
begin

lemma steady_with_lock:
  assumes "steady R m"
  shows "steady R (with_lock m)"
  unfolding steady_def
proof
  fix s
  obtain r s' where m: "m (s \<lparr> m_locked := True \<rparr>) = (r, s')" by fastforce
  show "R s (snd (with_lock m s))"
    using lock_scope [OF _ steadyD [OF assms m]] reflpD [OF reflexive] by (simp add: with_lock_def m)
qed

lemma steady_with_option:
  assumes "reset_value opt = Some cur" "steady R m"
  shows "steady R (with_option env opt cur new m)"
  unfolding steady_def
proof
  fix s
  obtain r s' where m: "m (put_opt opt new s) = (r, s')" by fastforce
  show "R s (snd (with_option env opt cur new m s))"
    using option_scope [OF assms(1) steadyD [OF assms(2) m]] option_reset [OF assms(1), of s]
    by (simp add: with_option_def CURL_OPTION_SETTER_def CHECKCURLCODE_def monad_defs m)
qed

lemma steady_scopes:
  "steady R m \<Longrightarrow> steady R (with_timeout env t m)"
  "steady R m \<Longrightarrow> steady R (with_url env u m)"
  "steady R m \<Longrightarrow> steady R (with_headers env hdr m)"
  "steady R m \<Longrightarrow> steady R (writing_to env f snk m)"
  by (simp_all add: with_timeout_def with_url_def writing_to_def steady_with_option steady_with_headers)

lemma steady_atoms:
  "steady R (ret x)" "steady R (throw e)" "steady R (liftR r)" "steady R (getM f)"
  "steady R clear_buffer" "steady R (modifyM (\<lambda>s. s \<lparr> m_uri := g s \<rparr>))"
  "steady R (modifyM (\<lambda>s. s \<lparr> m_vector := h s \<rparr>))" "steady R (modifyM (\<lambda>s. s \<lparr> m_profile := v s \<rparr>))"
  using reflexive
  by (simp_all add: steady_pure clear_buffer_def steady_modifyM uri_change buffer_change vector_change profile_change)

lemmas steady_rules = steady_atoms steady_scopes steady_with_lock steady_with_option performed
  steady_bindM [OF transitive] steady_thenM [OF transitive] steady_mapMs [OF reflexive transitive] steady_if steady_case

subsection \<open>Requests\<close>

lemma steady_json_reply: "steady R (json_reply env parse verb uri c r)"
  unfolding json_reply_def by (intro steady_rules)

lemma steady_get:
  "steady R (CallGet_json env u v c t)" "steady R (CallGet_string env u c t)"
  "steady R (CallGet_stream env u c t)" "steady R (CallGet_vector env u c t)"
  unfolding CallGet_json_def CallGet_string_def CallGet_stream_def CallGet_vector_def
  by (intro steady_rules; simp)+

lemma steady_at_api_uri: "(\<And>u. steady R (m u)) \<Longrightarrow> steady R (at_api_uri rel m)"
  unfolding at_api_uri_def by (intro steady_rules)

lemma steady_public_get:
  "steady R (CallGet env u v c t)" "steady R (CallGet_to_string env u c t)"
  "steady R (CallGet_to_stream env u c t)" "steady R (CallGet_to_vector env u c t)"
  unfolding CallGet_def CallGet_to_string_def CallGet_to_stream_def CallGet_to_vector_def
  by (intro steady_at_api_uri steady_get)+

lemma steady_post:
  "steady R (CallPost_data env u d c t)" "steady R (CallPost_form env u f c t)" "steady R (CallPost env u d c t)"
proof -
  show d: "steady R (CallPost_data env u d c t)" for u
    unfolding CallPost_data_def by (intro steady_rules steady_json_reply; simp)
  show "steady R (CallPost_form env u f c t)"
    unfolding CallPost_form_def by (intro steady_rules steady_json_reply; simp)
  show "steady R (CallPost env u d c t)"
    unfolding CallPost_def by (intro steady_at_api_uri d)
qed

lemma steady_put_delete:
  "steady R (CallPut env u d hdr c t)" "steady R (CallPutSTL env u d c t)" "steady R (CallPutJSON env u d c t)"
  "steady R (CallDelete env u c t)"
  unfolding CallPut_def CallPutSTL_def CallPutJSON_def CallDelete_def
  by (intro steady_rules steady_json_reply; simp)+

lemmas steady_requests = steady_get steady_public_get steady_post steady_put_delete

subsection \<open>The other operations\<close>

lemma steady_graph:
  "steady R (ExecuteGraphQuery' env opn q v t ch raw)" "steady R (ExecuteGraphQuery env opn q v t)"
  "steady R (ExecuteGraphQueryRaw env opn q v t)"
  unfolding ExecuteGraphQuery_def ExecuteGraphQueryRaw_def ExecuteGraphQuery'_def
  by (intro steady_rules steady_requests)+

lemma steady_subscription: "steady R (ExecuteGraphSubscription env u opn q v h)"
  unfolding ExecuteGraphSubscription_def
  by (rule steady_with_lock)
    (auto simp: steady_def split: sum.splits prod.splits intro: websocket_change reflpD [OF reflexive])

lemma steady_version: "steady R (GetVersion env)"
  unfolding GetVersion_def by (intro steady_rules steady_requests)

lemma steady_jobs:
  "steady R (CancelAllJobs env)" "steady R (GetRunTimeStatuses env n)" "steady R (RestartServer env t)"
  unfolding CancelAllJobs_def GetRunTimeStatuses_def RestartServer_def
  by (intro steady_rules steady_requests; simp)+

lemma steady_pk_of: "steady R (pk_of env r)"
  unfolding pk_of_def by (intro steady_rules)

lemma steady_scenes:
  "steady R (GetScenePrimaryKeys env)" "steady R (RegisterScene_UTF8 env u st)" "steady R (RegisterScene_UTF16 env w st)"
  "steady R (ImportSceneToCOLLADA_UTF8 env u st n ov)" "steady R (ImportSceneToCOLLADA_UTF16 env w st wn ov)"
  unfolding GetScenePrimaryKeys_def RegisterScene_UTF8_def RegisterScene_UTF16_def
    ImportSceneToCOLLADA_UTF8_def ImportSceneToCOLLADA_UTF16_def CallPost_UTF8_def CallPost_UTF16_def
  by (intro steady_rules steady_requests steady_pk_of)+

lemma steady_objects:
  "steady R (CreateObjectGeometry env a b c d t)" "steady R (CreateIkParam env a b c t)"
  "steady R (CreateLink env a b c q tr t)" "steady R (SetObjectGeometryMesh env a b m u t)"
  unfolding CreateObjectGeometry_def CreateIkParam_def CreateLink_def SetObjectGeometryMesh_def
  by (intro steady_rules steady_requests steady_pk_of)+

lemma steady_make_directory: "steady R (make_directory env t)"
  unfolding make_directory_def by (intro steady_rules; simp)

lemma steady_make_directories: "steady R (make_directories env dirs tot)"
proof (induction dirs arbitrary: tot)
  case (Cons dir dirs)
  show ?case unfolding make_directories.simps Let_def
    by (intro steady_rules steady_make_directory Cons.IH)
qed (simp add: steady_atoms)

lemma steady_uris:
  "steady R (EnsureWebDAVDirectories env u t)" "steady R (PrepareDestinationURI_UTF8 env u p sl d)"
  "steady R (PrepareDestinationURI_UTF16 env w p sl d)"
proof -
  show d: "steady R (EnsureWebDAVDirectories env u t)" for u t
    unfolding EnsureWebDAVDirectories_def by (intro steady_rules steady_make_directories; simp)
  show p: "steady R (PrepareDestinationURI_UTF8 env u p sl d)" for u
    unfolding PrepareDestinationURI_UTF8_def Let_def by (intro steady_rules d)
  show "steady R (PrepareDestinationURI_UTF16 env w p sl d)"
    unfolding PrepareDestinationURI_UTF16_def by (intro steady_rules p)
qed

lemma steady_upload_file:
  "steady R (UploadFileToControllerViaForm env st f e t)" "steady R (UploadDataToControllerViaForm env dt f e t)"
  "steady R (webdav_filename u)" "steady R (UploadFile env f c u)" "steady R (upload_data env dt u)"
proof -
  show f: "steady R (UploadFileToControllerViaForm env st f e t)" for st f e t
    unfolding UploadFileToControllerViaForm_def by (intro steady_rules steady_requests; simp)
  show d: "steady R (UploadDataToControllerViaForm env dt f e t)" for f e t
    unfolding UploadDataToControllerViaForm_def by (intro steady_rules steady_requests)
  show w: "steady R (webdav_filename u)"
    unfolding webdav_filename_def by (intro steady_rules)
  show "steady R (UploadFile env f c u)"
    unfolding UploadFile_def by (intro steady_rules w f)
  show "steady R (upload_data env dt u)"
    unfolding upload_data_def by (intro steady_rules d)
qed

lemma steady_make_collection: "steady R (make_collection env u)"
  unfolding make_collection_def by (intro steady_rules; simp)

lemma steady_upload_directory: "steady R (UploadDirectory env dir listing u)"
proof -
  have "e = env \<longrightarrow> steady R (UploadDirectory e dir listing u)" for e
  proof (induction e dir listing u rule: UploadDirectory.induct)
    case (1 e dir listing u)
    show ?case
    proof
      assume e: "e = env"
      have "steady R (case node of
            Directory inner \<Rightarrow> UploadDirectory env (path_join dir name) inner (uri @ ''/'' @ EscapeString env name)
          | RegularFile contents \<Rightarrow> UploadFile env (path_join dir name) contents (uri @ ''/'' @ EscapeString env name)
          | OtherFile \<Rightarrow> ret ())"
        if "listing = Some entries" "(name, node) \<in> set entries" for entries name node uri
        using that 1 [of entries "(name, node)" name node _ uri] e
        by (cases node) (auto simp: steady_upload_file steady_atoms)
      then show "steady R (UploadDirectory e dir listing u)"
        unfolding e
        by (subst UploadDirectory.simps) (intro steady_rules steady_make_collection; auto)
    qed
  qed
  then show ?thesis by simp
qed

lemma steady_file_transfers:
  "steady R (UploadFileToController_UTF8 env f u)" "steady R (UploadFileToController_UTF16 env wfile wu)"
  "steady R (UploadDataToController_UTF8 env dt u)" "steady R (UploadDataToController_UTF16 env dt wu)"
  "steady R (UploadDirectoryToController_UTF8 env dir u)"
  "steady R (DownloadFileFromController_UTF8 env u)" "steady R (DownloadFileFromController_UTF16 env wu)"
  unfolding UploadFileToController_UTF8_def UploadFileToController_UTF16_def UploadDataToController_UTF8_def
    UploadDataToController_UTF16_def UploadDirectoryToController_UTF8_def DownloadFileFromController_UTF8_def
    DownloadFileFromController_UTF16_def
  by (intro steady_rules steady_uris steady_upload_file steady_upload_directory steady_requests)+

lemma steady_download: "steady R (DownloadFileFromController' env u l t)"
  unfolding DownloadFileFromController'_def by (intro steady_rules steady_requests; simp)

lemma steady_file_times:
  "steady R (DownloadFileFromControllerIfModifiedSince_UTF8 env u l t)"
  "steady R (DownloadFileFromControllerIfModifiedSince_UTF16 env wu l t)" "steady R (GetModifiedTime env u t)"
  unfolding DownloadFileFromControllerIfModifiedSince_UTF8_def DownloadFileFromControllerIfModifiedSince_UTF16_def
    GetModifiedTime_def
  by (intro steady_rules steady_uris steady_download; simp)+

lemma steady_delete_file:
  "steady R (DeleteFile env u)" "steady R (DeleteDirectory env u)"
  unfolding DeleteFile_def DeleteDirectory_def
  by (intro steady_rules steady_upload_file steady_requests; simp)+

lemma steady_file_deletions:
  "steady R (DeleteFileOnController_UTF8 env u)" "steady R (DeleteFileOnController_UTF16 env wu)"
  "steady R (DeleteDirectoryOnController_UTF8 env u)" "steady R (DeleteDirectoryOnController_UTF16 env wu)"
  unfolding DeleteFileOnController_UTF8_def DeleteFileOnController_UTF16_def DeleteDirectoryOnController_UTF8_def
    DeleteDirectoryOnController_UTF16_def
  by (intro steady_rules steady_uris steady_delete_file)+

lemma steady_sync_upload: "steady R (SyncUpload_UTF8 env xml f d st)"
  unfolding SyncUpload_UTF8_def Let_def
  by (intro steady_rules steady_uris steady_upload_file steady_upload_directory)

lemma steady_upload_file_wide: "steady R (UploadFile_UTF16 env wfile cs u)"
  unfolding UploadFile_UTF16_def by (intro steady_rules steady_upload_file)

lemma steady_upload_directory_wide: "steady R (UploadDirectory_UTF16 env conv dir listing u)"
proof -
  have "e = env \<longrightarrow> steady R (UploadDirectory_UTF16 e k dir listing u)" for e k
  proof (induction e k dir listing u rule: UploadDirectory_UTF16.induct)
    case (1 e k dir listing u)
    show ?case
    proof
      assume e: "e = env"
      have "steady R (case node of
            Directory inner \<Rightarrow> bindM (liftR (from_fs k (path_join d name))) (\<lambda>path.
              UploadDirectory_UTF16 env k path inner (uri @ ''/'' @ EscapeString env wname))
          | RegularFile contents \<Rightarrow> bindM (liftR (from_fs k (path_join d name))) (\<lambda>path.
              UploadFile_UTF16 env path (\<lambda>_. contents) (uri @ ''/'' @ EscapeString env wname))
          | OtherFile \<Rightarrow> ret ())"
        if "listing = Some entries" "(name, node) \<in> set entries" for entries name node uri d wname
        using that 1 [of entries "(name, node)" name node] e
        by (cases node) (auto intro!: steady_rules steady_upload_file_wide)
      then show "steady R (UploadDirectory_UTF16 e k dir listing u)"
        unfolding e
        by (subst UploadDirectory_UTF16.simps) (intro steady_rules steady_make_collection; auto intro!: steady_rules)
    qed
  qed
  then show ?thesis by simp
qed

lemma steady_wide_uploads:
  "steady R (UploadDirectoryToController_UTF16 env conv wdir wu)" "steady R (SyncUpload_UTF16 env conv xml wfile wd st)"
  unfolding UploadDirectoryToController_UTF16_def SyncUpload_UTF16_def Let_def
  by (intro steady_rules steady_uris steady_upload_file_wide steady_upload_directory_wide)+

lemma steady_server:
  "steady R (SaveBackup env c m p t)" "steady R (RestoreBackup env st c m t)" "steady R (Upgrade env st a b t)"
  "steady R (GetUpgradeStatus env t)" "steady R (CancelUpgrade env t)" "steady R (Reboot env t)"
  "steady R (DeleteAllScenes env t)" "steady R (DeleteAllITLPrograms env t)"
  unfolding SaveBackup_def RestoreBackup_def Upgrade_def GetUpgradeStatus_def CancelUpgrade_def Reboot_def
    DeleteAllScenes_def DeleteAllITLPrograms_def Let_def
  by (intro steady_rules steady_requests steady_upload_file)+

lemma steady_references:
  "steady R (ModifySceneAddReferenceObjectPK env a b t)" "steady R (ModifySceneRemoveReferenceObjectPK env a b t)"
  unfolding ModifySceneAddReferenceObjectPK_def ModifySceneRemoveReferenceObjectPK_def modify_references_def
  by (intro steady_rules steady_requests)+

lemma steady_lists:
  "steady R (GetDebugInfos env t)" "steady R (ListFilesInController env d t)"
  unfolding GetDebugInfos_def ListFilesInController_def
  by (intro steady_rules steady_requests)+

lemma steady_log_reply:
  "steady R (case (if b then FindMember v k else None) of Some (JArray ids) \<Rightarrow> ret (f ids) | _ \<Rightarrow> m)"
  if "steady R m"
  using that steady_atoms by (auto split: option.splits json.splits)

lemma steady_log: "steady R (CreateLogEntries env es ids t)"
  unfolding CreateLogEntries_def
  by (intro steady_rules steady_requests steady_log_reply)

lemmas steady_operations = steady_public_get steady_post(3) steady_put_delete(2,3,4) steady_graph(2,3) steady_subscription
  steady_version steady_jobs steady_scenes steady_objects steady_file_transfers steady_file_times
  steady_file_deletions steady_sync_upload steady_wide_uploads steady_server steady_references steady_lists steady_log

end

section \<open>The calls of a client\<close>

text \<open>One operation of the interface, called by a thread; the result is not looked at.\<close>

inductive client_call :: "'d http_env \<Rightarrow> ('d client \<Rightarrow> 'd client) \<Rightarrow> bool" for env where
  "client_call env (\<lambda>s. snd (CallGet env u v c t s))"
| "client_call env (\<lambda>s. snd (CallGet_to_string env u c t s))"
| "client_call env (\<lambda>s. snd (CallGet_to_stream env u c t s))"
| "client_call env (\<lambda>s. snd (CallGet_to_vector env u c t s))"
| "client_call env (\<lambda>s. snd (CallPost env u d c t s))"
| "client_call env (\<lambda>s. snd (CallPutSTL env u d c t s))"
| "client_call env (\<lambda>s. snd (CallPutJSON env u d c t s))"
| "client_call env (\<lambda>s. snd (CallDelete env u c t s))"
| "client_call env (\<lambda>s. snd (ExecuteGraphQuery env opn q v t s))"
| "client_call env (\<lambda>s. snd (ExecuteGraphQueryRaw env opn q v t s))"
| "client_call env (\<lambda>s. snd (ExecuteGraphSubscription env u opn q v h s))"
| "client_call env (\<lambda>s. snd (GetVersion env s))"
| "client_call env (\<lambda>s. snd (CancelAllJobs env s))"
| "client_call env (\<lambda>s. snd (GetRunTimeStatuses env n s))"
| "client_call env (\<lambda>s. snd (RestartServer env t s))"
| "client_call env (\<lambda>s. snd (GetScenePrimaryKeys env s))"
| "client_call env (\<lambda>s. snd (RegisterScene_UTF8 env u st s))"
| "client_call env (\<lambda>s. snd (RegisterScene_UTF16 env w st s))"
| "client_call env (\<lambda>s. snd (ImportSceneToCOLLADA_UTF8 env u st nu ov s))"
| "client_call env (\<lambda>s. snd (ImportSceneToCOLLADA_UTF16 env w st wn ov s))"
| "client_call env (\<lambda>s. snd (CreateObjectGeometry env a b p g t s))"
| "client_call env (\<lambda>s. snd (CreateIkParam env a b p t s))"
| "client_call env (\<lambda>s. snd (CreateLink env a b p qu tr t s))"
| "client_call env (\<lambda>s. snd (SetObjectGeometryMesh env a b m u t s))"
| "client_call env (\<lambda>s. snd (UploadFileToController_UTF8 env f u s))"
| "client_call env (\<lambda>s. snd (UploadFileToController_UTF16 env wfile wu s))"
| "client_call env (\<lambda>s. snd (UploadDataToController_UTF8 env d u s))"
| "client_call env (\<lambda>s. snd (UploadDataToController_UTF16 env d wu s))"
| "client_call env (\<lambda>s. snd (UploadDirectoryToController_UTF8 env dir u s))"
| "client_call env (\<lambda>s. snd (DownloadFileFromController_UTF8 env u s))"
| "client_call env (\<lambda>s. snd (DownloadFileFromController_UTF16 env wu s))"
| "client_call env (\<lambda>s. snd (DownloadFileFromControllerIfModifiedSince_UTF8 env u l t s))"
| "client_call env (\<lambda>s. snd (DownloadFileFromControllerIfModifiedSince_UTF16 env wu l t s))"
| "client_call env (\<lambda>s. snd (GetModifiedTime env u t s))"
| "client_call env (\<lambda>s. snd (DeleteFileOnController_UTF8 env u s))"
| "client_call env (\<lambda>s. snd (DeleteFileOnController_UTF16 env wu s))"
| "client_call env (\<lambda>s. snd (DeleteDirectoryOnController_UTF8 env u s))"
| "client_call env (\<lambda>s. snd (DeleteDirectoryOnController_UTF16 env wu s))"
| "client_call env (\<lambda>s. snd (SyncUpload_UTF8 env xml f u st s))"
| "client_call env (\<lambda>s. snd (UploadDirectoryToController_UTF16 env conv wdir wu s))"
| "client_call env (\<lambda>s. snd (SyncUpload_UTF16 env conv xml wfile wu st s))"
| "client_call env (\<lambda>s. snd (SaveBackup env cf md bs t s))"
| "client_call env (\<lambda>s. snd (RestoreBackup env ins cf md t s))"
| "client_call env (\<lambda>s. snd (Upgrade env ins ar uo t s))"
| "client_call env (\<lambda>s. snd (GetUpgradeStatus env t s))"
| "client_call env (\<lambda>s. snd (CancelUpgrade env t s))"
| "client_call env (\<lambda>s. snd (Reboot env t s))"
| "client_call env (\<lambda>s. snd (DeleteAllScenes env t s))"
| "client_call env (\<lambda>s. snd (DeleteAllITLPrograms env t s))"
| "client_call env (\<lambda>s. snd (ModifySceneAddReferenceObjectPK env a b t s))"
| "client_call env (\<lambda>s. snd (ModifySceneRemoveReferenceObjectPK env a b t s))"
| "client_call env (\<lambda>s. snd (GetDebugInfos env t s))"
| "client_call env (\<lambda>s. snd (ListFilesInController env u t s))"
| "client_call env (\<lambda>s. snd (CreateLogEntries env es ids t s))"

inductive client_setting :: "'d http_env \<Rightarrow> ('d client \<Rightarrow> 'd client) \<Rightarrow> bool" for env where
  "client_setting env (\<lambda>s. snd (SetCharacterEncoding u s))"
| "client_setting env (\<lambda>s. snd (SetLanguage u s))"
| "client_setting env (\<lambda>s. snd (SetUserAgent env u s))"
| "client_setting env (\<lambda>s. snd (SetAdditionalHeaders hs s))"
| "client_setting env (\<lambda>s. snd (SetProxy env u p s))"
| "client_setting env (\<lambda>s. snd (SetUnixEndpoint env u s))"
| "client_setting env (\<lambda>s. snd (SetDefaultSceneType u s))"
| "client_setting env (\<lambda>s. snd (SetDefaultTaskType u s))"

section \<open>The curl handle and the mutex are given back\<close>

text \<open>Between two states the mutex is the same, and an option is the same or has been reset.\<close>

definition calm :: "'d client \<Rightarrow> 'd client \<Rightarrow> bool" where
  "calm s s' \<longleftrightarrow> m_locked s' = m_locked s \<and>
     list_all (\<lambda>(opt, v). m_opts s' opt = m_opts s opt \<or> m_opts s' opt = v) request_options"

definition idle :: "'d client \<Rightarrow> bool" where
  "idle s \<longleftrightarrow> \<not> m_locked s \<and> list_all (\<lambda>(opt, v). m_opts s opt = v) request_options"

lemma put_opt_fields [simp]:
  "m_locked (put_opt opt v s) = m_locked s" "m_opts (put_opt opt v s) = (m_opts s)(opt := v)"
  by (simp_all add: put_opt_def)

lemma request_option: "(opt, v) \<in> set request_options \<longleftrightarrow> reset_value opt = Some v"
  unfolding reset_value_def by (rule map_of_eq_Some_iff [symmetric]) (simp add: request_options_def)

lemma all_request_options:
  "list_all P request_options \<longleftrightarrow> (\<forall>opt v. reset_value opt = Some v \<longrightarrow> P (opt, v))"
  by (force simp: list_all_iff request_option [symmetric])

lemma calm_iff: "calm s s' \<longleftrightarrow> m_locked s' = m_locked s \<and>
    (\<forall>opt v. reset_value opt = Some v \<longrightarrow> m_opts s' opt = m_opts s opt \<or> m_opts s' opt = v)"
  by (simp add: calm_def all_request_options)

lemma idle_iff: "idle s \<longleftrightarrow> \<not> m_locked s \<and> (\<forall>opt v. reset_value opt = Some v \<longrightarrow> m_opts s opt = v)"
  by (simp add: idle_def all_request_options)

lemma calm_idle: "calm s s' \<Longrightarrow> idle s \<Longrightarrow> idle s'"
  unfolding calm_iff idle_iff by metis

lemma calm_refl: "reflp calm"
  by (simp add: reflp_def calm_iff)

lemma calm_trans: "transp calm"
  unfolding transp_def calm_iff by metis

lemma calm_option_scope:
  assumes "reset_value opt = Some cur" "calm (put_opt opt new s) s'"
  shows "calm s (put_opt opt cur s')"
  unfolding calm_iff
proof (intro conjI allI impI)
  show "m_locked (put_opt opt cur s') = m_locked s" using assms(2) by (simp add: calm_iff)
  fix o' v assume o': "reset_value o' = Some v"
  show "m_opts (put_opt opt cur s') o' = m_opts s o' \<or> m_opts (put_opt opt cur s') o' = v"
  proof (cases "o' = opt")
    case False
    from assms(2) o' have "m_opts s' o' = m_opts (put_opt opt new s) o' \<or> m_opts s' o' = v"
      by (simp add: calm_iff)
    with False show ?thesis by simp
  qed (use assms(1) o' in simp)
qed

lemma deliver_fields [simp]:
  "m_locked (deliver c s) = m_locked s" "m_opts (deliver c s) = m_opts s" "m_requests (deliver c s) = m_requests s"
  by (simp_all add: deliver_def WriteStringStreamCallback_def WriteOStreamCallback_def WriteVectorCallback_def
      split: cval.splits callback.splits)

lemma fold_deliver_fields [simp]:
  "m_locked (fold deliver cs s) = m_locked s" "m_opts (fold deliver cs s) = m_opts s"
  "m_requests (fold deliver cs s) = m_requests s"
  by (induction cs arbitrary: s) simp_all

lemma CURL_PERFORM_state:
  "snd (CURL_PERFORM env s) =
     (let r = perform_result env (length (m_requests s)) (m_opts s) in
      fold deliver (r_chunks r) (s \<lparr> m_requests := m_requests s @ [m_opts s] \<rparr>)
        \<lparr> m_errormessage := r_errormessage r, m_filetime := r_filetime r \<rparr>)"
  by (simp add: CURL_PERFORM_def Let_def CHECKCURLCODE_def monad_defs)

interpretation calm: http_relation env calm for env :: "'d http_env"
proof
  show "reflp (calm :: 'd client \<Rightarrow> _)" by (rule calm_refl)
  show "transp (calm :: 'd client \<Rightarrow> _)" by (rule calm_trans)
  show "steady calm (CURL_PERFORM env)"
    by (simp add: steady_def CURL_PERFORM_state Let_def calm_iff)
  show "reset_value opt = Some cur \<Longrightarrow> calm (put_opt opt new s) s' \<Longrightarrow> calm s (put_opt opt cur s')"
    for opt cur new and s s' :: "'d client"
    by (rule calm_option_scope)
qed (auto simp: calm_iff)

text \<open>Between two states the settings are the same, and the requests of the first are the first
  requests of the second.\<close>

definition same_settings :: "'d client \<Rightarrow> 'd client \<Rightarrow> bool" where
  "same_settings s s' \<longleftrightarrow> m_baseuri s' = m_baseuri s \<and> m_baseapiuri s' = m_baseapiuri s \<and>
     m_basewebdavuri s' = m_basewebdavuri s \<and> m_username s' = m_username s \<and> m_fulluri s' = m_fulluri s \<and>
     m_clientInfo s' = m_clientInfo s \<and> m_charset s' = m_charset s \<and> m_language s' = m_language s \<and>
     m_csrfmiddlewaretoken s' = m_csrfmiddlewaretoken s \<and> m_additionalHeaders s' = m_additionalHeaders s \<and>
     m_httpheadersjson s' = m_httpheadersjson s \<and> m_httpheadersstl s' = m_httpheadersstl s \<and>
     m_httpheadersmultipartformdata s' = m_httpheadersmultipartformdata s"

definition grows :: "'d client \<Rightarrow> 'd client \<Rightarrow> bool" where
  "grows s s' \<longleftrightarrow> same_settings s s' \<and> prefix (m_requests s) (m_requests s')"

lemma same_settings_deliver [simp]: "same_settings s0 (deliver c s) = same_settings s0 s"
  by (simp add: same_settings_def deliver_def WriteStringStreamCallback_def WriteOStreamCallback_def
      WriteVectorCallback_def split: cval.splits callback.splits)

lemma same_settings_fold_deliver [simp]: "same_settings s0 (fold deliver cs s) = same_settings s0 s"
  by (induction cs arbitrary: s) simp_all

interpretation grows: http_relation env grows for env :: "'d http_env"
proof
  show "reflp (grows :: 'd client \<Rightarrow> _)" by (simp add: reflp_def grows_def same_settings_def)
  show "transp (grows :: 'd client \<Rightarrow> _)" by (auto simp: transp_def grows_def same_settings_def)
  show "steady grows (CURL_PERFORM env)"
  proof -
    have "same_settings s (fold deliver cs (s \<lparr> m_requests := m_requests s @ [m_opts s] \<rparr>) \<lparr> m_errormessage := a, m_filetime := b \<rparr>)"
      for s :: "'d client" and cs a b
      using same_settings_fold_deliver [of s cs "s \<lparr> m_requests := m_requests s @ [m_opts s] \<rparr>"]
      by (simp add: same_settings_def)
    then show ?thesis by (simp add: steady_def CURL_PERFORM_state Let_def grows_def)
  qed
qed (auto simp: grows_def same_settings_def put_opt_def)


inductive client_run :: "'d http_env \<Rightarrow> 'd client \<Rightarrow> bool" for env where
  constructed: "ControllerClientImpl env up uri pr pu flag (blank_client info) = (Inr (), s) \<Longrightarrow> client_run env s"
| called: "client_run env s \<Longrightarrow> client_call env f \<Longrightarrow> client_run env (f s)"
| setting: "client_run env s \<Longrightarrow> client_setting env f \<Longrightarrow> client_run env (f s)"

section \<open>Reachable clients\<close>

lemma steady_snd: "steady R m \<Longrightarrow> R s (snd (m s))"
  by (simp add: steady_def)

lemma calm_call: "client_call env f \<Longrightarrow> calm s (f s)"
  by (induction rule: client_call.induct; rule steady_snd, rule calm.steady_operations)

lemma grows_call: "client_call env f \<Longrightarrow> grows s (f s)"
  by (induction rule: client_call.induct; rule steady_snd, rule grows.steady_operations)

text \<open>The addresses and the three header lists fit the settings they are made of.\<close>

definition consistent :: "'d client \<Rightarrow> bool" where
  "consistent s \<longleftrightarrow> ends_with (m_baseuri s) ''/'' \<and> m_baseapiuri s = m_baseuri s @ ''api/v1/'' \<and>
     ends_with (m_basewebdavuri s) (''/u/'' @ m_username s @ ''/'') \<and>
     SetupHTTPHeadersJSON s = s \<and> SetupHTTPHeadersSTL s = s \<and> SetupHTTPHeadersMultipartFormData s = s \<and>
     additionalHeaders (m_clientInfo s) = m_additionalHeaders s"

lemma thenM_Inr: "thenM m n s = (Inr x, s') \<longleftrightarrow> (\<exists>y s1. m s = (Inr y, s1) \<and> n s1 = (Inr x, s'))"
  by (auto simp: thenM_def bindM_def split: prod.splits sum.splits)

lemma bindM_Inr: "bindM m f s = (Inr x, s') \<longleftrightarrow> (\<exists>y s1. m s = (Inr y, s1) \<and> f y s1 = (Inr x, s'))"
  by (auto simp: bindM_def split: prod.splits sum.splits)

lemma modifyM_Inr: "modifyM f s = (r, s') \<longleftrightarrow> r = Inr () \<and> s' = f s"
  by (auto simp: modifyM_def)

lemma liftR_Inr: "liftR q s = (r, s') \<longleftrightarrow> r = q \<and> s' = s"
  by (auto simp: liftR_def)

lemma getM_Inr: "getM g s = (Inr x, s') \<longleftrightarrow> x = g s \<and> s' = s"
  by (auto simp: getM_def)

lemma ret_Inr: "ret y s = (Inr x, s') \<longleftrightarrow> x = y \<and> s' = s"
  by (auto simp: ret_def)

lemma setter_Inr: "CURL_OPTION_SETTER env opt v s = (Inr x, s') \<longleftrightarrow> setopt_code env opt v = 0 \<and> s' = put_opt opt v s"
  by (auto simp: CURL_OPTION_SETTER_def CHECKCURLCODE_def monad_defs)

lemma setters_Inr:
  "mapMs (\<lambda>(opt, v). CURL_OPTION_SETTER env opt v) xs s = (Inr x, s') \<Longrightarrow> s' = fold (\<lambda>(opt, v). put_opt opt v) xs s"
  by (induction xs arbitrary: s) (auto simp: thenM_Inr ret_Inr setter_Inr)

lemmas monad_Inr = thenM_Inr bindM_Inr modifyM_Inr liftR_Inr getM_Inr ret_Inr setter_Inr

lemma header_update_iff:
  "(s \<lparr> m_httpheadersjson := x \<rparr> = s) \<longleftrightarrow> m_httpheadersjson s = x"
  "(s \<lparr> m_httpheadersstl := x \<rparr> = s) \<longleftrightarrow> m_httpheadersstl s = x"
  "(s \<lparr> m_httpheadersmultipartformdata := x \<rparr> = s) \<longleftrightarrow> m_httpheadersmultipartformdata s = x"
  for s :: "'d client"
  by (cases s; auto)+

lemmas consistent_unfold = consistent_def SetupHTTPHeadersJSON_def SetupHTTPHeadersSTL_def
  SetupHTTPHeadersMultipartFormData_def header_update_iff header_X_def

lemma grows_consistent: "grows s s' \<Longrightarrow> consistent s \<Longrightarrow> consistent s'"
  by (simp add: grows_def same_settings_def consistent_unfold)

lemma idle_update [simp]:
  "idle (s \<lparr> m_clientInfo := i \<rparr>) = idle s" "idle (s \<lparr> m_charset := c \<rparr>) = idle s"
  "idle (s \<lparr> m_language := c \<rparr>) = idle s" "idle (s \<lparr> m_additionalHeaders := h \<rparr>) = idle s"
  "idle (s \<lparr> m_websocket := w \<rparr>) = idle s" "idle (SetupHTTPHeadersJSON s) = idle s"
  "idle (SetupHTTPHeadersSTL s) = idle s" "idle (SetupHTTPHeadersMultipartFormData s) = idle s"
  by (simp_all add: idle_def SetupHTTPHeadersJSON_def SetupHTTPHeadersSTL_def SetupHTTPHeadersMultipartFormData_def)

text \<open>The settings: a relation for those that go to the handle only.\<close>

definition keeps :: "'d client \<Rightarrow> 'd client \<Rightarrow> bool" where
  "keeps s s' \<longleftrightarrow> (idle s \<longrightarrow> idle s') \<and> (consistent s \<longrightarrow> consistent s')"

lemma keeps_refl: "reflp keeps" and keeps_trans: "transp keeps"
  by (auto simp: keeps_def reflp_def transp_def)

lemma steady_keeps_setter: "reset_value opt = None \<Longrightarrow> steady keeps (CURL_OPTION_SETTER env opt v)"
  by (simp add: steady_def CURL_OPTION_SETTER_def CHECKCURLCODE_def monad_defs keeps_def idle_iff put_opt_def consistent_unfold)

lemma steady_keeps_info: "(\<And>i. additionalHeaders (f i) = additionalHeaders i) \<Longrightarrow>
    steady keeps (modifyM (\<lambda>s. s \<lparr> m_clientInfo := f (m_clientInfo s) \<rparr>))"
  by (simp add: steady_def modifyM_def keeps_def consistent_unfold)

lemma steady_keeps_stop: "steady keeps (with_lock (stop_subscriptions env))"
  by (auto simp: steady_def with_lock_def stop_subscriptions_def keeps_def idle_def consistent_unfold
      split: option.splits prod.splits sum.splits)

lemma keeps_setting: "client_setting env f \<Longrightarrow> keeps s (f s)"
proof (induction rule: client_setting.induct)
  case (1 u)
  show ?case by (auto simp: SetCharacterEncoding_def with_lock_def modifyM_def keeps_def idle_def consistent_unfold)
next
  case (2 u)
  show ?case by (auto simp: SetLanguage_def with_lock_def modifyM_def keeps_def idle_def consistent_unfold)
next
  case (3 u)
  show ?case unfolding SetUserAgent_def
    by (rule steady_snd, intro steady_thenM [OF keeps_trans] steady_keeps_setter steady_keeps_info) simp_all
next
  case (4 hs)
  show ?case by (auto simp: SetAdditionalHeaders_def with_lock_def modifyM_def keeps_def idle_def consistent_unfold)
next
  case (5 u p)
  show ?case unfolding SetProxy_def
    by (rule steady_snd, intro steady_thenM [OF keeps_trans] steady_keeps_setter steady_keeps_info steady_keeps_stop) simp_all
next
  case (6 u)
  show ?case unfolding SetUnixEndpoint_def
    by (rule steady_snd, intro steady_thenM [OF keeps_trans] steady_keeps_setter steady_keeps_info steady_keeps_stop) simp_all
next
  case (7 u)
  show ?case by (simp add: SetDefaultSceneType_def modifyM_def keeps_def idle_def consistent_unfold)
next
  case (8 u)
  show ?case by (simp add: SetDefaultTaskType_def modifyM_def keeps_def idle_def consistent_unfold)
qed

subsection \<open>Construction\<close>

lemma ensure_slash_ends: "ends_with (ensure_slash s) ''/''" if "s \<noteq> []"
proof (cases "last s = CHR ''/''")
  case True
  from that have "s = butlast s @ [last s]" by simp
  with True have "drop (length s - 1) s = ''/''" by (metis append_eq_conv_conj length_append_singleton diff_Suc_1)
  with True that show ?thesis by (simp add: ensure_slash_def ends_with_def Suc_le_eq)
qed (simp add: ensure_slash_def ends_with_def)

lemma ends_with_append: "ends_with (s @ t) t"
  by (simp add: ends_with_def)

lemma webdav_uri_ends: "ends_with b ''/'' \<Longrightarrow> ends_with (webdav_uri b user flag) (''/u/'' @ user @ ''/'')"
proof -
  assume "ends_with b ''/''"
  then obtain c where c: "b = c @ ''/''" by (metis append_take_drop_id ends_with_def)
  show ?thesis
  proof (cases "ends_with b '':8000/'' \<or> flag")
    case True
    then show ?thesis
      unfolding webdav_uri_def by (auto simp: ends_with_append)
  next
    case False
    then have "webdav_uri b user flag = c @ ''/u/'' @ user @ ''/''" by (simp add: webdav_uri_def c)
    then show ?thesis using ends_with_append by metis
  qed
qed

lemma cookie_domain_state: "cookie_domain env b s = (r, s') \<Longrightarrow> s' = s"
  by (auto simp: cookie_domain_def monad_defs split: if_splits sum.splits prod.splits)

lemma ParseClientInfoFromURL_headers:
  "additionalHeaders (snd (ParseClientInfoFromURL url info)) = []"
  by (auto simp: ParseClientInfoFromURL_def Reset_def ParseHostPort_def ParseUserPassword_def ParseClientInfoPort_def
      Let_def split: option.splits sum.splits prod.splits)

text \<open>The object while it is built: no operation has run and the addresses are set.\<close>

definition under_construction :: "'d client \<Rightarrow> bool" where
  "under_construction s \<longleftrightarrow> \<not> m_locked s \<and> m_websocket s = None \<and> m_additionalHeaders s = [] \<and>
     additionalHeaders (m_clientInfo s) = [] \<and>
     list_all (\<lambda>(opt, v). m_opts s opt = curl_default opt) request_options \<and>
     ends_with (m_baseuri s) ''/'' \<and> m_baseapiuri s = m_baseuri s @ ''api/v1/'' \<and>
     ends_with (m_basewebdavuri s) (''/u/'' @ m_username s @ ''/'')"

lemma under_construction_put_opt:
  "reset_value opt = None \<Longrightarrow> under_construction (put_opt opt v s) = under_construction s"
  unfolding under_construction_def all_request_options by (auto simp: put_opt_def) (metis option.distinct(1))

lemma under_construction_SetProxy:
  assumes "SetProxy env p u s = (Inr (), s')" "under_construction s"
  shows "under_construction s'"
proof -
  let ?s = "put_opt PROXYUSERPWD (Text (c_str u)) (put_opt PROXY (Text (c_str p)) (put_opt UNIX_SOCKET_PATH Null s))"
  let ?t = "?s \<lparr> m_clientInfo := m_clientInfo ?s \<lparr> unixEndpoint := [] \<rparr> \<rparr>"
  have t: "under_construction ?t" using assms(2) by (simp add: under_construction_def all_request_options put_opt_def)
  from assms(1) have "with_lock (stop_subscriptions env) ?t = (Inr (), s')"
    by (auto simp: SetProxy_def monad_Inr)
  with t have "s' = ?t" by (auto simp: with_lock_def stop_subscriptions_def under_construction_def)
  with t show ?thesis by simp
qed

lemma set_cookie_Inr:
  "set_cookie env base s = (Inr x, s') \<Longrightarrow>
   \<exists>v. s' = put_opt COOKIELIST v (s \<lparr> m_csrfmiddlewaretoken := ''csrftoken'' \<rparr>)"
  by (auto simp: set_cookie_def monad_Inr dest!: cookie_domain_state)

lemma constructor_options_values:
  assumes "under_construction s" and s': "s' = fold (\<lambda>(opt, v). put_opt opt v) (constructor_options env up) s"
  shows "reset_value opt = Some v \<Longrightarrow> m_opts s' opt = v" and "s' = s \<lparr> m_opts := m_opts s' \<rparr>"
proof -
  show "reset_value opt = Some v \<Longrightarrow> m_opts s' opt = v"
    using assms(1)
    by (cases opt)
      (auto simp: s' constructor_options_def put_opt_def under_construction_def request_options_def reset_value_def)
  show "s' = s \<lparr> m_opts := m_opts s' \<rparr>"
    by (simp add: s' constructor_options_def put_opt_def)
qed

lemma constructed_client:
  assumes "ControllerClientImpl env up uri pr pu flag (blank_client info) = (Inr (), s)"
  shows "idle s \<and> consistent s"
proof -
  from assms obtain k where uri: "uri \<noteq> []" and k: "find_char (CHR '':'') up = Some k"
    by (auto simp: ControllerClientImpl_def monad_Inr check_assert_def throw_def split: if_splits option.splits)
  let ?user = "take k up" and ?passwd = "drop (k + 1) up" and ?base = "ensure_slash uri"
  from assms obtain y s1 s5 s6 s7 where
    s1: "parse_base_uri ?user up uri (blank_client info) = (Inr (), s1)" and
    s5: "(if pr \<noteq> [] then SetProxy env pr pu else ret ())
      (put_opt SSL_VERIFYPEER (Long 0) (put_opt ERRORBUFFER (Target ErrorSink) (set_addresses ?user ?passwd ?base flag s1))) = (Inr y, s5)" and
    s6: "mapMs (\<lambda>(opt, v). CURL_OPTION_SETTER env opt v) (constructor_options env up) s5 = (Inr (), s6)" and
    s7: "set_cookie env ?base s6 = (Inr (), s7)" and s: "s = default_headers s7"
    by (auto simp: ControllerClientImpl_def k monad_Inr check_assert_def uri Let_def)
  have base: "ends_with ?base ''/''" by (rule ensure_slash_ends [OF uri])
  have "under_construction (set_addresses ?user ?passwd ?base flag s1)"
    using s1 base webdav_uri_ends [OF base] ParseClientInfoFromURL_headers [of "c_str uri" info]
    by (auto simp: under_construction_def blank_client_def all_request_options parse_base_uri_def set_addresses_def
        split: prod.splits)
  then have "under_construction (put_opt SSL_VERIFYPEER (Long 0) (put_opt ERRORBUFFER (Target ErrorSink)
      (set_addresses ?user ?passwd ?base flag s1)))"
    by (simp add: under_construction_put_opt reset_value_def request_options_def)
  with s5 have u5: "under_construction s5"
    using under_construction_SetProxy by (auto simp: ret_Inr split: if_splits)
  note s6 = setters_Inr [OF s6]
  from set_cookie_Inr [OF s7] obtain v where s7: "s7 = put_opt COOKIELIST v (s6 \<lparr> m_csrfmiddlewaretoken := ''csrftoken'' \<rparr>)"
    by blast
  have o6: "reset_value opt = Some v \<Longrightarrow> m_opts s6 opt = v" for opt v
    by (rule constructor_options_values(1) [OF u5 s6])
  obtain os where "s6 = s5 \<lparr> m_opts := os \<rparr>"
    using constructor_options_values(2) [OF u5 s6] by blast
  with u5 have f6: "\<not> m_locked s6" "m_additionalHeaders s6 = []" "additionalHeaders (m_clientInfo s6) = []"
      "ends_with (m_baseuri s6) ''/''" "m_baseapiuri s6 = m_baseuri s6 @ ''api/v1/''"
      "ends_with (m_basewebdavuri s6) (''/u/'' @ m_username s6 @ ''/'')"
    by (simp_all add: under_construction_def)
  have "idle s7" using o6 f6(1) unfolding s7 idle_iff put_opt_def
    by (auto simp: reset_value_def request_options_def split: if_splits)
  with f6 show ?thesis unfolding s s7 by (simp add: default_headers_def consistent_unfold put_opt_def idle_def)
qed

end
