(* ===== verification/HttpProps.thy ===== *)
theory HttpProps
  imports HttpLaws
begin

text \<open>
  The properties of the HTTP client: the invariant of every reachable client, what a request
  sends and what becomes of the reply, the order of the checks of a GraphQL reply, the
  addresses of the files, the headers, and two calls that do not do what they are for.
\<close>

section \<open>Inversion of successful calls\<close>

lemma with_option_Inr:
  "with_option env opt cur new m s = (Inr x, s') \<longleftrightarrow>
   setopt_code env opt new = 0 \<and> (\<exists>s1. m (put_opt opt new s) = (Inr x, s1) \<and> s' = put_opt opt cur s1)"
  by (cases "m (put_opt opt new s)")
    (auto simp: with_option_def thenM_def bindM_def CURL_OPTION_SETTER_def CHECKCURLCODE_def ret_def throw_def modifyM_def
      split: prod.splits)

lemma with_lock_Inr:
  "with_lock m s = (Inr x, s') \<longleftrightarrow>
   \<not> m_locked s \<and> (\<exists>s1. m (s \<lparr> m_locked := True \<rparr>) = (Inr x, s1) \<and> s' = s1 \<lparr> m_locked := False \<rparr>)"
  by (auto simp: with_lock_def split: prod.splits)

lemmas scope_Inr = with_option_Inr with_lock_Inr with_timeout_def with_headers_def with_url_def writing_to_def

lemma deliver_buffer:
  "m_opts s WRITEFUNCTION = Callback WriteStringStream \<Longrightarrow> m_buffer (fold deliver cs s) = m_buffer s @ concat cs"
  by (induction cs arbitrary: s) (simp_all add: deliver_def WriteStringStreamCallback_def)

lemma deliver_uris [simp]:
  "m_basewebdavuri (fold deliver cs s) = m_basewebdavuri s" "m_baseuri (fold deliver cs s) = m_baseuri s"
  using same_settings_fold_deliver [of s cs s] by (simp_all add: same_settings_def)

lemma performed_Inr:
  assumes "CURL_PERFORM env s = (Inr r, s')"
  shows "r = perform_result env (length (m_requests s)) (m_opts s) \<and> r_code r = 0 \<and>
    m_requests s' = m_requests s @ [m_opts s] \<and> m_opts s' = m_opts s \<and> m_basewebdavuri s' = m_basewebdavuri s \<and>
    m_baseuri s' = m_baseuri s \<and>
    (m_opts s WRITEFUNCTION = Callback WriteStringStream \<longrightarrow> m_buffer s' = m_buffer s @ concat (r_chunks r))"
  using assms
  by (auto simp: CURL_PERFORM_def Let_def CHECKCURLCODE_def monad_defs deliver_buffer split: if_splits)

lemma put_opt_kept [simp]:
  "m_requests (put_opt opt v s) = m_requests s" "m_buffer (put_opt opt v s) = m_buffer s"
  "m_baseuri (put_opt opt v s) = m_baseuri s" "m_baseapiuri (put_opt opt v s) = m_baseapiuri s"
  "m_basewebdavuri (put_opt opt v s) = m_basewebdavuri s" "m_uri (put_opt opt v s) = m_uri s"
  "m_httpheadersjson (put_opt opt v s) = m_httpheadersjson s" "m_errormessage (put_opt opt v s) = m_errormessage s"
  "m_httpheadersmultipartformdata (put_opt opt v s) = m_httpheadersmultipartformdata s"
  by (simp_all add: put_opt_def)

section \<open>Reachable clients\<close>

lemma reachable_client: "client_run env s \<Longrightarrow> idle s \<and> consistent s"
proof (induction rule: client_run.induct)
  case (constructed up uri pr pu flag info s)
  then show ?case by (rule constructed_client)
next
  case (called s f)
  then show ?case using calm_idle [OF calm_call] grows_consistent [OF grows_call] by blast
next
  case (setting s f)
  then show ?case using keeps_setting unfolding keeps_def by blast
qed

text \<open>C1: Whatever calls a client has made, with whatever answers, failures and exceptions, its mutex
  is free, every option of a request is back at its default, and its addresses and header
  lists are those of its settings.\<close>

theorem client_run_invariant:
  assumes "client_run env s"
  shows "idle s \<and> consistent s"
  using assms by (rule reachable_client)

text \<open>C4: A successful \<^verbatim>\<open>CallGet\<close> sends one request: a GET of the address below the API root with the
  JSON headers, the timeout in milliseconds and every other option at its default. The
  status is the expected one and the value is the parsed body, or the old value when the
  body is empty.\<close>

theorem CallGet_request:
  assumes "idle s" and "CallGet env relativeuri pt 200 timeout s = (Inr (http_code, v), s')"
    and "request = (m_opts s)(TIMEOUT_MS := Long (timeout_ms timeout), HTTPHEADER := Headers (m_httpheadersjson s),
      URL := Text (c_str (m_baseapiuri s @ relativeuri)), WRITEFUNCTION := Callback WriteStringStream,
      WRITEDATA := Target BufferSink, HTTPGET := Long 1)"
    and "body = concat (r_chunks (perform_result env (length (m_requests s)) request))"
  shows "m_requests s' = m_requests s @ [request] \<and> http_code = 200 \<and> idle s' \<and>
    (if body = [] then v = pt else ParseJson_stream (json_lib env) body = Inr v)"
proof -
  have "idle s'"
    using calm_idle [OF calm_call [OF client_call.intros(1)] assms(1), of env relativeuri pt 200 timeout] assms(2) by simp
  with assms(2) show ?thesis unfolding assms(3,4)
    by (auto simp: CallGet_def at_api_uri_def CallGet_json_def scope_Inr monad_Inr clear_buffer_def unexpected_def throw_def
        dest!: performed_Inr split: if_splits)
qed

section \<open>GraphQL replies\<close>

lemma dump_error: "dump env v = Inl e \<Longrightarrow> e = JsonExc ''Failed to write json writer''"
  by (auto simp: dump_def DumpJson_def split: option.splits)

lemma graph_invalid_not_query_error: "graph_invalid env a b opn v \<noteq> Inl (GraphQueryExc w c)"
  using dump_error [of env v] by (cases "dump env v") (auto simp: graph_invalid_def http_error_def MujinException_def)

lemma graph_invalid_not_Inr: "graph_invalid env a b opn v \<noteq> Inr x"
  by (auto simp: graph_invalid_def bindR_Inr_iff)

lemma throw_graph_error_iff: "throw_graph_error opn es \<noteq> None \<longleftrightarrow> (\<exists>e\<in>set es. string_member e ''message'' \<noteq> None)"
  by (induction es) (auto split: option.splits)

lemma throw_graph_error_is_query_error: "throw_graph_error opn es = Some x \<Longrightarrow> \<exists>w c. x = GraphQueryExc w c"
  by (induction es) (auto simp: MujinGraphQueryError_def split: option.splits)

text \<open>The errors of a reply.\<close>

definition reply_errors :: "'d json \<Rightarrow> 'd json list" where
  "reply_errors v = (if IsObject v then (case FindMember v ''errors'' of Some (JArray es) \<Rightarrow> es | _ \<Rightarrow> []) else [])"

lemma check_graph_errors_cases:
  "IsObject v \<Longrightarrow> check_graph_errors env opn v =
     (if reply_errors v = [] then Inr ()
      else case throw_graph_error opn (reply_errors v) of
        Some x \<Rightarrow> Inl x
      | None \<Rightarrow> graph_invalid env ''graph query has undefined errors '' '': '' opn v)"
  by (simp add: check_graph_errors_def reply_errors_def split: option.splits json.splits list.splits)

text \<open>C19: A GraphQL query succeeds exactly when the reply is an object with data and without errors,
  and gives the data; it throws a query error exactly when one of the errors has a message.
  The raw query looks at the data only.\<close>

theorem graph_result_cases:
  "(graph_result env opn True False v = Inr d \<longleftrightarrow>
      IsObject v \<and> reply_errors v = [] \<and> FindMember v ''data'' = Some d) \<and>
   ((\<exists>w c. graph_result env opn True False v = Inl (GraphQueryExc w c)) \<longleftrightarrow>
      (\<exists>e\<in>set (reply_errors v). string_member e ''message'' \<noteq> None)) \<and>
   (graph_result env opn False True v = Inr d \<longleftrightarrow> IsObject v \<and> FindMember v ''data'' \<noteq> None \<and> d = v)"
proof (cases "IsObject v")
  case False
  then show ?thesis
    by (simp add: graph_result_def graph_invalid_not_Inr graph_invalid_not_query_error reply_errors_def)
next
  case True
  show ?thesis
  proof (cases "throw_graph_error opn (reply_errors v)")
    case None
    then have "\<not> (\<exists>e\<in>set (reply_errors v). string_member e ''message'' \<noteq> None)"
      using throw_graph_error_iff by metis
    with None True show ?thesis
      by (auto simp: graph_result_def check_graph_errors_cases graph_invalid_not_Inr graph_invalid_not_query_error bindR_Inr_iff
          bindR_Inl_iff split: option.splits if_splits)
  next
    case (Some x)
    then have "\<exists>e\<in>set (reply_errors v). string_member e ''message'' \<noteq> None"
      using throw_graph_error_iff by (metis option.distinct(1))
    moreover from this have "reply_errors v \<noteq> []" by auto
    ultimately show ?thesis using Some True throw_graph_error_is_query_error [OF Some]
      by (auto simp: graph_result_def check_graph_errors_cases graph_invalid_not_Inr split: option.splits)
  qed
qed

section \<open>Two calls that miss their purpose, and the headers\<close>

text \<open>C39: \<^verbatim>\<open>DeleteAllScenes\<close> takes the mutex that the call it makes takes again: it never returns and
  never sends a request.\<close>

theorem DeleteAllScenes_deadlocks:
  assumes "client_run env s"
  shows "DeleteAllScenes env timeout s = (Inl Deadlock, s)"
proof -
  from reachable_client [OF assms] have "\<not> m_locked s" by (simp add: idle_def)
  then have "s \<lparr> m_locked := False \<rparr> = s" by (cases s) simp
  with \<open>\<not> m_locked s\<close> show ?thesis
    by (simp add: DeleteAllScenes_def with_lock_def CallDelete_def)
qed

text \<open>The additional headers reach the STL and multipart requests but not the JSON ones.\<close>

lemma SetAdditionalHeaders_lists:
  assumes "client_run env s"
  shows "\<exists>s'. SetAdditionalHeaders headers s = (Inr (), s') \<and> m_httpheadersjson s' = m_httpheadersjson s \<and>
    suffix (map c_str headers) (m_httpheadersstl s') \<and> suffix (map c_str headers) (m_httpheadersmultipartformdata s')"
proof -
  from reachable_client [OF assms] have "\<not> m_locked s" "consistent s" by (simp_all add: idle_def)
  then show ?thesis
    by (auto simp: SetAdditionalHeaders_def with_lock_def modifyM_def SetupHTTPHeadersMultipartFormData_def
        SetupHTTPHeadersSTL_def SetupHTTPHeadersJSON_def consistent_unfold suffix_def)
qed

text \<open>\<^verbatim>\<open>CancelUpgrade\<close> sends its request to the API root followed by a whole address.\<close>

lemma CancelUpgrade_address:
  assumes "CancelUpgrade env timeout s = (Inr (), s')"
  shows "\<exists>q. m_requests s' = m_requests s @ [q] \<and> q URL = Text (c_str (m_baseapiuri s @ m_baseuri s @ ''upgrade/''))"
  using assms
  by (auto simp: CancelUpgrade_def CallDelete_def scope_Inr monad_Inr clear_buffer_def throw_def
      dest!: performed_Inr split: if_splits)

section \<open>Addresses of files\<close>

fun slash_join :: "string list \<Rightarrow> string" where
  "slash_join [] = []"
| "slash_join [x] = x"
| "slash_join (x # xs) = x @ ''/'' @ slash_join xs"

definition segment :: "string \<Rightarrow> bool" where
  "segment s \<longleftrightarrow> s \<noteq> [] \<and> CHR ''/'' \<notin> set s"

lemma slash_join_Cons: "xs \<noteq> [] \<Longrightarrow> slash_join (x # xs) = x @ ''/'' @ slash_join xs"
  by (cases xs) simp_all

lemma slash_join_snoc: "xs \<noteq> [] \<Longrightarrow> slash_join (xs @ [x]) = slash_join xs @ ''/'' @ x"
  by (induction xs rule: slash_join.induct) auto

lemma slash_join_nonempty: "xs \<noteq> [] \<Longrightarrow> list_all (\<lambda>x. x \<noteq> []) xs \<Longrightarrow> slash_join xs \<noteq> []"
  by (cases xs rule: slash_join.cases) auto

text \<open>Both loops walk over a segment without a change but the index.\<close>

lemma encode_loop_segment:
  "CHR ''/'' \<notin> set xs \<Longrightarrow> encode_loop env raw (xs @ rest) i j out = encode_loop env raw rest (i + length xs) j out"
  by (induction xs arbitrary: i) auto

lemma directories_loop_segment:
  "CHR ''/'' \<notin> set xs \<Longrightarrow> directories_loop env raw (xs @ rest) i j = directories_loop env raw rest (i + length xs) j"
  by (induction xs arbitrary: i) auto

lemma loops_segments:
  assumes "list_all segment segs" "segs \<noteq> []" "raw = pre @ slash_join segs"
  shows "encode_loop env raw (slash_join segs) (length pre) (length pre) out =
      out @ slash_join (map (EscapeString env) segs) \<and>
    directories_loop env raw (slash_join segs) (length pre) (length pre) = map (EscapeString env) segs"
  using assms
proof (induction segs arbitrary: pre out)
  case (Cons x segs)
  then have x: "x \<noteq> []" "CHR ''/'' \<notin> set x" by (simp_all add: segment_def)
  show ?case
  proof (cases "segs = []")
    case True
    with Cons.prems x show ?thesis
      using encode_loop_segment [OF x(2), of env raw "[]"] directories_loop_segment [OF x(2), of env raw "[]"] by simp
  next
    case False
    have raw: "raw = (pre @ x @ ''/'') @ slash_join segs" using Cons.prems(3) False by (simp add: slash_join_Cons)
    have s: "substr raw (length pre) (length x) = x" by (simp add: raw substr_def)
    note ih = Cons.IH [OF _ False raw]
    show ?thesis
      unfolding slash_join_Cons [OF False] encode_loop_segment [OF x(2)] directories_loop_segment [OF x(2)]
      using ih Cons.prems(1) x(1) s False by (simp add: slash_join_Cons)
  qed
qed simp

text \<open>C35: A path whose segments are not empty is encoded segment by segment, and the directories made
  for it are its encoded segments.\<close>

theorem EncodeWithoutSeparator_segments:
  assumes "list_all segment segs" and "segs \<noteq> []"
  shows "EncodeWithoutSeparator env (slash_join segs) = slash_join (map (EscapeString env) segs) \<and>
    directories_loop env (slash_join segs) (slash_join segs) 0 0 = map (EscapeString env) segs"
  using loops_segments [OF assms, of "slash_join segs" "[]" env "[]"] by (simp add: EncodeWithoutSeparator_def)

text \<open>The slash before a path, or the second of two, is encoded as a part of the next segment.\<close>

lemma EncodeWithoutSeparator_leading_slash:
  assumes "segment x"
  shows "EncodeWithoutSeparator env (''/'' @ x) = ''/'' @ EscapeString env (''/'' @ x)"
  using assms encode_loop_segment [of x env "''/'' @ x" "[]" 1 0 "''/''"]
  by (simp add: EncodeWithoutSeparator_def segment_def)

lemma make_directory_requests:
  assumes "make_directory env t s = (Inr (), s')"
  shows "\<exists>q. m_requests s' = m_requests s @ [q] \<and> q URL = Text (c_str (m_basewebdavuri s @ t)) \<and>
    q CUSTOMREQUEST = m_opts s CUSTOMREQUEST \<and> m_opts s' CUSTOMREQUEST = m_opts s CUSTOMREQUEST \<and>
    m_basewebdavuri s' = m_basewebdavuri s"
  using assms
  by (auto simp: make_directory_def scope_Inr monad_Inr clear_buffer_def throw_def dest!: performed_Inr split: if_splits)

lemma make_directories_requests:
  assumes "make_directories env dirs (slash_join sofar) s = (Inr (), s')" "list_all (\<lambda>d. d \<noteq> []) (sofar @ dirs)"
  shows "\<exists>qs. m_requests s' = m_requests s @ qs \<and>
    map (\<lambda>q. q URL) qs = map (\<lambda>k. Text (c_str (m_basewebdavuri s @ slash_join (sofar @ take (Suc k) dirs)))) [0..<length dirs] \<and>
    list_all (\<lambda>q. q CUSTOMREQUEST = m_opts s CUSTOMREQUEST) qs"
  using assms
proof (induction dirs arbitrary: sofar s)
  case Nil
  then show ?case by (simp add: ret_def)
next
  case (Cons dir dirs)
  have t: "(if slash_join sofar \<noteq> [] then slash_join sofar @ ''/'' else slash_join sofar) @ dir = slash_join (sofar @ [dir])"
    using Cons.prems(2) slash_join_nonempty [of sofar] by (cases "sofar = []") (auto simp: slash_join_snoc)
  with Cons.prems(1) obtain s1 where s1: "make_directory env (slash_join (sofar @ [dir])) s = (Inr (), s1)"
    and rest: "make_directories env dirs (slash_join (sofar @ [dir])) s1 = (Inr (), s')"
    by (auto simp: monad_Inr Let_def)
  from make_directory_requests [OF s1] obtain q where q: "m_requests s1 = m_requests s @ [q]"
    "q URL = Text (c_str (m_basewebdavuri s @ slash_join (sofar @ [dir])))" "q CUSTOMREQUEST = m_opts s CUSTOMREQUEST"
    "m_opts s1 CUSTOMREQUEST = m_opts s CUSTOMREQUEST" "m_basewebdavuri s1 = m_basewebdavuri s" by blast
  from Cons.IH [OF rest] Cons.prems(2) obtain qs where qs: "m_requests s' = m_requests s1 @ qs"
    "map (\<lambda>q. q URL) qs = map (\<lambda>k. Text (c_str (m_basewebdavuri s1 @ slash_join ((sofar @ [dir]) @ take (Suc k) dirs)))) [0..<length dirs]"
    "list_all (\<lambda>q. q CUSTOMREQUEST = m_opts s1 CUSTOMREQUEST) qs" by auto
  have "map (\<lambda>k. Text (c_str (m_basewebdavuri s @ slash_join (sofar @ take (Suc k) (dir # dirs))))) [0..<length (dir # dirs)] =
      q URL # map (\<lambda>q. q URL) qs"
    using q(2) qs(2) q(5) by (simp add: upt_conv_Cons map_Suc_upt [symmetric] del: upt_Suc)
  with q qs show ?case by (intro exI [of _ "q # qs"]) simp
qed

text \<open>C17: Making the directories of a path sends one MKCOL for each prefix of the path, the shorter
  ones first, and nothing else.\<close>

theorem EnsureWebDAVDirectories_requests:
  assumes "EnsureWebDAVDirectories env (slash_join segs) timeout s = (Inr (), s')"
    and "list_all segment segs" and "segs \<noteq> []" and "list_all (\<lambda>x. EscapeString env x \<noteq> []) segs"
  shows "\<exists>qs. m_requests s' = m_requests s @ qs \<and>
    map (\<lambda>q. q URL) qs =
      map (\<lambda>k. Text (c_str (m_basewebdavuri s @ slash_join (take (Suc k) (map (EscapeString env) segs))))) [0..<length segs] \<and>
    list_all (\<lambda>q. q CUSTOMREQUEST = Text ''MKCOL'') qs"
proof -
  have ne: "slash_join segs \<noteq> []"
    using assms(2,3) by (intro slash_join_nonempty) (auto simp: segment_def list_all_iff)
  have d: "directories_loop env (slash_join segs) (slash_join segs) 0 0 = map (EscapeString env) segs"
    using loops_segments [OF assms(2,3), of "slash_join segs" "[]" env "[]"] by simp
  from assms(1) ne obtain s0 s1 where
    m: "make_directories env (map (EscapeString env) segs) (slash_join []) s0 = (Inr (), s1)"
    and s0: "m_requests s0 = m_requests s" "m_basewebdavuri s0 = m_basewebdavuri s" "m_opts s0 CUSTOMREQUEST = Text ''MKCOL''"
    and s1: "m_requests s' = m_requests s1"
    by (auto simp: EnsureWebDAVDirectories_def d scope_Inr)
  from make_directories_requests [OF m] assms(4) s0 s1 show ?thesis by (simp add: list_all_iff)
qed

section \<open>A client to try the properties on\<close>

text \<open>A library and a server for which nothing fails: every request is answered with status 200
  and the body \<open>reply\<close>.\<close>

definition sample_http :: "nat lib \<Rightarrow> int \<Rightarrow> string list \<Rightarrow> nat http_env" where
  "sample_http lib status reply = \<lparr> json_lib = lib, setopt_code = (\<lambda>_ _. 0),
     perform_result = (\<lambda>_ _. \<lparr> r_code = 0, r_status = status, r_chunks = reply, r_filetime = 0, r_errormessage = [] \<rparr>),
     curl_error = (\<lambda>_. []), escape = id, unescape = id, read_file = (\<lambda>_. None), read_dir = (\<lambda>_. None),
     widen = (\<lambda>c. word_of_nat (of_char c)), has_libz = False, url_host = (\<lambda>_. Inr ''h''), client_version = ''1'',
     websocket_env = sample_ws lib ''connection_ack'', print_real = (\<lambda>_. []) \<rparr>"

lemma setter_ok: "setopt_code env = (\<lambda>_ _. 0) \<Longrightarrow> CURL_OPTION_SETTER env opt v s = (Inr (), put_opt opt v s)"
  by (simp add: CURL_OPTION_SETTER_def CHECKCURLCODE_def monad_defs)

lemma thenM_succeeds: "m s = (Inr x, s1) \<Longrightarrow> \<exists>s'. k s1 = (Inr (), s') \<Longrightarrow> \<exists>s'. thenM m k s = (Inr (), s')"
  by (simp add: monad_defs)

lemma thenM_succeeds': "\<exists>s1. m s = (Inr x, s1) \<Longrightarrow> (\<And>s1. \<exists>s'. k s1 = (Inr (), s')) \<Longrightarrow> \<exists>s'. thenM m k s = (Inr (), s')"
  by (auto simp: monad_defs)

lemma construction_succeeds:
  assumes "setopt_code env = (\<lambda>_ _. 0)" and "url_host env = (\<lambda>_. Inr h)" and "uri \<noteq> []"
    and "find_char (CHR '':'') up = Some k" and "fst (ParseClientInfoFromURL (c_str uri) info) = Inr ()"
  shows "\<exists>s. ControllerClientImpl env up uri [] [] flag (blank_client info) = (Inr (), s)"
proof -
  note ok = setter_ok [OF assms(1)]
  have cookie: "\<exists>s'. set_cookie env base s = (Inr (), s')" for base s
    by (cases "find_char (CHR ''/'') base = Some (length base - 1)")
      (simp_all add: set_cookie_def cookie_domain_def assms(2) monad_defs ok del: One_nat_def)
  have options: "\<exists>s'. mapMs (\<lambda>(opt, v). CURL_OPTION_SETTER env opt v) os s = (Inr (), s')" for os s
    by (induction os arbitrary: s) (auto simp: monad_defs ok)
  obtain c where c: "ParseClientInfoFromURL (c_str uri) info = (Inr (), c)" using assms(5) by (cases "ParseClientInfoFromURL (c_str uri) info") simp
  show ?thesis
    unfolding ControllerClientImpl_def assms(4) option.case Let_def
    apply (rule thenM_succeeds, simp add: check_assert_def assms(3) liftR_def)
    apply (rule thenM_succeeds, simp add: parse_base_uri_def blank_client_def c)
    apply (rule thenM_succeeds, simp add: modifyM_def)
    apply (rule thenM_succeeds, rule ok)
    apply (rule thenM_succeeds, rule ok)
    apply (rule thenM_succeeds, simp add: ret_def)
    apply (rule thenM_succeeds', rule options)
    apply (rule thenM_succeeds', rule cookie)
    by (simp add: modifyM_def)
qed

definition sample_client :: "nat client" where
  "sample_client = snd (ControllerClientImpl (sample_http sample_lib 200 []) ''u:p'' ''http://h'' [] [] False (blank_client sample_info0))"

lemma sample_parses: "fst (ParseClientInfoFromURL (c_str ''http://h'') sample_info0) = Inr ()"
  by code_simp

lemma sample_client_run: "client_run (sample_http sample_lib 200 []) sample_client"
proof -
  have "\<exists>s. ControllerClientImpl (sample_http sample_lib 200 []) ''u:p'' ''http://h'' [] [] False (blank_client sample_info0) = (Inr (), s)"
    by (rule construction_succeeds [OF _ _ _ _ sample_parses, where k = 1 and h = "''h''"]) (simp_all add: sample_http_def)
  then show ?thesis unfolding sample_client_def by (auto intro: client_run.constructed)
qed
text \<open>A client as it is between two calls.\<close>

definition ready_client :: "nat client" where
  "ready_client = (blank_client sample_info0) \<lparr> m_opts := curl_default(POSTFIELDSIZE := Long 0),
     m_baseuri := ''b/'', m_baseapiuri := ''a/'', m_basewebdavuri := ''w/'' \<rparr>"

lemmas ready_defs = ready_client_def blank_client_def sample_http_def

lemma ready_fields:
  "m_requests ready_client = []" "m_opts ready_client = curl_default(POSTFIELDSIZE := Long 0)"
  "m_baseuri ready_client = ''b/''" "m_baseapiuri ready_client = ''a/''" "m_basewebdavuri ready_client = ''w/''"
  "m_httpheadersjson ready_client = []" "perform_result (sample_http lib c reply) n q =
    \<lparr> r_code = 0, r_status = c, r_chunks = reply, r_filetime = 0, r_errormessage = [] \<rparr>"
  by (simp_all add: ready_defs)

lemma ready_idle: "idle ready_client"
  by (simp add: idle_iff ready_defs all_request_options reset_value_def request_options_def)

text \<open>The definitions that evaluate a call.\<close>

lemmas call_defs = with_lock_def with_option_def with_timeout_def with_headers_def with_url_def writing_to_def monad_defs
  CURL_OPTION_SETTER_def CURL_PERFORM_def CHECKCURLCODE_def put_opt_def deliver_def WriteStringStreamCallback_def
  clear_buffer_def unexpected_def

section \<open>Witnesses\<close>

lemma client_run_invariant_witness: "idle sample_client \<and> consistent sample_client"
  by (rule client_run_invariant [OF sample_client_run])

lemma CallGet_request_witness:
  "m_requests (snd (CallGet (sample_http sample_lib 200 [''x'']) ''profile/'' JNull 200 5 ready_client)) =
   [(m_opts ready_client)(TIMEOUT_MS := Long 5000, HTTPHEADER := Headers [], URL := Text ''a/profile/'',
      WRITEFUNCTION := Callback WriteStringStream, WRITEDATA := Target BufferSink, HTTPGET := Long 1)]"
proof -
  have "\<exists>s'. CallGet (sample_http sample_lib 200 [''x'']) ''profile/'' JNull 200 5 ready_client = (Inr (200, JString ''x''), s')"
    by (simp add: CallGet_def at_api_uri_def CallGet_json_def call_defs ready_defs ParseJson_stream_def sample_lib_def)
  then obtain s' where s': "CallGet (sample_http sample_lib 200 [''x'']) ''profile/'' JNull 200 5 ready_client = (Inr (200, JString ''x''), s')" ..
  from CallGet_request [OF ready_idle s' refl refl] show ?thesis by (simp add: s' ready_fields c_str_def timeout_ms_def)
qed

lemma DeleteAllScenes_deadlocks_witness:
  "DeleteAllScenes (sample_http sample_lib 200 []) 5 sample_client = (Inl Deadlock, sample_client)"
  by (rule DeleteAllScenes_deadlocks [OF sample_client_run])

lemma EncodeWithoutSeparator_segments_witness:
  "EncodeWithoutSeparator (sample_http sample_lib 200 []) ''a/b'' = ''a/b'' \<and>
   directories_loop (sample_http sample_lib 200 []) ''a/b'' ''a/b'' 0 0 = [''a'', ''b'']"
  using EncodeWithoutSeparator_segments [of "[''a'', ''b'']" "sample_http sample_lib 200 []"]
  by (simp add: segment_def EscapeString_def sample_http_def c_str_def)

lemma EnsureWebDAVDirectories_requests_witness:
  "\<exists>s'. EnsureWebDAVDirectories (sample_http sample_lib 201 []) ''a/b'' 3 ready_client = (Inr (), s') \<and>
     map (\<lambda>q. q URL) (m_requests s') = [Text ''w/a'', Text ''w/a/b'']"
proof -
  have "\<exists>s'. EnsureWebDAVDirectories (sample_http sample_lib 201 []) (slash_join [''a'', ''b'']) 3 ready_client = (Inr (), s')"
    by (simp add: EnsureWebDAVDirectories_def make_directory_def mkcol_failed_def call_defs ready_defs EscapeString_def
        substr_def c_str_def)
  then obtain s' where s': "EnsureWebDAVDirectories (sample_http sample_lib 201 []) (slash_join [''a'', ''b'']) 3 ready_client = (Inr (), s')" ..
  from EnsureWebDAVDirectories_requests [OF s'] s' show ?thesis
    by (auto simp: segment_def EscapeString_def sample_http_def c_str_def ready_fields)
qed

end
