(* ===== verification/Zmq.thy ===== *)
theory Zmq
  imports Exceptions
begin

text \<open>
  \<^verbatim>\<open>src/mujinzmq.cpp\<close>: the subscriber, publisher, client and server over ZeroMQ sockets, and
  \<^verbatim>\<open>ZmqClient::Call\<close>. The state of an object is the record \<open>zmq_state\<close>; its last fields are
  the world: which contexts and sockets are open, and the log of the operations made on
  them. What the ZeroMQ library, the clock and the preempt function answer is the record
  \<open>zmq_env\<close>, read at a tick that moves on at every reading.
\<close>

section \<open>Contexts and sockets\<close>

datatype zmq_type = ZMQ_SUB | ZMQ_PUB | ZMQ_REQ | ZMQ_REP

datatype zmq_option =
    ZMQ_TCP_KEEPALIVE | ZMQ_TCP_KEEPALIVE_IDLE | ZMQ_TCP_KEEPALIVE_INTVL | ZMQ_TCP_KEEPALIVE_CNT
  | ZMQ_SNDHWM | ZMQ_LINGER | ZMQ_SUBSCRIBE_ALL

datatype zmq_op =
    NewContext nat
  | CloseContext nat
  | NewSocket nat nat zmq_type
  | SetSockOpt nat zmq_option int
  | Connect nat string
  | Bind nat string
  | CloseSocket nat
  | SendMessage nat string

record zmq_state =
  zhost :: string
  zport :: "32 word"
  zcontext :: "nat option"
  zsocket :: "nat option"
  zshared :: bool
  fresh :: nat
  contexts :: "nat list"
  sockets :: "(nat \<times> nat) list"
  ops :: "zmq_op list"
  tick :: nat

record zmq_env =
  clock_ms :: "nat \<Rightarrow> 64 word"
  raw_send :: "nat \<Rightarrow> int"                        \<comment> \<open>0 or the error number\<close>
  raw_poll :: "nat \<Rightarrow> int + bool"                 \<comment> \<open>the error number, or whether \<^verbatim>\<open>ZMQ_POLLIN\<close> is set in the end\<close>
  raw_recv :: "nat \<Rightarrow> int + string"
  raw_attach :: "nat \<Rightarrow> int"                      \<comment> \<open>of \<^verbatim>\<open>connect\<close> and \<^verbatim>\<open>bind\<close>\<close>
  preemptfn :: "(nat \<Rightarrow> 32 word \<Rightarrow> error option) option"
  print_double :: "rat \<Rightarrow> string"

type_synonym 'a zmq = "zmq_state \<Rightarrow> 'a result \<times> zmq_state"

definition EAGAIN :: int where "EAGAIN = 11"

definition perform :: "zmq_op \<Rightarrow> zmq_state \<Rightarrow> zmq_state" where
  "perform x s = s \<lparr> ops := ops s @ [x] \<rparr>"

definition advance :: "zmq_state \<Rightarrow> zmq_state" where
  "advance s = s \<lparr> tick := Suc (tick s) \<rparr>"

text \<open>\<^verbatim>\<open>_socket->...\<close>: the assertion of \<^verbatim>\<open>boost::shared_ptr\<close>.\<close>

definition deref_socket :: "nat zmq" where
  "deref_socket s = (case zsocket s of None \<Rightarrow> (Inl (assertion_failed ''px != 0''), s) | Some k \<Rightarrow> (Inr k, s))"

text \<open>\<^verbatim>\<open>_socket->close()\<close> and \<^verbatim>\<open>_socket.reset()\<close>.\<close>

definition close_socket :: "nat \<Rightarrow> zmq_state \<Rightarrow> zmq_state" where
  "close_socket k s = perform (CloseSocket k)
     (s \<lparr> sockets := filter (\<lambda>x. fst x \<noteq> k) (sockets s), zsocket := None \<rparr>)"

definition close_context :: "nat \<Rightarrow> zmq_state \<Rightarrow> zmq_state" where
  "close_context c s = perform (CloseContext c) (s \<lparr> contexts := removeAll c (contexts s), zcontext := None \<rparr>)"

text \<open>\<^verbatim>\<open>_context.reset(new zmq::context_t(1))\<close>. An object has no context of its own when this is done: it is new, was
  destroyed, or passes its context on to itself.\<close>

definition new_context :: "zmq_state \<Rightarrow> zmq_state" where
  "new_context s = perform (NewContext (fresh s))
     (s \<lparr> fresh := Suc (fresh s), contexts := fresh s # contexts s, zcontext := Some (fresh s) \<rparr>)"

definition take_context :: "nat option \<Rightarrow> zmq_state \<Rightarrow> zmq_state" where
  "take_context context s =
     (case context of
        Some c \<Rightarrow> s \<lparr> zcontext := Some c, zshared := True \<rparr>
      | None \<Rightarrow> (new_context s) \<lparr> zshared := False \<rparr>)"

text \<open>\<^verbatim>\<open>_socket.reset(new zmq::socket_t(context, type))\<close>; the socket that was there is closed
  by its destructor.\<close>

definition new_socket :: "zmq_type \<Rightarrow> zmq_state \<Rightarrow> zmq_state" where
  "new_socket t s =
     (let s = (case zsocket s of None \<Rightarrow> s | Some k \<Rightarrow> close_socket k s); k = fresh s; c = the (zcontext s) in
      perform (NewSocket k c t)
        (s \<lparr> fresh := Suc k, sockets := (k, c) # sockets s, zsocket := Some k \<rparr>))"

definition setsockopt :: "zmq_option \<Rightarrow> int \<Rightarrow> zmq_state \<Rightarrow> zmq_state" where
  "setsockopt opt v s = (case zsocket s of None \<Rightarrow> s | Some k \<Rightarrow> perform (SetSockOpt k opt v) s)"

definition keepalive :: "zmq_state \<Rightarrow> zmq_state" where
  "keepalive s = setsockopt ZMQ_TCP_KEEPALIVE_CNT 2 (setsockopt ZMQ_TCP_KEEPALIVE_INTVL 2
     (setsockopt ZMQ_TCP_KEEPALIVE_IDLE 2 (setsockopt ZMQ_TCP_KEEPALIVE 1 s)))"

definition attach :: "zmq_env \<Rightarrow> (nat \<Rightarrow> zmq_op) \<Rightarrow> unit zmq" where
  "attach env x s =
     (case zsocket s of
        None \<Rightarrow> (Inl (assertion_failed ''px != 0''), s)
      | Some k \<Rightarrow>
          (let s' = advance (perform (x k) s); err = raw_attach env (tick s) in
           if err = 0 then (Inr (), s') else (Inl (ZmqError err), s')))"

definition port_text :: "zmq_state \<Rightarrow> string" where
  "port_text s = dec_of_nat (unat (zport s))"

section \<open>Subscriber\<close>

definition subscriber_InitializeSocket :: "zmq_env \<Rightarrow> nat option \<Rightarrow> unit zmq" where
  "subscriber_InitializeSocket env context s =
     (let s = new_socket ZMQ_SUB (take_context context s);
          s = setsockopt ZMQ_LINGER 100 (setsockopt ZMQ_SNDHWM 2 (keepalive s)) in
      case attach env (\<lambda>k. Connect k (''tcp://'' @ zhost s @ '':'' @ port_text s)) s of
        (Inl e, s) \<Rightarrow> (Inl e, s)
      | (Inr _, s) \<Rightarrow> (Inr (), setsockopt ZMQ_SUBSCRIBE_ALL 0 s))"

definition subscriber_DestroySocket :: "zmq_state \<Rightarrow> zmq_state" where
  "subscriber_DestroySocket s =
     (let s = (case zsocket s of None \<Rightarrow> s | Some k \<Rightarrow> close_socket k s) in
      case zcontext s of Some c \<Rightarrow> (if \<not> zshared s then close_context c s else s) | None \<Rightarrow> s)"

section \<open>Publisher\<close>

definition publisher_InitializeSocket :: "zmq_env \<Rightarrow> nat option \<Rightarrow> unit zmq" where
  "publisher_InitializeSocket env context s =
     (let s = new_socket ZMQ_PUB (take_context context s);
          s = setsockopt ZMQ_LINGER 100 (setsockopt ZMQ_SNDHWM 2 (keepalive s)) in
      attach env (\<lambda>k. Bind k (''tcp://*:'' @ port_text s)) s)"

definition publisher_DestroySocket :: "zmq_state \<Rightarrow> zmq_state" where
  "publisher_DestroySocket s =
     (let s = (case zsocket s of None \<Rightarrow> s | Some k \<Rightarrow> close_socket k s) in
      case zcontext s of Some c \<Rightarrow> (if \<not> zshared s then close_context c s else s) | None \<Rightarrow> s)"

text \<open>\<^verbatim>\<open>socket_t::send\<close> and \<^verbatim>\<open>recv\<close> of \<^verbatim>\<open>zmq.hpp\<close>: \<^verbatim>\<open>EAGAIN\<close> is the value \<open>false\<close>, any other error an
  exception.\<close>

definition socket_send :: "zmq_env \<Rightarrow> string \<Rightarrow> bool zmq" where
  "socket_send env message s =
     (case zsocket s of
        None \<Rightarrow> (Inl (assertion_failed ''px != 0''), s)
      | Some k \<Rightarrow>
          (let err = raw_send env (tick s); s' = advance s in
           if err = 0 then (Inr True, perform (SendMessage k message) s')
           else if err = EAGAIN then (Inr False, s') else (Inl (ZmqError err), s')))"

definition socket_recv :: "zmq_env \<Rightarrow> string option zmq" where
  "socket_recv env s =
     (case zsocket s of
        None \<Rightarrow> (Inl (assertion_failed ''px != 0''), s)
      | Some k \<Rightarrow>
          (case raw_recv env (tick s) of
             Inr reply \<Rightarrow> (Inr (Some reply), advance s)
           | Inl err \<Rightarrow> if err = EAGAIN then (Inr None, advance s) else (Inl (ZmqError err), advance s)))"

definition poll_answer :: "zmq_env \<Rightarrow> bool zmq" where
  "poll_answer env s =
     (case raw_poll env (tick s) of
        Inr pollin \<Rightarrow> (Inr pollin, advance s)
      | Inl err \<Rightarrow> (Inl (ZmqError err), advance s))"

text \<open>\<^verbatim>\<open>zmq::poll\<close> on one socket. Without an event it waits for the timeout and reports none; a negative
  timeout has no end, so that a poll without an event never returns: \<open>None\<close>.\<close>

definition zmq_poll :: "zmq_env \<Rightarrow> int \<Rightarrow> zmq_state \<Rightarrow> (bool result \<times> zmq_state) option" where
  "zmq_poll env timeoutms s =
     (if timeoutms < 0 \<and> raw_poll env (tick s) = Inr False then None else Some (poll_answer env s))"

definition Publish :: "zmq_env \<Rightarrow> string \<Rightarrow> bool zmq" where
  "Publish env messagestr = socket_send env messagestr"

section \<open>Client\<close>

definition client_InitializeSocket :: "zmq_env \<Rightarrow> nat option \<Rightarrow> unit zmq" where
  "client_InitializeSocket env context s =
     (let s = keepalive (new_socket ZMQ_REQ (take_context context s)) in
      attach env (\<lambda>k. Connect k (''tcp://'' @ zhost s @ '':'' @ port_text s)) s)"

definition client_DestroySocket :: "zmq_state \<Rightarrow> zmq_state" where
  "client_DestroySocket s =
     (let s = (case zsocket s of None \<Rightarrow> s | Some k \<Rightarrow> close_socket k (setsockopt ZMQ_LINGER 0 s)) in
      case zcontext s of Some c \<Rightarrow> (if \<not> zshared s then close_context c s else s) | None \<Rightarrow> s)"

text \<open>\<^verbatim>\<open>GetMilliTime() - starttime\<close> in 64 bits, compared with \<^verbatim>\<open>timeout * 1000.0\<close>.\<close>

definition now :: "zmq_env \<Rightarrow> zmq_state \<Rightarrow> 64 word \<times> zmq_state" where
  "now env s = (clock_ms env (tick s), advance s)"

definition elapsed_ms :: "64 word \<Rightarrow> 64 word \<Rightarrow> rat" where
  "elapsed_ms t start = of_nat (unat (t - start))"

definition check_preempt :: "zmq_env \<Rightarrow> 32 word \<Rightarrow> unit zmq" where
  "check_preempt env checkpreemptbits s =
     (case preemptfn env of
        None \<Rightarrow> (Inr (), s)
      | Some f \<Rightarrow> (case f (tick s) checkpreemptbits of
                     None \<Rightarrow> (Inr (), advance s)
                   | Some e \<Rightarrow> (Inl e, advance s)))"

text \<open>The handlers close the socket and initialize another one with \<^verbatim>\<open>_context\<close> itself.\<close>

definition recreate_socket :: "zmq_env \<Rightarrow> unit zmq" where
  "recreate_socket env s =
     (let s = (case zsocket s of None \<Rightarrow> s | Some k \<Rightarrow> close_socket k s) in
      client_InitializeSocket env (zcontext s) s)"

definition after_recreate :: "zmq_env \<Rightarrow> 32 word \<Rightarrow> unit zmq" where
  "after_recreate env checkpreemptbits s =
     (case recreate_socket env s of
        (Inl e, s) \<Rightarrow> (Inl e, s)
      | (Inr _, s) \<Rightarrow> check_preempt env checkpreemptbits s)"

text \<open>\<^verbatim>\<open>catch (const zmq::error_t& e)\<close>.\<close>

fun zmq_errno :: "error \<Rightarrow> int option" where
  "zmq_errno (ZmqError num) = Some num"
| "zmq_errno _ = None"

text \<open>The loop that sends; \<open>None\<close> is a loop that never ends.\<close>

partial_function (option) send_loop ::
  "zmq_env \<Rightarrow> string \<Rightarrow> rat \<Rightarrow> 32 word \<Rightarrow> 64 word \<Rightarrow> bool \<Rightarrow> zmq_state \<Rightarrow> (unit result \<times> zmq_state) option"
where
  "send_loop env msg timeout bits start recreatedonce s =
     (case now env s of (t, s) \<Rightarrow>
      if \<not> elapsed_ms t start < timeout * 1000 then Some (Inr (), s)
      else case socket_send env msg s of
             (Inr _, s) \<Rightarrow> Some (Inr (), s)
           | (Inl e, s) \<Rightarrow>
               (case zmq_errno e of
                  Some num \<Rightarrow>
                    if num = EAGAIN then send_loop env msg timeout bits start recreatedonce s
                    else if \<not> recreatedonce then
                      (case after_recreate env bits s of
                         (Inl e, s) \<Rightarrow> Some (Inl e, s)
                       | (Inr _, s) \<Rightarrow> send_loop env msg timeout bits start True s)
                    else Some (Inl (MujinException ''Failed to send request after re-creating socket.'' MEC_Failed), s)
                | None \<Rightarrow> Some (Inl e, s)))"

definition shorten :: "string \<Rightarrow> string" where
  "shorten msg = (if length msg > 1000 then take 1000 msg @ ''...'' else msg)"

definition receive_timeout_message :: "zmq_env \<Rightarrow> string \<Rightarrow> rat \<Rightarrow> string" where
  "receive_timeout_message env msg timeout =
     filter (\<lambda>c. c \<noteq> CHR 0x22 \<and> c \<noteq> CHR 0x5C)
       (''Timed out receiving response of command '' @ shorten msg @ '' after '' @
         print_double env timeout @ '' seconds'')"

text \<open>The variable \<^verbatim>\<open>timeoutms\<close>: a timeout that is not positive is polled without an end.\<close>

definition receive_timeoutms :: "rat \<Rightarrow> int" where
  "receive_timeoutms timeout = (if timeout > 0 then \<lfloor>timeout * 1000\<rfloor> else -1)"

text \<open>After the poll, when there is something to read, one \<^verbatim>\<open>recv\<close>, whose result is not looked
  at: without one the reply is the empty message. The flag is \<^verbatim>\<open>receivedonce\<close>.\<close>

definition receive_polled :: "zmq_env \<Rightarrow> string \<Rightarrow> rat \<Rightarrow> bool result \<times> zmq_state \<Rightarrow> (string result \<times> bool) \<times> zmq_state" where
  "receive_polled env msg timeout polled =
     (case polled of
        (Inl e, s) \<Rightarrow> ((Inl e, False), s)
      | (Inr True, s) \<Rightarrow>
          (case socket_recv env s of
             (Inl e, s) \<Rightarrow> ((Inl e, True), s)
           | (Inr None, s) \<Rightarrow> ((Inr [], True), s)
           | (Inr (Some reply), s) \<Rightarrow> ((Inr reply, True), s))
      | (Inr False, s) \<Rightarrow>
          ((Inl (MujinException (receive_timeout_message env msg timeout) MEC_Timeout), True), s))"

definition receive_once ::
  "zmq_env \<Rightarrow> string \<Rightarrow> rat \<Rightarrow> zmq_state \<Rightarrow> ((string result \<times> bool) \<times> zmq_state) option" where
  "receive_once env msg timeout s =
     (case deref_socket s of
        (Inl e, s) \<Rightarrow> Some ((Inl e, False), s)
      | (Inr _, s) \<Rightarrow> map_option (receive_polled env msg timeout) (zmq_poll env (receive_timeoutms timeout) s))"

text \<open>The loop that receives; \<open>Inr None\<close> leaves it without a reply, \<open>None\<close> is a loop that never ends.\<close>

partial_function (option) recv_loop ::
  "zmq_env \<Rightarrow> string \<Rightarrow> rat \<Rightarrow> 32 word \<Rightarrow> 64 word \<Rightarrow> bool \<Rightarrow> bool \<Rightarrow> zmq_state
    \<Rightarrow> (string option result \<times> zmq_state) option"
where
  "recv_loop env msg timeout bits start recreatedonce receivedonce s =
     (case (if receivedonce then (case now env s of (t, s) \<Rightarrow> (elapsed_ms t start < timeout * 1000, s)) else (True, s))
      of (go_on, s) \<Rightarrow>
      if \<not> go_on then Some (Inr None, s)
      else case check_preempt env bits s of
             (Inl e, s) \<Rightarrow> Some (Inl e, s)
           | (Inr _, s) \<Rightarrow>
               Option.bind (receive_once env msg timeout s) (\<lambda>x.
                case x of
                  ((Inr reply, _), s) \<Rightarrow> Some (Inr (Some reply), s)
                | ((Inl e, polled), s) \<Rightarrow>
                    (case zmq_errno e of
                       Some num \<Rightarrow>
                         if num = EAGAIN
                         then recv_loop env msg timeout bits start recreatedonce (receivedonce \<or> polled) s
                         else if \<not> recreatedonce then
                           (case recreate_socket env s of
                              (Inl e, s) \<Rightarrow> Some (Inl e, s)
                            | (Inr _, s) \<Rightarrow> recv_loop env msg timeout bits start True (receivedonce \<or> polled) s)
                         else Some (Inl (MujinException
                           ''Failed to receive response after re-creating socket.'' MEC_Failed), s)
                     | None \<Rightarrow> Some (Inl e, s))))"

definition ZmqClient_Call ::
  "zmq_env \<Rightarrow> string \<Rightarrow> rat \<Rightarrow> 32 word \<Rightarrow> zmq_state \<Rightarrow> (string result \<times> zmq_state) option" where
  "ZmqClient_Call env msg timeout bits s =
     (case now env s of (start, s) \<Rightarrow>
      Option.bind (send_loop env msg timeout bits start False s) (\<lambda>(r, s).
      case r of
        Inl e \<Rightarrow> Some (Inl e, s)
      | Inr _ \<Rightarrow>
          (case now env s of (t, s) \<Rightarrow>
           if elapsed_ms t start > timeout * 1000
           then Some (Inl (MujinException ''Timed out trying to send request.'' MEC_Timeout), s)
           else
             Option.bind (recv_loop env msg timeout bits start False False s) (\<lambda>(r, s).
             case r of
               Inl e \<Rightarrow> Some (Inl e, s)
             | Inr (Some reply) \<Rightarrow> Some (Inr reply, s)
             | Inr None \<Rightarrow>
                 (case now env s of (t, s) \<Rightarrow>
                  if elapsed_ms t start > timeout * 1000
                  then Some (Inl (MujinException ''timed out trying to receive request'' MEC_Failed), s)
                  else Some (Inr [], s))))))"

section \<open>Server\<close>

definition server_InitializeSocket :: "zmq_env \<Rightarrow> nat option \<Rightarrow> unit zmq" where
  "server_InitializeSocket env context s =
     (let s = keepalive (new_socket ZMQ_REP (take_context context s)) in
      attach env (\<lambda>k. Bind k (''tcp://*:'' @ port_text s)) s)"

definition server_DestroySocket :: "zmq_state \<Rightarrow> zmq_state" where
  "server_DestroySocket s =
     (let s = (case zsocket s of None \<Rightarrow> s | Some k \<Rightarrow> close_socket k (setsockopt ZMQ_LINGER 0 s)) in
      case zcontext s of Some c \<Rightarrow> (if \<not> zshared s then close_context c s else s) | None \<Rightarrow> s)"

text \<open>What \<^verbatim>\<open>Recv\<close> returns and the new content of \<^verbatim>\<open>data\<close>. It polls with a positive timeout only.\<close>

definition server_Recv :: "zmq_env \<Rightarrow> int \<Rightarrow> string \<Rightarrow> (nat \<times> string) zmq" where
  "server_Recv env timeout data s =
     (case (if timeout > 0 then poll_answer env s else (Inr True, s)) of
        (Inl e, s) \<Rightarrow> (Inl e, s)
      | (Inr False, s) \<Rightarrow> (Inr (0, data), s)
      | (Inr True, s) \<Rightarrow>
          (case socket_recv env s of
             (Inl e, s) \<Rightarrow> (Inl e, s)
           | (Inr (Some reply), s) \<Rightarrow> (if length reply > 0 then (Inr (length reply, reply), s) else (Inr (0, data), s))
           | (Inr None, s) \<Rightarrow> (Inr (0, data), s)))"

definition server_Send :: "zmq_env \<Rightarrow> string \<Rightarrow> unit zmq" where
  "server_Send env message s = (case socket_send env message s of (Inl e, s) \<Rightarrow> (Inl e, s) | (Inr _, s) \<Rightarrow> (Inr (), s))"

end
