(* ===== verification/ZmqLaws.thy ===== *)
theory ZmqLaws
  imports Zmq
begin

text \<open>
  The contract of the four owners of a ZeroMQ socket as the locale \<open>socket_owner\<close>, and what
  \<^verbatim>\<open>ZmqClient::Call\<close> does: it ends, which errors it ends with, and when it sends.
\<close>

section \<open>What the operations leave of the world\<close>

lemma perform_fields [simp]:
  "zhost (perform x s) = zhost s" "zport (perform x s) = zport s" "zcontext (perform x s) = zcontext s"
  "zsocket (perform x s) = zsocket s" "zshared (perform x s) = zshared s" "fresh (perform x s) = fresh s"
  "contexts (perform x s) = contexts s" "sockets (perform x s) = sockets s" "tick (perform x s) = tick s"
  "ops (perform x s) = ops s @ [x]"
  by (simp_all add: perform_def)

lemma advance_fields [simp]:
  "zcontext (advance s) = zcontext s"
  "zsocket (advance s) = zsocket s" "zshared (advance s) = zshared s" "fresh (advance s) = fresh s"
  "contexts (advance s) = contexts s" "sockets (advance s) = sockets s" "tick (advance s) = Suc (tick s)"
  "ops (advance s) = ops s"
  by (simp_all add: advance_def)

lemma setsockopt_fields [simp]:
  "zcontext (setsockopt x v s) = zcontext s"
  "zsocket (setsockopt x v s) = zsocket s" "zshared (setsockopt x v s) = zshared s" "fresh (setsockopt x v s) = fresh s"
  "contexts (setsockopt x v s) = contexts s" "sockets (setsockopt x v s) = sockets s" "tick (setsockopt x v s) = tick s"
  by (simp_all add: setsockopt_def split: option.splits)

lemma keepalive_fields [simp]:
  "zcontext (keepalive s) = zcontext s"
  "zsocket (keepalive s) = zsocket s" "zshared (keepalive s) = zshared s" "fresh (keepalive s) = fresh s"
  "contexts (keepalive s) = contexts s" "sockets (keepalive s) = sockets s" "tick (keepalive s) = tick s"
  by (simp_all add: keepalive_def)

lemma close_socket_fields [simp]:
  "zcontext (close_socket k s) = zcontext s" "zsocket (close_socket k s) = None" "zshared (close_socket k s) = zshared s"
  "fresh (close_socket k s) = fresh s" "contexts (close_socket k s) = contexts s" "tick (close_socket k s) = tick s"
  "sockets (close_socket k s) = filter (\<lambda>x. fst x \<noteq> k) (sockets s)"
  by (simp_all add: close_socket_def)

lemma close_context_fields [simp]:
  "zcontext (close_context c s) = None" "zsocket (close_context c s) = zsocket s" "zshared (close_context c s) = zshared s"
  "contexts (close_context c s) = removeAll c (contexts s)" "sockets (close_context c s) = sockets s"
  by (simp_all add: close_context_def)

lemma take_context_fields [simp]:
  "zsocket (take_context x s) = zsocket s" "sockets (take_context x s) = sockets s" "tick (take_context x s) = tick s"
  "zcontext (take_context x s) = Some (case x of None \<Rightarrow> fresh s | Some c \<Rightarrow> c)"
  "zshared (take_context x s) = (x \<noteq> None)"
  "contexts (take_context x s) = (case x of None \<Rightarrow> fresh s # contexts s | Some c \<Rightarrow> contexts s)"
  "fresh (take_context x s) = (case x of None \<Rightarrow> Suc (fresh s) | Some c \<Rightarrow> fresh s)"
  by (simp_all add: take_context_def new_context_def split: option.splits)

lemma new_socket_fields [simp]:
  "zcontext (new_socket t s) = zcontext s" "zshared (new_socket t s) = zshared s" "tick (new_socket t s) = tick s"
  "zsocket (new_socket t s) = Some (fresh s)" "fresh (new_socket t s) = Suc (fresh s)"
  "contexts (new_socket t s) = contexts s"
  "sockets (new_socket t s) = (fresh s, the (zcontext s)) #
     (case zsocket s of None \<Rightarrow> sockets s | Some k \<Rightarrow> filter (\<lambda>x. fst x \<noteq> k) (sockets s))"
  by (simp_all add: new_socket_def Let_def split: option.splits)

lemma attach_fields:
  assumes "attach env x s = (r, s')"
  shows "zcontext s' = zcontext s" "zsocket s' = zsocket s" "zshared s' = zshared s" "fresh s' = fresh s"
    "contexts s' = contexts s" "sockets s' = sockets s"
  using assms by (auto simp: attach_def Let_def split: option.splits if_splits)

section \<open>Owners of a socket\<close>

text \<open>Ids given out so far are below \<open>fresh\<close>.\<close>

definition ids_below :: "zmq_state \<Rightarrow> bool" where
  "ids_below s \<longleftrightarrow> (\<forall>c \<in> set (contexts s). c < fresh s) \<and> (\<forall>x \<in> set (sockets s). fst x < fresh s)"

text \<open>What initializing adds, to a state without a socket: a socket in the given context, or
  in a new one of its own.\<close>

definition acquired :: "nat option \<Rightarrow> zmq_state \<Rightarrow> zmq_state \<Rightarrow> bool" where
  "acquired ctx s s' \<longleftrightarrow>
     (\<exists>k c. fresh s \<le> k \<and> zsocket s' = Some k \<and> zcontext s' = Some c \<and> sockets s' = (k, c) # sockets s \<and>
       (case ctx of
          Some c' \<Rightarrow> c = c' \<and> zshared s' \<and> contexts s' = contexts s
        | None \<Rightarrow> fresh s \<le> c \<and> \<not> zshared s' \<and> contexts s' = c # contexts s))"

definition released :: "zmq_state \<Rightarrow> zmq_state \<Rightarrow> bool" where
  "released s s' \<longleftrightarrow>
     zsocket s' = None \<and> zshared s' = zshared s \<and>
     sockets s' = (case zsocket s of None \<Rightarrow> sockets s | Some k \<Rightarrow> filter (\<lambda>x. fst x \<noteq> k) (sockets s)) \<and>
     zcontext s' = (if zshared s then zcontext s else None) \<and>
     contexts s' = (case zcontext s of
        None \<Rightarrow> contexts s
      | Some c \<Rightarrow> if zshared s then contexts s else removeAll c (contexts s))"

locale socket_owner =
  fixes init :: "zmq_env \<Rightarrow> nat option \<Rightarrow> zmq_state \<Rightarrow> unit result \<times> zmq_state"
    and destroy :: "zmq_state \<Rightarrow> zmq_state"
  assumes init_acquires: "zsocket s = None \<Longrightarrow> init env ctx s = (r, s') \<Longrightarrow> acquired ctx s s'"
    and destroy_releases: "released s (destroy s)"
    and destroy_idle: "zsocket s = None \<Longrightarrow> zcontext s = None \<or> zshared s \<Longrightarrow> destroy s = s"
begin

lemma filter_ids: "ids_below s \<Longrightarrow> fresh s \<le> k \<Longrightarrow> filter (\<lambda>x. fst x \<noteq> k) (sockets s) = sockets s"
  by (rule filter_True) (auto simp: ids_below_def)

lemma remove_ids: "ids_below s \<Longrightarrow> fresh s \<le> c \<Longrightarrow> removeAll c (contexts s) = contexts s"
  by (rule removeAll_id) (auto simp: ids_below_def)

text \<open>Whether or not initializing succeeds, destroying afterwards leaves open just what was
  open before, and a given context is never closed.\<close>

lemma lifecycle:
  assumes "ids_below s" "zsocket s = None" "init env ctx s = (r, s')"
  shows "contexts (destroy s') = contexts s" "sockets (destroy s') = sockets s"
  using init_acquires [OF assms(2,3)] destroy_releases [of s'] filter_ids [OF assms(1)] remove_ids [OF assms(1)]
  by (auto simp: acquired_def released_def split: option.splits)

lemma destroy_twice: "destroy (destroy s) = destroy s"
  using destroy_releases [of s] by (intro destroy_idle) (auto simp: released_def)

end

lemmas init_defs = subscriber_InitializeSocket_def publisher_InitializeSocket_def
  client_InitializeSocket_def server_InitializeSocket_def Let_def

lemma attach_acquires:
  assumes "attach env x s1 = (r, s')" "zsocket s1 = Some k" "zcontext s1 = Some c" "fresh s \<le> k"
    "sockets s1 = (k, c) # sockets s" "zshared s1 = (ctx \<noteq> None)"
    "c = (case ctx of None \<Rightarrow> fresh s | Some c' \<Rightarrow> c')"
    "contexts s1 = (case ctx of None \<Rightarrow> fresh s # contexts s | Some _ \<Rightarrow> contexts s)"
  shows "acquired ctx s s'"
  using assms attach_fields [OF assms(1)] by (auto simp: acquired_def split: option.splits)

lemma acquired_setsockopt [simp]: "acquired ctx s (setsockopt x v s') = acquired ctx s s'"
  by (simp add: acquired_def cong: option.case_cong)

interpretation subscriber: socket_owner subscriber_InitializeSocket subscriber_DestroySocket
proof unfold_locales
  fix s s' :: zmq_state and env ctx r
  assume none: "zsocket s = None" and res: "subscriber_InitializeSocket env ctx s = (r, s')"
  from res obtain r1 s1 where att: "attach env (\<lambda>k. Connect k (''tcp://'' @ zhost (setsockopt ZMQ_LINGER 100
        (setsockopt ZMQ_SNDHWM 2 (keepalive (new_socket ZMQ_SUB (take_context ctx s))))) @ '':'' @
        port_text (setsockopt ZMQ_LINGER 100 (setsockopt ZMQ_SNDHWM 2 (keepalive (new_socket ZMQ_SUB (take_context ctx s)))))))
      (setsockopt ZMQ_LINGER 100 (setsockopt ZMQ_SNDHWM 2 (keepalive (new_socket ZMQ_SUB (take_context ctx s)))))
      = (r1, s1)" and "s' = s1 \<or> s' = setsockopt ZMQ_SUBSCRIBE_ALL 0 s1"
    by (auto simp: init_defs split: prod.splits sum.splits)
  moreover have "acquired ctx s s1"
    by (rule attach_acquires [OF att]) (auto simp: none split: option.splits)
  ultimately show "acquired ctx s s'" by auto
qed (auto simp: subscriber_DestroySocket_def released_def Let_def split: option.splits)

interpretation publisher: socket_owner publisher_InitializeSocket publisher_DestroySocket
proof unfold_locales
  fix s s' :: zmq_state and env ctx r
  assume none: "zsocket s = None" and res: "publisher_InitializeSocket env ctx s = (r, s')"
  show "acquired ctx s s'"
    by (rule attach_acquires [OF res [unfolded init_defs]]) (auto simp: none split: option.splits)
qed (auto simp: publisher_DestroySocket_def released_def Let_def split: option.splits)

interpretation client: socket_owner client_InitializeSocket client_DestroySocket
proof unfold_locales
  fix s s' :: zmq_state and env ctx r
  assume none: "zsocket s = None" and res: "client_InitializeSocket env ctx s = (r, s')"
  show "acquired ctx s s'"
    by (rule attach_acquires [OF res [unfolded init_defs]]) (auto simp: none split: option.splits)
qed (auto simp: client_DestroySocket_def released_def Let_def split: option.splits)

interpretation server: socket_owner server_InitializeSocket server_DestroySocket
proof unfold_locales
  fix s s' :: zmq_state and env ctx r
  assume none: "zsocket s = None" and res: "server_InitializeSocket env ctx s = (r, s')"
  show "acquired ctx s s'"
    by (rule attach_acquires [OF res [unfolded init_defs]]) (auto simp: none split: option.splits)
qed (auto simp: server_DestroySocket_def released_def Let_def split: option.splits)

section \<open>ZmqClient::Call\<close>

definition sends :: "zmq_state \<Rightarrow> nat" where
  "sends s = length (filter (\<lambda>x. case x of SendMessage _ _ \<Rightarrow> True | _ \<Rightarrow> False) (ops s))"

lemma sends_simps [simp]:
  "sends (perform x s) = sends s + (case x of SendMessage _ _ \<Rightarrow> 1 | _ \<Rightarrow> 0)" "sends (advance s) = sends s"
  "sends (setsockopt opt v s) = sends s" "sends (keepalive s) = sends s" "sends (close_socket k s) = sends s"
  "sends (take_context c s) = sends s" "sends (new_socket t s) = sends s"
  by (simp_all add: sends_def perform_def advance_def setsockopt_def keepalive_def close_socket_def
      take_context_def new_context_def new_socket_def Let_def split: option.splits zmq_op.splits)

text \<open>The wrappers of \<^verbatim>\<open>zmq.hpp\<close> never throw \<^verbatim>\<open>EAGAIN\<close>.\<close>

lemma socket_send_effect:
  assumes "socket_send env msg s = (r, s')"
  shows "r \<noteq> Inl (ZmqError EAGAIN)" "sends s' = sends s + (if r = Inr True then 1 else 0)"
    "(\<exists>n. r = Inl (ZmqError n)) \<or> (\<exists>b. r = Inr b) \<or> r = Inl (assertion_failed ''px != 0'')"
  using assms by (auto simp: socket_send_def EAGAIN_def Let_def split: option.splits if_splits)

definition call_error :: "zmq_env \<Rightarrow> error \<Rightarrow> bool" where
  "call_error env e \<longleftrightarrow>
     GetCode e \<in> {Some MEC_Failed, Some MEC_Timeout, Some MEC_Assert} \<or> (\<exists>n. e = ZmqError n) \<or>
     (\<exists>f k bits. preemptfn env = Some f \<and> f k bits = Some e)"

lemma call_error_intros [intro]:
  "call_error env (MujinException m MEC_Failed)" "call_error env (MujinException m MEC_Timeout)"
  "call_error env (assertion_failed m)" "call_error env (ZmqError n)"
  by (simp_all add: call_error_def)

lemma check_preempt_effect:
  assumes "check_preempt env bits s = (r, s')"
  shows "sends s' = sends s" "\<And>e. r = Inl e \<Longrightarrow> call_error env e"
  using assms by (auto simp: check_preempt_def call_error_def split: option.splits)

lemma attach_effect:
  assumes "attach env x s = (r, s')" "\<And>k k' m. x k \<noteq> SendMessage k' m"
  shows "sends s' = sends s" "r = Inl e \<Longrightarrow> call_error env e"
  using assms by (auto simp: attach_def Let_def split: option.splits if_splits zmq_op.splits)

lemma recreate_effect:
  assumes "recreate_socket env s = (r, s')"
  shows "sends s' = sends s" "r = Inl e \<Longrightarrow> call_error env e"
  using assms by (auto simp: recreate_socket_def client_InitializeSocket_def Let_def
      dest: attach_effect split: option.splits)

lemma after_recreate_effect:
  assumes "after_recreate env bits s = (r, s')"
  shows "sends s' = sends s" "r = Inl e \<Longrightarrow> call_error env e"
  using assms by (auto simp: after_recreate_def recreate_effect(1) check_preempt_effect(1)
      dest: recreate_effect(2) check_preempt_effect(2) split: prod.splits sum.splits)

text \<open>The loop that sends ends after three rounds at most, and one message goes out at most,
  none when the timeout is not positive.\<close>

definition send_result :: "zmq_env \<Rightarrow> rat \<Rightarrow> zmq_state \<Rightarrow> (unit result \<times> zmq_state) option \<Rightarrow> bool" where
  "send_result env timeout s out \<longleftrightarrow>
     (\<exists>r s'. out = Some (r, s') \<and> (\<forall>e. r = Inl e \<longrightarrow> call_error env e) \<and>
       sends s' \<le> Suc (sends s) \<and> (timeout \<le> 0 \<longrightarrow> sends s' = sends s))"

lemma elapsed_nonneg: "0 \<le> elapsed_ms t start"
  unfolding elapsed_ms_def by (rule of_nat_0_le_iff)

lemma zmq_errno_simps [simp]: "zmq_errno (MujinException m c) = None" "zmq_errno (assertion_failed m) = None"
  by (simp_all add: MujinException_def assertion_failed_def)

lemma zmq_errno_Some: "zmq_errno e = Some n \<longleftrightarrow> e = ZmqError n"
  by (cases e) auto

lemma send_result_mono:
  "send_result env timeout s' out \<Longrightarrow> sends s' = sends s \<Longrightarrow> send_result env timeout s out"
  by (simp add: send_result_def)

lemma send_loop_recreated: "send_result env timeout s (send_loop env msg timeout bits start True s)"
proof -
  let ?s = "advance s"
  obtain r s' where out: "socket_send env msg ?s = (r, s')" by fastforce
  note f = socket_send_effect [OF out]
  from f elapsed_nonneg [of "clock_ms env (tick s)" start] show ?thesis
    by (subst send_loop.simps)
      (auto simp: send_result_def now_def out split: sum.splits option.splits if_splits)
qed

lemma send_loop_result: "send_result env timeout s (send_loop env msg timeout bits start False s)"
proof -
  let ?s = "advance s"
  obtain r s1 where out: "socket_send env msg ?s = (r, s1)" by fastforce
  obtain r2 s2 where re: "after_recreate env bits s1 = (r2, s2)" by fastforce
  note f = socket_send_effect [OF out] and g = after_recreate_effect [OF re]
  show ?thesis
  proof (cases "\<exists>n. r = Inl (ZmqError n) \<and> elapsed_ms (clock_ms env (tick s)) start < timeout * 1000")
    case True
    then obtain n where n: "r = Inl (ZmqError n)" "elapsed_ms (clock_ms env (tick s)) start < timeout * 1000" by blast
    with f(1) have "n \<noteq> EAGAIN" by auto
    with n have "send_loop env msg timeout bits start False s =
        (case r2 of Inl e \<Rightarrow> Some (Inl e, s2) | Inr _ \<Rightarrow> send_loop env msg timeout bits start True s2)"
      by (subst send_loop.simps) (simp add: now_def out re)
    moreover have "sends s2 = sends s" using f(2) g(1) n by simp
    ultimately show ?thesis
      using g(2) send_loop_recreated [of env timeout s2 msg bits start]
      by (auto simp: send_result_def split: sum.splits)
  next
    case False
    with f elapsed_nonneg [of "clock_ms env (tick s)" start] show ?thesis
      by (subst send_loop.simps)
        (auto simp: send_result_def now_def out split: sum.splits option.splits if_splits)
  qed
qed

text \<open>The loop that receives ends after three rounds at most when polling never reports
  \<^verbatim>\<open>EAGAIN\<close>, which is not among the errors of \<^verbatim>\<open>zmq_poll\<close>, and is bounded or sees a message; it sends
  nothing.\<close>

definition poll_ok :: "zmq_env \<Rightarrow> rat \<Rightarrow> bool" where
  "poll_ok env timeout \<longleftrightarrow> (\<forall>k. raw_poll env k \<noteq> Inl EAGAIN) \<and> (timeout > 0 \<or> (\<forall>k. raw_poll env k \<noteq> Inr False))"

lemma zmq_poll_bounded [simp]: "0 \<le> timeoutms \<Longrightarrow> zmq_poll env timeoutms s = Some (poll_answer env s)"
  by (simp add: zmq_poll_def)

lemma receive_timeoutms_nonneg [simp]: "0 \<le> receive_timeoutms timeout \<longleftrightarrow> timeout > 0"
  by (simp add: receive_timeoutms_def)

lemma receive_once_returns:
  assumes "poll_ok env timeout"
  shows "\<exists>r polled s'. receive_once env msg timeout s = Some ((r, polled), s')"
proof -
  have "zmq_poll env (receive_timeoutms timeout) s = Some (poll_answer env s)"
  proof (cases "timeout > 0")
    case False
    with assms show ?thesis by (simp add: poll_ok_def zmq_poll_def)
  qed simp
  then show ?thesis
    by (cases "zsocket s"; cases "receive_polled env msg timeout (poll_answer env s)")
      (auto simp: receive_once_def deref_socket_def)
qed

lemma receive_polled_effect:
  assumes "receive_polled env msg timeout (poll_answer env s) = ((r, polled), s')" "poll_ok env timeout"
  shows "sends s' = sends s" "r = Inl e \<Longrightarrow> call_error env e" "r \<noteq> Inl (ZmqError EAGAIN)"
  using assms
  by (auto simp: receive_polled_def poll_answer_def socket_recv_def poll_ok_def
      split: option.splits sum.splits prod.splits if_splits bool.splits)

lemma receive_once_effect:
  assumes "receive_once env msg timeout s = Some ((r, polled), s')" "poll_ok env timeout"
  shows "sends s' = sends s" "r = Inl e \<Longrightarrow> call_error env e" "r \<noteq> Inl (ZmqError EAGAIN)"
  using assms receive_polled_effect [of env msg timeout s r polled s']
  by (auto simp: receive_once_def deref_socket_def zmq_poll_def split: option.splits if_splits)

definition recv_result :: "zmq_env \<Rightarrow> zmq_state \<Rightarrow> (string option result \<times> zmq_state) option \<Rightarrow> bool" where
  "recv_result env s out \<longleftrightarrow>
     (\<exists>r s'. out = Some (r, s') \<and> (\<forall>e. r = Inl e \<longrightarrow> call_error env e) \<and> sends s' = sends s)"

lemma recv_result_intros:
  "call_error env e \<Longrightarrow> sends s' = sends s \<Longrightarrow> recv_result env s (Some (Inl e, s'))"
  "sends s' = sends s \<Longrightarrow> recv_result env s (Some (Inr x, s'))"
  "recv_result env s' out \<Longrightarrow> sends s' = sends s \<Longrightarrow> recv_result env s out"
  by (auto simp: recv_result_def)

lemma recv_loop_step:
  assumes "poll_ok env timeout"
    and again: "\<And>b s'. \<not> again \<Longrightarrow> recv_result env s' (recv_loop env msg timeout bits start True b s')"
  shows "recv_result env s (recv_loop env msg timeout bits start again b s)"
proof -
  obtain go s0 where go: "(if b then (case now env s of (t, s) \<Rightarrow> (elapsed_ms t start < timeout * 1000, s)) else (True, s)) = (go, s0)"
    by fastforce
  then have s0: "sends s0 = sends s" by (auto simp: now_def split: if_splits)
  obtain r1 s1 where pre: "check_preempt env bits s0 = (r1, s1)" by fastforce
  obtain r2 polled s2 where once: "receive_once env msg timeout s1 = Some ((r2, polled), s2)"
    using receive_once_returns [OF assms(1)] by blast
  obtain r3 s3 where re: "recreate_socket env s2 = (r3, s3)" by fastforce
  note f1 = check_preempt_effect [OF pre] and f2 = receive_once_effect [OF once assms(1)] and f3 = recreate_effect [OF re]
  have s: "sends s1 = sends s" "sends s2 = sends s" "sends s3 = sends s" using s0 f1(1) f2(1) f3(1) by simp_all
  have loop: "recv_loop env msg timeout bits start again b s =
    (if \<not> go then Some (Inr None, s0)
     else case r1 of
            Inl e \<Rightarrow> Some (Inl e, s1)
          | Inr _ \<Rightarrow>
              (case r2 of
                 Inr reply \<Rightarrow> Some (Inr (Some reply), s2)
               | Inl e \<Rightarrow>
                   (case zmq_errno e of
                      Some num \<Rightarrow>
                        if num = EAGAIN then recv_loop env msg timeout bits start again (b \<or> polled) s2
                        else if \<not> again then
                          (case r3 of Inl e \<Rightarrow> Some (Inl e, s3)
                           | Inr _ \<Rightarrow> recv_loop env msg timeout bits start True (b \<or> polled) s3)
                        else Some (Inl (MujinException ''Failed to receive response after re-creating socket.'' MEC_Failed), s2)
                    | None \<Rightarrow> Some (Inl e, s2))))"
    by (subst recv_loop.simps) (simp add: go pre once re split: sum.splits option.splits)
  have "recv_result env s (recv_loop env msg timeout bits start True (b \<or> polled) s3)" if "\<not> again"
    by (rule recv_result_intros(3) [OF again [OF that] s(3)])
  with s0 s f1(2) f2(2,3) f3(2) show ?thesis unfolding loop
    by (auto intro: recv_result_intros simp: zmq_errno_Some split: sum.splits option.splits)
qed

lemma recv_loop_result:
  assumes "poll_ok env timeout"
  shows "recv_result env s (recv_loop env msg timeout bits start False b s)"
  by (rule recv_loop_step [OF assms], rule recv_loop_step [OF assms]) simp

section \<open>Properties\<close>

text \<open>A negative timeout is over before the loop that receives.\<close>

lemma negative_timeout:
  "timeout < 0 \<Longrightarrow> elapsed_ms t start > timeout * 1000"
  using elapsed_nonneg [of t start] by simp

lemma ZmqClient_Call_ends:
  assumes "\<forall>k. raw_poll env k \<noteq> Inl EAGAIN" "timeout \<noteq> 0 \<or> (\<forall>k. raw_poll env k \<noteq> Inr False)"
  shows "\<exists>r s'. ZmqClient_Call env msg timeout bits s = Some (r, s') \<and>
    (\<forall>e. r = Inl e \<longrightarrow> GetCode e \<in> {Some MEC_Failed, Some MEC_Timeout, Some MEC_Assert} \<or>
      (\<exists>n. e = ZmqError n) \<or> (\<exists>f k bits. preemptfn env = Some f \<and> f k bits = Some e)) \<and>
    sends s' \<le> Suc (sends s) \<and> (timeout \<le> 0 \<longrightarrow> sends s' = sends s)"
proof -
  let ?start = "clock_ms env (tick s)"
  obtain r1 s1 where snd: "send_loop env msg timeout bits ?start False (advance s) = Some (r1, s1)"
    and s1: "\<And>e. r1 = Inl e \<Longrightarrow> call_error env e" "sends s1 \<le> Suc (sends s)" "timeout \<le> 0 \<Longrightarrow> sends s1 = sends s"
    using send_loop_result [of env timeout "advance s" msg bits ?start] by (auto simp: send_result_def)
  have "\<exists>r s'. ZmqClient_Call env msg timeout bits s = Some (r, s') \<and> (\<forall>e. r = Inl e \<longrightarrow> call_error env e) \<and>
      sends s' = sends s1"
  proof (cases "timeout < 0")
    case True
    with snd s1(1) negative_timeout [OF True] show ?thesis
      unfolding ZmqClient_Call_def by (auto simp: now_def split: sum.splits)
  next
    case False
    with assms have poll: "poll_ok env timeout" by (auto simp: poll_ok_def)
    obtain r2 s2 where rcv: "recv_loop env msg timeout bits ?start False False (advance s1) = Some (r2, s2)"
      and s2: "\<And>e. r2 = Inl e \<Longrightarrow> call_error env e" "sends s2 = sends s1"
      using recv_loop_result [OF poll, of "advance s1" msg bits ?start False] by (auto simp: recv_result_def)
    show ?thesis
      unfolding ZmqClient_Call_def using snd rcv s1(1) s2
      by (auto simp: now_def split: sum.splits option.splits)
  qed
  with s1(2,3) show ?thesis by (auto simp: call_error_def)
qed

text \<open>C6: \<^verbatim>\<open>ZmqClient::Call\<close> with a timeout other than 0 returns or throws, whatever the clock says, when
  polling never reports \<^verbatim>\<open>EAGAIN\<close>; with the timeout 0, which is polled without an end, it does when there is a
  message at every poll. Its own exceptions have the codes \<^verbatim>\<open>MEC_Failed\<close>, \<^verbatim>\<open>MEC_Timeout\<close> and
  \<^verbatim>\<open>MEC_Assert\<close>, the others are those of ZeroMQ and of the preempt function; so
  \<^verbatim>\<open>MEC_ZMQNoResponse\<close>, which the callers handle, comes from a preempt function only. The
  request goes out at most once, and with a timeout that is not positive never.\<close>

theorem ZmqClient_Call_total:
  assumes "\<forall>k. raw_poll env k \<noteq> Inl EAGAIN" and "timeout \<noteq> 0 \<or> (\<forall>k. raw_poll env k \<noteq> Inr False)"
  shows "\<exists>r s'. ZmqClient_Call env msg timeout bits s = Some (r, s') \<and>
    (\<forall>e. r = Inl e \<longrightarrow> GetCode e \<in> {Some MEC_Failed, Some MEC_Timeout, Some MEC_Assert} \<or>
      (\<exists>n. e = ZmqError n) \<or> (\<exists>f k bits. preemptfn env = Some f \<and> f k bits = Some e)) \<and>
    sends s' \<le> Suc (sends s) \<and> (timeout \<le> 0 \<longrightarrow> sends s' = sends s)"
  using assms by (rule ZmqClient_Call_ends)

definition sample_env :: zmq_env where
  "sample_env = \<lparr> clock_ms = (\<lambda>k. of_nat k), raw_send = (\<lambda>k. 0), raw_poll = (\<lambda>k. Inr True),
     raw_recv = (\<lambda>k. Inr ''ok''), raw_attach = (\<lambda>k. 0), preemptfn = None, print_double = (\<lambda>x. []) \<rparr>"

definition sample_client :: zmq_state where
  "sample_client = \<lparr> zhost = ''mujin'', zport = 7110, zcontext = Some 0, zsocket = Some 1, zshared = True,
     fresh = 2, contexts = [0], sockets = [(1, 0)], ops = [], tick = 0 \<rparr>"

text \<open>A socket on which nothing ever arrives, and a clock that stands still or goes on.\<close>

definition silent_env :: "(nat \<Rightarrow> 64 word) \<Rightarrow> zmq_env" where
  "silent_env clock = sample_env \<lparr> clock_ms := clock, raw_poll := (\<lambda>k. Inr False) \<rparr>"

lemma ZmqClient_Call_total_witness:
  "\<exists>r s'. ZmqClient_Call (silent_env of_nat) ''go'' 5 0 sample_client = Some (r, s') \<and> sends s' \<le> 1"
  using ZmqClient_Call_total [of "silent_env of_nat" 5 "''go''" 0 sample_client]
  by (auto simp: silent_env_def sample_env_def sample_client_def sends_def)

text \<open>C29: With the timeout 0 nothing is sent. When the clock has moved on by the time that it is looked at, the call ends
  with the timeout of the request; when it has not, the call waits for a reply to the request that was not
  sent, without an end: if no message ever arrives it never returns, and a message that is there is
  returned as if it were the reply.\<close>

theorem ZmqClient_Call_zero_timeout:
  assumes "zsocket s = Some k" and "preemptfn env = None"
  shows "if clock_ms env (tick s + 2) \<noteq> clock_ms env (tick s)
    then \<exists>s'. ZmqClient_Call env msg 0 bits s = Some (Inl (MujinException ''Timed out trying to send request.'' MEC_Timeout), s') \<and>
      ops s' = ops s
    else (raw_poll env (tick s + 3) = Inr False \<longrightarrow> ZmqClient_Call env msg 0 bits s = None) \<and>
      (\<forall>reply. raw_poll env (tick s + 3) = Inr True \<and> raw_recv env (tick s + 4) = Inr reply \<longrightarrow>
        (\<exists>s'. ZmqClient_Call env msg 0 bits s = Some (Inr reply, s') \<and> ops s' = ops s))"
proof -
  let ?start = "clock_ms env (tick s)"
  let ?s1 = "advance (advance s)" and ?s2 = "advance (advance (advance s))"
  have snd: "send_loop env msg 0 bits ?start False (advance s) = Some (Inr (), ?s1)"
    using elapsed_nonneg [of "clock_ms env (Suc (tick s))" ?start]
    by (subst send_loop.simps) (simp add: now_def)
  have moved: "elapsed_ms t start > 0 * 1000 \<longleftrightarrow> t \<noteq> start" for t start
    unfolding elapsed_ms_def by (simp only: mult_zero_left of_nat_0_less_iff unat_gt_0 right_minus_eq)
  show ?thesis
  proof (cases "clock_ms env (tick s + 2) = ?start")
    case False
    with snd moved show ?thesis
      unfolding ZmqClient_Call_def by (simp add: now_def numeral_2_eq_2)
  next
    case True
    have call: "ZmqClient_Call env msg 0 bits s = Option.bind (recv_loop env msg 0 bits ?start False False ?s2) (\<lambda>(r, s).
        case r of Inl e \<Rightarrow> Some (Inl e, s) | Inr (Some reply) \<Rightarrow> Some (Inr reply, s)
        | Inr None \<Rightarrow> (case now env s of (t, s) \<Rightarrow> if elapsed_ms t ?start > 0 * 1000
            then Some (Inl (MujinException ''timed out trying to receive request'' MEC_Failed), s) else Some (Inr [], s)))"
      unfolding ZmqClient_Call_def using snd True moved by (simp add: now_def numeral_2_eq_2)
    have none: "recv_loop env msg 0 bits ?start False False ?s2 = None" if "raw_poll env (tick s + 3) = Inr False"
      using assms that
      by (subst recv_loop.simps)
        (simp add: check_preempt_def receive_once_def deref_socket_def zmq_poll_def receive_timeoutms_def numeral_3_eq_3)
    have some: "recv_loop env msg 0 bits ?start False False ?s2 = Some (Inr (Some reply), advance (advance ?s2))"
      if "raw_poll env (tick s + 3) = Inr True" "raw_recv env (tick s + 4) = Inr reply" for reply
      using assms that
      by (subst recv_loop.simps)
        (simp add: check_preempt_def receive_once_def receive_polled_def deref_socket_def zmq_poll_def poll_answer_def
          socket_recv_def receive_timeoutms_def eval_nat_numeral)
    show ?thesis using True none some by (auto simp: call)
  qed
qed

lemma ZmqClient_Call_zero_timeout_witness:
  "ZmqClient_Call (silent_env (\<lambda>k. 7)) ''go'' 0 0 sample_client = None \<and>
   (\<exists>s'. ZmqClient_Call (silent_env of_nat) ''go'' 0 0 sample_client =
     Some (Inl (MujinException ''Timed out trying to send request.'' MEC_Timeout), s') \<and> ops s' = [])"
  using ZmqClient_Call_zero_timeout [of sample_client 1 "silent_env (\<lambda>k. 7)" "''go''" 0]
    ZmqClient_Call_zero_timeout [of sample_client 1 "silent_env of_nat" "''go''" 0]
  by (simp add: silent_env_def sample_env_def sample_client_def)

text \<open>C23: When the clock stays inside the timeout, the request is accepted, the socket becomes
  readable and nothing preempts, \<^verbatim>\<open>Call\<close> returns the reply that \<^verbatim>\<open>recv\<close> gave, after sending the
  request on its socket once and doing nothing else to it.\<close>

theorem ZmqClient_Call_reply:
  assumes "zsocket s = Some k" "preemptfn env = None"
    and "unat (clock_ms env (Suc (tick s)) - clock_ms env (tick s)) < m"
    and "unat (clock_ms env (tick s + 3) - clock_ms env (tick s)) \<le> m" "timeout * 1000 = of_nat m"
    and "raw_send env (tick s + 2) = 0" "raw_poll env (tick s + 4) = Inr True"
    and "raw_recv env (tick s + 5) = Inr reply"
  shows "\<exists>s'. ZmqClient_Call env msg timeout bits s = Some (Inr reply, s') \<and>
    ops s' = ops s @ [SendMessage k msg] \<and> zsocket s' = Some k"
proof -
  let ?start = "clock_ms env (tick s)"
  have e1: "elapsed_ms (clock_ms env (Suc (tick s))) ?start < timeout * 1000"
    unfolding elapsed_ms_def assms(5) using assms(3) by (simp only: of_nat_less_iff)
  have e2: "\<not> elapsed_ms (clock_ms env (tick s + 3)) ?start > timeout * 1000"
    unfolding elapsed_ms_def assms(5) using assms(4) by (simp only: of_nat_less_iff not_less)
  have "(0::rat) < of_nat m" using assms(3) by simp
  then have "timeout > 0" using assms(5) by simp
  then have bounded: "zmq_poll env (receive_timeoutms timeout) s' = Some (poll_answer env s')" for s' by simp
  let ?s1 = "perform (SendMessage k msg) (advance (advance (advance s)))"
  have snd: "send_loop env msg timeout bits ?start False (advance s) = Some (Inr (), ?s1)"
    using assms(1,6) e1 by (subst send_loop.simps) (simp add: now_def socket_send_def numeral_2_eq_2)
  let ?s2 = "advance (advance (advance ?s1))"
  have rcv: "recv_loop env msg timeout bits ?start False False (advance ?s1) = Some (Inr (Some reply), ?s2)"
    using assms(1,2,7,8)
    by (subst recv_loop.simps)
      (simp add: check_preempt_def receive_once_def receive_polled_def deref_socket_def bounded poll_answer_def socket_recv_def eval_nat_numeral)
  have "ZmqClient_Call env msg timeout bits s = Some (Inr reply, ?s2)"
    unfolding ZmqClient_Call_def using snd rcv e2 by (simp add: now_def numeral_3_eq_3)
  with assms(1) show ?thesis by simp
qed

lemma ZmqClient_Call_reply_witness:
  "\<exists>s'. ZmqClient_Call sample_env ''go'' 5 0 sample_client = Some (Inr ''ok'', s') \<and> ops s' = [SendMessage 1 ''go'']"
  using ZmqClient_Call_reply [of sample_client 1 sample_env 5000 5 "''ok''" "''go''" 0]
  by (auto simp: sample_client_def sample_env_def)

text \<open>C24: A client that is initialized, whether this succeeds or not, and destroyed leaves open
  the contexts and the sockets that were open before: its own are closed, a context that was
  given to it is not; destroying it once more does nothing.\<close>

theorem ZmqClient_lifecycle:
  assumes "ids_below s" "zsocket s = None" "client_InitializeSocket env ctx s = (r, s')"
  shows "contexts (client_DestroySocket s') = contexts s \<and> sockets (client_DestroySocket s') = sockets s \<and>
    client_DestroySocket (client_DestroySocket s') = client_DestroySocket s'"
  using client.lifecycle [OF assms] client.destroy_twice by simp

lemma ZmqClient_lifecycle_witness:
  "contexts (client_DestroySocket (snd (client_InitializeSocket sample_env (Some 0) (client_DestroySocket sample_client)))) = [0]"
proof -
  let ?s = "client_DestroySocket sample_client"
  obtain r s' where i: "client_InitializeSocket sample_env (Some 0) ?s = (r, s')" by fastforce
  have "ids_below ?s" "zsocket ?s = None" "contexts ?s = [0]"
    by (simp_all add: ids_below_def client_DestroySocket_def sample_client_def close_socket_def perform_def setsockopt_def)
  with ZmqClient_lifecycle [OF _ _ i] i show ?thesis by simp
qed

end
