(* ===== verification/JsonFile.thy ===== *)
theory JsonFile
  imports JsonLaws
begin

text \<open>
  \<^verbatim>\<open>ParseJsonFile\<close> of \<^verbatim>\<open>src/mujinjson.cpp\<close>. The file and what the system answers are the record
  \<open>file_env\<close>: its bytes, whether it can be opened, its size as \<^verbatim>\<open>fstat\<close> has it, what the n-th
  \<^verbatim>\<open>read\<close> does and which sizes can be allocated. A read that succeeds gives at most the bytes
  asked for and, before the end of the file, at least one. The file does not change
  meanwhile. A loop that does not end is \<open>None\<close>.
\<close>

datatype read_event = Interrupted | Broken | UpTo nat

record file_env =
  file_content :: string
  can_open :: bool
  stat_size :: "nat option"
  on_read :: "nat \<Rightarrow> read_event"
  can_allocate :: "nat \<Rightarrow> bool"

record reading =
  fd_open :: bool
  block_allocated :: bool                            \<comment> \<open>the memory of \<^verbatim>\<open>malloc\<close>\<close>
  reads :: nat
  position :: nat

definition close_fd :: "reading \<Rightarrow> reading" where
  "close_fd s = s \<lparr> fd_open := False \<rparr>"

definition free_block :: "reading \<Rightarrow> reading" where
  "free_block s = s \<lparr> block_allocated := False \<rparr>"

text \<open>The errno \<^verbatim>\<open>EINTR\<close> or another one, or the bytes.\<close>

datatype read_answer = EINTR | EOther | Bytes string

definition sys_read :: "file_env \<Rightarrow> nat \<Rightarrow> reading \<Rightarrow> read_answer \<times> reading" where
  "sys_read env count s =
     (case on_read env (reads s) of
        Interrupted \<Rightarrow> (EINTR, s \<lparr> reads := reads s + 1 \<rparr>)
      | Broken \<Rightarrow> (EOther, s \<lparr> reads := reads s + 1 \<rparr>)
      | UpTo m \<Rightarrow>
          (let data = take (min count (max 1 m)) (drop (position s) (file_content env)) in
           (Bytes data, s \<lparr> reads := reads s + 1, position := position s + length data \<rparr>)))"

definition could_not_read :: "string \<Rightarrow> error" where
  "could_not_read filename =
     JsonExc (''Could not read file data from Json file '' @ [CHR 0x27] @ filename @ [CHR 0x27])"

definition no_memory :: error where
  "no_memory = JsonExc ''Could not allocate memory''"

definition file_is_empty :: "string \<Rightarrow> error" where
  "file_is_empty filename = JsonExc (''JSON file '' @ [CHR 0x27] @ filename @ [CHR 0x27] @ '' is empty'')"

text \<open>The file has no size: \<open>data\<close> is what the buffer of \<open>nBufferSize\<close> bytes holds.\<close>

partial_function (option) grow_loop ::
  "file_env \<Rightarrow> string \<Rightarrow> string \<Rightarrow> nat \<Rightarrow> reading \<Rightarrow> (string result \<times> reading) option"
where
  "grow_loop env filename data nBufferSize s =
     (let nBufferSize' = (if nBufferSize - length data < 4096 then nBufferSize + 4096 else nBufferSize) in
      if nBufferSize' \<noteq> nBufferSize \<and> \<not> can_allocate env nBufferSize' then
        Some (Inl no_memory, free_block (close_fd s))
      else
        case sys_read env (nBufferSize' - length data) s of
          (EINTR, s') \<Rightarrow> grow_loop env filename data nBufferSize' s'
        | (EOther, s') \<Rightarrow> Some (Inl (could_not_read filename), free_block (close_fd s'))
        | (Bytes bytes, s') \<Rightarrow>
            if bytes = [] then Some (Inr data, s')
            else grow_loop env filename (data @ bytes) nBufferSize' s')"

text \<open>The file has a size: \<open>data\<close> is the begin of the buffer of that size.\<close>

partial_function (option) fill_loop ::
  "file_env \<Rightarrow> string \<Rightarrow> nat \<Rightarrow> string \<Rightarrow> reading \<Rightarrow> (string result \<times> reading) option"
where
  "fill_loop env filename st_size data s =
     (case sys_read env (st_size - length data) s of
        (EINTR, s') \<Rightarrow>
          if length data < st_size then fill_loop env filename st_size data s' else Some (Inr data, s')
      | (EOther, s') \<Rightarrow> Some (Inl (could_not_read filename), close_fd s')
      | (Bytes bytes, s') \<Rightarrow>
          if bytes = [] then Some (Inr data, s')
          else if length (data @ bytes) < st_size then fill_loop env filename st_size (data @ bytes) s'
          else Some (Inr (data @ bytes), s'))"

definition parse_grown ::
  "'d lib \<Rightarrow> file_env \<Rightarrow> string \<Rightarrow> reading \<Rightarrow> ('d json result \<times> reading) option" where
  "parse_grown lib env filename s =
     (if \<not> can_allocate env 4096 then Some (Inl no_memory, close_fd s)
      else
        Option.bind (grow_loop env filename [] 4096 (s \<lparr> block_allocated := True \<rparr>)) (\<lambda>(r, s).
        case r of
          Inl e \<Rightarrow> Some (Inl e, s)
        | Inr data \<Rightarrow>
            if data = [] then Some (Inl (file_is_empty filename), free_block (close_fd s))
            else Some (ParseJson lib data, free_block (close_fd s))))"

text \<open>\<^verbatim>\<open>resize\<close> of the buffer of the caller throws before the descriptor is closed.\<close>

definition parse_sized ::
  "'d lib \<Rightarrow> file_env \<Rightarrow> string \<Rightarrow> nat \<Rightarrow> reading \<Rightarrow> ('d json result \<times> reading) option" where
  "parse_sized lib env filename st_size s =
     (if \<not> can_allocate env st_size then Some (Inl (BadAlloc), s)
      else
        Option.bind (fill_loop env filename st_size [] s) (\<lambda>(r, s).
        case r of
          Inl e \<Rightarrow> Some (Inl e, s)
        | Inr data \<Rightarrow>
            if data = [] then Some (Inl (file_is_empty filename), close_fd s)
            else Some (ParseJson lib data, close_fd s)))"

definition ParseJsonFile ::
  "'d lib \<Rightarrow> file_env \<Rightarrow> string \<Rightarrow> reading \<Rightarrow> ('d json result \<times> reading) option" where
  "ParseJsonFile lib env filename s =
     (if \<not> can_open env then Some (Inl (JsonExc (''Could not open Json file '' @ filename)), s)
      else
        let s = s \<lparr> fd_open := True, reads := 0, position := 0 \<rparr> in
        case stat_size env of
          None \<Rightarrow> Some (Inl (JsonExc (''Could not get file stats of Json file '' @ filename)), close_fd s)
        | Some st_size \<Rightarrow>
            if st_size = 0 then parse_grown lib env filename s else parse_sized lib env filename st_size s)"

section \<open>The loops end and read the whole file\<close>

definition fair :: "file_env \<Rightarrow> bool" where
  "fair env \<longleftrightarrow> (\<forall>k. \<exists>j \<ge> k. on_read env j \<noteq> Interrupted)"

text \<open>Induction over the reads of a file: a read goes forward in the file, or is interrupted and
  the next one is closer to one that is not.\<close>

lemma progress_induct [consumes 1]:
  fixes pos rd :: "'x \<Rightarrow> nat"
  assumes "fair env"
    and "\<And>x. (\<And>y. pos x < pos y \<Longrightarrow> pos y \<le> L \<Longrightarrow> Q y) \<Longrightarrow>
      (\<And>y. on_read env (rd x) = Interrupted \<Longrightarrow> pos y = pos x \<Longrightarrow> rd y = rd x + 1 \<Longrightarrow> Q y) \<Longrightarrow> Q x"
  shows "Q x"
proof (induction "L - pos x" arbitrary: x rule: less_induct)
  case less
  then have later: "\<And>y. pos x < pos y \<Longrightarrow> pos y \<le> L \<Longrightarrow> Q y" by (meson diff_less_mono2 order_less_le_trans)
  from assms(1) obtain j where j: "rd x \<le> j" "on_read env j \<noteq> Interrupted" unfolding fair_def by blast
  have "rd y \<le> j \<Longrightarrow> pos y = pos x \<Longrightarrow> Q y" for y
  proof (induction "j - rd y" arbitrary: y)
    case 0
    then have "rd y = j" by simp
    with j(2) 0 later show ?case by (intro assms(2) [of y]) simp_all
  next
    case (Suc n)
    then show ?case using later by (intro assms(2) [of y]) simp_all
  qed
  with j(1) show ?case by blast
qed

definition readable :: "file_env \<Rightarrow> bool" where
  "readable env \<longleftrightarrow> fair env \<and> (\<forall>k. on_read env k \<noteq> Broken) \<and> (\<forall>n. can_allocate env n)"

lemma sys_read_cases:
  assumes "readable env" and "0 < count"
  obtains "on_read env (reads s) = Interrupted" "sys_read env count s = (EINTR, s \<lparr> reads := reads s + 1 \<rparr>)"
  | "position s \<ge> length (file_content env)" "sys_read env count s = (Bytes [], s \<lparr> reads := reads s + 1 \<rparr>)"
  | k where "0 < k" "k \<le> count" "position s + k \<le> length (file_content env)"
    "sys_read env count s = (Bytes (take k (drop (position s) (file_content env))), s \<lparr> reads := reads s + 1, position := position s + k \<rparr>)"
proof (cases "on_read env (reads s)")
  case Broken
  then show ?thesis using assms(1) by (simp add: readable_def)
next
  case (UpTo m)
  let ?k = "min (min count (max 1 m)) (length (file_content env) - position s)"
  show ?thesis
  proof (cases "position s < length (file_content env)")
    case True
    then show ?thesis using UpTo assms(2) by (intro that(3) [of ?k]) (auto simp: sys_read_def Let_def min_def)
  qed (use UpTo in \<open>auto intro!: that(2) simp: sys_read_def Let_def\<close>)
qed (auto intro!: that(1) simp: sys_read_def)

lemma take_more: "k \<le> length xs - p \<Longrightarrow> take p xs @ take k (drop p xs) = take (p + k) xs"
  by (simp add: take_add)

lemma same_position: "position s = p \<Longrightarrow> s \<lparr> reads := n, position := p \<rparr> = s \<lparr> reads := n \<rparr>" for s :: reading
  by (cases s) simp

lemma grow_loop_reads:
  assumes "readable env" and "position s \<le> length (file_content env)" and "position s \<le> size'"
  shows "\<exists>n. grow_loop env filename (take (position s) (file_content env)) size' s =
    Some (Inr (file_content env), s \<lparr> reads := n, position := length (file_content env) \<rparr>)"
proof -
  let ?c = "file_content env"
  let ?Q = "\<lambda>(size', s). position s \<le> length ?c \<longrightarrow> position s \<le> size' \<longrightarrow>
    (\<exists>n. grow_loop env filename (take (position s) ?c) size' s = Some (Inr ?c, s \<lparr> reads := n, position := length ?c \<rparr>))"
  have "fair env" using assms(1) by (simp add: readable_def)
  then have "?Q (size', s)"
  proof (rule progress_induct [where pos = "\<lambda>(size', s). position s" and rd = "\<lambda>(size', s). reads s" and L = "length ?c"])
    fix x :: "nat \<times> reading"
    obtain size' s where x: "x = (size', s)" by fastforce
    assume further: "\<And>y. (case x of (size', s) \<Rightarrow> position s) < (case y of (size', s) \<Rightarrow> position s) \<Longrightarrow>
        (case y of (size', s) \<Rightarrow> position s) \<le> length ?c \<Longrightarrow> ?Q y"
      and again: "\<And>y. on_read env (case x of (size', s) \<Rightarrow> reads s) = Interrupted \<Longrightarrow>
        (case y of (size', s) \<Rightarrow> position s) = (case x of (size', s) \<Rightarrow> position s) \<Longrightarrow>
        (case y of (size', s) \<Rightarrow> reads s) = (case x of (size', s) \<Rightarrow> reads s) + 1 \<Longrightarrow> ?Q y"
    define n where "n = (if size' - position s < 4096 then size' + 4096 else size')"
    show "?Q x"
    proof (clarsimp simp: x)
      assume p: "position s \<le> length ?c" "position s \<le> size'"
      then have n: "position s < n" "0 < n - position s" by (auto simp: n_def)
      from p(1) have len: "length (take (position s) ?c) = position s" by simp
      have loop: "grow_loop env filename (take (position s) ?c) size' s =
        (case sys_read env (n - position s) s of
           (EINTR, s') \<Rightarrow> grow_loop env filename (take (position s) ?c) n s'
         | (EOther, s') \<Rightarrow> Some (Inl (could_not_read filename), free_block (close_fd s'))
         | (Bytes bytes, s') \<Rightarrow>
             if bytes = [] then Some (Inr (take (position s) ?c), s')
             else grow_loop env filename (take (position s) ?c @ bytes) n s')"
        unfolding grow_loop.simps [of env filename _ size'] len Let_def n_def [symmetric] using assms(1) by (simp add: readable_def)
      from assms(1) n(2) show "\<exists>k. grow_loop env filename (take (position s) ?c) size' s =
          Some (Inr ?c, s \<lparr> reads := k, position := length ?c \<rparr>)"
      proof (cases rule: sys_read_cases [where s = s])
        case 1
        then show ?thesis using again [of "(n, s \<lparr> reads := reads s + 1 \<rparr>)"] p n loop by (simp add: x)
      next
        case 2
        with p have "position s = length ?c" by simp
        with 2 loop show ?thesis by (auto simp: same_position)
      next
        case (3 k)
        then show ?thesis using further [of "(n, s \<lparr> reads := reads s + 1, position := position s + k \<rparr>)"] p n loop
          by (simp add: x take_more n_def split: if_splits)
      qed
    qed
  qed
  with assms show ?thesis by simp
qed

lemma fill_loop_reads:
  assumes "readable env" and "position s \<le> length (file_content env)" and "position s < st_size"
  shows "\<exists>n. fill_loop env filename st_size (take (position s) (file_content env)) s =
    Some (Inr (take st_size (file_content env)), s \<lparr> reads := n, position := min st_size (length (file_content env)) \<rparr>)"
proof -
  let ?c = "file_content env"
  let ?Q = "\<lambda>s. position s \<le> length ?c \<longrightarrow> position s < st_size \<longrightarrow>
    (\<exists>n. fill_loop env filename st_size (take (position s) ?c) s =
       Some (Inr (take st_size ?c), s \<lparr> reads := n, position := min st_size (length ?c) \<rparr>))"
  have "fair env" using assms(1) by (simp add: readable_def)
  then have "?Q s"
  proof (rule progress_induct [where pos = position and rd = reads and L = "length ?c"], clarify)
    fix s :: reading
    assume further: "\<And>y. position s < position y \<Longrightarrow> position y \<le> length ?c \<Longrightarrow> ?Q y"
      and again: "\<And>y. on_read env (reads s) = Interrupted \<Longrightarrow> position y = position s \<Longrightarrow> reads y = reads s + 1 \<Longrightarrow> ?Q y"
      and p: "position s \<le> length ?c" "position s < st_size"
    from p(1) have len: "length (take (position s) ?c) = position s" by simp
    note loop = fill_loop.simps [of env filename st_size "take (position s) ?c" s, unfolded len length_append]
    have "0 < st_size - position s" using p by simp
    with assms(1) show "\<exists>n. fill_loop env filename st_size (take (position s) ?c) s =
        Some (Inr (take st_size ?c), s \<lparr> reads := n, position := min st_size (length ?c) \<rparr>)"
    proof (cases rule: sys_read_cases [where s = s])
      case 1
      then show ?thesis using again [of "s \<lparr> reads := reads s + 1 \<rparr>"] p loop by (simp del: length_take)
    next
      case 2
      with p have "position s = length ?c" by simp
      with 2 loop p show ?thesis by (auto simp: same_position)
    next
      case (3 k)
      then have room: "length (take k (drop (position s) ?c)) = k" by simp
      show ?thesis
      proof (cases "position s + k < st_size")
        case True
        with 3 room show ?thesis
          using further [of "s \<lparr> reads := reads s + 1, position := position s + k \<rparr>"] p loop
          by (simp add: take_more del: length_take)
      next
        case False
        with 3 have "position s + k = st_size" by simp
        with 3 room False show ?thesis using p loop by (auto simp: take_more min_def simp del: length_take)
      qed
    qed
  qed
  with assms show ?thesis by simp
qed

text \<open>C13: A file that can be read is parsed whole, however the reads split it and however often they
  are interrupted, as long as they are not interrupted for ever: a file of no stated size to
  its end, another one to its stated size. The call returns, with the descriptor closed.\<close>

theorem ParseJsonFile_reads_all:
  assumes "readable env" and "can_open env" and "stat_size env = Some n" and "\<not> block_allocated s"
    and "text = (if n = 0 then file_content env else take n (file_content env))"
  shows "\<exists>s'. ParseJsonFile lib env filename s =
      Some (if text = [] then Inl (file_is_empty filename) else ParseJson lib text, s') \<and> \<not> fd_open s' \<and> \<not> block_allocated s'"
proof (cases "n = 0")
  case True
  with grow_loop_reads [OF assms(1), of "s \<lparr> fd_open := True, reads := 0, position := 0, block_allocated := True \<rparr>" 4096 filename]
  show ?thesis using assms
    by (auto simp: ParseJsonFile_def parse_grown_def readable_def free_block_def close_fd_def)
next
  case False
  with fill_loop_reads [OF assms(1), of "s \<lparr> fd_open := True, reads := 0, position := 0 \<rparr>" n filename]
  show ?thesis using assms
    by (auto simp: ParseJsonFile_def parse_sized_def readable_def close_fd_def)
qed

definition sample_file :: "nat \<Rightarrow> file_env" where
  "sample_file n = \<lparr> file_content = ''{ }'', can_open = True, stat_size = Some n,
     on_read = (\<lambda>k. if even k then Interrupted else UpTo 1), can_allocate = (\<lambda>_. True) \<rparr>"

lemma ParseJsonFile_reads_all_witness:
  "\<exists>s'. ParseJsonFile sample_lib (sample_file 0) ''f'' \<lparr> fd_open = False, block_allocated = False, reads = 0, position = 0 \<rparr> =
     Some (Inr (JString ''{ }''), s') \<and> \<not> fd_open s' \<and> \<not> block_allocated s'"
proof -
  have "fair (sample_file 0)" unfolding fair_def
    by (rule allI, rule_tac x = "2 * k + 1" in exI) (simp add: sample_file_def)
  then have "readable (sample_file 0)" by (simp add: readable_def sample_file_def)
  then have "\<exists>s'. ParseJsonFile sample_lib (sample_file 0) ''f'' \<lparr> fd_open = False, block_allocated = False, reads = 0, position = 0 \<rparr> =
      Some (if ''{ }'' = [] then Inl (file_is_empty ''f'') else ParseJson sample_lib ''{ }'', s') \<and> \<not> fd_open s' \<and> \<not> block_allocated s'"
    by (rule ParseJsonFile_reads_all [where n = 0]) (simp_all add: sample_file_def)
  moreover have "ParseJson sample_lib ''{ }'' = Inr (JString ''{ }'')" by (simp add: ParseJson_def sample_lib_def)
  ultimately show ?thesis by simp
qed

lemma sys_read_fields:
  "sys_read env count s = (a, s') \<Longrightarrow> fd_open s' = fd_open s \<and> block_allocated s' = block_allocated s"
  by (auto simp: sys_read_def Let_def split: read_event.splits)

lemma grow_loop_releases:
  assumes "grow_loop env filename data size' s = Some (r, s')"
  shows "if isl r then \<not> fd_open s' \<and> \<not> block_allocated s'
    else fd_open s' = fd_open s \<and> block_allocated s' = block_allocated s"
proof -
  let ?P = "\<lambda>(s :: reading) (y :: string result \<times> reading). if isl (fst y) then \<not> fd_open (snd y) \<and> \<not> block_allocated (snd y)
    else fd_open (snd y) = fd_open s \<and> block_allocated (snd y) = block_allocated s"
  have "?P s (r, s')"
    by (rule grow_loop.raw_induct [where P = "\<lambda>env filename data size' s y. ?P s y", OF _ assms])
      (auto simp: free_block_def close_fd_def Let_def dest!: sys_read_fields split: if_splits read_answer.splits prod.splits)
  then show ?thesis by (cases r) simp_all
qed

lemma fill_loop_releases:
  assumes "fill_loop env filename st_size data s = Some (r, s')"
  shows "block_allocated s' = block_allocated s \<and> (if isl r then \<not> fd_open s' else fd_open s' = fd_open s)"
proof -
  let ?P = "\<lambda>(s :: reading) (y :: string result \<times> reading). block_allocated (snd y) = block_allocated s \<and>
    (if isl (fst y) then \<not> fd_open (snd y) else fd_open (snd y) = fd_open s)"
  have "?P s (r, s')"
    by (rule fill_loop.raw_induct [where P = "\<lambda>env filename n data s y. ?P s y", OF _ assms])
      (auto simp: close_fd_def dest!: sys_read_fields split: if_splits read_answer.splits prod.splits)
  then show ?thesis by (cases r) simp_all
qed

text \<open>C26: However the call ends, the memory is freed and the descriptor is closed, but for a file
  whose buffer the caller's container cannot hold.\<close>

theorem ParseJsonFile_releases:
  assumes "ParseJsonFile lib env filename s = Some (r, s')" and "\<not> fd_open s" and "\<not> block_allocated s"
  shows "\<not> block_allocated s' \<and> (fd_open s' \<longleftrightarrow> can_open env \<and> (\<exists>n. stat_size env = Some n \<and> n \<noteq> 0 \<and> \<not> can_allocate env n))"
  using assms
  by (auto simp: ParseJsonFile_def parse_grown_def parse_sized_def Let_def close_fd_def free_block_def
      split: if_splits option.splits sum.splits bind_splits dest!: grow_loop_releases fill_loop_releases)

lemma ParseJsonFile_releases_witness:
  "\<exists>r s'. ParseJsonFile sample_lib ((sample_file 5) \<lparr> can_allocate := (\<lambda>n. n < 5) \<rparr>) ''f''
     \<lparr> fd_open = False, block_allocated = False, reads = 0, position = 0 \<rparr> = Some (r, s') \<and> fd_open s'"
proof -
  have "\<exists>r s'. ParseJsonFile sample_lib ((sample_file 5) \<lparr> can_allocate := (\<lambda>n. n < 5) \<rparr>) ''f''
     \<lparr> fd_open = False, block_allocated = False, reads = 0, position = 0 \<rparr> = Some (r, s')"
    by (simp add: ParseJsonFile_def parse_sized_def sample_file_def)
  then obtain r s' where run: "ParseJsonFile sample_lib ((sample_file 5) \<lparr> can_allocate := (\<lambda>n. n < 5) \<rparr>) ''f''
     \<lparr> fd_open = False, block_allocated = False, reads = 0, position = 0 \<rparr> = Some (r, s')" by blast
  from ParseJsonFile_releases [OF this] run show ?thesis by (auto simp: sample_file_def)
qed

end
