(* ===== verification/Definitions.thy ===== *)
theory Definitions
  imports JsonLaws ClientInfo "HOL-Library.List_Lexorder" "HOL-Library.Char_ord"
begin

text \<open>
  \<^verbatim>\<open>include/mujincontrollerclient/mujindefinitions.h\<close> and \<^verbatim>\<open>src/mujindefinitions.cpp\<close>: transforms and
  boxes with their approximate comparison, sensor selections with their order, the history
  of picks and places with its JSON form, and the names of two enumerations. A double is a
  value of \<open>'d\<close>; its arithmetic is the record \<open>reals\<close>.
\<close>

section \<open>Approximate comparison\<close>

record 'd reals =
  r_add :: "'d \<Rightarrow> 'd \<Rightarrow> 'd"
  r_sub :: "'d \<Rightarrow> 'd \<Rightarrow> 'd"
  r_mul :: "'d \<Rightarrow> 'd \<Rightarrow> 'd"
  r_div :: "'d \<Rightarrow> 'd \<Rightarrow> 'd"
  r_sqrt :: "'d \<Rightarrow> 'd"
  r_fabs :: "'d \<Rightarrow> 'd"
  r_less :: "'d \<Rightarrow> 'd \<Rightarrow> bool"
  r_lit :: "rat \<Rightarrow> 'd"                               \<comment> \<open>a literal of the source\<close>
  r_eq :: "'d \<Rightarrow> 'd \<Rightarrow> bool"
  r_isnan :: "'d \<Rightarrow> bool"
  r_uint64 :: "'d \<Rightarrow> 64 word option"                 \<comment> \<open>the cast; \<open>None\<close> when it is undefined\<close>

definition FuzzyEquals :: "'d reals \<Rightarrow> 'd \<Rightarrow> 'd \<Rightarrow> 'd \<Rightarrow> bool" where
  "FuzzyEquals R p q epsilon = r_less R (r_fabs R (r_sub R p q)) epsilon"

fun FuzzyEquals_loop :: "'d reals \<Rightarrow> 'd list \<Rightarrow> 'd list \<Rightarrow> 'd \<Rightarrow> bool" where
  "FuzzyEquals_loop R (p # ps) (q # qs) epsilon =
     (if \<not> FuzzyEquals R p q epsilon then False else FuzzyEquals_loop R ps qs epsilon)"
| "FuzzyEquals_loop R _ _ epsilon = True"

definition FuzzyEquals_vector :: "'d reals \<Rightarrow> 'd list \<Rightarrow> 'd list \<Rightarrow> 'd \<Rightarrow> bool" where
  "FuzzyEquals_vector R p q epsilon =
     (if length p \<noteq> length q then False else FuzzyEquals_loop R p q epsilon)"

text \<open>Two arrays of one length.\<close>

definition FuzzyEquals_array :: "'d reals \<Rightarrow> 'd list \<Rightarrow> 'd list \<Rightarrow> bool" where
  "FuzzyEquals_array R p q = FuzzyEquals_loop R p q (r_lit R (1 / 10000))"

section \<open>Transforms and boxes\<close>

record 'd Transform =
  quaternion :: "'d list"
  translate :: "'d list"

definition Transform_default :: "'d reals \<Rightarrow> 'd Transform" where
  "Transform_default R = \<lparr> quaternion = [r_lit R 1, r_lit R 0, r_lit R 0, r_lit R 0],
     translate = [r_lit R 0, r_lit R 0, r_lit R 0] \<rparr>"

definition Transform_neq :: "'d reals \<Rightarrow> 'd Transform \<Rightarrow> 'd Transform \<Rightarrow> bool" where
  "Transform_neq R t u \<longleftrightarrow> \<not> FuzzyEquals_array R (quaternion t) (quaternion u) \<or>
     \<not> FuzzyEquals_array R (translate t) (translate u)"

record 'd AABB =
  pos :: "'d list"
  extents :: "'d list"

definition AABB_default :: "'d reals \<Rightarrow> 'd AABB" where
  "AABB_default R = \<lparr> pos = [r_lit R 0, r_lit R 0, r_lit R 0], extents = [r_lit R 0, r_lit R 0, r_lit R 0] \<rparr>"

definition AABB_neq :: "'d reals \<Rightarrow> 'd AABB \<Rightarrow> 'd AABB \<Rightarrow> bool" where
  "AABB_neq R a b \<longleftrightarrow> \<not> FuzzyEquals_array R (pos a) (pos b) \<or> \<not> FuzzyEquals_array R (pos a) (pos b)"

section \<open>Sensor selections\<close>

datatype SensorSelectionInfo = SensorSelectionInfo (sensorName: string) (sensorLinkName: string)

text \<open>\<^verbatim>\<open>operator<\<close>, which becomes the order of the type; strings are compared byte by byte.\<close>

definition SensorSelectionInfo_less :: "SensorSelectionInfo \<Rightarrow> SensorSelectionInfo \<Rightarrow> bool" where
  "SensorSelectionInfo_less a rhs = (if sensorName a = sensorName rhs then sensorLinkName a < sensorLinkName rhs
     else sensorName a < sensorName rhs)"

instantiation SensorSelectionInfo :: linorder
begin

definition less_SensorSelectionInfo :: "SensorSelectionInfo \<Rightarrow> SensorSelectionInfo \<Rightarrow> bool" where
  "a < rhs = SensorSelectionInfo_less a rhs"

definition less_eq_SensorSelectionInfo :: "SensorSelectionInfo \<Rightarrow> SensorSelectionInfo \<Rightarrow> bool" where
  "(a :: SensorSelectionInfo) \<le> b \<longleftrightarrow> a < b \<or> a = b"

instance
proof
  fix a b c :: SensorSelectionInfo
  show "a < b \<longleftrightarrow> a \<le> b \<and> \<not> b \<le> a"
    by (cases a; cases b) (auto simp: less_SensorSelectionInfo_def SensorSelectionInfo_less_def less_eq_SensorSelectionInfo_def split: if_splits)
  show "a \<le> b \<Longrightarrow> b \<le> c \<Longrightarrow> a \<le> c"
    by (cases a; cases b; cases c) (auto simp: less_SensorSelectionInfo_def SensorSelectionInfo_less_def less_eq_SensorSelectionInfo_def split: if_splits)
  show "a \<le> b \<Longrightarrow> b \<le> a \<Longrightarrow> a = b"
    by (cases a; cases b) (auto simp: less_SensorSelectionInfo_def SensorSelectionInfo_less_def less_eq_SensorSelectionInfo_def split: if_splits)
  show "a \<le> b \<or> b \<le> a"
    by (cases a; cases b) (auto simp: less_SensorSelectionInfo_def SensorSelectionInfo_less_def less_eq_SensorSelectionInfo_def)
qed (auto simp: less_eq_SensorSelectionInfo_def)

end

definition SensorSelectionInfo_text :: "SensorSelectionInfo \<Rightarrow> string" where
  "SensorSelectionInfo_text rhs = sensorName rhs @ '':'' @ sensorLinkName rhs"

definition SensorSelectionInfo_LoadFromJson ::
  "'d lib \<Rightarrow> 'd json \<Rightarrow> SensorSelectionInfo \<Rightarrow> SensorSelectionInfo result" where
  "SensorSelectionInfo_LoadFromJson lib v t =
     bindR (LoadJsonValueByKey (LoadJsonString lib) v ''sensorName'' (sensorName t)) (\<lambda>(_, sensorName).
     bindR (LoadJsonValueByKey (LoadJsonString lib) v ''sensorLinkName'' (sensorLinkName t)) (\<lambda>(_, sensorLinkName).
     Inr (SensorSelectionInfo sensorName sensorLinkName)))"

definition SensorSelectionInfo_SaveToJson :: "SensorSelectionInfo \<Rightarrow> 'd json result" where
  "SensorSelectionInfo_SaveToJson t =
     bindR (SetJsonValueByKey SaveJsonString (JObject []) ''sensorName'' (sensorName t)) (\<lambda>v.
     SetJsonValueByKey SaveJsonString v ''sensorLinkName'' (sensorLinkName t))"

section \<open>The history of picks and places\<close>

record 'd PickPlaceHistoryItem =
  pickPlaceType :: string
  locationName :: string
  containerName :: string
  eventTimeStampUS :: "64 word"
  object_uri :: string
  objectpose :: "'d Transform"
  localaabb :: "'d AABB"
  sensorTimeStampUS :: "64 word"

definition PickPlaceHistoryItem_Reset :: "'d reals \<Rightarrow> 'd PickPlaceHistoryItem" where
  "PickPlaceHistoryItem_Reset R = \<lparr> pickPlaceType = [], locationName = [], containerName = [],
     eventTimeStampUS = 0, object_uri = [], objectpose = Transform_default R, localaabb = AABB_default R,
     sensorTimeStampUS = 0 \<rparr>"

text \<open>\<^verbatim>\<open>v[key]\<close>, and the elements \<^verbatim>\<open>v[0]\<close> to \<^verbatim>\<open>v[n-1]\<close> loaded one by one into \<open>ts\<close>, which has length
  \<open>n\<close>; what rapidjson asserts is checked.\<close>

definition at_key :: "'d json \<Rightarrow> string \<Rightarrow> 'd json result" where
  "at_key v key =
     (if IsObject v then (case FindMember v key of Some x \<Rightarrow> Inr x | None \<Rightarrow> Inl rapidjson_assertion)
      else Inl rapidjson_assertion)"

fun load_indices :: "('d, 'a) loader \<Rightarrow> 'd json list \<Rightarrow> 'a list \<Rightarrow> 'a list result" where
  "load_indices load vs [] = Inr []"
| "load_indices load [] (t # ts) = Inl rapidjson_assertion"
| "load_indices load (v # vs) (t # ts) =
     bindR (load v t) (\<lambda>x. bindR (load_indices load vs ts) (\<lambda>xs. Inr (x # xs)))"

definition LoadAABBFromJsonValue :: "'d lib \<Rightarrow> 'd json \<Rightarrow> 'd AABB \<Rightarrow> 'd AABB result" where
  "LoadAABBFromJsonValue lib rAABB aabb =
     bindR (check_assert (IsObject rAABB) ''rAABB.IsObject()'') (\<lambda>_.
     bindR (check_assert (HasMember rAABB ''pos'') ''rAABB.HasMember(pos)'') (\<lambda>_.
     bindR (check_assert (HasMember rAABB ''extents'') ''rAABB.HasMember(extents)'') (\<lambda>_.
     bindR (at_key rAABB ''pos'') (\<lambda>rPos.
     bindR (check_assert (IsArray rPos) ''rPos.IsArray()'') (\<lambda>_.
     bindR (load_indices (LoadJsonDouble lib) (elements rPos) (pos aabb)) (\<lambda>p.
     bindR (at_key rAABB ''extents'') (\<lambda>rExtents.
     bindR (check_assert (IsArray rExtents) ''rExtents.IsArray()'') (\<lambda>_.
     bindR (load_indices (LoadJsonDouble lib) (elements rExtents) (extents aabb)) (\<lambda>e.
     Inr \<lparr> pos = p, extents = e \<rparr>)))))))))"

definition load_pose :: "'d lib \<Rightarrow> 'd json \<Rightarrow> 'd Transform \<Rightarrow> 'd Transform result" where
  "load_pose lib rObjectPose t =
     (if IsArray rObjectPose \<and> length (elements rObjectPose) = 7 then
        bindR (load_indices (LoadJsonDouble lib) (elements rObjectPose) (quaternion t @ translate t)) (\<lambda>xs.
        Inr \<lparr> quaternion = take 4 xs, translate = drop 4 xs \<rparr>)
      else Inr t)"

definition PickPlaceHistoryItem_LoadFromJson ::
  "'d lib \<Rightarrow> 'd json \<Rightarrow> 'd PickPlaceHistoryItem \<Rightarrow> 'd PickPlaceHistoryItem result" where
  "PickPlaceHistoryItem_LoadFromJson lib rItem t =
     bindR (load_field (LoadJsonString lib) rItem ''pickPlaceType'' pickPlaceType (\<lambda>x. pickPlaceType_update (\<lambda>_. x)) t) (\<lambda>t.
     bindR (load_field (LoadJsonString lib) rItem ''locationName'' locationName (\<lambda>x. locationName_update (\<lambda>_. x)) t) (\<lambda>t.
     bindR (load_field (LoadJsonString lib) rItem ''containerName'' containerName (\<lambda>x. containerName_update (\<lambda>_. x)) t) (\<lambda>t.
     bindR (load_field (LoadJsonULongLong lib) rItem ''eventTimeStampUS'' eventTimeStampUS (\<lambda>x. eventTimeStampUS_update (\<lambda>_. x)) t) (\<lambda>t.
     bindR (load_field (LoadJsonString lib) rItem ''object_uri'' object_uri (\<lambda>x. object_uri_update (\<lambda>_. x)) t) (\<lambda>t.
     bindR (case FindMember rItem ''objectpose'' of
              Some rObjectPose \<Rightarrow> bindR (load_pose lib rObjectPose (objectpose t)) (\<lambda>p. Inr (t \<lparr> objectpose := p \<rparr>))
            | None \<Rightarrow> Inr t) (\<lambda>t.
     bindR (case FindMember rItem ''localaabb'' of
              Some rLocalAABB \<Rightarrow> bindR (LoadAABBFromJsonValue lib rLocalAABB (localaabb t)) (\<lambda>a. Inr (t \<lparr> localaabb := a \<rparr>))
            | None \<Rightarrow> Inr t) (\<lambda>t.
     load_field (LoadJsonULongLong lib) rItem ''sensorTimeStampUS'' sensorTimeStampUS (\<lambda>x. sensorTimeStampUS_update (\<lambda>_. x)) t)))))))"

text \<open>\<^verbatim>\<open>AddMember\<close> does not look for a member of the same name.\<close>

definition add_member :: "string \<Rightarrow> 'd json \<Rightarrow> 'd json \<Rightarrow> 'd json result" where
  "add_member name x v = (if IsObject v then Inr (JObject (members v @ [(name, x)])) else Inl rapidjson_assertion)"

definition PickPlaceHistoryItem_SaveToJson :: "'d PickPlaceHistoryItem \<Rightarrow> 'd json result" where
  "PickPlaceHistoryItem_SaveToJson t =
     bindR (SetJsonValueByKey SaveJsonString (JObject []) ''pickPlaceType'' (pickPlaceType t)) (\<lambda>v.
     bindR (SetJsonValueByKey SaveJsonString v ''locationName'' (locationName t)) (\<lambda>v.
     bindR (SetJsonValueByKey SaveJsonString v ''containerName'' (containerName t)) (\<lambda>v.
     bindR (SetJsonValueByKey SaveJsonULongLong v ''eventTimeStampUS'' (eventTimeStampUS t)) (\<lambda>v.
     bindR (SetJsonValueByKey SaveJsonString v ''object_uri'' (object_uri t)) (\<lambda>v.
     bindR (SetJsonValueByKey (SaveJsonArray SaveJsonDouble) v ''objectpose''
       (quaternion (objectpose t) @ translate (objectpose t))) (\<lambda>v.
     bindR (SetJsonValueByKey (SaveJsonArray SaveJsonDouble) (JObject []) ''pos'' (pos (localaabb t))) (\<lambda>b.
     bindR (SetJsonValueByKey (SaveJsonArray SaveJsonDouble) b ''extents'' (extents (localaabb t))) (\<lambda>b.
     bindR (add_member ''localaabb'' b v) (\<lambda>v.
     SetJsonValueByKey SaveJsonULongLong v ''sensorTimeStampUS'' (sensorTimeStampUS t))))))))))"

section \<open>Names of modes\<close>

datatype ExecutionVerificationMode =
    EVM_Never | EVM_LastDetection | EVM_PointCloudOnChange | EVM_PointCloudAlways
  | EVM_PointCloudOnChangeWithDuration | EVM_PointCloudOnChangeFirstCycleOnly
  | EVM_PointCloudOnChangeAfterGrab | EVM_PointCloudWaitForTrigger

fun GetExecutionVerificationModeString :: "ExecutionVerificationMode \<Rightarrow> string" where
  "GetExecutionVerificationModeString EVM_Never = ''never''"
| "GetExecutionVerificationModeString EVM_LastDetection = ''lastDetection''"
| "GetExecutionVerificationModeString EVM_PointCloudOnChange = ''pointCloudOnChange''"
| "GetExecutionVerificationModeString EVM_PointCloudAlways = ''pointCloudAlways''"
| "GetExecutionVerificationModeString EVM_PointCloudOnChangeWithDuration = ''pointCloudOnChangeWithDuration''"
| "GetExecutionVerificationModeString EVM_PointCloudOnChangeFirstCycleOnly = ''pointCloudOnChangeFirstCycleOnly''"
| "GetExecutionVerificationModeString EVM_PointCloudOnChangeAfterGrab = ''pointCloudOnChangeAfterGrab''"
| "GetExecutionVerificationModeString EVM_PointCloudWaitForTrigger = ''pointCloudWaitForTrigger''"

definition cannot_parse_mode :: "string \<Rightarrow> error" where
  "cannot_parse_mode s =
     MujinException (''Failed to parse '' @ [CHR 0x27] @ s @ [CHR 0x27] @ '' as ExecutionVerificationMode'') MEC_InvalidArguments"

text \<open>A null pointer is \<open>None\<close>.\<close>

definition GetExecutionVerificationModeFromString ::
  "string option \<Rightarrow> ExecutionVerificationMode \<Rightarrow> ExecutionVerificationMode result" where
  "GetExecutionVerificationModeFromString pModeStr defaultMode =
     (case pModeStr of
        None \<Rightarrow> Inr defaultMode
      | Some s \<Rightarrow>
          if s = '''' then Inr defaultMode
          else if s = ''never'' then Inr EVM_Never
          else if s = ''lastDetection'' then Inr EVM_LastDetection
          else if s = ''pointCloudOnChange'' then Inr EVM_PointCloudOnChange
          else if s = ''pointCloudAlways'' then Inr EVM_PointCloudAlways
          else if s = ''pointCloudOnChangeWithDuration'' then Inr EVM_PointCloudOnChangeWithDuration
          else if s = ''pointCloudOnChangeFirstCycleOnly'' then Inr EVM_PointCloudOnChangeFirstCycleOnly
          else if s = ''pointCloudOnChangeAfterGrab'' then Inr EVM_PointCloudOnChangeAfterGrab
          else if s = ''pointCloudWaitForTrigger'' then Inr EVM_PointCloudWaitForTrigger
          else Inl (cannot_parse_mode s))"

datatype MinViableRegionRegistrationMode = MVRRM_None | MVRRM_Lift | MVRRM_Drag | MVRRM_PerpendicularDrag

fun GetMinViableRegionRegistrationModeString :: "MinViableRegionRegistrationMode \<Rightarrow> string" where
  "GetMinViableRegionRegistrationModeString MVRRM_None = ''None''"
| "GetMinViableRegionRegistrationModeString MVRRM_Lift = ''Lift''"
| "GetMinViableRegionRegistrationModeString MVRRM_Drag = ''Drag''"
| "GetMinViableRegionRegistrationModeString MVRRM_PerpendicularDrag = ''PerpendicularDrag''"

definition GetMinViableRegionRegistrationModeFromString ::
  "string option \<Rightarrow> MinViableRegionRegistrationMode \<Rightarrow> MinViableRegionRegistrationMode result" where
  "GetMinViableRegionRegistrationModeFromString pModeStr defaultMode =
     (case pModeStr of
        None \<Rightarrow> Inl (UndefinedBehaviour ''null pointer'')
      | Some s \<Rightarrow>
          if s = '''' then Inr defaultMode
          else if s = ''None'' then Inr MVRRM_None
          else if s = ''Lift'' then Inr MVRRM_Lift
          else if s = ''Drag'' then Inr MVRRM_Drag
          else if s = ''PerpendicularDrag'' then Inr MVRRM_PerpendicularDrag
          else Inl (cannot_parse_mode s))"

section \<open>Properties\<close>

definition well_formed_item :: "'d PickPlaceHistoryItem \<Rightarrow> bool" where
  "well_formed_item t \<longleftrightarrow> length (quaternion (objectpose t)) = 4 \<and> length (translate (objectpose t)) = 3 \<and>
     length (pos (localaabb t)) = 3 \<and> length (extents (localaabb t)) = 3"

lemma load_indices_save:
  "(\<And>x t. load (save x) t = Inr x) \<Longrightarrow> length ts = length xs \<Longrightarrow> load_indices load (map save xs) ts = Inr xs"
proof (induction xs arbitrary: ts)
  case (Cons x xs)
  then show ?case by (cases ts) simp_all
qed simp

lemma load_doubles: "length ts = length xs \<Longrightarrow> load_indices (LoadJsonDouble lib) (map SaveJsonDouble xs) ts = Inr xs"
  by (rule load_indices_save) (simp_all add: double_codec.load_save)

definition nat_reals :: "nat reals" where
  "nat_reals = \<lparr> r_add = (+), r_sub = (-), r_mul = (*), r_div = (div), r_sqrt = id, r_fabs = id, r_less = (<),
     r_lit = (\<lambda>q. if q = 1 then 1 else 0), r_eq = (=), r_isnan = (\<lambda>_. False), r_uint64 = (\<lambda>n. Some (of_nat n)) \<rparr>"

definition sample_item :: "nat PickPlaceHistoryItem" where
  "sample_item = \<lparr> pickPlaceType = ''picked'', locationName = ''a'', containerName = [], eventTimeStampUS = 1,
     object_uri = ''mujin:/x'', objectpose = Transform_default nat_reals,
     localaabb = \<lparr> pos = [1, 2, 3], extents = [4, 5, 6] \<rparr>, sensorTimeStampUS = 2 \<rparr>"

definition plain :: "string \<Rightarrow> bool" where
  "plain s \<longleftrightarrow> CHR 0x00 \<notin> set s"

text \<open>C30: A saved item is loaded back, into any item.\<close>

theorem PickPlaceHistoryItem_roundtrip:
  assumes "well_formed_item t" and "well_formed_item old"
    and "list_all plain [pickPlaceType t, locationName t, containerName t, object_uri t]"
  shows "\<exists>v. PickPlaceHistoryItem_SaveToJson t = Inr v \<and> PickPlaceHistoryItem_LoadFromJson lib v old = Inr t"
proof -
  let ?v = "JObject [(''pickPlaceType'', JString (pickPlaceType t)), (''locationName'', JString (locationName t)),
     (''containerName'', JString (containerName t)), (''eventTimeStampUS'', JInt (uint (eventTimeStampUS t))),
     (''object_uri'', JString (object_uri t)),
     (''objectpose'', JArray (map SaveJsonDouble (quaternion (objectpose t) @ translate (objectpose t)))),
     (''localaabb'', JObject [(''pos'', JArray (map SaveJsonDouble (pos (localaabb t)))),
        (''extents'', JArray (map SaveJsonDouble (extents (localaabb t))))]),
     (''sensorTimeStampUS'', JInt (uint (sensorTimeStampUS t)))]"
  have c: "c_str (pickPlaceType t) = pickPlaceType t" "c_str (locationName t) = locationName t"
    "c_str (containerName t) = containerName t" "c_str (object_uri t) = object_uri t"
    using assms(3) by (simp_all add: plain_def)
  have save: "PickPlaceHistoryItem_SaveToJson t = Inr ?v"
    unfolding PickPlaceHistoryItem_SaveToJson_def
    by (simp add: SetJsonValueByKey_def set_member_def HasMember_def FindMember_def SaveJsonString_def SaveJsonCString_def
        SaveJsonULongLong_def SaveJsonArray_def add_member_def c)
  have u: "LoadJsonULongLong lib (JInt (uint w)) x = Inr w" for w x
    by (simp add: LoadJsonULongLong_def IsUint64_def uint_range)
  have pose: "load_pose lib (JArray (map SaveJsonDouble (quaternion (objectpose t) @ translate (objectpose t)))) p = Inr (objectpose t)"
    if "length (quaternion p) = 4" "length (translate p) = 3" for p
    using assms(1) that load_doubles [of "quaternion p @ translate p" "quaternion (objectpose t) @ translate (objectpose t)" lib]
    by (simp add: load_pose_def well_formed_item_def)
  have "PickPlaceHistoryItem_LoadFromJson lib ?v old = Inr t"
    using assms(1,2) unfolding PickPlaceHistoryItem_LoadFromJson_def
    by (simp add: load_field_def LoadJsonValueByKey_def FindMember_def LoadJsonString_def parsing_value_of_def u pose [unfolded map_append]
      LoadAABBFromJsonValue_def at_key_def HasMember_def check_assert_def load_doubles well_formed_item_def)
  with save show ?thesis by blast
qed

lemma PickPlaceHistoryItem_roundtrip_witness:
  "\<exists>v. PickPlaceHistoryItem_SaveToJson sample_item = Inr v \<and>
     PickPlaceHistoryItem_LoadFromJson sample_lib v (PickPlaceHistoryItem_Reset nat_reals) = Inr sample_item"
  by (rule PickPlaceHistoryItem_roundtrip)
    (simp_all add: sample_item_def well_formed_item_def plain_def PickPlaceHistoryItem_Reset_def Transform_default_def AABB_default_def)

definition all_execution_modes :: "ExecutionVerificationMode list" where
  "all_execution_modes = [EVM_Never, EVM_LastDetection, EVM_PointCloudOnChange, EVM_PointCloudAlways,
     EVM_PointCloudOnChangeWithDuration, EVM_PointCloudOnChangeFirstCycleOnly, EVM_PointCloudOnChangeAfterGrab,
     EVM_PointCloudWaitForTrigger]"

lemma all_execution_modes: "m \<in> set all_execution_modes"
  by (cases m) (simp_all add: all_execution_modes_def)

text \<open>Reading the name of an execution verification mode is the search, among all modes, for the one
  that is printed so: a printed mode is read back, no two names are confused, the empty name and the null
  pointer give the default, and every other name is refused.\<close>

lemma ExecutionVerificationMode_names:
  "(GetExecutionVerificationModeFromString p d =
     (case p of None \<Rightarrow> Inr d
      | Some s \<Rightarrow> if s = [] then Inr d
          else case find (\<lambda>m. GetExecutionVerificationModeString m = s) all_execution_modes of
                 Some m \<Rightarrow> Inr m | None \<Rightarrow> Inl (cannot_parse_mode s))) \<and>
   GetExecutionVerificationModeFromString (Some (GetExecutionVerificationModeString m)) d = Inr m"
  (is "?names \<and> ?inverse")
proof
  show ?names
    by (cases p) (simp_all add: GetExecutionVerificationModeFromString_def all_execution_modes_def eq_commute)
  show ?inverse by (cases m) (simp_all add: GetExecutionVerificationModeFromString_def)
qed

end
