(* ===== verification/Resources.thy ===== *)
theory Resources
  imports ControllerClient Definitions
begin

text \<open>
  The resources of the controller that describe objects and robots
  (\<^verbatim>\<open>src/mujincontrollerclient.cpp\<close>): links, geometries, inverse kinematics parameters, tools
  and attached sensors. Each class is a record of the members it has; its methods are
  requests of the theory ControllerClient. A method that changes a member returns the object. What an
  output argument holds after an exception is left out.
\<close>

section \<open>Web resources\<close>

record WebResource =
  resourcename :: string
  primary_key :: string

definition check_pk :: "string \<Rightarrow> unit result" where
  "check_pk pk = check_assert (length pk > 0) ''__pk.size()>0''"

text \<open>The address of a resource.\<close>

definition resource_path :: "'x WebResource_scheme \<Rightarrow> string" where
  "resource_path r = resourcename r @ ''/'' @ primary_key r @ ''/''"

definition GetWrap :: "'d http_env \<Rightarrow> 'x WebResource_scheme \<Rightarrow> string \<Rightarrow> rat \<Rightarrow> ('d, 'd json) http" where
  "GetWrap env r field timeout =
     bindM (CallGet env (resource_path r @ ''?format=json&fields='' @ field) (JObject []) 200 timeout) (\<lambda>(_, pt). ret pt)"

text \<open>The template \<^verbatim>\<open>Get<T>\<close>.\<close>

definition Get_field ::
  "'d http_env \<Rightarrow> 'a \<Rightarrow> ('d, 'a) loader \<Rightarrow> 'x WebResource_scheme \<Rightarrow> string \<Rightarrow> rat \<Rightarrow> ('d, 'a) http" where
  "Get_field env dflt load r field timeout =
     bindM (GetWrap env r field timeout) (\<lambda>pt. liftR (GetJsonValueByKey dflt load pt (c_str field)))"

definition Set_field :: "'x WebResource_scheme \<Rightarrow> string \<Rightarrow> string \<Rightarrow> rat \<Rightarrow> ('d, unit) http" where
  "Set_field r field newvalue timeout = throw (MujinException ''not implemented'' MEC_Failed)"

definition SetJSON :: "'d http_env \<Rightarrow> 'x WebResource_scheme \<Rightarrow> string \<Rightarrow> rat \<Rightarrow> ('d, unit) http" where
  "SetJSON env r json timeout =
     bindM (CallPutJSON env (resource_path r @ ''?format=json'') json 202 timeout) (\<lambda>_. ret ())"

definition Delete_resource :: "'d http_env \<Rightarrow> 'x WebResource_scheme \<Rightarrow> rat \<Rightarrow> ('d, unit) http" where
  "Delete_resource env r timeout = CallDelete env (resource_path r) 204 timeout"

definition Copy_resource :: "'x WebResource_scheme \<Rightarrow> string \<Rightarrow> nat \<Rightarrow> rat \<Rightarrow> ('d, unit) http" where
  "Copy_resource r newname options timeout = throw (MujinException ''not implemented yet'' MEC_Failed)"

section \<open>Reading replies\<close>

text \<open>Numbers, and the loops over an array. rapidjson asserts the member and the array.\<close>

abbreviation number :: "'d http_env \<Rightarrow> int \<Rightarrow> 'd" where
  "number env \<equiv> double_of_int (json_lib env)"

abbreviation str_at :: "'d http_env \<Rightarrow> ('d, string) loader" where
  "str_at env \<equiv> LoadJsonString (json_lib env)"

abbreviation real_at :: "'d http_env \<Rightarrow> ('d, 'd) loader" where
  "real_at env \<equiv> LoadJsonDouble (json_lib env)"

abbreviation reals_at :: "'d http_env \<Rightarrow> ('d, 'd list) loader" where
  "reals_at env \<equiv> LoadJsonCArray (real_at env)"

definition identity_quaternion :: "'d http_env \<Rightarrow> 'd list" where
  "identity_quaternion env = [number env 1, number env 0, number env 0, number env 0]"

definition zeros :: "'d http_env \<Rightarrow> nat \<Rightarrow> 'd list" where
  "zeros env n = replicate n (number env 0)"

definition array_elements :: "'d json \<Rightarrow> 'd json list result" where
  "array_elements v = (if IsArray v then Inr (elements v) else Inl rapidjson_assertion)"

definition elements_at :: "'d json \<Rightarrow> string \<Rightarrow> 'd json list result" where
  "elements_at v key = bindR (at_key v key) array_elements"

definition has_member :: "'d json \<Rightarrow> string \<Rightarrow> bool result" where
  "has_member v key =
     (if IsObject v then Inr (HasMember v key) else Inl rapidjson_assertion)"

text \<open>\<^verbatim>\<open>v.IsObject() && v.HasMember(key) && v[key].IsArray()\<close>, and then the elements.\<close>

definition array_member :: "'d json \<Rightarrow> string \<Rightarrow> 'd json list option" where
  "array_member v key =
     (if IsObject v then
        (case FindMember v key of Some (JArray objects) \<Rightarrow> Some objects | _ \<Rightarrow> None)
      else None)"

definition get_json :: "'d http_env \<Rightarrow> string \<Rightarrow> ('d, 'd json) http" where
  "get_json env relativeuri = bindM (CallGet env relativeuri (JObject []) 200 5) (\<lambda>(_, pt). ret pt)"

section \<open>Geometries\<close>

record 'd GeometryResource = WebResource +
  geo_name :: string
  geo_pk :: string
  geo_objectpk :: string
  geo_linkpk :: string
  geo_geomtype :: string
  geo_quaternion :: "'d list"
  geo_translate :: "'d list"
  geo_visible :: bool
  geo_diffusecolor :: "'d list"
  geo_transparency :: 'd
  geo_half_extents :: "'d list"
  geo_height :: 'd
  geo_radius :: 'd
  geo_topRadius :: 'd
  geo_bottomRadius :: 'd

definition GeometryResource_new :: "'d http_env \<Rightarrow> string \<Rightarrow> string \<Rightarrow> 'd GeometryResource result" where
  "GeometryResource_new env objectpk pk =
     bindR (check_pk pk) (\<lambda>_.
     Inr \<lparr> resourcename = ''object/'' @ objectpk @ ''/geometry'', primary_key = pk,
       geo_name = [], geo_pk = pk, geo_objectpk = objectpk, geo_linkpk = [], geo_geomtype = [],
       geo_quaternion = identity_quaternion env, geo_translate = zeros env 3, geo_visible = True,
       geo_diffusecolor = zeros env 4, geo_transparency = number env 0, geo_half_extents = zeros env 3,
       geo_height = number env 0, geo_radius = number env 0, geo_topRadius = number env 0, geo_bottomRadius = number env 0 \<rparr>)"

text \<open>The primitive, the indices of the vertices of each face, and the vertices.\<close>

definition GetMesh ::
  "'d http_env \<Rightarrow> 'd GeometryResource \<Rightarrow> string \<times> 32 word list list \<times> 'd list list \<Rightarrow>
   ('d, string \<times> 32 word list list \<times> 'd list list) http" where
  "GetMesh env g mesh =
     bindM (get_json env (resource_path g @ ''?format=json&limit=0&mesh=true'')) (\<lambda>pt.
     liftR (
       bindR (at_key pt ''mesh'') (\<lambda>objects.
       case mesh of (primitive, indices, vertices) \<Rightarrow>
       bindR (LoadJsonValueByKey (str_at env) objects ''primitive'' primitive) (\<lambda>(_, primitive).
       bindR (LoadJsonValueByKey (LoadJsonVector [] (LoadJsonVector 0 (LoadJsonInt (json_lib env)))) objects ''indices'' indices)
         (\<lambda>(_, indices).
       bindR (LoadJsonValueByKey (LoadJsonVector [] (LoadJsonVector (number env 0) (real_at env))) objects ''vertices'' vertices)
         (\<lambda>(_, vertices).
       Inr (primitive, indices, vertices)))))))"

definition SetGeometryFromRawSTL ::
  "'d http_env \<Rightarrow> 'd GeometryResource \<Rightarrow> string \<Rightarrow> string \<Rightarrow> rat \<Rightarrow> ('d, unit) http" where
  "SetGeometryFromRawSTL env g rawstldata unit_name timeout =
     (if geo_geomtype g \<noteq> ''mesh'' then
        throw (MujinException (''geomtype is not mesh: '' @ geo_geomtype g) MEC_InvalidArguments)
      else bindM (SetObjectGeometryMesh env (geo_objectpk g) (geo_pk g) rawstldata unit_name timeout) (\<lambda>_. ret ()))"

text \<open>The members that both loops over the geometries of an object read.\<close>

definition load_geometry :: "'d http_env \<Rightarrow> 'd json \<Rightarrow> 'd GeometryResource \<Rightarrow> 'd GeometryResource result" where
  "load_geometry env v g =
     bindR (load_field (LoadJsonBool (json_lib env)) v ''visible'' geo_visible (\<lambda>x. geo_visible_update (\<lambda>_. x)) g) (\<lambda>g.
     bindR (load_field (str_at env) v ''geomtype'' geo_geomtype (\<lambda>x. geo_geomtype_update (\<lambda>_. x)) g) (\<lambda>g.
     bindR (load_field (real_at env) v ''transparency'' geo_transparency (\<lambda>x. geo_transparency_update (\<lambda>_. x)) g) (\<lambda>g.
     bindR (load_field (reals_at env) v ''quaternion'' geo_quaternion (\<lambda>x. geo_quaternion_update (\<lambda>_. x)) g) (\<lambda>g.
     bindR (load_field (reals_at env) v ''translate'' geo_translate (\<lambda>x. geo_translate_update (\<lambda>_. x)) g) (\<lambda>g.
     bindR (load_field (reals_at env) v ''diffusecolor'' geo_diffusecolor (\<lambda>x. geo_diffusecolor_update (\<lambda>_. x)) g) (\<lambda>g.
     bindR (load_field (reals_at env) v ''half_extents'' geo_half_extents (\<lambda>x. geo_half_extents_update (\<lambda>_. x)) g) (\<lambda>g.
     bindR (load_field (real_at env) v ''height'' geo_height (\<lambda>x. geo_height_update (\<lambda>_. x)) g) (\<lambda>g.
     bindR (load_field (real_at env) v ''radius'' geo_radius (\<lambda>x. geo_radius_update (\<lambda>_. x)) g) (\<lambda>g.
     bindR (load_field (real_at env) v ''topRadius'' geo_topRadius (\<lambda>x. geo_topRadius_update (\<lambda>_. x)) g) (\<lambda>g.
     load_field (real_at env) v ''bottomRadius'' geo_bottomRadius (\<lambda>x. geo_bottomRadius_update (\<lambda>_. x)) g))))))))))"

definition Geometry_SetVisible ::
  "'d http_env \<Rightarrow> 'd GeometryResource \<Rightarrow> bool \<Rightarrow> ('d, 'd GeometryResource) http" where
  "Geometry_SetVisible env g isVisible =
     bindM (liftR (GetJsonStringByKey (json_lib env) SaveJsonBool ''visible'' isVisible)) (\<lambda>json.
     bindM (SetJSON env g json 5) (\<lambda>_. ret (g \<lparr> geo_visible := isVisible \<rparr>)))"

definition Geometry_GetVisible :: "'d GeometryResource \<Rightarrow> int" where
  "Geometry_GetVisible g = of_bool (geo_visible g)"

section \<open>Links\<close>

record 'd LinkResource = WebResource +
  link_attachmentpks :: "string list"
  link_name :: string
  link_pk :: string
  link_objectpk :: string
  link_parentlinkpk :: string
  link_quaternion :: "'d list"
  link_translate :: "'d list"
  link_collision :: bool

definition LinkResource_new :: "'d http_env \<Rightarrow> string \<Rightarrow> string \<Rightarrow> 'd LinkResource result" where
  "LinkResource_new env objectpk pk =
     bindR (check_pk pk) (\<lambda>_.
     Inr \<lparr> resourcename = ''object/'' @ objectpk @ ''/link'', primary_key = pk,
       link_attachmentpks = [], link_name = [], link_pk = pk, link_objectpk = objectpk, link_parentlinkpk = [],
       link_quaternion = identity_quaternion env, link_translate = zeros env 3, link_collision = True \<rparr>)"

definition AddPrimitiveGeometry ::
  "'d http_env \<Rightarrow> 'd LinkResource \<Rightarrow> string \<Rightarrow> string \<Rightarrow> rat \<Rightarrow> ('d, 'd GeometryResource) http" where
  "AddPrimitiveGeometry env l geomname geomtype timeout =
     bindM (CreateObjectGeometry env (link_objectpk l) geomname (primary_key l) geomtype timeout) (\<lambda>geometryPk.
     bindM (liftR (GeometryResource_new env (link_objectpk l) geometryPk)) (\<lambda>geometry.
     ret (geometry \<lparr> geo_name := geomname, geo_geomtype := geomtype, geo_linkpk := primary_key l \<rparr>)))"

definition AddGeometryFromRawSTL ::
  "'d http_env \<Rightarrow> 'd LinkResource \<Rightarrow> string \<Rightarrow> string \<Rightarrow> string \<Rightarrow> rat \<Rightarrow> ('d, 'd GeometryResource) http" where
  "AddGeometryFromRawSTL env l rawstldata geomname unit_name timeout =
     bindM (CreateObjectGeometry env (link_objectpk l) geomname (primary_key l) ''mesh'' timeout) (\<lambda>geometryPk.
     bindM (liftR (GeometryResource_new env (link_objectpk l) geometryPk)) (\<lambda>geometry.
     let geometry = geometry \<lparr> geo_name := geomname, geo_geomtype := ''mesh'', geo_linkpk := primary_key l \<rparr> in
     bindM (SetGeometryFromRawSTL env geometry rawstldata unit_name timeout) (\<lambda>_. ret geometry)))"

definition geometries_uri :: "'d LinkResource \<Rightarrow> string" where
  "geometries_uri l = ''object/'' @ link_objectpk l @ ''/geometry/?format=json&limit=0&fields=geometries''"

text \<open>\<^verbatim>\<open>(*it)["linkpk"].GetString() == this->pk\<close>.\<close>

definition linkpk_is :: "'d json \<Rightarrow> string \<Rightarrow> bool result" where
  "linkpk_is v pk =
     bindR (at_key v ''linkpk'') (\<lambda>x.
       if IsString x then Inr (c_str (GetString x) = pk) else Inl rapidjson_assertion)"

fun find_geometry ::
  "'d http_env \<Rightarrow> 'd LinkResource \<Rightarrow> string \<Rightarrow> 'd json list \<Rightarrow> 'd GeometryResource result" where
  "find_geometry env l geometryName [] =
     Inl (MujinException (''link '' @ link_name l @ '' does not have geometry named '' @ geometryName) MEC_InvalidArguments)"
| "find_geometry env l geometryName (v # vs) =
     bindR (has_member v ''name'') (\<lambda>named.
     bindR (key_string env v (if named then ''name'' else ''pk'')) (\<lambda>geomname.
     bindR (if geomname = geometryName then linkpk_is v (link_pk l) else Inr False) (\<lambda>found.
     if found then
       bindR (key_string env v ''pk'') (\<lambda>pk.
       bindR (GeometryResource_new env (link_objectpk l) pk) (\<lambda>geometry.
       bindR (load_field (str_at env) v ''linkpk'' geo_linkpk (\<lambda>x. geo_linkpk_update (\<lambda>_. x))
         (geometry \<lparr> geo_name := geomname \<rparr>)) (load_geometry env v)))
     else find_geometry env l geometryName vs)))"

definition GetGeometryFromName ::
  "'d http_env \<Rightarrow> 'd LinkResource \<Rightarrow> string \<Rightarrow> ('d, 'd GeometryResource) http" where
  "GetGeometryFromName env l geometryName =
     bindM (get_json env (geometries_uri l)) (\<lambda>pt.
     liftR (find_geometry env l geometryName (case array_member pt ''geometries'' of Some objects \<Rightarrow> objects | None \<Rightarrow> [])))"

fun load_geometries :: "'d http_env \<Rightarrow> 'd LinkResource \<Rightarrow> 'd json list \<Rightarrow> 'd GeometryResource list result" where
  "load_geometries env l [] = Inr []"
| "load_geometries env l (v # vs) =
     bindR (key_string env v ''linkpk'') (\<lambda>linkpk.
     if linkpk = link_pk l then
       bindR (key_string env v ''pk'') (\<lambda>pk.
       bindR (GeometryResource_new env (link_objectpk l) pk) (\<lambda>geometry.
       bindR (LoadJsonValueByKey_default (str_at env) v ''name'' [] (geo_pk geometry)) (\<lambda>name.
       bindR (load_geometry env v (geometry \<lparr> geo_linkpk := linkpk, geo_name := name \<rparr>)) (\<lambda>geometry.
       bindR (load_geometries env l vs) (\<lambda>geometries. Inr (geometry # geometries))))))
     else load_geometries env l vs)"

text \<open>The list of the caller is kept when the reply has no geometries.\<close>

definition GetGeometries ::
  "'d http_env \<Rightarrow> 'd LinkResource \<Rightarrow> 'd GeometryResource list \<Rightarrow> ('d, 'd GeometryResource list) http" where
  "GetGeometries env l geometries =
     bindM (get_json env (geometries_uri l)) (\<lambda>pt.
     case array_member pt ''geometries'' of
       Some objects \<Rightarrow> liftR (load_geometries env l objects)
     | None \<Rightarrow> ret geometries)"

definition Link_SetCollision :: "'d http_env \<Rightarrow> 'd LinkResource \<Rightarrow> bool \<Rightarrow> ('d, 'd LinkResource) http" where
  "Link_SetCollision env l hasCollision =
     bindM (liftR (GetJsonStringByKey (json_lib env) SaveJsonBool ''collision'' hasCollision)) (\<lambda>json.
     bindM (SetJSON env l json 5) (\<lambda>_. ret (l \<lparr> link_collision := hasCollision \<rparr>)))"

definition Link_GetCollision :: "'d LinkResource \<Rightarrow> int" where
  "Link_GetCollision l = of_bool (link_collision l)"

definition Link_SetVisible :: "'d http_env \<Rightarrow> 'd LinkResource \<Rightarrow> bool \<Rightarrow> ('d, unit) http" where
  "Link_SetVisible env l isVisible =
     bindM (GetGeometries env l []) (mapMs (\<lambda>g. bindM (Geometry_SetVisible env g isVisible) (\<lambda>_. ret ())))"

text \<open>The loop \<^verbatim>\<open>ret |= value + 1\<close>, and \<^verbatim>\<open>return ret - 1\<close>.\<close>

fun or_loop :: "('a \<Rightarrow> ('d, int) http) \<Rightarrow> 'a list \<Rightarrow> int \<Rightarrow> ('d, int) http" where
  "or_loop f [] r = ret (r - 1)"
| "or_loop f (x # xs) r = bindM (f x) (\<lambda>v. or_loop f xs (or r (v + 1)))"

definition Link_GetVisible :: "'d http_env \<Rightarrow> 'd LinkResource \<Rightarrow> ('d, int) http" where
  "Link_GetVisible env l =
     bindM (GetGeometries env l []) (\<lambda>geometries. or_loop (\<lambda>g. ret (Geometry_GetVisible g)) geometries 0)"

definition AddChildLink ::
  "'d http_env \<Rightarrow> 'd LinkResource \<Rightarrow> string \<Rightarrow> 'd \<times> 'd \<times> 'd \<times> 'd \<Rightarrow> 'd \<times> 'd \<times> 'd \<Rightarrow> ('d, 'd LinkResource) http" where
  "AddChildLink env l objname quat transl =
     bindM (CreateLink env (link_objectpk l) (link_pk l) objname quat transl 5) (\<lambda>linkPk.
     bindM (liftR (LinkResource_new env (link_objectpk l) linkPk)) (\<lambda>link.
     ret (link \<lparr> link_name := objname, link_parentlinkpk := link_pk l \<rparr>)))"

section \<open>Objects\<close>

record 'd ObjectResource = WebResource +
  obj_name :: string
  obj_nundof :: "32 word"
  obj_datemodified :: string
  obj_geometry :: string
  obj_isrobot :: bool
  obj_pk :: string
  obj_resource_uri :: string
  obj_scenepk :: string
  obj_unit :: string
  obj_uri :: string
  obj_quaternion :: "'d list"
  obj_translate :: "'d list"

text \<open>The protected constructor, with the name of the resource.\<close>

definition ObjectResource_named :: "'d http_env \<Rightarrow> string \<Rightarrow> string \<Rightarrow> 'd ObjectResource result" where
  "ObjectResource_named env name pk =
     bindR (check_pk pk) (\<lambda>_.
     Inr \<lparr> resourcename = name, primary_key = pk, obj_name = [], obj_nundof = 0, obj_datemodified = [],
       obj_geometry = [], obj_isrobot = False, obj_pk = pk, obj_resource_uri = [], obj_scenepk = [], obj_unit = [],
       obj_uri = [], obj_quaternion = identity_quaternion env, obj_translate = zeros env 3 \<rparr>)"

definition ObjectResource_new :: "'d http_env \<Rightarrow> string \<Rightarrow> 'd ObjectResource result" where
  "ObjectResource_new env pk = ObjectResource_named env ''object'' pk"

definition load_link :: "'d http_env \<Rightarrow> string \<Rightarrow> 'd json \<Rightarrow> 'd LinkResource result" where
  "load_link env objectpk v =
     bindR (key_string env v ''pk'') (\<lambda>pk.
     bindR (LinkResource_new env objectpk pk) (\<lambda>l.
     bindR (load_field (str_at env) v ''parentlinkpk'' link_parentlinkpk (\<lambda>x. link_parentlinkpk_update (\<lambda>_. x)) l) (\<lambda>l.
     bindR (load_field (str_at env) v ''name'' link_name (\<lambda>x. link_name_update (\<lambda>_. x)) l) (\<lambda>l.
     bindR (load_field (LoadJsonBool (json_lib env)) v ''collision'' link_collision (\<lambda>x. link_collision_update (\<lambda>_. x)) l) (\<lambda>l.
     bindR (load_field (LoadJsonVector [] (str_at env)) v ''attachmentpks'' link_attachmentpks
       (\<lambda>x. link_attachmentpks_update (\<lambda>_. x)) l) (\<lambda>l.
     bindR (load_field (reals_at env) v ''quaternion'' link_quaternion (\<lambda>x. link_quaternion_update (\<lambda>_. x)) l) (\<lambda>l.
     load_field (reals_at env) v ''translate'' link_translate (\<lambda>x. link_translate_update (\<lambda>_. x)) l)))))))"

definition GetLinks :: "'d http_env \<Rightarrow> ('d, 'x) ObjectResource_scheme \<Rightarrow> ('d, 'd LinkResource list) http" where
  "GetLinks env obj =
     bindM (get_json env (''object/'' @ primary_key obj @ ''/link/?format=json&limit=0&fields=links'')) (\<lambda>pt.
     liftR (bindR (elements_at pt ''links'') (mapR (load_link env (primary_key obj)))))"

definition SetCollision :: "'d http_env \<Rightarrow> ('d, 'x) ObjectResource_scheme \<Rightarrow> bool \<Rightarrow> ('d, unit) http" where
  "SetCollision env obj hasCollision =
     bindM (GetLinks env obj) (mapMs (\<lambda>l. bindM (Link_SetCollision env l hasCollision) (\<lambda>_. ret ())))"

definition GetCollision :: "'d http_env \<Rightarrow> ('d, 'x) ObjectResource_scheme \<Rightarrow> ('d, int) http" where
  "GetCollision env obj =
     bindM (GetLinks env obj) (\<lambda>links. or_loop (\<lambda>l. ret (Link_GetCollision l)) links 0)"

definition SetVisible :: "'d http_env \<Rightarrow> ('d, 'x) ObjectResource_scheme \<Rightarrow> bool \<Rightarrow> ('d, unit) http" where
  "SetVisible env obj isVisible = bindM (GetLinks env obj) (mapMs (\<lambda>l. Link_SetVisible env l isVisible))"

definition GetVisible :: "'d http_env \<Rightarrow> ('d, 'x) ObjectResource_scheme \<Rightarrow> ('d, int) http" where
  "GetVisible env obj = bindM (GetLinks env obj) (\<lambda>links. or_loop (Link_GetVisible env) links 0)"

definition AddLink ::
  "'d http_env \<Rightarrow> ('d, 'x) ObjectResource_scheme \<Rightarrow> string \<Rightarrow> 'd \<times> 'd \<times> 'd \<times> 'd \<Rightarrow> 'd \<times> 'd \<times> 'd \<Rightarrow> ('d, 'd LinkResource) http" where
  "AddLink env obj objname quat transl =
     bindM (CreateLink env (obj_pk obj) [] objname quat transl 5) (\<lambda>linkPk.
     bindM (liftR (LinkResource_new env (obj_pk obj) linkPk)) (\<lambda>link.
     ret (link \<lparr> link_name := objname, link_parentlinkpk := [] \<rparr>)))"

record 'd IkParamResource = WebResource +
  ik_name :: string
  ik_pk :: string
  ik_iktype :: string
  ik_quaternion :: "'d list"
  ik_translation :: "'d list"
  ik_direction :: "'d list"
  ik_angle :: 'd

definition IkParamResource_new :: "'d http_env \<Rightarrow> string \<Rightarrow> string \<Rightarrow> 'd IkParamResource result" where
  "IkParamResource_new env objectpk pk =
     bindR (check_pk pk) (\<lambda>_.
     Inr \<lparr> resourcename = ''object/'' @ objectpk @ ''/ikparam'', primary_key = pk, ik_name = [], ik_pk = pk, ik_iktype = [],
       ik_quaternion = identity_quaternion env, ik_translation = zeros env 3, ik_direction = zeros env 3,
       ik_angle = number env 0 \<rparr>)"

definition AddIkParam ::
  "'d http_env \<Rightarrow> ('d, 'x) ObjectResource_scheme \<Rightarrow> string \<Rightarrow> string \<Rightarrow> ('d, 'd IkParamResource) http" where
  "AddIkParam env obj objname iktype =
     bindM (CreateIkParam env (obj_pk obj) objname iktype 5) (\<lambda>ikparamPk.
     liftR (IkParamResource_new env (obj_pk obj) ikparamPk))"

definition load_ikparam :: "'d http_env \<Rightarrow> string \<Rightarrow> 'd json \<Rightarrow> 'd IkParamResource result" where
  "load_ikparam env objectpk v =
     bindR (key_string env v ''pk'') (\<lambda>pk.
     bindR (IkParamResource_new env objectpk pk) (\<lambda>k.
     bindR (load_field (str_at env) v ''name'' ik_name (\<lambda>x. ik_name_update (\<lambda>_. x)) k) (\<lambda>k.
     bindR (load_field (str_at env) v ''iktype'' ik_iktype (\<lambda>x. ik_iktype_update (\<lambda>_. x)) k) (\<lambda>k.
     bindR (load_field (reals_at env) v ''quaternion'' ik_quaternion (\<lambda>x. ik_quaternion_update (\<lambda>_. x)) k) (\<lambda>k.
     bindR (load_field (reals_at env) v ''direction'' ik_direction (\<lambda>x. ik_direction_update (\<lambda>_. x)) k) (\<lambda>k.
     bindR (load_field (reals_at env) v ''translation'' ik_translation (\<lambda>x. ik_translation_update (\<lambda>_. x)) k) (\<lambda>k.
     load_field (real_at env) v ''angle'' ik_angle (\<lambda>x. ik_angle_update (\<lambda>_. x)) k)))))))"

definition GetIkParams :: "'d http_env \<Rightarrow> ('d, 'x) ObjectResource_scheme \<Rightarrow> ('d, 'd IkParamResource list) http" where
  "GetIkParams env obj =
     bindM (get_json env (''object/'' @ primary_key obj @ ''/ikparam/?format=json&limit=0&fields=ikparams'')) (\<lambda>pt.
     liftR (bindR (elements_at pt ''ikparams'') (mapR (load_ikparam env (primary_key obj)))))"

section \<open>Robots\<close>

record 'd RobotResource = "'d ObjectResource" +
  robot_numdof :: "32 word"
  robot_simulation_file :: string

definition RobotResource_new :: "'d http_env \<Rightarrow> string \<Rightarrow> 'd RobotResource result" where
  "RobotResource_new env pk =
     bindR (ObjectResource_named env ''robot'' pk) (\<lambda>obj.
     Inr (ObjectResource.extend obj \<lparr> robot_numdof = 0, robot_simulation_file = [] \<rparr>))"

record 'd ToolResource = WebResource +
  tool_name :: string
  tool_frame_origin :: string
  tool_frame_tip :: string
  tool_pk :: string
  tool_direction :: "'d list"
  tool_quaternion :: "'d list"
  tool_translate :: "'d list"

definition ToolResource_new :: "'d http_env \<Rightarrow> string \<Rightarrow> string \<Rightarrow> 'd ToolResource result" where
  "ToolResource_new env robotobjectpk pk =
     bindR (check_pk pk) (\<lambda>_.
     Inr \<lparr> resourcename = ''robot/'' @ robotobjectpk @ ''/tool'', primary_key = pk, tool_name = [], tool_frame_origin = [],
       tool_frame_tip = [], tool_pk = pk, tool_direction = zeros env 3, tool_quaternion = identity_quaternion env,
       tool_translate = zeros env 3 \<rparr>)"

text \<open>The key of the origin is misspelt in the source.\<close>

definition load_tool :: "'d http_env \<Rightarrow> string \<Rightarrow> 'd json \<Rightarrow> 'd ToolResource result" where
  "load_tool env robotpk v =
     bindR (key_string env v ''pk'') (\<lambda>pk.
     bindR (ToolResource_new env robotpk pk) (\<lambda>t.
     bindR (load_field (str_at env) v ''name'' tool_name (\<lambda>x. tool_name_update (\<lambda>_. x)) t) (\<lambda>t.
     bindR (load_field (str_at env) v ''frame_orgin'' tool_frame_origin (\<lambda>x. tool_frame_origin_update (\<lambda>_. x)) t) (\<lambda>t.
     bindR (load_field (str_at env) v ''frame_tip'' tool_frame_tip (\<lambda>x. tool_frame_tip_update (\<lambda>_. x)) t) (\<lambda>t.
     bindR (load_field (LoadJsonArray (real_at env)) v ''direction'' tool_direction (\<lambda>x. tool_direction_update (\<lambda>_. x)) t) (\<lambda>t.
     bindR (load_field (LoadJsonArray (real_at env)) v ''quaternion'' tool_quaternion (\<lambda>x. tool_quaternion_update (\<lambda>_. x)) t) (\<lambda>t.
     load_field (LoadJsonArray (real_at env)) v ''translate'' tool_translate (\<lambda>x. tool_translate_update (\<lambda>_. x)) t)))))))"

definition GetTools :: "'d http_env \<Rightarrow> 'd RobotResource \<Rightarrow> ('d, 'd ToolResource list) http" where
  "GetTools env robot =
     bindM (get_json env (''robot/'' @ primary_key robot @ ''/tool/?format=json&limit=0&fields=tools'')) (\<lambda>pt.
     liftR (bindR (elements_at pt ''tools'') (mapR (load_tool env (primary_key robot)))))"

section \<open>Attached sensors\<close>

record 'd SensorData =
  distortion_coeffs :: "'d list"
  distortion_model :: string
  focal_length :: 'd
  image_dimensions :: "32 word list"
  intrinsic :: "'d list"
  measurement_time :: 'd
  extra_parameters :: "'d list"

record 'd AttachedSensorResource = WebResource +
  as_name :: string
  as_frame_origin :: string
  as_pk :: string
  as_quaternion :: "'d list"
  as_translate :: "'d list"
  as_sensortype :: string
  as_sensordata :: "'d SensorData"

definition SensorData_default :: "'d http_env \<Rightarrow> 'd SensorData" where
  "SensorData_default env = \<lparr> distortion_coeffs = zeros env 5, distortion_model = [], focal_length = number env 0,
     image_dimensions = [0, 0, 0], intrinsic = zeros env 6, measurement_time = number env 0, extra_parameters = [] \<rparr>"

text \<open>\<^verbatim>\<open>SensorData::operator!=\<close>: arrays are compared by their bytes, which is \<open>same_bytes\<close> for numbers.\<close>

definition SensorData_neq :: "('d \<Rightarrow> 'd \<Rightarrow> bool) \<Rightarrow> 'd reals \<Rightarrow> 'd SensorData \<Rightarrow> 'd SensorData \<Rightarrow> bool" where
  "SensorData_neq same_bytes R d other \<longleftrightarrow>
     \<not> list_all2 same_bytes (distortion_coeffs d) (distortion_coeffs other) \<or>
     distortion_model d \<noteq> distortion_model other \<or>
     \<not> r_eq R (focal_length d) (focal_length other) \<or>
     image_dimensions d \<noteq> image_dimensions other \<or>
     \<not> list_all2 same_bytes (intrinsic d) (intrinsic other) \<or>
     \<not> r_eq R (measurement_time d) (measurement_time other) \<or>
     \<not> list_all2 (r_eq R) (extra_parameters d) (extra_parameters other)"

definition SensorData_eq :: "('d \<Rightarrow> 'd \<Rightarrow> bool) \<Rightarrow> 'd reals \<Rightarrow> 'd SensorData \<Rightarrow> 'd SensorData \<Rightarrow> bool" where
  "SensorData_eq same_bytes R d other \<longleftrightarrow> \<not> SensorData_neq same_bytes R d other"

definition AttachedSensorResource_new :: "'d http_env \<Rightarrow> string \<Rightarrow> string \<Rightarrow> 'd AttachedSensorResource result" where
  "AttachedSensorResource_new env robotobjectpk pk =
     bindR (check_pk pk) (\<lambda>_.
     Inr \<lparr> resourcename = ''robot/'' @ robotobjectpk @ ''/attachedsensor'', primary_key = pk, as_name = [],
       as_frame_origin = [], as_pk = pk, as_quaternion = identity_quaternion env, as_translate = zeros env 3,
       as_sensortype = [], as_sensordata = SensorData_default env \<rparr>)"

text \<open>The first elements of an array are overwritten.\<close>

definition overwrite :: "'a list \<Rightarrow> 'a list \<Rightarrow> 'a list" where
  "overwrite xs ys = xs @ drop (length xs) ys"

text \<open>\<^verbatim>\<open>boost::split\<close> at the blanks, without the empty parts.\<close>

fun split_blanks :: "string \<Rightarrow> string \<Rightarrow> string list" where
  "split_blanks word [] = [word]"
| "split_blanks word (c # cs) = (if c = CHR '' '' then word # split_blanks [] cs else split_blanks (word @ [c]) cs)"

definition parameter_words :: "string \<Rightarrow> string list" where
  "parameter_words s = filter (\<lambda>w. w \<noteq> []) (split_blanks [] s)"

text \<open>What the language and the build leave open: whether the left side of
  \<^verbatim>\<open>extra_parameters[iparam++] = lexical_cast<Real>(p)\<close> is evaluated first, what a
  \<^verbatim>\<open>double\<close> or a mode without an initial value holds, and \<^verbatim>\<open>MUJIN_USEZMQ\<close>.\<close>

record 'd compiled =
  index_first :: bool
  indeterminate :: 'd
  indeterminate_mode :: MinViableRegionRegistrationMode
  use_zmq :: bool

text \<open>The loop over the words, whose exceptions are caught. The vector has a zero for each word.\<close>

fun extra_loop :: "'d http_env \<Rightarrow> 'd compiled \<Rightarrow> string list \<Rightarrow> nat \<Rightarrow> 'd list \<Rightarrow> 'd list" where
  "extra_loop env c [] iparam xs = xs"
| "extra_loop env c (p # ps) iparam xs =
     (case lex_double (json_lib env) p of
        Some x \<Rightarrow> extra_loop env c ps (iparam + 1) (xs[iparam := x])
      | None \<Rightarrow> extra_loop env c ps (if index_first c then iparam + 1 else iparam) xs)"

definition load_extra_parameters :: "'d http_env \<Rightarrow> 'd compiled \<Rightarrow> 'd json \<Rightarrow> 'd list result" where
  "load_extra_parameters env c v =
     (case pointer_get (json_lib env) ''/sensordata/extra_parameters'' v of
        None \<Rightarrow> Inr []
      | Some _ \<Rightarrow>
          bindR (GetJsonValueByPath [] (json_lib env) (str_at env) v ''/sensordata/extra_parameters'') (\<lambda>parameters_string.
          let results = parameter_words parameters_string in
          Inr (extra_loop env c results 0 (zeros env (length results)))))"

definition load_sensordata :: "'d http_env \<Rightarrow> 'd compiled \<Rightarrow> 'd json \<Rightarrow> 'd SensorData \<Rightarrow> 'd SensorData result" where
  "load_sensordata env c v d =
     (let lib = json_lib env; nums = LoadJsonVector (number env 0) (real_at env) in
     bindR (GetJsonValueByPath [] lib nums v ''/sensordata/distortion_coeffs'') (\<lambda>distortionCoeffs.
     bindR (check_assert (length distortionCoeffs \<le> 5) ''distortionCoeffs.size() <= 5'') (\<lambda>_.
     bindR (GetJsonValueByPath [] lib (str_at env) v ''/sensordata/distortion_model'') (\<lambda>model.
     bindR (GetJsonValueByPath (indeterminate c) lib (real_at env) v ''/sensordata/focal_length'') (\<lambda>focal.
     bindR (GetJsonValueByPath (indeterminate c) lib (real_at env) v ''/sensordata/measurement_time'') (\<lambda>time.
     bindR (GetJsonValueByPath [] lib nums v ''/sensordata/intrinsic'') (\<lambda>intrinsics.
     bindR (check_assert (length intrinsics \<le> 6) ''intrinsics.size() <= 6'') (\<lambda>_.
     bindR (GetJsonValueByPath [] lib (LoadJsonVector 0 (LoadJsonInt lib)) v ''/sensordata/image_dimensions'') (\<lambda>imgdim.
     bindR (check_assert (length imgdim \<le> 3) ''imgdim.size() <= 3'') (\<lambda>_.
     bindR (load_extra_parameters env c v) (\<lambda>extra.
     Inr \<lparr> distortion_coeffs = overwrite distortionCoeffs (distortion_coeffs d), distortion_model = model,
       focal_length = focal, image_dimensions = overwrite imgdim (image_dimensions d),
       intrinsic = overwrite intrinsics (intrinsic d), measurement_time = time, extra_parameters = extra \<rparr>)))))))))))"

definition load_attachedsensor :: "'d http_env \<Rightarrow> 'd compiled \<Rightarrow> string \<Rightarrow> 'd json \<Rightarrow> 'd AttachedSensorResource result" where
  "load_attachedsensor env c robotpk v =
     bindR (key_string env v ''pk'') (\<lambda>pk.
     bindR (AttachedSensorResource_new env robotpk pk) (\<lambda>a.
     bindR (load_field (str_at env) v ''name'' as_name (\<lambda>x. as_name_update (\<lambda>_. x)) a) (\<lambda>a.
     bindR (load_field (str_at env) v ''frame_origin'' as_frame_origin (\<lambda>x. as_frame_origin_update (\<lambda>_. x)) a) (\<lambda>a.
     bindR (load_field (str_at env) v ''sensortype'' as_sensortype (\<lambda>x. as_sensortype_update (\<lambda>_. x)) a) (\<lambda>a.
     bindR (load_field (LoadJsonArray (real_at env)) v ''quaternion'' as_quaternion (\<lambda>x. as_quaternion_update (\<lambda>_. x)) a) (\<lambda>a.
     bindR (load_field (LoadJsonArray (real_at env)) v ''translate'' as_translate (\<lambda>x. as_translate_update (\<lambda>_. x)) a) (\<lambda>a.
     bindR (load_sensordata env c v (as_sensordata a)) (\<lambda>d.
     Inr (a \<lparr> as_sensordata := d \<rparr>)))))))))"

text \<open>The sensors of the robot itself, and what the server says of the bodies connected to it.\<close>

definition own_attachedsensors ::
  "'d http_env \<Rightarrow> 'd compiled \<Rightarrow> ('d, 'x) ObjectResource_scheme \<Rightarrow> ('d, 'd AttachedSensorResource list \<times> 'd json) http" where
  "own_attachedsensors env c robot =
     bindM (get_json env (''robot/'' @ primary_key robot @ ''/attachedsensor/?format=json&limit=0&fields=attachedsensors'')) (\<lambda>pt.
     bindM (liftR (bindR (elements_at pt ''attachedsensors'') (mapR (load_attachedsensor env c (primary_key robot)))))
       (\<lambda>attachedsensors.
     bindM (get_json env (''robot/'' @ primary_key robot @ ''/connectedBody/?format=json'')) (\<lambda>rRobotConnectedBodies.
     bindM (liftR (at_key rRobotConnectedBodies ''connectedBodies'')) (\<lambda>rConnectedBodies.
     ret (attachedsensors, rConnectedBodies)))))"

text \<open>\<^verbatim>\<open>!v.HasMember(key) || !v[key].IsArray() || v[key].Size() == 0\<close>, the other way round.\<close>

definition has_elements :: "'d json \<Rightarrow> string \<Rightarrow> bool result" where
  "has_elements v key =
     bindR (has_member v key) (\<lambda>found.
     if found then bindR (at_key v key) (\<lambda>x. Inr (IsArray x \<and> elements x \<noteq> [])) else Inr False)"

fun concat_loop :: "('x \<Rightarrow> ('d, 'a list) http) \<Rightarrow> 'x list \<Rightarrow> 'a list \<Rightarrow> ('d, 'a list) http" where
  "concat_loop f [] acc = ret acc"
| "concat_loop f (x # xs) acc = bindM (f x) (\<lambda>ys. concat_loop f xs (acc @ ys))"

text \<open>The sensors of an instance object of the scene of a connected body, renamed.\<close>

definition connected_sensors ::
  "'d http_env \<Rightarrow> 'd compiled \<Rightarrow> string \<Rightarrow> 'd json \<Rightarrow> ('d, 'd AttachedSensorResource list) http" where
  "connected_sensors env c connectedBodyName v =
     bindM (liftR (has_elements v ''attachedsensors'')) (\<lambda>found.
     if \<not> found then ret []
     else
       bindM (liftR (key_string env v ''object_pk'')) (\<lambda>connectedBodyObjectPk.
       bindM (liftR (RobotResource_new env connectedBodyObjectPk)) (\<lambda>connectedbodyrobot.
       bindM (own_attachedsensors env c connectedbodyrobot) (\<lambda>(sensors, _).
       ret (map (\<lambda>a. a \<lparr> as_name := connectedBodyName @ ''_'' @ as_name a \<rparr>) sensors)))))"

definition connected_body_sensors ::
  "'d http_env \<Rightarrow> 'd compiled \<Rightarrow> 'd json \<Rightarrow> ('d, 'd AttachedSensorResource list) http" where
  "connected_body_sensors env c body =
     bindM (liftR (key_string env body ''url'')) (\<lambda>url.
     bindM (liftR (GetScenePrimaryKeyFromURI_UTF8 env url)) (\<lambda>connectedBodyScenePk.
     bindM (liftR (key_string env body ''name'')) (\<lambda>connectedBodyName.
     bindM (get_json env (''scene/'' @ connectedBodyScenePk @ ''/instobject/?format=json&limit=0&fields=attachedsensors,object_pk,name''))
       (\<lambda>instobjects.
     bindM (liftR (elements_at instobjects ''objects'')) (\<lambda>objects.
     concat_loop (connected_sensors env c connectedBodyName) objects [])))))"

definition GetAttachedSensors ::
  "'d http_env \<Rightarrow> 'd compiled \<Rightarrow> ('d, 'x) ObjectResource_scheme \<Rightarrow> bool \<Rightarrow> ('d, 'd AttachedSensorResource list) http" where
  "GetAttachedSensors env c robot useConnectedBodies =
     bindM (own_attachedsensors env c robot) (\<lambda>(attachedsensors, rConnectedBodies).
     if useConnectedBodies \<and> IsArray rConnectedBodies \<and> length (elements rConnectedBodies) > 0
     then concat_loop (connected_body_sensors env c) (elements rConnectedBodies) attachedsensors
     else ret attachedsensors)"

end
