(* ===== verification/Tasks.thy ===== *)
theory Tasks
  imports Resources TextTools
begin

text \<open>
  The tasks of a scene, their optimizations and results (\<^verbatim>\<open>src/mujincontrollerclient.cpp\<close>), and
  the environment states that are read from and written to JSON. A \<^verbatim>\<open>std::map\<close> is the list of
  its entries in the order of the keys. The formats of the standard streams and of
  \<^verbatim>\<open>boost::format\<close> for a double are the record \<open>formats\<close>.
\<close>

record 'd formats =
  stream_real :: "'d \<Rightarrow> string"                     \<comment> \<open>a new stream, six digits\<close>
  precise_real :: "'d \<Rightarrow> string"                    \<comment> \<open>\<^verbatim>\<open>setprecision(digits10+1)\<close>\<close>
  fixed_real :: "'d \<Rightarrow> string"                      \<comment> \<open>\<^verbatim>\<open>%f\<close>\<close>
  float_real :: "'d \<Rightarrow> string"                      \<comment> \<open>\<^verbatim>\<open>setprecision\<close> with the digits of a \<^verbatim>\<open>float\<close>\<close>

fun joined :: "string \<Rightarrow> string list \<Rightarrow> string" where
  "joined sep [] = []"
| "joined sep [x] = x"
| "joined sep (x # xs) = x @ sep @ joined sep xs"

section \<open>Environment states\<close>

record 'd InstanceObjectState =
  ios_transform :: "'d Transform"
  ios_dofvalues :: "'d list"

type_synonym 'd EnvironmentState = "(string \<times> 'd InstanceObjectState) list"

text \<open>The numbers are squared, and then divided by the square root of their sum.\<close>

definition extract_quaternion :: "'d reals \<Rightarrow> 'd list \<Rightarrow> 'd list" where
  "extract_quaternion R quat =
     (let fs = map (\<lambda>x. r_mul R x x) quat;
          dist2 = foldl (r_add R) (r_lit R 0) fs in
      if r_less R (r_lit R 0) dist2
      then let fnorm = r_div R (r_lit R 1) (r_sqrt R dist2) in map (\<lambda>f. r_mul R f fnorm) fs
      else fs)"

definition extract_state ::
  "'d http_env \<Rightarrow> 'd reals \<Rightarrow> 'd json \<Rightarrow> 'd EnvironmentState \<Rightarrow> 'd EnvironmentState result" where
  "extract_state env R v envstate =
     bindR (key_string env v ''name'') (\<lambda>name.
     bindR (GetJsonValueByKey [] (LoadJsonVector (number env 0) (real_at env)) v ''quat_'') (\<lambda>quat.
     bindR (check_assert (length quat = 4) ''quat.size() == 4'') (\<lambda>_.
     bindR (LoadJsonValueByKey (LoadJsonArray (real_at env)) v ''translation_'' (Transform.translate (Transform_default R)))
       (\<lambda>(_, translation).
     bindR (LoadJsonValueByKey (LoadJsonVector (number env 0) (real_at env)) v ''dofvalues'' []) (\<lambda>(_, dofvalues).
     Inr (map_put name \<lparr> ios_transform = \<lparr> quaternion = extract_quaternion R quat, translate = translation \<rparr>,
       ios_dofvalues = dofvalues \<rparr> envstate))))))"

definition ExtractEnvironmentStateFromPTree ::
  "'d http_env \<Rightarrow> 'd reals \<Rightarrow> 'd json \<Rightarrow> 'd EnvironmentState result" where
  "ExtractEnvironmentStateFromPTree env R envstatejson =
     bindR (array_elements envstatejson) (\<lambda>objects. foldR (extract_state env R) objects [])"

definition state_text :: "('d \<Rightarrow> string) \<Rightarrow> string \<times> 'd InstanceObjectState \<Rightarrow> string" where
  "state_text show_real entry =
     (case entry of (name, objstate) \<Rightarrow>
       ''{ '' @ string_field ''name'' [] name @ '', '' @ dquoted ''translation_'' @ '':['' @
       joined '','' (map show_real (translate (ios_transform objstate))) @ ''], '' @ dquoted ''quat_'' @ '':['' @
       joined '','' (map show_real (quaternion (ios_transform objstate))) @ ''], '' @ dquoted ''dofvalues'' @ '':['' @
       joined '','' (map show_real (ios_dofvalues objstate)) @ ''] }'')"

text \<open>The loop over the map: objects without a name are left out.\<close>

fun serialize_loop :: "('d \<Rightarrow> string) \<Rightarrow> 'd EnvironmentState \<Rightarrow> bool \<Rightarrow> string" where
  "serialize_loop show_real [] bhaswritten = []"
| "serialize_loop show_real (e # es) bhaswritten =
     (if length (fst e) > 0 then
        (if bhaswritten then '','' else []) @ state_text show_real e @ serialize_loop show_real es True
      else serialize_loop show_real es bhaswritten)"

definition SerializeEnvironmentStateToJSON :: "('d \<Rightarrow> string) \<Rightarrow> 'd EnvironmentState \<Rightarrow> string" where
  "SerializeEnvironmentStateToJSON show_real envstate = ''['' @ serialize_loop show_real envstate False @ '']''"

section \<open>Results\<close>

type_synonym PlanningResultResource = WebResource

definition PlanningResultResource_named :: "string \<Rightarrow> string \<Rightarrow> WebResource result" where
  "PlanningResultResource_named resulttype pk =
     bindR (check_pk pk) (\<lambda>_. Inr \<lparr> resourcename = resulttype, primary_key = pk \<rparr>)"

definition PlanningResultResource_new :: "string \<Rightarrow> WebResource result" where
  "PlanningResultResource_new pk = PlanningResultResource_named ''planningresult'' pk"

definition GetEnvironmentState ::
  "'d http_env \<Rightarrow> 'd reals \<Rightarrow> 'x WebResource_scheme \<Rightarrow> ('d, 'd EnvironmentState) http" where
  "GetEnvironmentState env R r =
     bindM (get_json env (resource_path r @ ''?format=json&fields=envstate'')) (\<lambda>pt.
     liftR (bindR (at_key pt ''envstate'') (ExtractEnvironmentStateFromPTree env R)))"

definition GetAllRawProgramData :: "'d http_env \<Rightarrow> 'x WebResource_scheme \<Rightarrow> string \<Rightarrow> ('d, string) http" where
  "GetAllRawProgramData env r programtype =
     bindM (CallGet_to_string env (resource_path r @ ''program/?type='' @ programtype) 200 5) (\<lambda>(_, outputdata). ret outputdata)"

definition GetRobotRawProgramData ::
  "'d http_env \<Rightarrow> 'x WebResource_scheme \<Rightarrow> string \<Rightarrow> string \<Rightarrow> ('d, string) http" where
  "GetRobotRawProgramData env r robotpk programtype =
     bindM (CallGet_to_string env (resource_path r @ ''program/'' @ robotpk @ ''/?type='' @ programtype) 200 5)
       (\<lambda>(_, outputdata). ret outputdata)"

record RobotProgramData =
  rpd_programdata :: string
  rpd_type :: string

definition load_program ::
  "'d http_env \<Rightarrow> string \<times> 'd json \<Rightarrow> (string \<times> RobotProgramData) list \<Rightarrow> (string \<times> RobotProgramData) list result" where
  "load_program env entry programs =
     bindR (key_string env (snd entry) ''program'') (\<lambda>program.
     bindR (key_string env (snd entry) ''type'') (\<lambda>currenttype.
     Inr (map_put (c_str (fst entry)) \<lparr> rpd_programdata = program, rpd_type = currenttype \<rparr> programs)))"

definition GetPrograms ::
  "'d http_env \<Rightarrow> 'x WebResource_scheme \<Rightarrow> string \<Rightarrow> ('d, (string \<times> RobotProgramData) list) http" where
  "GetPrograms env r programtype =
     bindM (get_json env (resource_path r @ ''program/?format=json&type='' @ programtype)) (\<lambda>pt.
     liftR (if IsObject pt then foldR (load_program env) (members pt) []
            else Inl rapidjson_assertion))"

text \<open>Into a stream, which is \<^verbatim>\<open>m_stream\<close>.\<close>

definition DebugResource_Download :: "'d http_env \<Rightarrow> DebugResource \<Rightarrow> rat \<Rightarrow> ('d, unit) http" where
  "DebugResource_Download env d timeout =
     bindM (CallGet_to_stream env (''debug/'' @ dr_pk d @ ''/download/'') 200 timeout) (\<lambda>_. ret ())"

section \<open>Optimizations\<close>

record OptimizationResource = WebResource +
  opt_jobpk :: string

definition OptimizationResource_new :: "string \<Rightarrow> OptimizationResource result" where
  "OptimizationResource_new pk =
     bindR (check_pk pk) (\<lambda>_. Inr \<lparr> resourcename = ''optimization'', primary_key = pk, opt_jobpk = [] \<rparr>)"

definition Optimization_Execute :: "'d http_env \<Rightarrow> OptimizationResource \<Rightarrow> bool \<Rightarrow> ('d, OptimizationResource) http" where
  "Optimization_Execute env r bClearOldResults =
     bindM (CallPost env (''optimization/'' @ primary_key r @ ''/'')
       (''{'' @ dquoted ''clear'' @ '':'' @ bit_text bClearOldResults @ ''}'') 200 5) (\<lambda>(_, pt).
     bindM (liftR (key_string env pt ''jobpk'')) (\<lambda>jobpk. ret (r \<lparr> opt_jobpk := jobpk \<rparr>)))"

definition Cancel :: "('d, unit) http" where
  "Cancel = throw (assertion_failed ''0'')"

definition set_unknown :: "'d JobStatus \<Rightarrow> 'd JobStatus" where
  "set_unknown status = status \<lparr> js_code := JSC_Unknown \<rparr>"

definition job_status_uri :: "string \<Rightarrow> nat \<Rightarrow> string" where
  "job_status_uri jobpk options =
     ''job/'' @ jobpk @ ''/?format=json&fields=pk,status,fnname,elapsedtime'' @ (if odd options then '',status_text'' else [])"

text \<open>The members of a status; the keys of the type, the time and the message are those of the
  source, which are not those asked for.\<close>

definition load_status_head :: "'d http_env \<Rightarrow> 'd json \<Rightarrow> 'd JobStatus \<Rightarrow> 'd JobStatus result" where
  "load_status_head env pt status =
     bindR (load_field (str_at env) pt ''pk'' js_pk (\<lambda>x. js_pk_update (\<lambda>_. x)) status) (\<lambda>status.
     bindR (key_string env pt ''status'') (\<lambda>text.
     bindR (GetStatusCode text) (\<lambda>code. Inr (status \<lparr> js_code := code \<rparr>))))"

definition Optimization_GetRunTimeStatus ::
  "'d http_env \<Rightarrow> OptimizationResource \<Rightarrow> 'd JobStatus \<Rightarrow> nat \<Rightarrow> ('d, 'd JobStatus) http" where
  "Optimization_GetRunTimeStatus env r status options =
     (if length (opt_jobpk r) > 0 then
        bindM (get_json env (job_status_uri (opt_jobpk r) options)) (\<lambda>pt.
        liftR (
          bindR (load_status_head env pt (set_unknown status)) (\<lambda>status.
          bindR (load_field (str_at env) pt ''fname'' js_type (\<lambda>x. js_type_update (\<lambda>_. x)) status) (\<lambda>status.
          bindR (load_field (real_at env) pt ''elpasedtime'' js_elapsedtime (\<lambda>x. js_elapsedtime_update (\<lambda>_. x)) status) (\<lambda>status.
          if odd options then load_field (str_at env) pt ''status-text'' js_message (\<lambda>x. js_message_update (\<lambda>_. x)) status
          else Inr status)))))
      else ret (set_unknown status))"

record 'd RobotPlacementOptimizationParameters =
  rp_targetname :: string
  rp_framename :: string
  rp_maxrange :: "'d list"
  rp_minrange :: "'d list"
  rp_stepsize :: "'d list"
  rp_ignorebasecollision :: "32 word"
  rp_unit :: string
  rp_topstorecandidates :: int

text \<open>A target of \<^verbatim>\<open>PlacementsOptimizationParameters\<close>, which has two of them.\<close>

record 'd placement_target =
  pt_targetname :: string
  pt_framename :: string
  pt_maxrange :: "'d list"
  pt_minrange :: "'d list"
  pt_stepsize :: "'d list"
  pt_ignorebasecollision :: "32 word"

definition RobotPlacement_SetDefaults ::
  "'d reals \<Rightarrow> 'd RobotPlacementOptimizationParameters \<Rightarrow> 'd RobotPlacementOptimizationParameters" where
  "RobotPlacement_SetDefaults R p = p \<lparr> rp_unit := ''mm'', rp_topstorecandidates := 20, rp_targetname := [], rp_framename := [],
     rp_minrange := map (r_lit R) [-400, -400, 0, -180], rp_maxrange := map (r_lit R) [400, 400, 400, 90],
     rp_stepsize := map (r_lit R) [100, 100, 100, 90], rp_ignorebasecollision := 0 \<rparr>"

definition target_SetDefaults :: "'d placement_target \<Rightarrow> 'd placement_target" where
  "target_SetDefaults t = t \<lparr> pt_targetname := [], pt_framename := [], pt_ignorebasecollision := 0 \<rparr>"

definition Placements_SetDefaults ::
  "'d reals \<Rightarrow> 'd placement_target \<Rightarrow> 'd placement_target \<Rightarrow> (string \<times> int) \<times> 'd placement_target \<times> 'd placement_target" where
  "Placements_SetDefaults R t1 t2 =
     ((''mm'', 20),
      (target_SetDefaults t1) \<lparr> pt_minrange := map (r_lit R) [-400, -400, 0, -180],
        pt_maxrange := map (r_lit R) [400, 400, 400, 90], pt_stepsize := map (r_lit R) [100, 100, 100, 90] \<rparr>,
      (target_SetDefaults t2) \<lparr> pt_minrange := map (r_lit R) [-100, -100, 0, 0],
        pt_maxrange := map (r_lit R) [100, 100, 100, 0], pt_stepsize := map (r_lit R) [100, 100, 100, 90] \<rparr>)"

definition python_bool :: "bool \<Rightarrow> string" where
  "python_bool b = (if b then ''True'' else ''False'')"

definition range_field :: "'d http_env \<Rightarrow> string \<Rightarrow> 'd list \<Rightarrow> string" where
  "range_field env key xs = dquoted key @ '':[ '' @ joined '', '' (map (print_real env) xs) @ '']''"

definition put_optimization :: "'d http_env \<Rightarrow> OptimizationResource \<Rightarrow> string \<Rightarrow> ('d, unit) http" where
  "put_optimization env r data =
     bindM (CallPutJSON env (''optimization/'' @ primary_key r @ ''/?format=json&fields='') data 202 5) (\<lambda>_. ret ())"

definition robotplacement_text :: "'d http_env \<Rightarrow> 'd RobotPlacementOptimizationParameters \<Rightarrow> string" where
  "robotplacement_text env p =
     ''{'' @ string_field ''optimizationtype'' [] ''robotplacement'' @ '', '' @ dquoted ''optimizationparameters'' @ '':{'' @
     string_field ''targetname'' [] (rp_targetname p) @ '', '' @ string_field ''frame'' [] (rp_framename p) @ '', '' @
     string_field ''ignorebasecollision'' [] (python_bool (rp_ignorebasecollision p \<noteq> 0)) @ '', '' @
     string_field ''unit'' [] (rp_unit p) @ '', '' @ range_field env ''maxrange_'' (rp_maxrange p) @ '',  '' @
     range_field env ''minrange_'' (rp_minrange p) @ '', '' @ range_field env ''stepsize_'' (rp_stepsize p) @ '', '' @
     dquoted ''topstorecandidates'' @ '':'' @ dec_of_int (rp_topstorecandidates p) @ ''} }''"

definition SetOptimizationParameters_robot ::
  "'d http_env \<Rightarrow> OptimizationResource \<Rightarrow> 'd RobotPlacementOptimizationParameters \<Rightarrow> ('d, unit) http" where
  "SetOptimizationParameters_robot env r optparams = put_optimization env r (robotplacement_text env optparams)"

definition target_text :: "'d http_env \<Rightarrow> string \<Rightarrow> 'd placement_target \<Rightarrow> string" where
  "target_text env number_suffix t =
     '', '' @ string_field (''targetname'' @ number_suffix) [] (pt_targetname t) @ '', '' @
     string_field (''frame'' @ number_suffix) [] (pt_framename t) @ '', '' @
     string_field (''ignorebasecollision'' @ number_suffix) [] (python_bool (pt_ignorebasecollision t \<noteq> 0)) @ '', , '' @
     range_field env (''maxrange'' @ number_suffix @ ''_'') (pt_maxrange t) @ '',  '' @
     range_field env (''minrange'' @ number_suffix @ ''_'') (pt_minrange t) @ '', '' @
     range_field env (''stepsize'' @ number_suffix @ ''_'') (pt_stepsize t)"

definition placements_text ::
  "'d http_env \<Rightarrow> string \<Rightarrow> int \<Rightarrow> 'd placement_target \<Rightarrow> 'd placement_target \<Rightarrow> string" where
  "placements_text env unit_name topstorecandidates t1 t2 =
     ''{'' @ string_field ''optimizationtype'' [] ''placements'' @ '', '' @ dquoted ''optimizationparameters'' @ '':{ '' @
     string_field ''unit'' [] unit_name @ '', '' @ dquoted ''topstorecandidates'' @ '':'' @ dec_of_int topstorecandidates @
     target_text env [] t1 @ target_text env ''2'' t2 @ ''} }''"

definition SetOptimizationParameters_placements ::
  "'d http_env \<Rightarrow> OptimizationResource \<Rightarrow> string \<Rightarrow> int \<Rightarrow> 'd placement_target \<Rightarrow> 'd placement_target \<Rightarrow> ('d, unit) http" where
  "SetOptimizationParameters_placements env r unit_name topstorecandidates t1 t2 =
     put_optimization env r (placements_text env unit_name topstorecandidates t1 t2)"

definition GetResults ::
  "'d http_env \<Rightarrow> OptimizationResource \<Rightarrow> WebResource list \<Rightarrow> int \<Rightarrow> int \<Rightarrow> ('d, WebResource list) http" where
  "GetResults env r results startoffset num =
     bindM (get_json env (''optimization/'' @ primary_key r @ ''/result/?format=json&fields=pk&order_by=task_time&offset='' @
       dec_of_int startoffset @ ''&limit='' @ dec_of_int num)) (\<lambda>pt.
     case array_member pt ''objects'' of
       Some (v # vs) \<Rightarrow> liftR (mapR (\<lambda>v. bindR (key_string env v ''pk'') PlanningResultResource_new) (v # vs))
     | _ \<Rightarrow> ret results)"

section \<open>Tasks\<close>

record TaskResource = WebResource +
  task_jobpk :: string

definition TaskResource_new :: "string \<Rightarrow> TaskResource result" where
  "TaskResource_new pk = bindR (check_pk pk) (\<lambda>_. Inr \<lparr> resourcename = ''task'', primary_key = pk, task_jobpk = [] \<rparr>)"

text \<open>The key of the task is not put in quotes.\<close>

definition Task_Execute :: "'d http_env \<Rightarrow> 'x TaskResource_scheme \<Rightarrow> ('d, 'x TaskResource_scheme) http" where
  "Task_Execute env t =
     bindM (CallPost env ''job/'' (''{'' @ string_field ''resource_type'' [] ''task'' @ '', '' @ dquoted ''target_pk'' @ '':'' @
       primary_key t @ ''}'') 200 5) (\<lambda>(_, pt).
     bindM (liftR (key_string env pt ''jobpk'')) (\<lambda>jobpk. ret (t \<lparr> task_jobpk := jobpk \<rparr>)))"

definition Task_GetRunTimeStatus ::
  "'d http_env \<Rightarrow> 'x TaskResource_scheme \<Rightarrow> 'd JobStatus \<Rightarrow> nat \<Rightarrow> ('d, 'd JobStatus) http" where
  "Task_GetRunTimeStatus env t status options =
     (if length (task_jobpk t) > 0 then
        bindM (get_json env (job_status_uri (task_jobpk t) options)) (\<lambda>pt.
        liftR (
          bindR (load_status_head env pt (set_unknown status)) (\<lambda>status.
          bindR (load_field (real_at env) pt ''elapsedtime'' js_elapsedtime (\<lambda>x. js_elapsedtime_update (\<lambda>_. x)) status) (\<lambda>status.
          bindR (load_field (str_at env) pt ''fname'' js_type (\<lambda>x. js_type_update (\<lambda>_. x)) status) (\<lambda>status.
          if odd options then load_field (str_at env) pt ''status_text'' js_message (\<lambda>x. js_message_update (\<lambda>_. x)) status
          else Inr status)))))
      else ret (set_unknown status))"

definition optimization_exists :: "string \<Rightarrow> string \<Rightarrow> string \<Rightarrow> error" where
  "optimization_exists pk currenttype expected =
     MujinException (''optimization pk '' @ pk @ '' exists and has type '' @ currenttype @ '', expected is '' @ expected) MEC_InvalidState"

definition GetOrCreateOptimizationFromName_UTF8 ::
  "'d http_env \<Rightarrow> 'x TaskResource_scheme \<Rightarrow> string \<Rightarrow> string \<Rightarrow> ('d, OptimizationResource) http" where
  "GetOrCreateOptimizationFromName_UTF8 env t optimizationname optimizationtype =
     bindM (get_json env (''task/'' @ primary_key t @ ''/optimization/?format=json&limit=1&name='' @
       EscapeString env optimizationname @ ''&fields=pk,optimizationtype'')) (\<lambda>pt.
     case array_member pt ''objects'' of
       Some (object # _) \<Rightarrow>
         bindM (liftR (key_string env object ''pk'')) (\<lambda>pk.
         bindM (liftR (key_string env object ''optimizationtype'')) (\<lambda>currentoptimizationtype.
         if currentoptimizationtype \<noteq> optimizationtype
         then throw (optimization_exists pk currentoptimizationtype optimizationtype)
         else liftR (OptimizationResource_new pk)))
     | _ \<Rightarrow>
         bindM (CallPost env (''task/'' @ primary_key t @ ''/optimization/?format=json&fields=pk'')
           (''{'' @ string_field ''name'' [] optimizationname @ '', '' @ string_field ''optimizationtype'' [] optimizationtype @ '', '' @
            string_field ''taskpk'' [] (primary_key t) @ ''}'') 201 5) (\<lambda>(_, pt).
         liftR (bindR (key_string env pt ''pk'') OptimizationResource_new)))"

definition GetOrCreateOptimizationFromName_UTF16 ::
  "'d http_env \<Rightarrow> 'x TaskResource_scheme \<Rightarrow> wstring \<Rightarrow> string \<Rightarrow> ('d, OptimizationResource) http" where
  "GetOrCreateOptimizationFromName_UTF16 env t optimizationname optimizationtype =
     bindM (liftR (narrow optimizationname)) (\<lambda>name. GetOrCreateOptimizationFromName_UTF8 env t name optimizationtype)"

definition GetOptimizationPrimaryKeys :: "'d http_env \<Rightarrow> 'x TaskResource_scheme \<Rightarrow> ('d, string list) http" where
  "GetOptimizationPrimaryKeys env t =
     bindM (get_json env (''task/'' @ primary_key t @ ''/optimization/?format=json&limit=0&fields=pk'')) (\<lambda>pt.
     liftR (bindR (elements_at pt ''objects'')
       (mapR (\<lambda>v. bindR (LoadJsonValueByKey (str_at env) v ''pk'' []) (\<lambda>(_, pk). Inr pk)))))"

definition Task_GetResult :: "'d http_env \<Rightarrow> 'x TaskResource_scheme \<Rightarrow> ('d, WebResource option) http" where
  "Task_GetResult env t =
     bindM (get_json env (''task/'' @ primary_key t @ ''/result/?format=json&limit=1&optimization=None&fields=pk'')) (\<lambda>pt.
     case array_member pt ''objects'' of
       Some (v # _) \<Rightarrow>
         bindM (liftR (key_string env v ''pk'')) (\<lambda>pk. bindM (liftR (PlanningResultResource_new pk)) (\<lambda>r. ret (Some r)))
     | _ \<Rightarrow> ret None)"

section \<open>Parameters of ITL planning tasks\<close>

record 'd ITLPlanningTaskParameters =
  itl_startfromcurrent :: "32 word"
  itl_returnmode :: string
  itl_vrcruns :: "32 word"
  itl_ignorefigure :: "32 word"
  itl_unit :: string
  itl_optimizationvalue :: 'd
  itl_program :: string
  itl_parameters :: string
  itl_initial_envstate :: "'d EnvironmentState"
  itl_final_envstate :: "'d EnvironmentState"

text \<open>The parameters and the environment states are not reset.\<close>

definition SetDefaults :: "'d reals \<Rightarrow> 'd ITLPlanningTaskParameters \<Rightarrow> 'd ITLPlanningTaskParameters" where
  "SetDefaults R p = p \<lparr> itl_startfromcurrent := 0, itl_returnmode := ''start'', itl_vrcruns := 1,
     itl_ignorefigure := 1, itl_unit := ''mm'', itl_optimizationvalue := r_lit R 1, itl_program := [] \<rparr>"

text \<open>The parameters of a Wincaps task have one member more.\<close>

record 'd DensoWaveWincapsTaskParameters = "'d ITLPlanningTaskParameters" +
  dw_preservespeedparameters :: "32 word"

definition DensoWave_SetDefaults ::
  "'d reals \<Rightarrow> 'd DensoWaveWincapsTaskParameters \<Rightarrow> 'd DensoWaveWincapsTaskParameters" where
  "DensoWave_SetDefaults R p = p \<lparr> itl_startfromcurrent := 0, itl_returnmode := ''start'', itl_vrcruns := 1,
     itl_ignorefigure := 1, itl_unit := ''mm'', itl_optimizationvalue := r_lit R 1, itl_program := [],
     dw_preservespeedparameters := 0 \<rparr>"

definition string_value :: "'d json \<Rightarrow> string result" where
  "string_value v = (if IsString v then Inr (c_str (GetString v)) else Inl rapidjson_assertion)"

definition is_True :: "'d json \<Rightarrow> bool result" where
  "is_True v = bindR (string_value v) (\<lambda>s. Inr (s = ''True''))"

text \<open>One member; the second component is the last value of \<^verbatim>\<open>returntostart\<close>, the third whether
  \<^verbatim>\<open>returnmode\<close> was there.\<close>

definition load_parameter ::
  "'d http_env \<Rightarrow> 'd reals \<Rightarrow> 'd json \<Rightarrow> string \<times> 'd json \<Rightarrow> 'd ITLPlanningTaskParameters \<times> bool option \<times> bool \<Rightarrow>
   ('d ITLPlanningTaskParameters \<times> bool option \<times> bool) result" where
  "load_parameter env R taskparametersjson entry acc =
     (case acc of (p, returntostart, hasreturnmode) \<Rightarrow>
      let name = c_str (fst entry); v = snd entry in
      if name = ''startfromcurrent'' then
        bindR (is_True v) (\<lambda>b. Inr (p \<lparr> itl_startfromcurrent := of_bool b \<rparr>, returntostart, hasreturnmode))
      else if name = ''returntostart'' then bindR (is_True v) (\<lambda>b. Inr (p, Some b, hasreturnmode))
      else if name = ''returnmode'' then
        bindR (string_value v) (\<lambda>s. Inr (p \<lparr> itl_returnmode := s \<rparr>, returntostart, True))
      else if name = ''ignorefigure'' then
        bindR (is_True v) (\<lambda>b. Inr (p \<lparr> itl_ignorefigure := of_bool b \<rparr>, returntostart, hasreturnmode))
      else if name = ''vrcruns'' then
        bindR (LoadJsonValueByKey (LoadJsonInt (json_lib env)) taskparametersjson ''vrcruns'' (itl_vrcruns p)) (\<lambda>(_, x).
        Inr (p \<lparr> itl_vrcruns := x \<rparr>, returntostart, hasreturnmode))
      else if name = ''unit'' then bindR (string_value v) (\<lambda>s. Inr (p \<lparr> itl_unit := s \<rparr>, returntostart, hasreturnmode))
      else if name = ''optimizationvalue'' then
        bindR (LoadJsonValueByKey (real_at env) taskparametersjson ''optimizationvalue'' (itl_optimizationvalue p)) (\<lambda>(_, x).
        Inr (p \<lparr> itl_optimizationvalue := x \<rparr>, returntostart, hasreturnmode))
      else if name = ''program'' then
        bindR (string_value v) (\<lambda>s. Inr (p \<lparr> itl_program := s \<rparr>, returntostart, hasreturnmode))
      else if name = ''parameters'' then
        bindR (DumpJson (json_lib env) v 2) (\<lambda>s. Inr (p \<lparr> itl_parameters := s \<rparr>, returntostart, hasreturnmode))
      else if name = ''initial_envstate'' then
        bindR (ExtractEnvironmentStateFromPTree env R v) (\<lambda>e. Inr (p \<lparr> itl_initial_envstate := e \<rparr>, returntostart, hasreturnmode))
      else if name = ''final_envstate'' then
        bindR (ExtractEnvironmentStateFromPTree env R v) (\<lambda>e. Inr (p \<lparr> itl_final_envstate := e \<rparr>, returntostart, hasreturnmode))
      else Inr acc)"

definition load_taskparameters ::
  "'d http_env \<Rightarrow> 'd reals \<Rightarrow> 'd json \<Rightarrow> 'd ITLPlanningTaskParameters \<Rightarrow> 'd ITLPlanningTaskParameters result" where
  "load_taskparameters env R taskparametersjson p =
     (if IsObject taskparametersjson then
        bindR (foldR (load_parameter env R taskparametersjson) (members taskparametersjson) (SetDefaults R p, None, False))
        (\<lambda>(p, returntostart, hasreturnmode).
        Inr (case returntostart of
               Some b \<Rightarrow> if \<not> hasreturnmode then p \<lparr> itl_returnmode := (if b then ''start'' else []) \<rparr> else p
             | None \<Rightarrow> p))
      else Inl rapidjson_assertion)"

definition GetTaskParameters ::
  "'d http_env \<Rightarrow> 'd reals \<Rightarrow> 'x TaskResource_scheme \<Rightarrow> 'd ITLPlanningTaskParameters \<Rightarrow> ('d, 'd ITLPlanningTaskParameters) http" where
  "GetTaskParameters env R t p =
     bindM (get_json env (''task/'' @ primary_key t @ ''/?format=json&fields=taskparameters,tasktype'')) (\<lambda>pt.
     liftR (
       bindR (key_string env pt ''tasktype'') (\<lambda>tasktype.
       if tasktype \<noteq> ''itlplanning'' then
         Inl (MujinException (''task '' @ primary_key t @ '' is type '' @ tasktype @ '', expected itlplanning'') MEC_InvalidArguments)
       else bindR (at_key pt ''taskparameters'') (\<lambda>v. load_taskparameters env R v p))))"

text \<open>Quotes and line ends of the program are escaped; backslashes are not. The case \<open>None\<close> is a
  loop that never ends.\<close>

definition program_pairs :: "subst list" where
  "program_pairs = [(dquote, CHR 0x5C # dquote), ([CHR 0x0A], CHR 0x5C # ''n''), ([CHR 0x0D, CHR 0x0A], CHR 0x5C # ''n'')]"

definition escape_program :: "string \<Rightarrow> string result" where
  "escape_program program =
     bindR (SearchAndReplace program program_pairs) (\<lambda>out. case out of Some s \<Rightarrow> Inr s | None \<Rightarrow> Inl Deadlock)"

definition envstate_field :: "'d formats \<Rightarrow> string \<Rightarrow> 'd EnvironmentState \<Rightarrow> string" where
  "envstate_field F key envstate =
     (if length envstate > 0 then '', '' @ dquoted key @ '':'' @ SerializeEnvironmentStateToJSON (precise_real F) envstate else [])"

definition taskparameters_text :: "'d formats \<Rightarrow> 'd ITLPlanningTaskParameters \<Rightarrow> string \<Rightarrow> string" where
  "taskparameters_text F p program =
     ''{'' @ string_field ''tasktype'' '' '' ''itlplanning'' @ '', '' @ dquoted ''taskparameters'' @ '':{'' @
     dquoted ''optimizationvalue'' @ '':'' @ fixed_real F (itl_optimizationvalue p) @ '', '' @
     string_field ''program'' [] program @ '', '' @ dquoted ''parameters'' @ '':'' @ itl_parameters p @ '', '' @
     string_field ''unit'' [] (itl_unit p) @ '', '' @ string_field ''returnmode'' [] (itl_returnmode p) @ '', '' @
     string_field ''startfromcurrent'' [] (python_bool (itl_startfromcurrent p \<noteq> 0)) @ '', '' @
     string_field ''ignorefigure'' [] (python_bool (itl_ignorefigure p \<noteq> 0)) @ '', '' @
     dquoted ''vrcruns'' @ '':'' @ dec_of_int (sint (itl_vrcruns p)) @ '' '' @
     envstate_field F ''initial_envstate'' (itl_initial_envstate p) @ '' '' @
     envstate_field F ''final_envstate'' (itl_final_envstate p) @ '' } }''"

definition SetTaskParameters ::
  "'d http_env \<Rightarrow> 'd formats \<Rightarrow> 'x TaskResource_scheme \<Rightarrow> 'd ITLPlanningTaskParameters \<Rightarrow> ('d, unit) http" where
  "SetTaskParameters env F t p =
     bindM (liftR (escape_program (itl_program p))) (\<lambda>program.
     bindM (CallPutJSON env (''task/'' @ primary_key t @ ''/?format=json&fields='') (taskparameters_text F p program) 202 5)
       (\<lambda>_. ret ()))"

end
