(* ===== verification/BinPickingData.thy ===== *)
theory BinPickingData
  imports Tasks
begin

text \<open>
  The data of the bin picking tasks (\<^verbatim>\<open>src/binpickingtask.cpp\<close>,
  \<^verbatim>\<open>include/mujincontrollerclient/binpickingtask.h\<close>): the JSON texts that commands are put together
  from, the information on a minimum viable region and its JSON form, and the results, each with
  the \<^verbatim>\<open>Parse\<close> that fills it.
\<close>

section \<open>JSON texts\<close>

text \<open>\<^verbatim>\<open>boost::replace_all\<close> of a quote by a backslash and a quote: nothing else is escaped.\<close>

fun escape_quotes :: "string \<Rightarrow> string" where
  "escape_quotes [] = []"
| "escape_quotes (c # cs) = (if c = CHR 0x22 then [CHR 0x5C, CHR 0x22] else [c]) @ escape_quotes cs"

definition json_text :: "string \<Rightarrow> string" where
  "json_text s = dquoted (escape_quotes s)"

definition json_list :: "string list \<Rightarrow> string" where
  "json_list xs = ''['' @ joined '', '' xs @ '']''"

definition json_floats :: "'d formats \<Rightarrow> 'd list \<Rightarrow> string" where
  "json_floats F vec = json_list (map (float_real F) vec)"

definition json_doubles :: "'d formats \<Rightarrow> 'd list \<Rightarrow> string" where
  "json_doubles F vec = json_list (map (precise_real F) vec)"

definition json_ints :: "32 word list \<Rightarrow> string" where
  "json_ints vec = json_list (map (\<lambda>w. dec_of_int (sint w)) vec)"

definition json_strings :: "string list \<Rightarrow> string" where
  "json_strings vec = json_list (map json_text vec)"

definition json_transform :: "'d formats \<Rightarrow> 'd Transform \<Rightarrow> string" where
  "json_transform F t =
     json_text ''translation'' @ '': '' @ json_list (map (precise_real F) (translate t)) @ '', '' @
     json_text ''quaternion'' @ '': '' @ json_list (map (precise_real F) (quaternion t))"

record 'd DetectedObject =
  do_name :: string
  do_object_uri :: string
  do_transform :: "'d Transform"
  do_confidence :: string
  do_timestamp :: "64 word"
  do_extra :: string
  do_isPickable :: bool

definition json_detected :: "'d formats \<Rightarrow> 'd DetectedObject \<Rightarrow> string" where
  "json_detected F obj =
     ''{'' @ json_text ''name'' @ '': '' @ json_text (do_name obj) @ '', '' @
     json_text ''object_uri'' @ '': '' @ json_text (do_object_uri obj) @ '', '' @
     json_transform F (do_transform obj) @ '', '' @
     json_text ''confidence'' @ '': '' @ do_confidence obj @ '', '' @
     json_text ''sensortimestamp'' @ '': '' @ dec_of_nat (unat (do_timestamp obj)) @ '', '' @
     json_text ''isPickable'' @ '': '' @ bit_text (do_isPickable obj) @
     (if length (do_extra obj) > 0 then '', '' @ json_text ''extra'' @ '': '' @ do_extra obj else []) @ ''}''"

record 'd PointCloudObstacle =
  pco_name :: string
  pco_points :: "'d list"
  pco_pointsize :: 'd

text \<open>The loop over the points, three numbers at a time; a point with a NaN is left out. A number of
  coordinates that is no multiple of three reads behind the end.\<close>

fun points_loop :: "'d formats \<Rightarrow> 'd reals \<Rightarrow> 'd list \<Rightarrow> bool \<Rightarrow> string result" where
  "points_loop F R [] bwrite = Inr []"
| "points_loop F R (x # y # z # points) bwrite =
     (if \<not> r_isnan R x \<and> \<not> r_isnan R y \<and> \<not> r_isnan R z then
        bindR (points_loop F R points True) (\<lambda>rest.
        Inr ((if bwrite then '','' else []) @ joined '','' (map (float_real F) [x, y, z]) @ rest))
      else points_loop F R points bwrite)"
| "points_loop F R _ bwrite = Inl (UndefinedBehaviour ''operator[]'')"

definition json_pointcloud :: "'d formats \<Rightarrow> 'd reals \<Rightarrow> 'd PointCloudObstacle \<Rightarrow> string result" where
  "json_pointcloud F R obj =
     bindR (points_loop F R (pco_points obj) False) (\<lambda>points.
     Inr (json_text ''pointcloudid'' @ '': '' @ json_text (pco_name obj) @ '', '' @
       json_text ''pointsize'' @ '': '' @ float_real F (pco_pointsize obj) @ '', '' @
       json_text ''points'' @ '': '' @ ''['' @ points @ '']''))"

record SensorOcclusionCheck =
  soc_bodyname :: string
  soc_cameraname :: string
  soc_starttime :: "64 word"
  soc_endtime :: "64 word"

definition json_key_string :: "string \<Rightarrow> string \<Rightarrow> string" where
  "json_key_string key v = json_text key @ '': '' @ json_text v"

definition json_key_int :: "string \<Rightarrow> int \<Rightarrow> string" where
  "json_key_int key v = json_text key @ '': '' @ dec_of_int v"

definition json_key_uint64 :: "string \<Rightarrow> 64 word \<Rightarrow> string" where
  "json_key_uint64 key v = json_text key @ '': '' @ dec_of_nat (unat v)"

definition json_key_real :: "'d formats \<Rightarrow> string \<Rightarrow> 'd \<Rightarrow> string" where
  "json_key_real F key v = json_text key @ '': '' @ stream_real F v"

definition json_occlusion_check :: "SensorOcclusionCheck \<Rightarrow> string" where
  "json_occlusion_check check =
     json_text ''bodyname'' @ '': '' @ json_text (soc_bodyname check) @ '', '' @
     json_text ''cameraname'' @ '': '' @ json_text (soc_cameraname check) @ '', '' @
     json_key_uint64 ''starttime'' (soc_starttime check) @ '', '' @ json_key_uint64 ''endtime'' (soc_endtime check)"

section \<open>Minimum viable regions\<close>

record 'd MinViableRegionInfo =
  mvr_size2D :: "'d list"
  mvr_maxPossibleSize :: "'d list"
  mvr_maxPossibleSizeOriginal :: "'d list"
  mvr_cornerMaskOriginal :: "8 word"
  mvr_cornerMask :: "8 word"

record 'd RegisterMinViableRegionInfo =
  rm_minViableRegion :: "'d MinViableRegionInfo"
  rm_locationName :: string
  rm_translation :: "'d list"
  rm_quaternion :: "'d list"
  rm_objectWeight :: 'd
  rm_objectType :: string
  rm_sensorTimeStampMS :: "64 word"
  rm_robotDepartStopTimestamp :: 'd
  rm_liftedWorldOffset :: "'d list"
  rm_maxCandidateSize :: "'d list"
  rm_minCandidateSize :: "'d list"
  rm_transferSpeedPostMult :: 'd
  rm_targetTemplateSceneData :: "'d json"
  rm_graspModelInfo :: "'d json"
  rm_registrationVisionInfo :: "'d json"
  rm_minCornerVisibleDist :: 'd
  rm_minCornerVisibleInsideDist :: 'd
  rm_maxCornerAngleDeviation :: 'd
  rm_occlusionFreeCornerMask :: "8 word"
  rm_registrationMode :: MinViableRegionRegistrationMode
  rm_skipAppendingToObjectSet :: bool
  rm_maxPossibleSizePadding :: 'd
  rm_fullDofValues :: "'d list"
  rm_connectedBodyActiveStates :: "8 word list"

definition MinViableRegionInfo_default :: "'d reals \<Rightarrow> 'd MinViableRegionInfo" where
  "MinViableRegionInfo_default R = \<lparr> mvr_size2D = replicate 2 (r_lit R 0), mvr_maxPossibleSize = replicate 3 (r_lit R 0),
     mvr_maxPossibleSizeOriginal = replicate 3 (r_lit R 0), mvr_cornerMaskOriginal = 0, mvr_cornerMask = 0 \<rparr>"

text \<open>\<^verbatim>\<open>operator=\<close> on two objects of a store, statement by statement: each one reads the right hand side as it
  is by then.\<close>

definition assign_with ::
  "nat \<Rightarrow> nat \<Rightarrow> ('d RegisterMinViableRegionInfo \<Rightarrow> 'd RegisterMinViableRegionInfo \<Rightarrow> 'd RegisterMinViableRegionInfo) \<Rightarrow>
   (nat \<Rightarrow> 'd RegisterMinViableRegionInfo) \<Rightarrow> nat \<Rightarrow> 'd RegisterMinViableRegionInfo" where
  "assign_with this rhs f st = st(this := f (st rhs) (st this))"

text \<open>A document is set to null and gets the copy of the other one: \<^verbatim>\<open>CopyFrom\<close> of rapidjson asserts
  that this is not the same document.\<close>

definition copy_document ::
  "nat \<Rightarrow> nat \<Rightarrow> ('d RegisterMinViableRegionInfo \<Rightarrow> 'd json) \<Rightarrow>
   ('d json \<Rightarrow> 'd RegisterMinViableRegionInfo \<Rightarrow> 'd RegisterMinViableRegionInfo) \<Rightarrow>
   (nat \<Rightarrow> 'd RegisterMinViableRegionInfo) \<Rightarrow> unit result \<times> (nat \<Rightarrow> 'd RegisterMinViableRegionInfo)" where
  "copy_document this rhs get put st =
     (let st = assign_with this rhs (\<lambda>r t. put JNull t) st in
      if this = rhs then (Inl rapidjson_assertion, st)
      else (Inr (), assign_with this rhs (\<lambda>r t. put (get r) t) st))"

definition RegisterMinViableRegionInfo_assign ::
  "nat \<Rightarrow> nat \<Rightarrow> (nat \<Rightarrow> 'd RegisterMinViableRegionInfo) \<Rightarrow> unit result \<times> (nat \<Rightarrow> 'd RegisterMinViableRegionInfo)" where
  "RegisterMinViableRegionInfo_assign this rhs st =
     (let st = fold (assign_with this rhs)
        [\<lambda>r t. t \<lparr> rm_minViableRegion := rm_minViableRegion r \<rparr>, \<lambda>r t. t \<lparr> rm_locationName := rm_locationName r \<rparr>,
         \<lambda>r t. t \<lparr> rm_translation := rm_translation r \<rparr>, \<lambda>r t. t \<lparr> rm_quaternion := rm_quaternion r \<rparr>,
         \<lambda>r t. t \<lparr> rm_objectWeight := rm_objectWeight r \<rparr>, \<lambda>r t. t \<lparr> rm_objectType := rm_objectType r \<rparr>,
         \<lambda>r t. t \<lparr> rm_sensorTimeStampMS := rm_sensorTimeStampMS r \<rparr>,
         \<lambda>r t. t \<lparr> rm_robotDepartStopTimestamp := rm_robotDepartStopTimestamp r \<rparr>,
         \<lambda>r t. t \<lparr> rm_liftedWorldOffset := rm_liftedWorldOffset r \<rparr>,
         \<lambda>r t. t \<lparr> rm_maxCandidateSize := rm_maxCandidateSize r \<rparr>, \<lambda>r t. t \<lparr> rm_minCandidateSize := rm_minCandidateSize r \<rparr>,
         \<lambda>r t. t \<lparr> rm_transferSpeedPostMult := rm_transferSpeedPostMult r \<rparr>] st in
      case copy_document this rhs rm_targetTemplateSceneData (\<lambda>d t. t \<lparr> rm_targetTemplateSceneData := d \<rparr>) st of
        (Inl e, st) \<Rightarrow> (Inl e, st)
      | (Inr _, st) \<Rightarrow>
     (case copy_document this rhs rm_graspModelInfo (\<lambda>d t. t \<lparr> rm_graspModelInfo := d \<rparr>) st of
        (Inl e, st) \<Rightarrow> (Inl e, st)
      | (Inr _, st) \<Rightarrow>
     (case copy_document this rhs rm_registrationVisionInfo (\<lambda>d t. t \<lparr> rm_registrationVisionInfo := d \<rparr>) st of
        (Inl e, st) \<Rightarrow> (Inl e, st)
      | (Inr _, st) \<Rightarrow>
      (Inr (), fold (assign_with this rhs)
        [\<lambda>r t. t \<lparr> rm_minCornerVisibleDist := rm_minCornerVisibleDist r \<rparr>,
         \<lambda>r t. t \<lparr> rm_minCornerVisibleInsideDist := rm_minCornerVisibleInsideDist r \<rparr>,
         \<lambda>r t. t \<lparr> rm_maxCornerAngleDeviation := rm_maxCornerAngleDeviation r \<rparr>,
         \<lambda>r t. t \<lparr> rm_occlusionFreeCornerMask := rm_occlusionFreeCornerMask r \<rparr>,
         \<lambda>r t. t \<lparr> rm_registrationMode := rm_registrationMode r \<rparr>,
         \<lambda>r t. t \<lparr> rm_skipAppendingToObjectSet := rm_skipAppendingToObjectSet r \<rparr>,
         \<lambda>r t. t \<lparr> rm_maxPossibleSizePadding := rm_maxPossibleSizePadding r \<rparr>,
         \<lambda>r t. t \<lparr> rm_fullDofValues := rm_fullDofValues r \<rparr>,
         \<lambda>r t. t \<lparr> rm_connectedBodyActiveStates := rm_connectedBodyActiveStates r \<rparr>] st))))"

text \<open>The constructor leaves the mode as it is in memory.\<close>

definition RegisterMinViableRegionInfo_default ::
  "'d reals \<Rightarrow> MinViableRegionRegistrationMode \<Rightarrow> 'd RegisterMinViableRegionInfo" where
  "RegisterMinViableRegionInfo_default R mode =
     \<lparr> rm_minViableRegion = MinViableRegionInfo_default R, rm_locationName = [], rm_translation = replicate 3 (r_lit R 0),
       rm_quaternion = replicate 4 (r_lit R 0), rm_objectWeight = r_lit R 0, rm_objectType = [], rm_sensorTimeStampMS = 0,
       rm_robotDepartStopTimestamp = r_lit R 0, rm_liftedWorldOffset = replicate 3 (r_lit R 0),
       rm_maxCandidateSize = replicate 3 (r_lit R 0), rm_minCandidateSize = replicate 3 (r_lit R 0),
       rm_transferSpeedPostMult = r_lit R 1, rm_targetTemplateSceneData = JNull, rm_graspModelInfo = JNull,
       rm_registrationVisionInfo = JNull, rm_minCornerVisibleDist = r_lit R 30, rm_minCornerVisibleInsideDist = r_lit R 0,
       rm_maxCornerAngleDeviation = r_lit R 0, rm_occlusionFreeCornerMask = 0, rm_registrationMode = mode,
       rm_skipAppendingToObjectSet = False, rm_maxPossibleSizePadding = r_lit R 30, rm_fullDofValues = [],
       rm_connectedBodyActiveStates = [] \<rparr>"

text \<open>\<^verbatim>\<open>uint8_t\<close> is promoted to \<^verbatim>\<open>int\<close>.\<close>

definition SaveJsonUint8 :: "8 word \<Rightarrow> 'd json" where
  "SaveJsonUint8 t = SaveJsonInt (ucast t)"

abbreviation save_reals :: "'d list \<Rightarrow> 'd json" where
  "save_reals \<equiv> SaveJsonArray SaveJsonDouble"

definition MinViableRegionInfo_save :: "'d MinViableRegionInfo \<Rightarrow> 'd json result" where
  "MinViableRegionInfo_save t =
     bindR (SetJsonValueByKey save_reals (JObject []) ''size2D'' (mvr_size2D t)) (\<lambda>v.
     bindR (SetJsonValueByKey save_reals v ''maxPossibleSize'' (mvr_maxPossibleSize t)) (\<lambda>v.
     bindR (SetJsonValueByKey save_reals v ''maxPossibleSizeOriginal'' (mvr_maxPossibleSizeOriginal t)) (\<lambda>v.
     bindR (SetJsonValueByKey SaveJsonUint8 v ''cornerMask'' (mvr_cornerMask t)) (\<lambda>v.
     SetJsonValueByKey SaveJsonUint8 v ''cornerMaskOriginal'' (mvr_cornerMaskOriginal t)))))"

definition add_unless_null :: "string \<Rightarrow> 'd json \<Rightarrow> 'd json \<Rightarrow> 'd json result" where
  "add_unless_null name x v = (if \<not> IsNull x then add_member name x v else Inr v)"

definition MinViableRegion_SerializeJSON :: "'d RegisterMinViableRegionInfo \<Rightarrow> 'd json result" where
  "MinViableRegion_SerializeJSON t =
     bindR (MinViableRegionInfo_save (rm_minViableRegion t)) (\<lambda>rMinViableRegion.
     bindR (add_member ''minViableRegion'' rMinViableRegion (JObject [])) (\<lambda>v.
     bindR (SetJsonValueByKey SaveJsonString v ''locationName'' (rm_locationName t)) (\<lambda>v.
     bindR (SetJsonValueByKey save_reals v ''translation'' (rm_translation t)) (\<lambda>v.
     bindR (SetJsonValueByKey save_reals v ''quaternion'' (rm_quaternion t)) (\<lambda>v.
     bindR (SetJsonValueByKey SaveJsonDouble v ''objectWeight'' (rm_objectWeight t)) (\<lambda>v.
     bindR (SetJsonValueByKey SaveJsonString v ''objectType'' (rm_objectType t)) (\<lambda>v.
     bindR (SetJsonValueByKey SaveJsonUint64 v ''sensorTimeStampMS'' (rm_sensorTimeStampMS t)) (\<lambda>v.
     bindR (SetJsonValueByKey SaveJsonDouble v ''robotDepartStopTimestamp'' (rm_robotDepartStopTimestamp t)) (\<lambda>v.
     bindR (SetJsonValueByKey save_reals v ''liftedWorldOffset'' (rm_liftedWorldOffset t)) (\<lambda>v.
     bindR (SetJsonValueByKey save_reals v ''minCandidateSize'' (rm_minCandidateSize t)) (\<lambda>v.
     bindR (SetJsonValueByKey save_reals v ''maxCandidateSize'' (rm_maxCandidateSize t)) (\<lambda>v.
     bindR (SetJsonValueByKey SaveJsonDouble v ''transferSpeedPostMult'' (rm_transferSpeedPostMult t)) (\<lambda>v.
     bindR (add_unless_null ''targetTemplateSceneData'' (rm_targetTemplateSceneData t) v) (\<lambda>v.
     bindR (add_member ''graspModelInfo'' (rm_graspModelInfo t) v) (\<lambda>v.
     bindR (add_unless_null ''registrationVisionInfo'' (rm_registrationVisionInfo t) v) (\<lambda>v.
     bindR (SetJsonValueByKey SaveJsonDouble v ''minCornerVisibleDist'' (rm_minCornerVisibleDist t)) (\<lambda>v.
     bindR (SetJsonValueByKey SaveJsonDouble v ''minCornerVisibleInsideDist'' (rm_minCornerVisibleInsideDist t)) (\<lambda>v.
     bindR (SetJsonValueByKey SaveJsonDouble v ''maxCornerAngleDeviation'' (rm_maxCornerAngleDeviation t)) (\<lambda>v.
     bindR (SetJsonValueByKey SaveJsonUint8 v ''occlusionFreeCornerMask'' (rm_occlusionFreeCornerMask t)) (\<lambda>v.
     bindR (SetJsonValueByKey SaveJsonCString v ''registrationMode''
       (GetMinViableRegionRegistrationModeString (rm_registrationMode t))) (\<lambda>v.
     bindR (SetJsonValueByKey SaveJsonBool v ''skipAppendingToObjectSet'' (rm_skipAppendingToObjectSet t)) (\<lambda>v.
     bindR (SetJsonValueByKey SaveJsonDouble v ''maxPossibleSizePadding'' (rm_maxPossibleSizePadding t)) (\<lambda>v.
     bindR (SetJsonValueByKey (SaveJsonVector SaveJsonDouble) v ''fullDofValues'' (rm_fullDofValues t)) (\<lambda>v.
     SetJsonValueByKey (SaveJsonVector SaveJsonInt8) v ''connectedBodyActiveStates'' (rm_connectedBodyActiveStates t)))))))))))))))))))))))))"

text \<open>\<open>find_member\<close> is \<^verbatim>\<open>FindMember\<close>, which rapidjson asserts an object for.\<close>

definition find_member :: "'d json \<Rightarrow> string \<Rightarrow> 'd json option result" where
  "find_member v key = (if IsObject v then Inr (FindMember v key) else Inl rapidjson_assertion)"

definition get_real :: "'d lib \<Rightarrow> 'd json \<Rightarrow> string \<Rightarrow> 'd \<Rightarrow> 'd result" where
  "get_real lib v key d = GetJsonValueByKey_default d (LoadJsonDouble lib) v key d"

definition get_mask :: "'d lib \<Rightarrow> 'd json \<Rightarrow> string \<Rightarrow> 8 word result" where
  "get_mask lib v key = bindR (GetJsonValueByKey_default 0 (LoadJsonUint lib) v key 0) (\<lambda>w. Inr (ucast w))"

definition get_document :: "'d json \<Rightarrow> string \<Rightarrow> 'd json result" where
  "get_document v key = bindR (find_member v key) (\<lambda>x. Inr (case x of Some d \<Rightarrow> d | None \<Rightarrow> JNull))"

definition MinViableRegionInfo_load :: "'d lib \<Rightarrow> 'd json \<Rightarrow> 'd MinViableRegionInfo \<Rightarrow> 'd MinViableRegionInfo result" where
  "MinViableRegionInfo_load lib v t =
     (let reals = LoadJsonArray (LoadJsonDouble lib) in
     bindR (load_field reals v ''size2D'' mvr_size2D (\<lambda>x. mvr_size2D_update (\<lambda>_. x)) t) (\<lambda>t.
     bindR (load_field reals v ''maxPossibleSize'' mvr_maxPossibleSize (\<lambda>x. mvr_maxPossibleSize_update (\<lambda>_. x)) t) (\<lambda>t.
     bindR (load_field reals v ''maxPossibleSizeOriginal'' mvr_maxPossibleSizeOriginal
       (\<lambda>x. mvr_maxPossibleSizeOriginal_update (\<lambda>_. x)) t) (\<lambda>t.
     bindR (get_mask lib v ''cornerMask'') (\<lambda>m.
     bindR (get_mask lib v ''cornerMaskOriginal'') (\<lambda>m'.
     Inr (t \<lparr> mvr_cornerMask := m, mvr_cornerMaskOriginal := m' \<rparr>)))))))"

definition MinViableRegion_DeserializeJSON ::
  "'d lib \<Rightarrow> 'd reals \<Rightarrow> 'd json \<Rightarrow> 'd RegisterMinViableRegionInfo \<Rightarrow> 'd RegisterMinViableRegionInfo result" where
  "MinViableRegion_DeserializeJSON lib R v t =
     (let reals = LoadJsonArray (LoadJsonDouble lib); t = t \<lparr> rm_minViableRegion := MinViableRegionInfo_default R \<rparr> in
     if IsNull v then Inr t
     else
     bindR (find_member v ''minViableRegion'') (\<lambda>region.
     bindR (case region of
              Some r \<Rightarrow> bindR (MinViableRegionInfo_load lib r (rm_minViableRegion t)) (\<lambda>m. Inr (t \<lparr> rm_minViableRegion := m \<rparr>))
            | None \<Rightarrow> Inr t) (\<lambda>t.
     bindR (load_field (LoadJsonString lib) v ''locationName'' rm_locationName (\<lambda>x. rm_locationName_update (\<lambda>_. x)) t) (\<lambda>t.
     bindR (load_field reals v ''translation'' rm_translation (\<lambda>x. rm_translation_update (\<lambda>_. x)) t) (\<lambda>t.
     bindR (load_field reals v ''quaternion'' rm_quaternion (\<lambda>x. rm_quaternion_update (\<lambda>_. x)) t) (\<lambda>t.
     bindR (get_real lib v ''objectWeight'' (r_lit R 0)) (\<lambda>x.
     bindR (load_field (LoadJsonString lib) v ''objectType'' rm_objectType (\<lambda>x. rm_objectType_update (\<lambda>_. x)) (t \<lparr> rm_objectWeight := x \<rparr>)) (\<lambda>t.
     bindR (GetJsonValueByKey_default 0 (LoadJsonUint64 lib) v ''sensorTimeStampMS'' 0) (\<lambda>x.
     bindR (get_real lib v ''robotDepartStopTimestamp'' (r_lit R 0)) (\<lambda>y.
     bindR (load_field reals v ''liftedWorldOffset'' rm_liftedWorldOffset (\<lambda>x. rm_liftedWorldOffset_update (\<lambda>_. x))
       (t \<lparr> rm_sensorTimeStampMS := x, rm_robotDepartStopTimestamp := y \<rparr>)) (\<lambda>t.
     bindR (load_field reals v ''minCandidateSize'' rm_minCandidateSize (\<lambda>x. rm_minCandidateSize_update (\<lambda>_. x)) t) (\<lambda>t.
     bindR (load_field reals v ''maxCandidateSize'' rm_maxCandidateSize (\<lambda>x. rm_maxCandidateSize_update (\<lambda>_. x)) t) (\<lambda>t.
     bindR (get_real lib v ''transferSpeedPostMult'' (r_lit R 1)) (\<lambda>x.
     bindR (get_document v ''targetTemplateSceneData'') (\<lambda>d1.
     bindR (get_document v ''graspModelInfo'') (\<lambda>d2.
     bindR (get_document v ''registrationVisionInfo'') (\<lambda>d3.
     bindR (get_real lib v ''minCornerVisibleDist'' (r_lit R 30)) (\<lambda>y1.
     bindR (get_real lib v ''minCornerVisibleInsideDist'' (r_lit R 0)) (\<lambda>y2.
     bindR (get_real lib v ''maxCornerAngleDeviation'' (r_lit R 0)) (\<lambda>y3.
     bindR (get_mask lib v ''occlusionFreeCornerMask'') (\<lambda>m.
     bindR (GetStringJsonValueByKey lib v ''registrationMode'' []) (\<lambda>s.
     bindR (GetMinViableRegionRegistrationModeFromString (Some (c_str s)) MVRRM_None) (\<lambda>mode.
     bindR (GetJsonValueByKey_default False (LoadJsonBool lib) v ''skipAppendingToObjectSet'' False) (\<lambda>b.
     bindR (get_real lib v ''maxPossibleSizePadding'' (r_lit R 30)) (\<lambda>y4.
     bindR (load_field (LoadJsonVector (r_lit R 0) (LoadJsonDouble lib)) v ''fullDofValues'' rm_fullDofValues
       (\<lambda>x. rm_fullDofValues_update (\<lambda>_. x))
       (t \<lparr> rm_transferSpeedPostMult := x, rm_targetTemplateSceneData := d1, rm_graspModelInfo := d2,
            rm_registrationVisionInfo := d3, rm_minCornerVisibleDist := y1, rm_minCornerVisibleInsideDist := y2,
            rm_maxCornerAngleDeviation := y3, rm_occlusionFreeCornerMask := m, rm_registrationMode := mode,
            rm_skipAppendingToObjectSet := b, rm_maxPossibleSizePadding := y4 \<rparr>)) (\<lambda>t.
     load_field (LoadJsonVector 0 (LoadJsonInt8 lib)) v ''connectedBodyActiveStates'' rm_connectedBodyActiveStates
       (\<lambda>x. rm_connectedBodyActiveStates_update (\<lambda>_. x)) t))))))))))))))))))))))))))"

definition ConvertLengthUnitScale ::
  "'d reals \<Rightarrow> 'd \<Rightarrow> 'd RegisterMinViableRegionInfo \<Rightarrow> 'd RegisterMinViableRegionInfo" where
  "ConvertLengthUnitScale R fUnitScale t =
     (let scaled = (\<lambda>x. r_mul R x fUnitScale); m = rm_minViableRegion t in
      if r_eq R fUnitScale (r_lit R 1) then t
      else t \<lparr> rm_minViableRegion := m \<lparr> mvr_size2D := map scaled (mvr_size2D m),
                 mvr_maxPossibleSize := map scaled (mvr_maxPossibleSize m),
                 mvr_maxPossibleSizeOriginal := map scaled (mvr_maxPossibleSizeOriginal m) \<rparr>,
               rm_translation := map scaled (rm_translation t),
               rm_liftedWorldOffset := map scaled (rm_liftedWorldOffset t),
               rm_maxCandidateSize := map scaled (rm_maxCandidateSize t),
               rm_minCandidateSize := map scaled (rm_minCandidateSize t),
               rm_minCornerVisibleDist := scaled (rm_minCornerVisibleDist t),
               rm_minCornerVisibleInsideDist := scaled (rm_minCornerVisibleInsideDist t),
               rm_maxPossibleSizePadding := scaled (rm_maxPossibleSizePadding t) \<rparr>)"

section \<open>Results\<close>

text \<open>\<^verbatim>\<open>BOOST_ASSERT(pt.IsObject() && pt.HasMember("output"))\<close>, and the member.\<close>

definition output_of :: "'d json \<Rightarrow> 'd json result" where
  "output_of pt =
     bindR (check_assert (IsObject pt \<and> HasMember pt ''output'') ''pt.IsObject() && pt.HasMember(output)'') (\<lambda>_.
     at_key pt ''output'')"

definition object_members :: "'d json \<Rightarrow> (string \<times> 'd json) list result" where
  "object_members v = (if IsObject v then Inr (members v) else Inl rapidjson_assertion)"

abbreviation real_array :: "'d lib \<Rightarrow> ('d, 'd list) loader" where
  "real_array lib \<equiv> LoadJsonArray (LoadJsonDouble lib)"

abbreviation real_vector :: "'d lib \<Rightarrow> ('d, 'd list) loader" where
  "real_vector lib \<equiv> LoadJsonVector (double_of_int lib 0) (LoadJsonDouble lib)"

definition load_transform :: "'d lib \<Rightarrow> string \<Rightarrow> 'd json \<Rightarrow> 'd Transform \<Rightarrow> 'd Transform result" where
  "load_transform lib translate_key v t =
     bindR (load_field (real_array lib) v translate_key translate (\<lambda>x. translate_update (\<lambda>_. x)) t) (\<lambda>t.
     load_field (real_array lib) v ''quaternion'' quaternion (\<lambda>x. quaternion_update (\<lambda>_. x)) t)"

record 'd ResultGetJointValues =
  jv_robottype :: string
  jv_jointnames :: "string list"
  jv_currentjointvalues :: "'d list"
  jv_tools :: "(string \<times> 'd Transform) list"

definition ResultGetJointValues_Parse ::
  "'d lib \<Rightarrow> 'd reals \<Rightarrow> 'd json \<Rightarrow> 'd ResultGetJointValues \<Rightarrow> 'd ResultGetJointValues result" where
  "ResultGetJointValues_Parse lib R pt r =
     bindR (output_of pt) (\<lambda>v.
     bindR (load_field (LoadJsonString lib) v ''robottype'' jv_robottype (\<lambda>x. jv_robottype_update (\<lambda>_. x)) r) (\<lambda>r.
     bindR (load_field (LoadJsonVector [] (LoadJsonString lib)) v ''jointnames'' jv_jointnames (\<lambda>x. jv_jointnames_update (\<lambda>_. x)) r) (\<lambda>r.
     bindR (load_field (real_vector lib) v ''currentjointvalues'' jv_currentjointvalues
       (\<lambda>x. jv_currentjointvalues_update (\<lambda>_. x)) r) (\<lambda>r.
     case FindMember v ''tools'' of
       None \<Rightarrow> Inr (r \<lparr> jv_tools := [] \<rparr>)
     | Some toolsjson \<Rightarrow>
         bindR (object_members toolsjson) (\<lambda>ms.
         bindR (foldR (\<lambda>(name, value) tools.
                  bindR (load_transform lib ''translate'' value (Transform_default R)) (\<lambda>transform.
                  Inr (map_put (c_str name) transform tools))) ms []) (\<lambda>tools.
         Inr (r \<lparr> jv_tools := tools \<rparr>)))))))"

record 'd ResultMoveJoints =
  mj_robottype :: string
  mj_numpoints :: "32 word"
  mj_timedjointvalues :: "'d list"

definition ResultMoveJoints_Parse ::
  "'d lib \<Rightarrow> 'd json \<Rightarrow> 'd ResultMoveJoints \<Rightarrow> 'd ResultMoveJoints result" where
  "ResultMoveJoints_Parse lib pt r =
     bindR (output_of pt) (\<lambda>v.
     bindR (load_field (LoadJsonString lib) v ''robottype'' mj_robottype (\<lambda>x. mj_robottype_update (\<lambda>_. x)) r) (\<lambda>r.
     bindR (load_field (real_vector lib) v ''timedjointvalues'' mj_timedjointvalues (\<lambda>x. mj_timedjointvalues_update (\<lambda>_. x)) r) (\<lambda>r.
     load_field (LoadJsonInt lib) v ''numpoints'' mj_numpoints (\<lambda>x. mj_numpoints_update (\<lambda>_. x)) r)))"

definition ResultTransform_Parse :: "'d lib \<Rightarrow> 'd json \<Rightarrow> 'd Transform \<Rightarrow> 'd Transform result" where
  "ResultTransform_Parse lib pt t = bindR (output_of pt) (\<lambda>v. load_transform lib ''translation'' v t)"

text \<open>Translation and extents of a new \<^verbatim>\<open>ResultOBB\<close> are not initialized.\<close>

record 'd ResultOBB =
  obb_translation :: "'d list"
  obb_quaternion :: "'d list"
  obb_extents :: "'d list"

definition ResultOBB_default :: "'d reals \<Rightarrow> 'd compiled \<Rightarrow> 'd ResultOBB" where
  "ResultOBB_default R c = \<lparr> obb_translation = replicate 3 (indeterminate c),
     obb_quaternion = [r_lit R 1, r_lit R 0, r_lit R 0, r_lit R 0], obb_extents = replicate 3 (indeterminate c) \<rparr>"

definition ResultOBB_neq :: "'d reals \<Rightarrow> 'd ResultOBB \<Rightarrow> 'd ResultOBB \<Rightarrow> bool" where
  "ResultOBB_neq R a b \<longleftrightarrow>
     \<not> FuzzyEquals_array R (obb_translation a) (obb_translation b) \<or>
     \<not> FuzzyEquals_array R (obb_quaternion a) (obb_quaternion b) \<or>
     \<not> FuzzyEquals_array R (obb_extents a) (obb_extents b)"

definition ResultOBB_Parse :: "'d lib \<Rightarrow> 'd json \<Rightarrow> 'd ResultOBB \<Rightarrow> 'd ResultOBB result" where
  "ResultOBB_Parse lib pt r =
     (let v = (case (if IsObject pt then FindMember pt ''output'' else None) of Some x \<Rightarrow> x | None \<Rightarrow> pt) in
     bindR (load_field (real_array lib) v ''translation'' obb_translation (\<lambda>x. obb_translation_update (\<lambda>_. x)) r) (\<lambda>r.
     bindR (load_field (real_array lib) v ''extents'' obb_extents (\<lambda>x. obb_extents_update (\<lambda>_. x)) r) (\<lambda>r.
     load_field (real_array lib) v ''quaternion'' obb_quaternion (\<lambda>x. obb_quaternion_update (\<lambda>_. x)) r)))"

record 'd ResultInstObjectInfo =
  ioi_transform :: "'d Transform"
  ioi_obb :: "'d ResultOBB"
  ioi_innerobb :: "'d ResultOBB"
  ioi_rGeometryInfos :: "'d json"
  ioi_rIkParams :: "'d json"

definition ResultInstObjectInfo_Parse ::
  "'d lib \<Rightarrow> 'd json \<Rightarrow> 'd ResultInstObjectInfo \<Rightarrow> 'd ResultInstObjectInfo result" where
  "ResultInstObjectInfo_Parse lib pt r =
     bindR (output_of pt) (\<lambda>v.
     bindR (load_transform lib ''translation'' v (ioi_transform r)) (\<lambda>t.
     bindR (at_key v ''obb'') (\<lambda>x. bindR (ResultOBB_Parse lib x (ioi_obb r)) (\<lambda>obb.
     bindR (at_key v ''innerobb'') (\<lambda>x. bindR (ResultOBB_Parse lib x (ioi_innerobb r)) (\<lambda>innerobb.
     Inr \<lparr> ioi_transform = t, ioi_obb = obb, ioi_innerobb = innerobb,
       ioi_rGeometryInfos = (case FindMember v ''geometryInfos'' of Some x \<Rightarrow> x | None \<Rightarrow> ioi_rGeometryInfos r),
       ioi_rIkParams = (case FindMember v ''ikparams'' of Some x \<Rightarrow> x | None \<Rightarrow> ioi_rIkParams r) \<rparr>))))))"

record 'd ResultGetInstObjectAndSensorInfo =
  ios_muri :: "(string \<times> string) list"
  ios_minstobjecttransform :: "(string \<times> 'd Transform) list"
  ios_minstobjectobb :: "(string \<times> 'd ResultOBB) list"
  ios_minstobjectinnerobb :: "(string \<times> 'd ResultOBB) list"
  ios_msensortransform :: "(SensorSelectionInfo \<times> 'd Transform) list"
  ios_msensordata :: "(SensorSelectionInfo \<times> 'd SensorData) list"
  ios_mrGeometryInfos :: "(string \<times> 'd json) list"
  ios_mObjectType :: "(string \<times> string) list"

definition parse_instobject ::
  "'d lib \<Rightarrow> 'd reals \<Rightarrow> 'd compiled \<Rightarrow> string \<times> 'd json \<Rightarrow> 'd ResultGetInstObjectAndSensorInfo \<Rightarrow>
   'd ResultGetInstObjectAndSensorInfo result" where
  "parse_instobject lib R c entry r =
     (case entry of (name, v) \<Rightarrow> let objname = c_str name in
     bindR (load_transform lib ''translation'' v (Transform_default R)) (\<lambda>transform.
     bindR (at_key v ''obb'') (\<lambda>x. bindR (ResultOBB_Parse lib x (ResultOBB_default R c)) (\<lambda>obb.
     bindR (at_key v ''innerobb'') (\<lambda>x. bindR (ResultOBB_Parse lib x (ResultOBB_default R c)) (\<lambda>innerobb.
     bindR (LoadJsonValueByKey (LoadJsonString lib) v ''uri'' (map_at [] objname (ios_muri r))) (\<lambda>(_, uri).
     bindR (LoadJsonValueByKey (LoadJsonString lib) v ''objectType'' (map_at [] objname (ios_mObjectType r))) (\<lambda>(_, objectType).
     Inr (r \<lparr> ios_minstobjecttransform := map_put objname transform (ios_minstobjecttransform r),
              ios_minstobjectobb := map_put objname obb (ios_minstobjectobb r),
              ios_minstobjectinnerobb := map_put objname innerobb (ios_minstobjectinnerobb r),
              ios_mrGeometryInfos := (case FindMember v ''geometryInfos'' of
                 Some x \<Rightarrow> map_put objname x (ios_mrGeometryInfos r) | None \<Rightarrow> ios_mrGeometryInfos r),
              ios_muri := map_put objname uri (ios_muri r),
              ios_mObjectType := map_put objname objectType (ios_mObjectType r) \<rparr>)))))))))"

definition parse_image_dimensions :: "'d lib \<Rightarrow> 'd json \<Rightarrow> 32 word list result" where
  "parse_image_dimensions lib sensor =
     bindR (LoadJsonValueByKey (LoadJsonVector 0 (LoadJsonInt lib)) sensor ''image_dimensions'' []) (\<lambda>(_, dims).
     let dims = (if length dims = 2 then dims @ [1] else dims) in
     if length dims \<noteq> 3 then Inl (MujinException ''the length of image_dimensions is invalid'' MEC_Failed) else Inr dims)"

definition parse_sensordata :: "'d lib \<Rightarrow> 'd json \<Rightarrow> 'd SensorData \<Rightarrow> 'd SensorData result" where
  "parse_sensordata lib sensor d =
     bindR (load_field (LoadJsonCArray (LoadJsonDouble lib)) sensor ''distortion_coeffs'' distortion_coeffs
       (\<lambda>x. distortion_coeffs_update (\<lambda>_. x)) d) (\<lambda>d.
     bindR (load_field (LoadJsonCArray (LoadJsonDouble lib)) sensor ''intrinsic'' intrinsic (\<lambda>x. intrinsic_update (\<lambda>_. x)) d) (\<lambda>d.
     bindR (parse_image_dimensions lib sensor) (\<lambda>dims.
     bindR (load_field (real_vector lib) sensor ''extra_parameters'' extra_parameters (\<lambda>x. extra_parameters_update (\<lambda>_. x))
       (d \<lparr> image_dimensions := dims \<rparr>)) (\<lambda>d.
     bindR (load_field (LoadJsonString lib) sensor ''distortion_model'' distortion_model (\<lambda>x. distortion_model_update (\<lambda>_. x)) d) (\<lambda>d.
     bindR (load_field (LoadJsonDouble lib) sensor ''focal_length'' focal_length (\<lambda>x. focal_length_update (\<lambda>_. x)) d) (\<lambda>d.
     load_field (LoadJsonDouble lib) sensor ''measurement_time'' measurement_time (\<lambda>x. measurement_time_update (\<lambda>_. x)) d))))))"

definition parse_sensor_link ::
  "'d lib \<Rightarrow> 'd reals \<Rightarrow> 'd SensorData \<Rightarrow> string \<Rightarrow> string \<times> 'd json \<Rightarrow> 'd ResultGetInstObjectAndSensorInfo \<Rightarrow>
   'd ResultGetInstObjectAndSensorInfo result" where
  "parse_sensor_link lib R d0 sensorname entry r =
     (case entry of (linkname, v) \<Rightarrow>
     bindR (load_transform lib ''translation'' v (Transform_default R)) (\<lambda>transform.
     bindR (at_key v ''sensordata'') (\<lambda>sensor.
     bindR (parse_sensordata lib sensor d0) (\<lambda>d.
     let info = SensorSelectionInfo sensorname linkname in
     Inr (r \<lparr> ios_msensortransform := map_put info transform (ios_msensortransform r),
              ios_msensordata := map_put info d (ios_msensordata r) \<rparr>)))))"

text \<open>\<open>d0\<close> is a new \<^verbatim>\<open>SensorData\<close>. Of the maps only \<^verbatim>\<open>mrGeometryInfos\<close> is cleared.\<close>

definition ResultGetInstObjectAndSensorInfo_Parse ::
  "'d lib \<Rightarrow> 'd reals \<Rightarrow> 'd compiled \<Rightarrow> 'd SensorData \<Rightarrow> 'd json \<Rightarrow> 'd ResultGetInstObjectAndSensorInfo \<Rightarrow>
   'd ResultGetInstObjectAndSensorInfo result" where
  "ResultGetInstObjectAndSensorInfo_Parse lib R c d0 pt r =
     bindR (output_of pt) (\<lambda>out.
     bindR (at_key out ''instobjects'') (\<lambda>instobjects.
     bindR (object_members instobjects) (\<lambda>objs.
     bindR (foldR (parse_instobject lib R c) objs (r \<lparr> ios_mrGeometryInfos := [] \<rparr>)) (\<lambda>r.
     bindR (at_key out ''sensors'') (\<lambda>sensors.
     bindR (object_members sensors) (\<lambda>ss.
     foldR (\<lambda>(sensorname, links) r. bindR (object_members links) (\<lambda>ls. foldR (parse_sensor_link lib R d0 sensorname) ls r)) ss r))))))"

definition ResultIsRobotOccludingBody_Parse :: "'d lib \<Rightarrow> 'd json \<Rightarrow> bool result" where
  "ResultIsRobotOccludingBody_Parse lib pt =
     bindR (output_of pt) (\<lambda>v.
     if \<not> IsObject v \<or> \<not> HasMember v ''occluded'' then
       Inl (MujinException (''Output does not have '' @ dquoted ''occluded'' @ '' attribute!'') MEC_Failed)
     else bindR (GetJsonValueByKey_default 0 (LoadJsonInt lib) v ''occluded'' 1) (\<lambda>x. Inr (x = 1)))"

text \<open>\<^verbatim>\<open>GetDouble\<close> and \<^verbatim>\<open>GetInt64\<close>, with what rapidjson asserts.\<close>

definition double_value :: "'d lib \<Rightarrow> 'd json \<Rightarrow> 'd result" where
  "double_value lib v = (if IsNumber v then Inr (GetDouble lib v) else Inl rapidjson_assertion)"

definition int64_value :: "'d json \<Rightarrow> 64 word result" where
  "int64_value v = (if IsInt64 v then Inr (word_of_int (integer v)) else Inl rapidjson_assertion)"

definition parse_position ::
  "'d lib \<Rightarrow> 'd json \<Rightarrow> ('d Transform \<times> 64 word) list \<Rightarrow> ('d Transform \<times> 64 word) list result" where
  "parse_position lib v acc =
     (if IsArray v \<and> length (elements v) \<ge> 8 then
        bindR (mapR (double_value lib) (take 7 (elements v))) (\<lambda>xs.
        bindR (int64_value (elements v ! 7)) (\<lambda>stamp.
        Inr (acc @ [(\<lparr> quaternion = take 4 xs, translate = drop 4 xs \<rparr>, stamp)])))
      else Inr acc)"

text \<open>The two vectors of the result, which grow together, as one list of pairs.\<close>

definition ResultGetPickedPositions_Parse ::
  "'d lib \<Rightarrow> 'd json \<Rightarrow> ('d Transform \<times> 64 word) list \<Rightarrow> ('d Transform \<times> 64 word) list result" where
  "ResultGetPickedPositions_Parse lib pt r =
     bindR (output_of pt) (\<lambda>v.
     bindR (object_members v) (\<lambda>ms.
     foldR (\<lambda>(name, value) r.
       if c_str name = ''positions'' \<and> IsArray value then foldR (parse_position lib) (elements value) r else Inr r) ms r))"

text \<open>The lengths are those of \<^verbatim>\<open>std::array\<close>, so that the checks of the source cannot fail.\<close>

definition ResultAABB_Parse :: "'d lib \<Rightarrow> 'd json \<Rightarrow> 'd AABB \<Rightarrow> 'd AABB result" where
  "ResultAABB_Parse lib pt r =
     bindR (output_of pt) (\<lambda>v.
     bindR (load_field (real_array lib) v ''pos'' pos (\<lambda>x. pos_update (\<lambda>_. x)) r) (\<lambda>r.
     bindR (load_field (real_array lib) v ''extents'' extents (\<lambda>x. extents_update (\<lambda>_. x)) r) (\<lambda>r.
     if length (pos r) \<noteq> 3 then Inl (MujinException ''The length of pos is invalid.'' MEC_Failed)
     else if length (extents r) \<noteq> 3 then Inl (MujinException ''The length of extents is invalid.'' MEC_Failed)
     else Inr r)))"

record 'd ResultComputeIkParamPosition =
  ikp_translation :: "'d list"
  ikp_quaternion :: "'d list"
  ikp_direction :: "'d list"
  ikp_angleXZ :: 'd
  ikp_angleYX :: 'd
  ikp_angleZY :: 'd
  ikp_angleX :: 'd
  ikp_angleY :: 'd
  ikp_angleZ :: 'd

definition ResultComputeIkParamPosition_Parse ::
  "'d lib \<Rightarrow> 'd json \<Rightarrow> 'd ResultComputeIkParamPosition \<Rightarrow> 'd ResultComputeIkParamPosition result" where
  "ResultComputeIkParamPosition_Parse lib pt r =
     (let real_number = LoadJsonDouble lib in
     bindR (output_of pt) (\<lambda>v.
     bindR (load_field (real_vector lib) v ''translation'' ikp_translation (\<lambda>x. ikp_translation_update (\<lambda>_. x)) r) (\<lambda>r.
     bindR (load_field (real_vector lib) v ''quaternion'' ikp_quaternion (\<lambda>x. ikp_quaternion_update (\<lambda>_. x)) r) (\<lambda>r.
     bindR (load_field (real_vector lib) v ''direction'' ikp_direction (\<lambda>x. ikp_direction_update (\<lambda>_. x)) r) (\<lambda>r.
     bindR (load_field real_number v ''angleXZ'' ikp_angleXZ (\<lambda>x. ikp_angleXZ_update (\<lambda>_. x)) r) (\<lambda>r.
     bindR (load_field real_number v ''angleYX'' ikp_angleYX (\<lambda>x. ikp_angleYX_update (\<lambda>_. x)) r) (\<lambda>r.
     bindR (load_field real_number v ''angleZY'' ikp_angleZY (\<lambda>x. ikp_angleZY_update (\<lambda>_. x)) r) (\<lambda>r.
     bindR (load_field real_number v ''angleX'' ikp_angleX (\<lambda>x. ikp_angleX_update (\<lambda>_. x)) r) (\<lambda>r.
     bindR (load_field real_number v ''angleY'' ikp_angleY (\<lambda>x. ikp_angleY_update (\<lambda>_. x)) r) (\<lambda>r.
     bindR (load_field real_number v ''angleZ'' ikp_angleZ (\<lambda>x. ikp_angleZ_update (\<lambda>_. x)) r) (\<lambda>r.
     if length (ikp_translation r) \<noteq> 3 then Inl (MujinException ''The length of translation is invalid.'' MEC_Failed)
     else if length (ikp_quaternion r) \<noteq> 4 then Inl (MujinException ''The length of quaternion is invalid.'' MEC_Failed)
     else if length (ikp_direction r) \<noteq> 3 then Inl (MujinException ''The length of direction is invalid.'' MEC_Failed)
     else Inr r)))))))))))"

text \<open>A solution: the values and the text of the extra information.\<close>

definition parse_solution :: "'d lib \<Rightarrow> 'd json \<Rightarrow> ('d list \<times> string) result" where
  "parse_solution lib v =
     bindR (LoadJsonValueByKey (real_vector lib) v ''dofvalues'' []) (\<lambda>(_, dofvalues).
     bindR (at_key v ''extra'') (\<lambda>x.
     bindR (DumpJson lib x 0) (\<lambda>extra. Inr (dofvalues, extra))))"

definition ResultComputeIKFromParameters_Parse ::
  "'d lib \<Rightarrow> 'd json \<Rightarrow> ('d list \<times> string) list \<Rightarrow> ('d list \<times> string) list result" where
  "ResultComputeIKFromParameters_Parse lib pt r =
     bindR (output_of pt) (\<lambda>out.
     bindR (check_assert (IsObject out \<and> HasMember out ''solutions'') ''v_.IsObject() && v_.HasMember(solutions)'') (\<lambda>_.
     bindR (elements_at out ''solutions'') (\<lambda>vs.
     bindR (mapR (parse_solution lib) vs) (\<lambda>xs. Inr (r @ xs)))))"

end
