(* ===== verification/Heartbeat.thy ===== *)
theory Heartbeat
  imports BinPickingData Zmq
begin

text \<open>
  The published state of a bin picking task and the heartbeats that carry it
  (\<^verbatim>\<open>src/binpickingtask.cpp\<close>, \<^verbatim>\<open>src/binpickingtaskzmq.cpp\<close>): \<^verbatim>\<open>ResultGetBinpickingState\<close>, the
  choice of a planning slave, and the thread that watches the heartbeats.
\<close>

section \<open>The state of a task\<close>

record OcclusionResult =
  occ_sensorSelectionInfo :: SensorSelectionInfo
  occ_bodyname :: string
  occ_isocclusion :: "32 word"

record LocationTrackingInfo =
  lti_locationName :: string
  lti_containerId :: string
  lti_containerName :: string
  lti_containerUsage :: string
  lti_cycleIndex :: string

record LocationExecutionInfo =
  lei_locationName :: string
  lei_containerId :: string
  lei_forceRequestStampMS :: "64 word"
  lei_lastInsideContainerStampMS :: "64 word"
  lei_needContainerState :: string

record 'd RemoveObjectFromObjectListInfo =
  rem_timestamp :: 'd
  rem_objectPk :: string

record 'd TriggerDetectionCaptureInfo =
  tdc_timestamp :: 'd
  tdc_triggerType :: string
  tdc_locationName :: string
  tdc_targetUpdateNamePrefix :: string

record 'd ResultGetBinpickingState =
  bs_statusPickPlace :: string
  bs_statusDescPickPlace :: string
  bs_statusPhysics :: string
  bs_isDynamicEnvironmentStateEmpty :: bool
  bs_pickAttemptFromSourceId :: "32 word"
  bs_timestamp :: "64 word"
  bs_lastGrabbedTargetTimeStamp :: "64 word"
  bs_vOcclusionResults :: "OcclusionResult list"
  bs_activeLocationTrackingInfos :: "LocationTrackingInfo list"
  bs_locationExecutionInfos :: "LocationExecutionInfo list"
  bs_isGrabbingTarget :: bool
  bs_isGrabbingLastTarget :: bool
  bs_hasRobotExecutionStarted :: bool
  bs_orderNumber :: "32 word"
  bs_numLeftInOrder :: "32 word"
  bs_numLeftInSupply :: "32 word"
  bs_placedInDest :: "32 word"
  bs_cycleIndex :: string
  bs_registerMinViableRegionInfo :: "'d RegisterMinViableRegionInfo"
  bs_removeObjectFromObjectListInfos :: "'d RemoveObjectFromObjectListInfo list"
  bs_triggerDetectionCaptureInfo :: "'d TriggerDetectionCaptureInfo"
  bs_pickPlaceHistoryItems :: "'d PickPlaceHistoryItem list"
  bs_rUnitInfo :: "'d json"

definition ResultGetBinpickingState_default :: "'d reals \<Rightarrow> 'd compiled \<Rightarrow> 'd ResultGetBinpickingState" where
  "ResultGetBinpickingState_default R c =
     \<lparr> bs_statusPickPlace = [], bs_statusDescPickPlace = [], bs_statusPhysics = [],
       bs_isDynamicEnvironmentStateEmpty = False, bs_pickAttemptFromSourceId = -1, bs_timestamp = 0,
       bs_lastGrabbedTargetTimeStamp = 0, bs_vOcclusionResults = [], bs_activeLocationTrackingInfos = [],
       bs_locationExecutionInfos = [], bs_isGrabbingTarget = True, bs_isGrabbingLastTarget = True,
       bs_hasRobotExecutionStarted = False, bs_orderNumber = -1, bs_numLeftInOrder = -1, bs_numLeftInSupply = -1,
       bs_placedInDest = -1, bs_cycleIndex = [],
       bs_registerMinViableRegionInfo = RegisterMinViableRegionInfo_default R (indeterminate_mode c),
       bs_removeObjectFromObjectListInfos = [],
       bs_triggerDetectionCaptureInfo = \<lparr> tdc_timestamp = r_lit R 0, tdc_triggerType = [], tdc_locationName = [],
         tdc_targetUpdateNamePrefix = [] \<rparr>,
       bs_pickPlaceHistoryItems = [], bs_rUnitInfo = JNull \<rparr>"

definition get_string :: "'d lib \<Rightarrow> 'd json \<Rightarrow> string \<Rightarrow> string \<Rightarrow> string result" where
  "get_string lib v key d = GetJsonValueByKey_default [] (LoadJsonString lib) v key d"

definition get_int :: "'d lib \<Rightarrow> 'd json \<Rightarrow> string \<Rightarrow> 32 word \<Rightarrow> 32 word result" where
  "get_int lib v key d = GetJsonValueByKey_default 0 (LoadJsonInt lib) v key d"

definition get_bool :: "'d lib \<Rightarrow> 'd json \<Rightarrow> string \<Rightarrow> bool \<Rightarrow> bool result" where
  "get_bool lib v key d = GetJsonValueByKey_default False (LoadJsonBool lib) v key d"

definition get_uint64 :: "'d lib \<Rightarrow> 'd json \<Rightarrow> string \<Rightarrow> 64 word \<Rightarrow> 64 word result" where
  "get_uint64 lib v key d = GetJsonValueByKey_default 0 (LoadJsonUint64 lib) v key d"

definition path_int :: "'d lib \<Rightarrow> 'd json \<Rightarrow> string \<Rightarrow> 32 word result" where
  "path_int lib v path = GetJsonValueByPath_default 0 lib (LoadJsonInt lib) v path (-1)"

definition path_string :: "'d lib \<Rightarrow> 'd json \<Rightarrow> string \<Rightarrow> string result" where
  "path_string lib v path = GetJsonValueByPath_default [] lib (LoadJsonString lib) v path []"

text \<open>Seconds as milliseconds: \<^verbatim>\<open>(unsigned long long)(x * 1000.0)\<close>.\<close>

definition get_milliseconds :: "'d lib \<Rightarrow> 'd reals \<Rightarrow> 'd json \<Rightarrow> string \<Rightarrow> 64 word result" where
  "get_milliseconds lib R v key =
     bindR (get_real lib v key (r_lit R 0)) (\<lambda>x.
     case r_uint64 R (r_mul R x (r_lit R 1000)) of
       Some w \<Rightarrow> Inr w | None \<Rightarrow> Inl (UndefinedBehaviour ''cast to unsigned long long''))"

text \<open>The elements of an array member, none when the member is missing or no array.\<close>

definition array_or_none :: "'d json \<Rightarrow> string \<Rightarrow> 'd json list result" where
  "array_or_none v key =
     bindR (find_member v key) (\<lambda>x. Inr (case x of Some (JArray xs) \<Rightarrow> xs | _ \<Rightarrow> []))"

definition parse_occlusion :: "'d lib \<Rightarrow> 'd json \<Rightarrow> OcclusionResult result" where
  "parse_occlusion lib v =
     bindR (GetJsonValueByKey_default (SensorSelectionInfo [] []) (SensorSelectionInfo_LoadFromJson lib) v
       ''sensorSelectionInfo'' (SensorSelectionInfo [] [])) (\<lambda>info.
     bindR (get_string lib v ''bodyname'' []) (\<lambda>bodyname.
     bindR (get_int lib v ''isocclusion'' (-1)) (\<lambda>isocclusion.
     Inr \<lparr> occ_sensorSelectionInfo = info, occ_bodyname = bodyname, occ_isocclusion = isocclusion \<rparr>)))"

definition parse_removal :: "'d lib \<Rightarrow> 'd reals \<Rightarrow> 'd json \<Rightarrow> 'd RemoveObjectFromObjectListInfo result" where
  "parse_removal lib R v =
     bindR (get_real lib v ''timestamp'' (r_lit R 0)) (\<lambda>stamp.
     bindR (get_string lib v ''objectPk'' []) (\<lambda>pk. Inr \<lparr> rem_timestamp = stamp, rem_objectPk = pk \<rparr>))"

definition parse_tracking :: "'d lib \<Rightarrow> 'd json \<Rightarrow> LocationTrackingInfo result" where
  "parse_tracking lib v =
     bindR (get_string lib v ''locationName'' []) (\<lambda>a.
     bindR (get_string lib v ''containerId'' []) (\<lambda>b.
     bindR (get_string lib v ''containerName'' []) (\<lambda>c.
     bindR (get_string lib v ''containerUsage'' []) (\<lambda>d.
     bindR (get_string lib v ''cycleIndex'' []) (\<lambda>e.
     Inr \<lparr> lti_locationName = a, lti_containerId = b, lti_containerName = c, lti_containerUsage = d, lti_cycleIndex = e \<rparr>)))))"

definition parse_execution :: "'d lib \<Rightarrow> 'd json \<Rightarrow> LocationExecutionInfo result" where
  "parse_execution lib v =
     bindR (get_string lib v ''locationName'' []) (\<lambda>a.
     bindR (get_string lib v ''containerId'' []) (\<lambda>b.
     bindR (get_uint64 lib v ''forceRequestStampMS'' 0) (\<lambda>c.
     bindR (get_uint64 lib v ''lastInsideContainerStampMS'' 0) (\<lambda>d.
     bindR (get_string lib v ''needContainerState'' []) (\<lambda>e.
     Inr \<lparr> lei_locationName = a, lei_containerId = b, lei_forceRequestStampMS = c, lei_lastInsideContainerStampMS = d,
       lei_needContainerState = e \<rparr>)))))"

definition parse_trigger :: "'d lib \<Rightarrow> 'd reals \<Rightarrow> 'd json \<Rightarrow> 'd TriggerDetectionCaptureInfo result" where
  "parse_trigger lib R v =
     bindR (GetJsonValueByPath_default (r_lit R 0) lib (LoadJsonDouble lib) v ''/triggerDetectionCaptureInfo/timestamp'' (r_lit R 0)) (\<lambda>a.
     bindR (path_string lib v ''/triggerDetectionCaptureInfo/triggerType'') (\<lambda>b.
     bindR (path_string lib v ''/triggerDetectionCaptureInfo/locationName'') (\<lambda>c.
     bindR (path_string lib v ''/triggerDetectionCaptureInfo/targetUpdateNamePrefix'') (\<lambda>d.
     Inr \<lparr> tdc_timestamp = a, tdc_triggerType = b, tdc_locationName = c, tdc_targetUpdateNamePrefix = d \<rparr>))))"

definition parse_region_info ::
  "'d lib \<Rightarrow> 'd reals \<Rightarrow> 'd compiled \<Rightarrow> 'd json \<Rightarrow> 'd RegisterMinViableRegionInfo result" where
  "parse_region_info lib R c v =
     bindR (find_member v ''registerMinViableRegionInfo'') (\<lambda>x.
     let new = RegisterMinViableRegionInfo_default R (indeterminate_mode c) in
     case x of Some info \<Rightarrow> MinViableRegion_DeserializeJSON lib R info new | None \<Rightarrow> Inr new)"

text \<open>Every member but one is set anew; \<^verbatim>\<open>isDynamicEnvironmentStateEmpty\<close> is never touched.\<close>

definition ResultGetBinpickingState_Parse ::
  "'d lib \<Rightarrow> 'd reals \<Rightarrow> 'd compiled \<Rightarrow> 'd json \<Rightarrow> 'd ResultGetBinpickingState \<Rightarrow> 'd ResultGetBinpickingState result" where
  "ResultGetBinpickingState_Parse lib R c pt r =
     bindR (output_of pt) (\<lambda>v.
     bindR (get_document v ''unitInfo'') (\<lambda>unitInfo.
     bindR (get_string lib v ''statusPickPlace'' ''unknown'') (\<lambda>statusPickPlace.
     bindR (get_string lib v ''statusDescPickPlace'' ''unknown'') (\<lambda>statusDescPickPlace.
     bindR (get_string lib v ''statusPickPlaceCycleIndex'' []) (\<lambda>cycleIndex.
     bindR (get_string lib v ''statusPhysics'' ''unknown'') (\<lambda>statusPhysics.
     bindR (get_int lib v ''pickAttemptFromSourceId'' (-1)) (\<lambda>sourceId.
     bindR (get_milliseconds lib R v ''timestamp'') (\<lambda>stamp.
     bindR (get_milliseconds lib R v ''lastGrabbedTargetTimeStamp'') (\<lambda>lastGrabbed.
     bindR (bindR (array_or_none v ''occlusionResults'') (mapR (parse_occlusion lib))) (\<lambda>occlusions.
     bindR (get_bool lib v ''isGrabbingTarget'' True) (\<lambda>isGrabbingTarget.
     bindR (get_bool lib v ''isGrabbingLastTarget'' True) (\<lambda>isGrabbingLastTarget.
     bindR (get_bool lib v ''hasRobotExecutionStarted'' False) (\<lambda>started.
     bindR (path_int lib v ''/orderstate/orderNumber'') (\<lambda>orderNumber.
     bindR (path_int lib v ''/orderstate/numLeftInOrder'') (\<lambda>numLeftInOrder.
     bindR (path_int lib v ''/orderstate/numLeftInSupply'') (\<lambda>numLeftInSupply.
     bindR (path_int lib v ''/orderstate/placedInDest'') (\<lambda>placedInDest.
     bindR (parse_region_info lib R c v) (\<lambda>region.
     bindR (bindR (array_or_none v ''removeObjectsFromObjectList'') (mapR (parse_removal lib R))) (\<lambda>removals.
     bindR (parse_trigger lib R v) (\<lambda>trigger.
     bindR (bindR (array_or_none v ''activeLocationTrackingInfos'') (mapR (parse_tracking lib))) (\<lambda>tracking.
     bindR (bindR (array_or_none v ''locationExecutionInfos'') (mapR (parse_execution lib))) (\<lambda>execution.
     bindR (LoadJsonValueByKey (LoadJsonVector (PickPlaceHistoryItem_Reset R) (PickPlaceHistoryItem_LoadFromJson lib)) v
       ''pickPlaceHistoryItems'' []) (\<lambda>(_, history).
     Inr (r \<lparr> bs_rUnitInfo := unitInfo, bs_statusPickPlace := statusPickPlace, bs_statusDescPickPlace := statusDescPickPlace,
       bs_cycleIndex := cycleIndex, bs_statusPhysics := statusPhysics, bs_pickAttemptFromSourceId := sourceId,
       bs_timestamp := stamp, bs_lastGrabbedTargetTimeStamp := lastGrabbed, bs_vOcclusionResults := occlusions,
       bs_isGrabbingTarget := isGrabbingTarget, bs_isGrabbingLastTarget := isGrabbingLastTarget,
       bs_hasRobotExecutionStarted := started, bs_orderNumber := orderNumber, bs_numLeftInOrder := numLeftInOrder,
       bs_numLeftInSupply := numLeftInSupply, bs_placedInDest := placedInDest, bs_registerMinViableRegionInfo := region,
       bs_removeObjectFromObjectListInfos := removals, bs_triggerDetectionCaptureInfo := trigger,
       bs_activeLocationTrackingInfos := tracking, bs_locationExecutionInfos := execution,
       bs_pickPlaceHistoryItems := history \<rparr>))))))))))))))))))))))))"

section \<open>Heartbeats\<close>

record 'd ResultHeartBeat =
  hb_status :: string
  hb_taskstate :: "'d ResultGetBinpickingState"
  hb_timestamp :: 'd
  hb_msg :: string
  hb_slaverequestid :: string

definition slave_key :: "string \<Rightarrow> string" where
  "slave_key slaverequestid = ''slaverequestid-'' @ slaverequestid"

text \<open>The state of the slave, when it is there.\<close>

definition slave_taskstate :: "'d json \<Rightarrow> string \<Rightarrow> 'd json option result" where
  "slave_taskstate pt key =
     bindR (at_key pt ''slavestates'') (\<lambda>states.
     bindR (find_member states key) (\<lambda>x.
     case x of None \<Rightarrow> Inr None | Some slave \<Rightarrow> find_member slave ''taskstate''))"

text \<open>Fields that are loaded one after the other into an object, which is left as it is by then when one fails.\<close>

fun load_fields :: "('r \<Rightarrow> 'r result) list \<Rightarrow> 'r \<Rightarrow> unit result \<times> 'r" where
  "load_fields [] r = (Inr (), r)"
| "load_fields (load # loads) r = (case load r of Inl e \<Rightarrow> (Inl e, r) | Inr r \<Rightarrow> load_fields loads r)"

text \<open>The result, and the object that is overwritten. \<open>interrupted\<close> is what \<^verbatim>\<open>ResultGetBinpickingState::Parse\<close>
  leaves of a state when it throws on the way; everything else of the object is as the code leaves it.\<close>

definition ResultHeartBeat_Parse ::
  "'d lib \<Rightarrow> 'd reals \<Rightarrow> 'd compiled \<Rightarrow> ('d json \<Rightarrow> 'd ResultGetBinpickingState \<Rightarrow> 'd ResultGetBinpickingState) \<Rightarrow>
   'd json \<Rightarrow> 'd ResultHeartBeat \<Rightarrow> unit result \<times> 'd ResultHeartBeat" where
  "ResultHeartBeat_Parse lib R c interrupted pt r =
     (case load_fields
         [load_field (LoadJsonString lib) pt ''status'' hb_status (\<lambda>x. hb_status_update (\<lambda>_. x)),
          load_field (LoadJsonString lib) pt ''message'' hb_msg (\<lambda>x. hb_msg_update (\<lambda>_. x)),
          load_field (LoadJsonDouble lib) pt ''timestamp'' hb_timestamp (\<lambda>x. hb_timestamp_update (\<lambda>_. x))]
         (r \<lparr> hb_status := [], hb_msg := [], hb_timestamp := r_lit R 0 \<rparr>) of
        (Inl e, r) \<Rightarrow> (Inl e, r)
      | (Inr _, r) \<Rightarrow>
          if HasMember pt ''slavestates'' \<and> length (hb_slaverequestid r) > 0 then
            (case slave_taskstate pt (c_str (slave_key (hb_slaverequestid r))) of
               Inl e \<Rightarrow> (Inl e, r)
             | Inr None \<Rightarrow> (Inr (), r)
             | Inr (Some taskstate) \<Rightarrow>
                 (case ResultGetBinpickingState_Parse lib R c (JObject [(''output'', taskstate)]) (hb_taskstate r) of
                    Inl e \<Rightarrow> (Inl e, r \<lparr> hb_taskstate := interrupted taskstate (hb_taskstate r) \<rparr>)
                  | Inr state \<Rightarrow> (Inr (), r \<lparr> hb_taskstate := state \<rparr>)))
          else (Inr (), r))"

section \<open>The slave with the smallest number\<close>

text \<open>The number at the end of a string, from its last character: an overflow of \<^verbatim>\<open>int\<close> is undefined.\<close>

definition int_ok :: "int \<Rightarrow> bool" where
  "int_ok x \<longleftrightarrow> - (2 ^ 31) \<le> x \<and> x < 2 ^ 31"

fun suffix_loop :: "string \<Rightarrow> int \<Rightarrow> int \<Rightarrow> int result" where
  "suffix_loop [] suf po = Inr suf"
| "suffix_loop (c # cs) suf po =
     (if is_digit c then
        (let d = digit_val c * po in
         if int_ok d \<and> int_ok (suf + d) \<and> int_ok (po * 10) then suffix_loop cs (suf + d) (po * 10)
         else Inl (UndefinedBehaviour ''int overflow''))
      else Inr suf)"

text \<open>The loop over the keys: the smallest number so far and the key it belongs to.\<close>

fun smallest_loop :: "string list \<Rightarrow> int \<Rightarrow> string option \<Rightarrow> string option result" where
  "smallest_loop [] smallest best = Inr best"
| "smallest_loop (s # ss) smallest best =
     (if CHR ''_'' \<notin> set s then smallest_loop ss smallest best
      else if \<not> is_digit (last s) then smallest_loop ss smallest best
      else bindR (suffix_loop (rev s) 0 1) (\<lambda>suf.
        if smallest > suf then smallest_loop ss suf (Some s) else smallest_loop ss smallest best))"

definition slave_ids :: "'d json \<Rightarrow> string list result" where
  "slave_ids pt =
     (if IsObject pt then
        (case FindMember pt ''slavestates'' of
           None \<Rightarrow> Inr []
         | Some slavestates \<Rightarrow>
             bindR (object_members slavestates) (\<lambda>ms.
             Inr (filter (prefix ''slaverequestid-'') (map (\<lambda>m. c_str (fst m)) ms))))
      else Inr [])"

definition FindSmallestSlaveRequestId :: "'d json \<Rightarrow> string result" where
  "FindSmallestSlaveRequestId pt =
     bindR (slave_ids pt) (\<lambda>slavereqids.
     bindR (smallest_loop slavereqids (2 ^ 31 - 1) None) (\<lambda>best.
     case best of
       None \<Rightarrow> Inl (MujinException ''Failed to find slave request id like hostname_slave### where ### is a number'' MEC_Failed)
     | Some s \<Rightarrow> Inr s))"

text \<open>A \<^verbatim>\<open>MujinException\<close> is thrown again with the heartbeat in its text.\<close>

definition from_heartbeat :: "string \<Rightarrow> 'a result \<Rightarrow> 'a result" where
  "from_heartbeat heartbeat r =
     (case r of
        Inl (MujinExc c what) \<Rightarrow> Inl (MujinException (what @ '' from heartbeat:'' @ [CHR 0x0A] @ heartbeat) MEC_Failed)
      | Inl (GraphQueryExc what c) \<Rightarrow> Inl (MujinException (what @ '' from heartbeat:'' @ [CHR 0x0A] @ heartbeat) MEC_Failed)
      | _ \<Rightarrow> r)"

definition GetValueForSmallestSlaveRequestId :: "'d lib \<Rightarrow> string \<Rightarrow> string \<Rightarrow> string result" where
  "GetValueForSmallestSlaveRequestId lib heartbeat key =
     bindR (ParseJson lib heartbeat) (\<lambda>pt.
     from_heartbeat heartbeat (
       bindR (FindSmallestSlaveRequestId pt) (\<lambda>slavereqid.
       bindR (at_key pt ''slavestates'') (\<lambda>states.
       bindR (at_key states (c_str slavereqid)) (\<lambda>slave.
       bindR (at_key slave (c_str key)) (\<lambda>v. LoadJsonString lib v []))))))"

definition GetScenePkFromHeartbeat :: "'d lib \<Rightarrow> string \<Rightarrow> string result" where
  "GetScenePkFromHeartbeat lib heartbeat =
     bindR (GetValueForSmallestSlaveRequestId lib heartbeat ''currentsceneuri'') (\<lambda>s.
     case substr_from s 7 of Some x \<Rightarrow> Inr x | None \<Rightarrow> Inl OutOfRange)"

definition GetSlaveRequestIdFromHeartbeat :: "'d lib \<Rightarrow> string \<Rightarrow> string result" where
  "GetSlaveRequestIdFromHeartbeat lib heartbeat =
     bindR (ParseJson lib heartbeat) (\<lambda>pt.
     from_heartbeat heartbeat (
       bindR (FindSmallestSlaveRequestId pt) (\<lambda>s.
       case substr_from s 15 of Some x \<Rightarrow> Inr x | None \<Rightarrow> Inl OutOfRange)))"

section \<open>The monitor thread\<close>

text \<open>The two threads are one text but for what they do with a message, the handler. Their state: the time of the
  last heartbeat, a local variable that is there while a socket is watched; the sockets and the readings
  of \<^verbatim>\<open>mujinzmq\<close>, of a thread of its own, whose host, port and context are those of the task; and the data of
  the handler. The time since the last heartbeat is unsigned; \<open>expired\<close> compares it with the
  timeout.\<close>

record 'h monitor =
  mon_lastheartbeat :: "64 word option"
  mon_zmq :: zmq_state
  mon_data :: 'h

text \<open>An exception that leaves the thread function ends the thread, and the process with it.\<close>

datatype thread_outcome = Running | Ended | Terminated error

text \<open>The beginning of the body of the outer loop. A task without a context is dereferenced all the same.\<close>

definition open_heartbeat_socket :: "zmq_env \<Rightarrow> unit zmq" where
  "open_heartbeat_socket env s =
     (let s = (case zsocket s of None \<Rightarrow> s | Some k \<Rightarrow> close_socket k s) in
      if zcontext s = None then (Inl (UndefinedBehaviour ''null context''), s)
      else
        (let s = keepalive (new_socket ZMQ_SUB s) in
         case attach env (\<lambda>k. Connect k (c_str (''tcp://'' @ zhost s @ '':'' @ dec_of_int (sint (zport s))))) s of
           (Inl e, s) \<Rightarrow> (Inl e, s)
         | (Inr _, s) \<Rightarrow> (Inr (), setsockopt ZMQ_SUBSCRIBE_ALL 0 s)))"

text \<open>What is received, one \<^verbatim>\<open>recv\<close> after a poll of 50 milliseconds; a failed \<^verbatim>\<open>recv\<close> is the empty message.\<close>

definition next_message :: "zmq_env \<Rightarrow> string option zmq" where
  "next_message env s =
     (case poll_answer env s of
        (Inl e, s) \<Rightarrow> (Inl e, s)
      | (Inr False, s) \<Rightarrow> (Inr None, s)
      | (Inr True, s) \<Rightarrow>
          (case socket_recv env s of
             (Inl e, s) \<Rightarrow> (Inl e, s)
           | (Inr (Some reply), s) \<Rightarrow> (Inr (Some reply), s)
           | (Inr None, s) \<Rightarrow> (Inr (Some []), s)))"

text \<open>The rest of the body of the inner loop: the handler says whether the message is a heartbeat, at which
  the clock is read.\<close>

definition handle_message ::
  "zmq_env \<Rightarrow> (string \<Rightarrow> 'h \<Rightarrow> bool result \<times> 'h) \<Rightarrow> string \<Rightarrow> 'h monitor \<Rightarrow> thread_outcome \<times> 'h monitor" where
  "handle_message env handler message m =
     (case handler message (mon_data m) of
        (Inl e, h) \<Rightarrow> (Terminated e, m \<lparr> mon_data := h \<rparr>)
      | (Inr False, h) \<Rightarrow> (Running, m \<lparr> mon_data := h \<rparr>)
      | (Inr True, h) \<Rightarrow>
          (case now env (mon_zmq m) of (t, s) \<Rightarrow>
           (Running, m \<lparr> mon_data := h, mon_lastheartbeat := Some t, mon_zmq := s \<rparr>)))"

text \<open>One loop test and what follows it up to the next one. \<open>flag\<close> is what the test reads from
  \<^verbatim>\<open>_bShutdownHeartbeatMonitor\<close>. Outside of the inner loop it is the test of the outer one, with the new
  socket; inside, a test that fails leads back to the outer test.\<close>

definition monitor_turn ::
  "zmq_env \<Rightarrow> (64 word \<Rightarrow> bool) \<Rightarrow> (string \<Rightarrow> 'h \<Rightarrow> bool result \<times> 'h) \<Rightarrow> bool \<Rightarrow> 'h monitor \<Rightarrow>
   thread_outcome \<times> 'h monitor" where
  "monitor_turn env expired handler flag m =
     (case mon_lastheartbeat m of
        None \<Rightarrow>
          if flag then (Ended, m)
          else (case open_heartbeat_socket env (mon_zmq m) of
                  (Inl e, s) \<Rightarrow> (Terminated e, m \<lparr> mon_zmq := s \<rparr>)
                | (Inr _, s) \<Rightarrow>
                    (case now env s of (t, s) \<Rightarrow> (Running, m \<lparr> mon_zmq := s, mon_lastheartbeat := Some t \<rparr>)))
      | Some lastheartbeat \<Rightarrow>
          if flag then (Running, m \<lparr> mon_lastheartbeat := None \<rparr>)
          else (case now env (mon_zmq m) of (t, s) \<Rightarrow>
                if expired (t - lastheartbeat) then (Running, m \<lparr> mon_zmq := s, mon_lastheartbeat := None \<rparr>)
                else (case next_message env s of
                        (Inl e, s) \<Rightarrow> (Terminated e, m \<lparr> mon_zmq := s \<rparr>)
                      | (Inr None, s) \<Rightarrow> (Running, m \<lparr> mon_zmq := s \<rparr>)
                      | (Inr (Some message), s) \<Rightarrow> handle_message env handler message (m \<lparr> mon_zmq := s \<rparr>))))"

fun monitor_turns :: "(bool \<Rightarrow> 'm \<Rightarrow> thread_outcome \<times> 'm) \<Rightarrow> bool list \<Rightarrow> 'm \<Rightarrow> thread_outcome \<times> 'm" where
  "monitor_turns turn [] m = (Running, m)"
| "monitor_turns turn (flag # flags) m =
     (case turn flag m of (Running, m) \<Rightarrow> monitor_turns turn flags m | (Ended, m) \<Rightarrow> (Ended, m)
      | (Terminated e, m) \<Rightarrow> (Terminated e, m))"

text \<open>\<^verbatim>\<open>catch (std::exception const &e)\<close>.\<close>

fun is_exception :: "error \<Rightarrow> bool" where
  "is_exception (UndefinedBehaviour _) = False"
| "is_exception Deadlock = False"
| "is_exception _ = True"

definition is_alive :: "string \<Rightarrow> bool" where
  "is_alive status \<longleftrightarrow> status \<noteq> ''lost'' \<and> length status > 1"

text \<open>The handler of \<^verbatim>\<open>BinPickingTaskZmqResource\<close>, on its heartbeat object and the member \<^verbatim>\<open>_taskstate\<close> of the task.\<close>

definition monitor_reply ::
  "'d lib \<Rightarrow> 'd reals \<Rightarrow> 'd compiled \<Rightarrow> ('d json \<Rightarrow> 'd ResultGetBinpickingState \<Rightarrow> 'd ResultGetBinpickingState) \<Rightarrow>
   string \<Rightarrow> 'd ResultHeartBeat \<times> 'd ResultGetBinpickingState \<Rightarrow>
   bool result \<times> 'd ResultHeartBeat \<times> 'd ResultGetBinpickingState" where
  "monitor_reply lib R c interrupted replystring data =
     (case data of (heartbeat, taskstate) \<Rightarrow>
      (case (case ParseJson lib replystring of
               Inl e \<Rightarrow> (Inl e, heartbeat)
             | Inr pt \<Rightarrow> ResultHeartBeat_Parse lib R c interrupted pt heartbeat) of
         (Inl e, heartbeat) \<Rightarrow> (if is_exception e then Inr False else Inl e, heartbeat, taskstate)
       | (Inr _, heartbeat) \<Rightarrow> (Inr (is_alive (hb_status heartbeat)), heartbeat, hb_taskstate heartbeat)))"

definition HeartbeatMonitorThread ::
  "'d lib \<Rightarrow> 'd reals \<Rightarrow> 'd compiled \<Rightarrow> ('d json \<Rightarrow> 'd ResultGetBinpickingState \<Rightarrow> 'd ResultGetBinpickingState) \<Rightarrow>
   zmq_env \<Rightarrow> (64 word \<Rightarrow> bool) \<Rightarrow> bool list \<Rightarrow> ('d ResultHeartBeat \<times> 'd ResultGetBinpickingState) monitor \<Rightarrow>
   thread_outcome \<times> ('d ResultHeartBeat \<times> 'd ResultGetBinpickingState) monitor" where
  "HeartbeatMonitorThread lib R c interrupted env expired =
     monitor_turns (monitor_turn env expired (monitor_reply lib R c interrupted))"

text \<open>The variables at the start of the thread, for the members of the task.\<close>

definition heartbeat_start ::
  "'d reals \<Rightarrow> 'd compiled \<Rightarrow> string \<Rightarrow> 32 word \<Rightarrow> nat option \<Rightarrow> string \<Rightarrow> 'd ResultGetBinpickingState \<Rightarrow> zmq_state \<Rightarrow>
   ('d ResultHeartBeat \<times> 'd ResultGetBinpickingState) monitor" where
  "heartbeat_start R c ip port context slaverequestid taskstate s =
     \<lparr> mon_lastheartbeat = None,
       mon_zmq = s \<lparr> zhost := ip, zport := port, zcontext := context, zsocket := None, zshared := True \<rparr>,
       mon_data = (\<lparr> hb_status = [], hb_taskstate = ResultGetBinpickingState_default R c, hb_timestamp = r_lit R 0,
         hb_msg = [], hb_slaverequestid = slaverequestid \<rparr>, taskstate) \<rparr>"

text \<open>The thread of \<^verbatim>\<open>BinPickingTaskResource\<close>: only the message \<^verbatim>\<open>255\<close> counts.\<close>

definition HeartbeatMonitorThread_web ::
  "zmq_env \<Rightarrow> (64 word \<Rightarrow> bool) \<Rightarrow> bool list \<Rightarrow> unit monitor \<Rightarrow> thread_outcome \<times> unit monitor" where
  "HeartbeatMonitorThread_web env expired =
     monitor_turns (monitor_turn env expired (\<lambda>replystring data. (Inr (replystring = ''255''), data)))"

end
