(* ===== verification/BinPicking.thy ===== *)
theory BinPicking
  imports Heartbeat
begin

text \<open>
  The bin picking tasks (\<^verbatim>\<open>src/binpickingtask.cpp\<close>, \<^verbatim>\<open>src/binpickingtaskzmq.cpp\<close>): construction and
  initialization, the two ways a command is executed, over HTTP by polling for the result and over
  ZeroMQ, and the commands, each with the text it sends. \<^verbatim>\<open>ExecuteCommand\<close> is virtual: the commands
  have it as the argument \<open>exec\<close>. \<open>None\<close> is a call that never returns.
\<close>

section \<open>State\<close>

record 'd BinPickingTask = TaskResource +
  bp_mapTaskParameters :: "(string \<times> string) list"
  bp_mujinControllerIp :: string
  bp_taskstate :: "'d ResultGetBinpickingState"
  bp_zmqcontext :: "nat option"
  bp_zmqPort :: "32 word"
  bp_heartbeatPort :: "32 word"
  bp_rUserInfo :: "'d json"
  bp_rSceneParams :: "'d json"
  bp_sceneparams_json :: string
  bp_userinfo_json :: string
  bp_slaverequestid :: string
  bp_scenepk :: string
  bp_callerid :: string
  bp_tasktype :: string
  bp_bIsInitialized :: bool
  bp_bShutdownHeartbeatMonitor :: "bool option"     \<comment> \<open>\<open>None\<close> before its first assignment\<close>
  bp_pHeartbeatMonitorThread :: "(rat \<times> rat) option" \<comment> \<open>the arguments the thread was started with\<close>

text \<open>The task, the client it belongs to, and the ZeroMQ client of \<^verbatim>\<open>BinPickingTaskZmqResource\<close>, with
  whether there is one. \<open>zmq_state\<close> holds the sockets of the process, so that it is there in any case.\<close>

record 'd world =
  w_client :: "'d client"
  w_task :: "'d BinPickingTask"
  w_zmq :: zmq_state
  w_connected :: bool

type_synonym ('d, 'a) tasks = "'d world \<Rightarrow> ('a result \<times> 'd world) option"

definition retT :: "'a \<Rightarrow> ('d, 'a) tasks" where
  "retT x w = Some (Inr x, w)"

definition liftT :: "'a result \<Rightarrow> ('d, 'a) tasks" where
  "liftT r w = Some (r, w)"

definition bindT :: "('d, 'a) tasks \<Rightarrow> ('a \<Rightarrow> ('d, 'b) tasks) \<Rightarrow> ('d, 'b) tasks" where
  "bindT m f w = Option.bind (m w) (\<lambda>(r, w). case r of Inl e \<Rightarrow> Some (Inl e, w) | Inr x \<Rightarrow> f x w)"

definition on_client :: "('d, 'a) http \<Rightarrow> ('d, 'a) tasks" where
  "on_client m w = (case m (w_client w) of (r, s) \<Rightarrow> Some (r, w \<lparr> w_client := s \<rparr>))"

definition getT :: "('d BinPickingTask \<Rightarrow> 'a) \<Rightarrow> ('d, 'a) tasks" where
  "getT f w = Some (Inr (f (w_task w)), w)"

definition modifyT :: "('d BinPickingTask \<Rightarrow> 'd BinPickingTask) \<Rightarrow> ('d, unit) tasks" where
  "modifyT f w = Some (Inr (), w \<lparr> w_task := f (w_task w) \<rparr>)"

lemmas task_defs = retT_def liftT_def bindT_def on_client_def getT_def modifyT_def

section \<open>Construction\<close>

text \<open>The host of the base URI. The search for the port begins behind the protocol; its end is the
  path, or the query.\<close>

definition find_at :: "char \<Rightarrow> string \<Rightarrow> nat \<Rightarrow> nat \<Rightarrow> nat" where
  "find_at c s start stop = (case find_char c (drop start (take stop s)) of Some k \<Rightarrow> start + k | None \<Rightarrow> stop)"

definition protocol_end :: "string \<Rightarrow> nat" where
  "protocol_end baseuri =
     (case find_char (CHR '':'') baseuri of
        None \<Rightarrow> 0
      | Some k \<Rightarrow>
          (let p = c_str (drop k baseuri) in
           if length p > 3 \<and> take 3 p = ''://'' then k + 3 else 0))"

definition controller_ip :: "string \<Rightarrow> string result" where
  "controller_ip baseuri =
     (let uriend = length baseuri;
          querystart = find_at (CHR ''?'') baseuri 0 uriend;
          hoststart = protocol_end baseuri;
          pathstart = find_at (CHR ''/'') baseuri hoststart uriend;
          limit = (if pathstart \<noteq> uriend then pathstart else querystart) in
      if limit < hoststart then Inl (UndefinedBehaviour ''iterator range'')
      else Inr (substr baseuri hoststart (find_at (CHR '':'') baseuri hoststart limit - hoststart)))"

definition scene_params :: "string \<Rightarrow> string \<Rightarrow> string \<Rightarrow> 'd json result" where
  "scene_params dir user scenebasename =
     bindR (SetJsonValueByKey SaveJsonCString (JObject []) ''scenetype'' ''mujin'') (\<lambda>v.
     bindR (SetJsonValueByKey SaveJsonString v ''sceneuri'' (''mujin:/'' @ scenebasename)) (\<lambda>v.
     SetJsonValueByKey SaveJsonString v ''scenefilename'' (dir @ ''/'' @ user @ ''/'' @ scenebasename)))"

text \<open>\<open>media_root\<close> is the environment variable \<^verbatim>\<open>MUJIN_MEDIA_ROOT_DIR\<close>.\<close>

definition BinPickingTaskResource_new ::
  "'d http_env \<Rightarrow> 'd reals \<Rightarrow> 'd compiled \<Rightarrow> string option \<Rightarrow> string \<Rightarrow> string \<Rightarrow> string \<Rightarrow> ('d, 'd BinPickingTask) http" where
  "BinPickingTaskResource_new env R c media_root pk scenepk tasktype =
     bindM (liftR (TaskResource_new pk)) (\<lambda>t.
     bindM (getM m_baseuri) (\<lambda>baseuri.
     bindM (liftR (controller_ip baseuri)) (\<lambda>ip.
     bindM (getM m_username) (\<lambda>user.
     bindM (liftR (scene_params (case media_root of Some d \<Rightarrow> d | None \<Rightarrow> ''/var/www/media/u'') user
       (GetNameFromPrimaryKey_UTF8 env scenepk))) (\<lambda>params.
     bindM (liftR (DumpJson (json_lib env) params 0)) (\<lambda>sceneparams_json.
     ret (TaskResource.extend t \<lparr> bp_mapTaskParameters = [], bp_mujinControllerIp = ip,
       bp_taskstate = ResultGetBinpickingState_default R c, bp_zmqcontext = None, bp_zmqPort = -1, bp_heartbeatPort = -1,
       bp_rUserInfo = JNull, bp_rSceneParams = params, bp_sceneparams_json = sceneparams_json, bp_userinfo_json = [],
       bp_slaverequestid = [], bp_scenepk = scenepk,
       bp_callerid = ''controllerclientcpp'' @ client_version env @ ''_web'', bp_tasktype = tasktype,
       bp_bIsInitialized = False, bp_bShutdownHeartbeatMonitor = None, bp_pHeartbeatMonitorThread = None \<rparr>)))))))"

definition BinPickingTaskZmqResource_new ::
  "'d http_env \<Rightarrow> 'd reals \<Rightarrow> 'd compiled \<Rightarrow> string option \<Rightarrow> string \<Rightarrow> string \<Rightarrow> string \<Rightarrow> ('d, 'd BinPickingTask) http" where
  "BinPickingTaskZmqResource_new env R c media_root pk scenepk tasktype =
     bindM (BinPickingTaskResource_new env R c media_root pk scenepk tasktype) (\<lambda>t.
     ret (t \<lparr> bp_callerid := ''controllerclientcpp'' @ client_version env @ ''_zmq'' \<rparr>))"

section \<open>Initialization\<close>

text \<open>The members of the default parameters, each written as JSON and stored; the parameters there were are erased
  before the text is parsed, and a text that is no object is an assertion of rapidjson.\<close>

fun store_defaults :: "'d lib \<Rightarrow> (string \<times> 'd json) list \<Rightarrow> ('d, unit) tasks" where
  "store_defaults lib [] = retT ()"
| "store_defaults lib ((name, v) # ms) =
     (case write_json lib 0 v of
        Some text \<Rightarrow> bindT (modifyT (bp_mapTaskParameters_update (map_put (c_str name) text))) (\<lambda>_. store_defaults lib ms)
      | None \<Rightarrow> liftT (Inl (UndefinedBehaviour ''rapidjson writer'')))"

definition load_defaults :: "'d lib \<Rightarrow> string \<Rightarrow> ('d, unit) tasks" where
  "load_defaults lib defaultTaskParameters =
     bindT (modifyT (bp_mapTaskParameters_update (\<lambda>_. []))) (\<lambda>_.
     case parse_json_default lib (c_str defaultTaskParameters) of
       Inr (JObject ms) \<Rightarrow> store_defaults lib ms
     | _ \<Rightarrow> liftT (Inl rapidjson_assertion))"

text \<open>The ports and the context are those of the overload with ZeroMQ. The task counts as initialized
  before the user information is parsed, which may fail; \<^verbatim>\<open>ParseJson\<close> sets the document to null before it
  parses, so that it is null by then.\<close>

definition Initialize ::
  "'d lib \<Rightarrow> string \<Rightarrow> (32 word \<times> 32 word \<times> nat option) option \<Rightarrow> string \<Rightarrow> string \<Rightarrow> ('d, unit) tasks" where
  "Initialize lib defaultTaskParameters zmq userinfo slaverequestid =
     bindT (if length defaultTaskParameters > 0 then load_defaults lib defaultTaskParameters else retT ()) (\<lambda>_.
     bindT (modifyT (\<lambda>t. (case zmq of
              Some (zmqPort, heartbeatPort, context) \<Rightarrow>
                t \<lparr> bp_zmqPort := zmqPort, bp_heartbeatPort := heartbeatPort, bp_zmqcontext := context \<rparr>
            | None \<Rightarrow> t) \<lparr> bp_bIsInitialized := True \<rparr>)) (\<lambda>_.
     bindT (modifyT (\<lambda>t. t \<lparr> bp_rUserInfo := JNull \<rparr>)) (\<lambda>_.
     bindT (liftT (ParseJson lib userinfo)) (\<lambda>info.
     modifyT (\<lambda>t. t \<lparr> bp_rUserInfo := info, bp_userinfo_json := userinfo, bp_slaverequestid := slaverequestid \<rparr>)))))"

text \<open>The thread that watches the heartbeats, which is \<^verbatim>\<open>_HeartbeatMonitorThread\<close> of the theory \<open>Heartbeat\<close>, is
  started at most once, and not at all without a timeout. \<^verbatim>\<open>InitializeZMQ\<close> of the derived class is empty.\<close>

definition start_monitor :: "rat \<Rightarrow> rat \<Rightarrow> 'd BinPickingTask \<Rightarrow> 'd BinPickingTask" where
  "start_monitor reinitializetimeout timeout t =
     (if bp_pHeartbeatMonitorThread t = None then
        t \<lparr> bp_bShutdownHeartbeatMonitor := Some False,
            bp_pHeartbeatMonitorThread := (if reinitializetimeout > 0 then Some (reinitializetimeout, timeout) else None) \<rparr>
      else t)"

definition InitializeZMQ :: "'d compiled \<Rightarrow> rat \<Rightarrow> rat \<Rightarrow> ('d, unit) tasks" where
  "InitializeZMQ c reinitializetimeout timeout =
     (if use_zmq c then modifyT (start_monitor reinitializetimeout timeout) else retT ())"

definition InitializeZMQ_zmq :: "rat \<Rightarrow> rat \<Rightarrow> ('d, unit) tasks" where
  "InitializeZMQ_zmq reinitializetimeout timeout = retT ()"

text \<open>The destructor sets the flag and waits for the thread, if there is one: \<open>thread\<close> tells what becomes of the thread at
  loop tests that read the flags given, all set from then on; \<open>n\<close> are looked at. It does not return while the thread
  is running, nor when the thread ends the process.\<close>

definition BinPickingTaskResource_destroy ::
  "(bool list \<Rightarrow> thread_outcome) \<Rightarrow> nat \<Rightarrow> 'd BinPickingTask \<Rightarrow> 'd BinPickingTask option" where
  "BinPickingTaskResource_destroy thread n t =
     (let t = t \<lparr> bp_bShutdownHeartbeatMonitor := Some True \<rparr> in
      if bp_pHeartbeatMonitorThread t = None \<or> thread (replicate n True) = Ended then Some t else None)"

definition SetCallerId :: "string \<Rightarrow> ('d, unit) tasks" where
  "SetCallerId callerid = modifyT (\<lambda>t. t \<lparr> bp_callerid := callerid \<rparr>)"

definition GetSlaveRequestId :: "('d, string) tasks" where
  "GetSlaveRequestId = getT bp_slaverequestid"

section \<open>Execution over HTTP\<close>

definition not_initialized :: error where
  "not_initialized = MujinException ''BinPicking task is not initialized, please call Initialzie() first.'' MEC_Failed"

definition check_initialized :: "('d, unit) tasks" where
  "check_initialized =
     bindT (getT bp_bIsInitialized) (\<lambda>b. if b then retT () else liftT (Inl not_initialized))"

text \<open>\<^verbatim>\<open>std::string pk = GetJsonValueByKey<std::string>(v, "pk", pk)\<close>: a missing key copies the string that is
  being constructed.\<close>

definition result_pk :: "'d http_env \<Rightarrow> 'd json \<Rightarrow> string result" where
  "result_pk env v =
     (if IsObject v \<and> (case FindMember v ''pk'' of None \<Rightarrow> True | Some x \<Rightarrow> IsNull x)
      then Inl (UndefinedBehaviour ''string used in its own initialization'')
      else GetJsonValueByKey_default [] (str_at env) v ''pk'' [])"

definition BinPicking_GetResult :: "'d http_env \<Rightarrow> 'd BinPickingTask \<Rightarrow> ('d, WebResource option) http" where
  "BinPicking_GetResult env t =
     bindM (get_json env (''task/'' @ primary_key t @ ''/result/?format=json&limit=1&optimization=None&fields=pk,errormessage'')) (\<lambda>pt.
     case array_member pt ''objects'' of
       Some (v # _) \<Rightarrow>
         bindM (liftR (result_pk env v)) (\<lambda>pk.
         bindM (liftR (PlanningResultResource_named ''binpickingresult'' pk)) (\<lambda>r.
         bindM (liftR (key_string env v ''errormessage'')) (\<lambda>erroptional.
         if length erroptional > 0 \<and> erroptional \<noteq> ''succeed''
         then throw (MujinException erroptional MEC_BinPickingError) else ret (Some r))))
     | _ \<Rightarrow> ret None)"

text \<open>The reply is replaced by its member \<^verbatim>\<open>output\<close>.\<close>

definition GetResultJson :: "'d http_env \<Rightarrow> 'x WebResource_scheme \<Rightarrow> 'd json \<Rightarrow> ('d, 'd json) http" where
  "GetResultJson env r pt =
     bindM (CallGet env (resource_path r @ ''?format=json&limit=1'') pt 200 5) (\<lambda>(_, pt). liftR (at_key pt ''output''))"

definition operation_timed_out :: "'d formats \<Rightarrow> 'd \<Rightarrow> error" where
  "operation_timed_out F secondspassed =
     MujinException (''operation timed out after '' @ precise_real F secondspassed @ '' seconds, cancelling all jobs and quitting'') MEC_Timeout"

text \<open>The loop that asks for the result every tenth of a second; it does not sleep in the model.\<close>

partial_function (option) poll_result ::
  "'d http_env \<Rightarrow> 'd reals \<Rightarrow> 'd formats \<Rightarrow> 'd BinPickingTask \<Rightarrow> bool \<Rightarrow> rat \<Rightarrow> 'd json \<Rightarrow> 'd \<Rightarrow> 'd client \<Rightarrow>
   ('d json result \<times> 'd client) option" where
  "poll_result env R F t getresult timeout rResult secondspassed s =
     (case BinPicking_GetResult env t s of
        (Inl e, s) \<Rightarrow> Some (Inl e, s)
      | (Inr (Some r), s) \<Rightarrow> Some (if getresult then GetResultJson env r rResult s else (Inr rResult, s))
      | (Inr None, s) \<Rightarrow>
          (let secondspassed = r_add R secondspassed (r_lit R (1 / 10)) in
           if timeout \<noteq> 0 \<and> r_less R (r_lit R timeout) secondspassed
           then Some (thenM (CancelAllJobs env) (throw (operation_timed_out F secondspassed)) s)
           else poll_result env R F t getresult timeout rResult secondspassed s))"

text \<open>\<open>stamp\<close> is the time in seconds as it is written.\<close>

definition web_command_text :: "'d BinPickingTask \<Rightarrow> string \<Rightarrow> string \<Rightarrow> string" where
  "web_command_text t stamp taskparameters =
     ''{'' @ string_field ''tasktype'' '' '' (bp_tasktype t) @ '', '' @ dquoted ''taskparameters'' @ '': '' @ taskparameters @ '', '' @
     dquoted ''sceneparams'' @ '': '' @ bp_sceneparams_json t @ '', '' @
     dquoted ''userinfo'' @ '': '' @ bp_userinfo_json t @ '', '' @
     (if bp_slaverequestid t \<noteq> [] then json_key_string ''slaverequestid'' (bp_slaverequestid t) @ '', '' else []) @
     dquoted ''stamp'' @ '': '' @ stamp @ '', '' @ string_field ''callerid'' '' '' (bp_callerid t) @ ''}''"

definition ExecuteCommand_web ::
  "'d http_env \<Rightarrow> 'd reals \<Rightarrow> 'd formats \<Rightarrow> string \<Rightarrow> bool \<Rightarrow> string \<Rightarrow> 'd json \<Rightarrow> rat \<Rightarrow> ('d, 'd json) tasks" where
  "ExecuteCommand_web env R F stamp getresult taskparameters rResult timeout =
     bindT check_initialized (\<lambda>_.
     bindT (getT (\<lambda>t. t)) (\<lambda>t.
     bindT (on_client (CallPutJSON env (''task/'' @ primary_key t @ ''/?format=json'') (web_command_text t stamp taskparameters) 202 5)) (\<lambda>_.
     bindT (on_client (Task_Execute env t)) (\<lambda>t.
     bindT (modifyT (\<lambda>_. t)) (\<lambda>_ w.
       map_option (\<lambda>(r, s). (r, w \<lparr> w_client := s \<rparr>))
         (poll_result env R F t getresult timeout rResult (r_lit R 0) (w_client w)))))))"

text \<open>The overload with a JSON value is not supported.\<close>

definition ExecuteCommand_web_value :: "('d, 'd json) tasks" where
  "ExecuteCommand_web_value = liftT (Inl (assertion_failed ''0''))"

section \<open>Execution over ZeroMQ\<close>

text \<open>A new \<^verbatim>\<open>ZmqMujinControllerClient\<close> takes the place of the one there is: the old one is destroyed
  when the new one is connected, the new one when its connection fails.\<close>

definition same_object :: "zmq_state \<Rightarrow> zmq_state \<Rightarrow> zmq_state" where
  "same_object old s = s \<lparr> zhost := zhost old, zport := zport old, zcontext := zcontext old, zsocket := zsocket old,
     zshared := zshared old \<rparr>"

definition connect_zmq :: "zmq_env \<Rightarrow> ('d, unit) tasks" where
  "connect_zmq zenv w =
     (let t = w_task w; old = w_zmq w;
          s = old \<lparr> zhost := bp_mujinControllerIp t, zport := bp_zmqPort t, zcontext := None, zsocket := None, zshared := False \<rparr> in
      Some (case client_InitializeSocket zenv (bp_zmqcontext t) s of
        (Inl e, s) \<Rightarrow> (Inl e, w \<lparr> w_zmq := same_object old (client_DestroySocket s) \<rparr>)
      | (Inr _, s) \<Rightarrow>
          (Inr (), w \<lparr> w_connected := True,
             w_zmq := (if w_connected w then same_object s (client_DestroySocket (same_object old s)) else s) \<rparr>)))"

definition Initialize_zmq ::
  "'d lib \<Rightarrow> zmq_env \<Rightarrow> string \<Rightarrow> 32 word \<Rightarrow> 32 word \<Rightarrow> nat option \<Rightarrow> bool \<Rightarrow> rat \<Rightarrow> rat \<Rightarrow> string \<Rightarrow> string \<Rightarrow> ('d, unit) tasks" where
  "Initialize_zmq lib zenv defaultTaskParameters zmqPort heartbeatPort context initializezmq reinitializetimeout timeout
     userinfo slaverequestid =
     bindT (Initialize lib defaultTaskParameters (Some (zmqPort, heartbeatPort, context)) userinfo slaverequestid) (\<lambda>_.
     bindT (if initializezmq then InitializeZMQ_zmq reinitializetimeout timeout else retT ()) (\<lambda>_.
     bindT (connect_zmq zenv) (\<lambda>_.
     modifyT (start_monitor reinitializetimeout timeout))))"

definition call_zmq :: "zmq_env \<Rightarrow> string \<Rightarrow> rat \<Rightarrow> ('d, string) tasks" where
  "call_zmq zenv command timeout w =
     map_option (\<lambda>(r, s). (r, w \<lparr> w_zmq := s \<rparr>)) (ZmqClient_Call zenv command timeout 0 (w_zmq w))"

text \<open>A missing response makes a new connection, and an empty reply.\<close>

definition catch_no_response :: "zmq_env \<Rightarrow> ('d, string) tasks \<Rightarrow> ('d, string) tasks" where
  "catch_no_response zenv m w =
     Option.bind (m w) (\<lambda>(r, w).
     case r of
       Inl e \<Rightarrow> if GetCode e = Some MEC_ZMQNoResponse then bindT (connect_zmq zenv) (\<lambda>_. retT []) w else Some (Inl e, w)
     | Inr text \<Rightarrow> Some (Inr text, w))"

text \<open>The error a reply carries, cut after 1000 characters.\<close>

definition check_reply :: "'d lib \<Rightarrow> 'd json \<Rightarrow> unit result" where
  "check_reply lib rOutput =
     (case (if IsObject rOutput then FindMember rOutput ''error'' else None) of
        None \<Rightarrow> Inr ()
      | Some e \<Rightarrow>
          bindR (GetJsonValueByKey [] (LoadJsonString lib) e ''errorcode'') (\<lambda>errorcode.
          bindR (GetJsonValueByKey [] (LoadJsonString lib) e ''description'') (\<lambda>description.
          if length errorcode > 0 then
            Inl (MujinException (''Error when calling binpicking.RunCommand: '' @
              take 1000 (if length description > 0 then description else errorcode)) MEC_BinPickingError)
          else Inr ())))"

definition ExecuteCommandZMQ :: "'d lib \<Rightarrow> zmq_env \<Rightarrow> string \<Rightarrow> rat \<Rightarrow> ('d, 'd json) tasks" where
  "ExecuteCommandZMQ lib zenv command timeout =
     bindT check_initialized (\<lambda>_.
     bindT (\<lambda>w. if w_connected w then retT () w else connect_zmq zenv w) (\<lambda>_.
     bindT (catch_no_response zenv (call_zmq zenv command timeout)) (\<lambda>result_ss.
     bindT (liftT (ParseJson lib result_ss)) (\<lambda>rOutput.
     bindT (liftT (check_reply lib rOutput)) (\<lambda>_. retT rOutput)))))"

definition fnname :: "string \<Rightarrow> string" where
  "fnname tasktype = (if tasktype = ''binpicking'' then ''binpicking.RunCommand'' else ''RunCommand'')"

definition zmq_command_text :: "'d BinPickingTask \<Rightarrow> string \<Rightarrow> string \<Rightarrow> string" where
  "zmq_command_text t stamp taskparameters =
     ''{'' @ string_field ''fnname'' '' '' (fnname (bp_tasktype t)) @ '', '' @ dquoted ''stamp'' @ '': '' @ stamp @ '', '' @
     string_field ''callerid'' '' '' (bp_callerid t) @ '', '' @
     dquoted ''taskparams'' @ '': {'' @ string_field ''tasktype'' '' '' (bp_tasktype t) @ '', '' @
     dquoted ''taskparameters'' @ '': '' @ taskparameters @ '', '' @
     dquoted ''sceneparams'' @ '': '' @ bp_sceneparams_json t @ ''}, '' @ dquoted ''userinfo'' @ '': '' @ bp_userinfo_json t @
     (if bp_slaverequestid t \<noteq> [] then '', '' @ json_key_string ''slaverequestid'' (bp_slaverequestid t) else []) @ ''}''"

definition command_timed_out :: "string \<Rightarrow> error" where
  "command_timed_out taskparameters =
     MujinException (''Timed out receiving response of command with taskparameters='' @
       (if length taskparameters > 1000 then substr taskparameters 0 (1000 - 3) @ ''...'' else taskparameters)) MEC_Timeout"

text \<open>A timeout is thrown again with the parameters in its text.\<close>

definition rename_timeout :: "error \<Rightarrow> ('d, 'a) tasks \<Rightarrow> ('d, 'a) tasks" where
  "rename_timeout e' m w =
     map_option (\<lambda>(r, w). (case r of Inl e \<Rightarrow> Inl (if GetCode e = Some MEC_Timeout then e' else e) | Inr x \<Rightarrow> Inr x, w)) (m w)"

definition ExecuteCommand_zmq ::
  "'d lib \<Rightarrow> zmq_env \<Rightarrow> string \<Rightarrow> string \<Rightarrow> 'd json \<Rightarrow> rat \<Rightarrow> ('d, 'd json) tasks" where
  "ExecuteCommand_zmq lib zenv stamp taskparameters rResult timeout =
     bindT (getT (\<lambda>t. zmq_command_text t stamp taskparameters)) (\<lambda>command.
     rename_timeout (command_timed_out taskparameters) (ExecuteCommandZMQ lib zenv command timeout))"

text \<open>The overload with a JSON value; \<open>stamp\<close> is the time in seconds.\<close>

definition zmq_command_value :: "'d BinPickingTask \<Rightarrow> 'd \<Rightarrow> 'd json \<Rightarrow> ('d json \<times> 'd json) result" where
  "zmq_command_value t stamp rTaskParameters =
     bindR (SetJsonValueByKey SaveJsonCString (JObject []) ''fnname'' (fnname (bp_tasktype t))) (\<lambda>v.
     bindR (SetJsonValueByKey SaveJsonDouble v ''stamp'' stamp) (\<lambda>v.
     bindR (SetJsonValueByKey SaveJsonString v ''callerid'' (bp_callerid t)) (\<lambda>v.
     bindR (SetJsonValueByKey SaveJsonString (JObject []) ''tasktype'' (bp_tasktype t)) (\<lambda>p.
     bindR (add_member ''taskparameters'' rTaskParameters p) (\<lambda>p.
     bindR (add_member ''sceneparams'' (bp_rSceneParams t) p) (\<lambda>p.
     bindR (add_member ''taskparams'' p v) (\<lambda>v.
     bindR (add_member ''userinfo'' (bp_rUserInfo t) v) (\<lambda>v.
     bindR (if bp_slaverequestid t \<noteq> [] then SetJsonValueByKey SaveJsonString v ''slaverequestid'' (bp_slaverequestid t)
            else Inr v) (\<lambda>v.
     Inr (v, p))))))))))"

definition ExecuteCommand_zmq_value ::
  "'d lib \<Rightarrow> zmq_env \<Rightarrow> 'd \<Rightarrow> 'd json \<Rightarrow> rat \<Rightarrow> ('d, 'd json) tasks" where
  "ExecuteCommand_zmq_value lib zenv stamp rTaskParameters timeout =
     bindT (getT (\<lambda>t. zmq_command_value t stamp rTaskParameters)) (\<lambda>r.
     bindT (liftT r) (\<lambda>(v, p).
     bindT (liftT (DumpJson lib v 0)) (\<lambda>command.
     rename_timeout (case DumpJson lib p 0 of Inr text \<Rightarrow> command_timed_out text | Inl e \<Rightarrow> e)
       (ExecuteCommandZMQ lib zenv command timeout))))"

section \<open>One heartbeat\<close>

text \<open>\<^verbatim>\<open>utils::GetHeartbeat\<close>: a context and a socket of its own, closed in the opposite order when the function
  is left. No message within 50 milliseconds is the empty string, and so is a failed \<^verbatim>\<open>recv\<close>.\<close>

definition heartbeat_message :: "zmq_env \<Rightarrow> string \<Rightarrow> string zmq" where
  "heartbeat_message env endpoint s =
     (case attach env (\<lambda>k. Connect k (c_str endpoint)) s of
        (Inl e, s) \<Rightarrow> (Inl e, s)
      | (Inr _, s) \<Rightarrow>
          (case next_message env (setsockopt ZMQ_SUBSCRIBE_ALL 0 s) of
             (Inl e, s) \<Rightarrow> (Inl e, s)
           | (Inr None, s) \<Rightarrow> (Inr [], s)
           | (Inr (Some reply), s) \<Rightarrow> (Inr reply, s)))"

definition GetHeartbeat :: "zmq_env \<Rightarrow> string \<Rightarrow> string zmq" where
  "GetHeartbeat env endpoint s =
     (let s1 = new_socket ZMQ_SUB (new_context (s \<lparr> zsocket := None, zcontext := None \<rparr>)) in
      case heartbeat_message env endpoint s1 of
        (r, s2) \<Rightarrow>
          (r, (close_context (the (zcontext s1)) (close_socket (the (zsocket s1)) s2))
                \<lparr> zsocket := zsocket s, zcontext := zcontext s \<rparr>))"

end
