(* ===== verification/BinPickingCommands.thy ===== *)
theory BinPickingCommands
  imports BinPicking
begin

text \<open>
  The commands of \<^verbatim>\<open>BinPickingTaskResource\<close> (\<^verbatim>\<open>src/binpickingtask.cpp\<close>). A command writes the task
  parameters and its own parts as one JSON object, executes it and reads the result.
\<close>

type_synonym 'd exec = "string \<Rightarrow> 'd json \<Rightarrow> rat \<Rightarrow> ('d, 'd json) tasks"

section \<open>Texts of commands\<close>

text \<open>\<^verbatim>\<open>SetMapTaskParameters\<close>: the values of the parameters are JSON already.\<close>

definition SetMapTaskParameters :: "(string \<times> string) list \<Rightarrow> string" where
  "SetMapTaskParameters params = ''{'' @ concat (map (\<lambda>(k, v). dquoted k @ '':'' @ v @ '', '') params)"

definition command_text :: "(string \<times> string) list \<Rightarrow> string list \<Rightarrow> string" where
  "command_text params parts = SetMapTaskParameters params @ joined '', '' parts @ ''}''"

definition field_unless_empty :: "string \<Rightarrow> string \<Rightarrow> string list" where
  "field_unless_empty key v = (if v \<noteq> [] then [json_key_string key v] else [])"

definition r_ge0 :: "'d reals \<Rightarrow> 'd \<Rightarrow> bool" where
  "r_ge0 R x \<longleftrightarrow> r_less R (r_lit R 0) x \<or> r_eq R x (r_lit R 0)"

definition field_unless_negative :: "'d reals \<Rightarrow> 'd formats \<Rightarrow> string \<Rightarrow> 'd \<Rightarrow> string list" where
  "field_unless_negative R F key x = (if r_ge0 R x then [json_text key @ '': '' @ precise_real F x] else [])"

definition SerializeGetStateCommand ::
  "(string \<times> string) list \<Rightarrow> string \<Rightarrow> string \<Rightarrow> string \<Rightarrow> string \<Rightarrow> string" where
  "SerializeGetStateCommand params functionname tasktype robotname unit_name =
     command_text params ([json_key_string ''command'' functionname, json_key_string ''tasktype'' tasktype] @
       field_unless_empty ''robotname'' robotname @ [json_key_string ''unit'' unit_name])"

definition GenerateMoveToolCommand ::
  "'d reals \<Rightarrow> 'd formats \<Rightarrow> string \<Rightarrow> string \<Rightarrow> 'd list \<Rightarrow> string \<Rightarrow> string \<Rightarrow> 'd \<Rightarrow> 'd \<Rightarrow> (string \<times> string) list \<Rightarrow> string" where
  "GenerateMoveToolCommand R F movetype goaltype goals robotname toolname robotspeed envclearance params =
     command_text params ([json_key_string ''command'' movetype, json_key_string ''goaltype'' goaltype] @
       field_unless_empty ''robotname'' robotname @ field_unless_empty ''toolname'' toolname @
       field_unless_negative R F ''robotspeed'' robotspeed @ field_unless_negative R F ''envclearance'' envclearance @
       [json_text ''goals'' @ '': '' @ json_doubles F goals])"

definition GenerateMoveToolByIkParamCommand ::
  "'d reals \<Rightarrow> 'd formats \<Rightarrow> string \<Rightarrow> string \<Rightarrow> string \<Rightarrow> string \<Rightarrow> string \<Rightarrow> 'd \<Rightarrow> 'd \<Rightarrow> (string \<times> string) list \<Rightarrow> string" where
  "GenerateMoveToolByIkParamCommand R F movetype instobjectname ikparamname robotname toolname robotspeed envclearance params =
     command_text params ([json_key_string ''command'' movetype,
        dquoted ''goaltype'' @ '': null,'' @ json_key_string ''instobjectname'' instobjectname] @
       field_unless_empty ''robotname'' robotname @ field_unless_empty ''toolname'' toolname @
       field_unless_negative R F ''robotspeed'' robotspeed @ field_unless_negative R F ''envclearance'' envclearance @
       [json_key_string ''ikparamname'' ikparamname])"

definition SetTrajectory :: "'d lib \<Rightarrow> 'd json \<Rightarrow> string result" where
  "SetTrajectory lib pt =
     (case (if IsObject pt then FindMember pt ''output'' else None) of
        None \<Rightarrow> Inl (MujinException ''trajectory is not available in output'' MEC_Failed)
      | Some out \<Rightarrow>
          bindR (has_member out ''trajectory'') (\<lambda>found.
          if found then GetJsonValueByPath [] lib (LoadJsonString lib) pt ''/output/trajectory''
          else Inl (MujinException ''trajectory is not available in output'' MEC_Failed)))"

section \<open>Running a command\<close>

text \<open>The parts of a command are those of the task type and its own.\<close>

definition command ::
  "'d exec \<Rightarrow> (string \<Rightarrow> string list) \<Rightarrow> 'd json \<Rightarrow> rat \<Rightarrow> ('d, 'd json) tasks" where
  "command exec parts doc timeout =
     bindT (getT (\<lambda>t. command_text (bp_mapTaskParameters t) (parts (bp_tasktype t)))) (\<lambda>text. exec text doc timeout)"

definition ignore_reply :: "('d, 'd json) tasks \<Rightarrow> ('d, unit) tasks" where
  "ignore_reply m = bindT m (\<lambda>_. retT ())"

definition parse_reply :: "('d, 'd json) tasks \<Rightarrow> ('d json \<Rightarrow> 'a result) \<Rightarrow> ('d, 'a) tasks" where
  "parse_reply m parse = bindT m (\<lambda>pt. liftT (parse pt))"

definition GetJointValues ::
  "'d lib \<Rightarrow> 'd reals \<Rightarrow> 'd exec \<Rightarrow> string \<Rightarrow> rat \<Rightarrow> 'd ResultGetJointValues \<Rightarrow> ('d, 'd ResultGetJointValues) tasks" where
  "GetJointValues lib R exec unit_name timeout r =
     parse_reply (command exec (\<lambda>tasktype. [json_key_string ''command'' ''GetJointValues'',
         json_key_string ''robottype'' ''densowave'', json_key_string ''unit'' unit_name, json_key_string ''tasktype'' tasktype])
       (JObject []) timeout) (\<lambda>pt. ResultGetJointValues_Parse lib R pt r)"

text \<open>The commands that are put together as a JSON value start from the parsed task parameters.\<close>

definition parameters_value :: "'d lib \<Rightarrow> (string \<times> string) list \<Rightarrow> 'd json result" where
  "parameters_value lib params =
     foldR (\<lambda>(k, text) v. bindR (ParseJson lib text) (\<lambda>x. SetJsonValueByKey_copy v k x)) params (JObject [])"

definition command_value ::
  "'d lib \<Rightarrow> 'd exec \<Rightarrow> string \<Rightarrow> ('d json \<Rightarrow> 'd json result) \<Rightarrow> rat \<Rightarrow> ('d, 'd json) tasks" where
  "command_value lib exec name parts timeout =
     bindT (getT bp_mapTaskParameters) (\<lambda>params.
     bindT (getT bp_tasktype) (\<lambda>tasktype.
     bindT (liftT (
       bindR (parameters_value lib params) (\<lambda>v.
       bindR (SetJsonValueByKey SaveJsonCString v ''command'' name) (\<lambda>v.
       bindR (SetJsonValueByKey SaveJsonString v ''tasktype'' tasktype) (\<lambda>v.
       bindR (parts v) (\<lambda>v. DumpJson lib v 0)))))) (\<lambda>text.
     exec text JNull timeout)))"

definition SetInstantaneousJointValues ::
  "'d lib \<Rightarrow> 'd exec \<Rightarrow> 'd list \<Rightarrow> string \<Rightarrow> rat \<Rightarrow> ('d, unit) tasks" where
  "SetInstantaneousJointValues lib exec jointvalues unit_name timeout =
     ignore_reply (command_value lib exec ''SetInstantaneousJointValues'' (\<lambda>v.
       bindR (SetJsonValueByKey SaveJsonDoubles v ''jointvalues'' jointvalues) (\<lambda>v.
       SetJsonValueByKey SaveJsonString v ''unit'' unit_name)) timeout)"

definition ComputeIkParamPosition ::
  "'d lib \<Rightarrow> 'd exec \<Rightarrow> string \<Rightarrow> string \<Rightarrow> rat \<Rightarrow> 'd ResultComputeIkParamPosition \<Rightarrow> ('d, 'd ResultComputeIkParamPosition) tasks" where
  "ComputeIkParamPosition lib exec name unit_name timeout r =
     parse_reply (command_value lib exec ''ComputeIkParamPosition'' (\<lambda>v.
       bindR (SetJsonValueByKey SaveJsonString v ''name'' name) (\<lambda>v.
       SetJsonValueByKey SaveJsonString v ''unit'' unit_name)) timeout) (\<lambda>d. ResultComputeIkParamPosition_Parse lib d r)"

definition ComputeIKFromParameters ::
  "'d lib \<Rightarrow> 'd exec \<Rightarrow> string \<Rightarrow> string list \<Rightarrow> 32 word \<Rightarrow> 32 word \<Rightarrow> rat \<Rightarrow> ('d list \<times> string) list \<Rightarrow>
   ('d, ('d list \<times> string) list) tasks" where
  "ComputeIKFromParameters lib exec targetname ikparamnames filteroptions limit timeout r =
     parse_reply (command_value lib exec ''ComputeIKFromParameters'' (\<lambda>v.
       bindR (SetJsonValueByKey SaveJsonString v ''targetname'' targetname) (\<lambda>v.
       bindR (SetJsonValueByKey (SaveJsonVector SaveJsonString) v ''ikparamnames'' ikparamnames) (\<lambda>v.
       bindR (SetJsonValueByKey SaveJsonInt v ''filteroptions'' filteroptions) (\<lambda>v.
       SetJsonValueByKey SaveJsonInt v ''limit'' limit)))) timeout) (\<lambda>d. ResultComputeIKFromParameters_Parse lib d r)"

text \<open>\<^verbatim>\<open>_mapTaskParameters[key] = value\<close>; the entry stays for the commands that follow.\<close>

definition set_parameter :: "string \<Rightarrow> string \<Rightarrow> ('d, unit) tasks" where
  "set_parameter key v = modifyT (bp_mapTaskParameters_update (map_put key v))"

text \<open>With a place for the trajectory the command plans only.\<close>

definition set_execute :: "bool \<Rightarrow> ('d, unit) tasks" where
  "set_execute want_trajectory = set_parameter ''execute'' (if want_trajectory then ''0'' else ''1'')"

definition trajectory_if :: "'d lib \<Rightarrow> bool \<Rightarrow> 'd json \<Rightarrow> string option result" where
  "trajectory_if lib want_trajectory pt =
     (if want_trajectory then bindR (SetTrajectory lib pt) (\<lambda>traj. Inr (Some traj)) else Inr None)"

definition MoveJoints ::
  "'d lib \<Rightarrow> 'd formats \<Rightarrow> 'd exec \<Rightarrow> 'd list \<Rightarrow> 32 word list \<Rightarrow> 'd \<Rightarrow> 'd \<Rightarrow> rat \<Rightarrow> bool \<Rightarrow> 'd ResultMoveJoints \<Rightarrow>
   ('d, 'd ResultMoveJoints \<times> string option) tasks" where
  "MoveJoints lib F exec goaljoints jointindices envclearance speed timeout want_trajectory r =
     bindT (set_execute want_trajectory) (\<lambda>_.
     parse_reply (command exec (\<lambda>tasktype. [json_key_string ''command'' ''MoveJoints'',
         json_key_string ''robottype'' ''densowave'', json_key_string ''tasktype'' tasktype,
         json_text ''goaljoints'' @ '': '' @ json_doubles F goaljoints, json_text ''jointindices'' @ '': '' @ json_ints jointindices,
         json_key_real F ''envclearance'' envclearance, json_key_real F ''speed'' speed]) (JObject []) timeout) (\<lambda>pt.
       bindR (ResultMoveJoints_Parse lib pt r) (\<lambda>r.
       bindR (trajectory_if lib want_trajectory pt) (\<lambda>traj. Inr (r, traj)))))"

definition transform_command ::
  "'d lib \<Rightarrow> 'd reals \<Rightarrow> 'd exec \<Rightarrow> (string \<Rightarrow> string list) \<Rightarrow> rat \<Rightarrow> ('d, 'd Transform) tasks" where
  "transform_command lib R exec parts timeout =
     parse_reply (command exec parts (JObject []) timeout) (\<lambda>pt. ResultTransform_Parse lib pt (Transform_default R))"

definition GetTransform ::
  "'d lib \<Rightarrow> 'd reals \<Rightarrow> 'd exec \<Rightarrow> string \<Rightarrow> string \<Rightarrow> rat \<Rightarrow> ('d, 'd Transform) tasks" where
  "GetTransform lib R exec targetname unit_name timeout =
     transform_command lib R exec (\<lambda>tasktype. [json_key_string ''command'' ''GetTransform'',
       json_key_string ''targetname'' targetname, json_key_string ''tasktype'' tasktype, json_key_string ''unit'' unit_name]) timeout"

definition SendMVRRegistrationResult :: "'d lib \<Rightarrow> 'd exec \<Rightarrow> 'd json \<Rightarrow> rat \<Rightarrow> ('d, unit) tasks" where
  "SendMVRRegistrationResult lib exec mvrResultInfo timeout =
     bindT (liftT (DumpJson lib mvrResultInfo 0)) (\<lambda>info.
     ignore_reply (command exec (\<lambda>_. [json_key_string ''command'' ''SendMVRRegistrationResult'',
       json_key_string ''mvrResultInfo'' info]) (JObject []) timeout))"

definition SendRemoveObjectsFromObjectListResult ::
  "'d exec \<Rightarrow> 'd RemoveObjectFromObjectListInfo list \<Rightarrow> bool \<Rightarrow> rat \<Rightarrow> ('d, unit) tasks" where
  "SendRemoveObjectsFromObjectListResult exec infos success timeout =
     ignore_reply (command exec (\<lambda>_. [json_key_string ''command'' ''SendRemoveObjectsFromObjectListResult'',
       json_text ''objectPks'' @ '': '' @ json_strings (map rem_objectPk infos),
       json_key_int ''success'' (of_bool success)]) (JObject []) timeout)"

definition SendTriggerDetectionCaptureResult :: "'d exec \<Rightarrow> string \<Rightarrow> string \<Rightarrow> rat \<Rightarrow> ('d, unit) tasks" where
  "SendTriggerDetectionCaptureResult exec triggerType returnCode timeout =
     ignore_reply (command exec (\<lambda>_. [json_key_string ''command'' ''SendTriggerDetectionCaptureResult'',
       json_key_string ''triggerType'' triggerType, json_key_string ''returnCode'' returnCode]) (JObject []) timeout)"

definition BinPicking_SetTransform ::
  "'d formats \<Rightarrow> 'd exec \<Rightarrow> string \<Rightarrow> 'd Transform \<Rightarrow> string \<Rightarrow> rat \<Rightarrow> ('d, unit) tasks" where
  "BinPicking_SetTransform F exec targetname transform unit_name timeout =
     ignore_reply (command exec (\<lambda>tasktype. [json_key_string ''command'' ''SetTransform'',
       json_key_string ''targetname'' targetname, json_key_string ''tasktype'' tasktype, json_transform F transform,
       json_key_string ''unit'' unit_name]) JNull timeout)"

definition GetManipTransformToRobot :: "'d lib \<Rightarrow> 'd reals \<Rightarrow> 'd exec \<Rightarrow> string \<Rightarrow> rat \<Rightarrow> ('d, 'd Transform) tasks" where
  "GetManipTransformToRobot lib R exec unit_name timeout =
     transform_command lib R exec (\<lambda>tasktype. [json_key_string ''command'' ''GetManipTransformToRobot'',
       json_key_string ''tasktype'' tasktype, json_key_string ''unit'' unit_name]) timeout"

definition GetManipTransform :: "'d lib \<Rightarrow> 'd reals \<Rightarrow> 'd exec \<Rightarrow> string \<Rightarrow> rat \<Rightarrow> ('d, 'd Transform) tasks" where
  "GetManipTransform lib R exec unit_name timeout =
     transform_command lib R exec (\<lambda>tasktype. [json_key_string ''command'' ''GetManipTransform'',
       json_key_string ''tasktype'' tasktype, json_key_string ''unit'' unit_name]) timeout"

definition GetAABB :: "'d lib \<Rightarrow> 'd exec \<Rightarrow> string \<Rightarrow> string \<Rightarrow> rat \<Rightarrow> 'd AABB \<Rightarrow> ('d, 'd AABB) tasks" where
  "GetAABB lib exec targetname unit_name timeout r =
     parse_reply (command exec (\<lambda>tasktype. [json_key_string ''command'' ''GetAABB'', json_key_string ''targetname'' targetname,
       json_key_string ''tasktype'' tasktype, json_key_string ''unit'' unit_name]) (JObject []) timeout)
       (\<lambda>pt. ResultAABB_Parse lib pt r)"

definition obb_fields :: "string \<Rightarrow> string \<Rightarrow> string \<Rightarrow> string \<Rightarrow> string \<Rightarrow> string list" where
  "obb_fields name targetname linkname unit_name tasktype =
     [json_key_string ''command'' name, json_key_string ''targetname'' targetname] @ field_unless_empty ''linkname'' linkname @
     [json_key_string ''tasktype'' tasktype, json_key_string ''unit'' unit_name]"

definition GetInnerEmptyRegionOBB ::
  "'d lib \<Rightarrow> 'd exec \<Rightarrow> string \<Rightarrow> string \<Rightarrow> string \<Rightarrow> rat \<Rightarrow> 'd ResultOBB \<Rightarrow> ('d, 'd ResultOBB) tasks" where
  "GetInnerEmptyRegionOBB lib exec targetname linkname unit_name timeout r =
     parse_reply (command exec (obb_fields ''GetInnerEmptyRegionOBB'' targetname linkname unit_name) (JObject []) timeout)
       (\<lambda>pt. ResultOBB_Parse lib pt r)"

definition GetOBB ::
  "'d lib \<Rightarrow> 'd exec \<Rightarrow> string \<Rightarrow> string \<Rightarrow> string \<Rightarrow> rat \<Rightarrow> 'd ResultOBB \<Rightarrow> ('d, 'd ResultOBB) tasks" where
  "GetOBB lib exec targetname linkname unit_name timeout r =
     parse_reply (command exec (obb_fields ''GetOBB'' targetname linkname unit_name) (JObject []) timeout)
       (\<lambda>pt. ResultOBB_Parse lib pt r)"

section \<open>Detections and point clouds\<close>

definition detection_fields :: "'d formats \<Rightarrow> 'd DetectedObject list \<Rightarrow> string \<Rightarrow> string list" where
  "detection_fields F detectedobjects resultstate =
     [json_text ''envstate'' @ '': '' @ json_list (map (json_detected F) detectedobjects),
      json_text ''detectionResultState'' @ '': '' @ (if length resultstate = 0 then ''{}'' else resultstate)]"

definition UpdateObjects ::
  "'d formats \<Rightarrow> 'd exec \<Rightarrow> string \<Rightarrow> 'd DetectedObject list \<Rightarrow> string \<Rightarrow> string \<Rightarrow> rat \<Rightarrow> ('d, unit) tasks" where
  "UpdateObjects F exec objectname detectedobjects resultstate unit_name timeout =
     ignore_reply (command exec (\<lambda>tasktype. [json_key_string ''command'' ''UpdateObjects'', json_key_string ''tasktype'' tasktype,
       json_key_string ''objectname'' objectname] @ detection_fields F detectedobjects resultstate @
       [json_key_string ''unit'' unit_name]) JNull timeout)"

text \<open>The margins: the three minima and the three maxima.\<close>

definition margins_field :: "'d formats \<Rightarrow> 'd list option \<Rightarrow> string list" where
  "margins_field F margins =
     (case margins of
        Some ms \<Rightarrow> [dquoted ''cropContainerMarginsXYZXYZ'' @ '':'' @ json_doubles F ms]
      | None \<Rightarrow> [])"

definition offset_field :: "'d formats \<Rightarrow> ('d \<times> 'd) option \<Rightarrow> string list" where
  "offset_field F offset =
     (case offset of
        Some (bottom, upper) \<Rightarrow>
          [dquoted ''addPointOffsetInfo'' @ '':{'' @ dquoted ''zOffsetAtBottom'' @ '': '' @ precise_real F bottom @ '', '' @
           dquoted ''zOffsetAtTop'' @ '': '' @ precise_real F upper @ '', '' @ dquoted ''use'' @ '': true}'']
      | None \<Rightarrow> [])"

definition AddPointCloudObstacle ::
  "'d reals \<Rightarrow> 'd formats \<Rightarrow> 'd exec \<Rightarrow> 'd PointCloudObstacle \<Rightarrow> 64 word \<Rightarrow> 64 word \<Rightarrow> bool \<Rightarrow> string \<Rightarrow> 32 word \<Rightarrow> string \<Rightarrow>
   bool \<Rightarrow> 'd list option \<Rightarrow> ('d \<times> 'd) option \<Rightarrow> rat \<Rightarrow> ('d, unit) tasks" where
  "AddPointCloudObstacle R F exec cloud starttimestamp stoptimestamp executionverification unit_name isoccluded location
     clampToContainer margins offset timeout =
     bindT (liftT (json_pointcloud F R cloud)) (\<lambda>cloud_text.
     ignore_reply (command exec (\<lambda>tasktype. [json_key_string ''command'' ''AddPointCloudObstacle'',
       json_key_string ''tasktype'' tasktype, json_key_int ''isoccluded'' (sint isoccluded),
       json_key_string ''locationName'' location, json_key_int ''clampToContainer'' (of_bool clampToContainer)] @
       margins_field F margins @ offset_field F offset @
       [cloud_text, dquoted ''starttimestamp'' @ '': '' @ dec_of_nat (unat starttimestamp),
        dquoted ''endtimestamp'' @ '': '' @ dec_of_nat (unat stoptimestamp),
        dquoted ''executionverification'' @ '': '' @ bit_text executionverification,
        json_key_string ''unit'' unit_name]) JNull timeout))"

definition UpdateEnvironmentState ::
  "'d reals \<Rightarrow> 'd formats \<Rightarrow> 'd exec \<Rightarrow> string \<Rightarrow> 'd DetectedObject list \<Rightarrow> 'd PointCloudObstacle \<Rightarrow> string \<Rightarrow> string \<Rightarrow> string \<Rightarrow>
   string list \<Rightarrow> 'd list option \<Rightarrow> rat \<Rightarrow> ('d, unit) tasks" where
  "UpdateEnvironmentState R F exec objectname detectedobjects cloud state unit_name location cameranames margins timeout =
     bindT (liftT (json_pointcloud F R cloud)) (\<lambda>cloud_text.
     ignore_reply (command exec (\<lambda>tasktype. [json_key_string ''command'' ''UpdateEnvironmentState'',
       json_key_string ''tasktype'' tasktype, json_key_string ''objectname'' objectname,
       json_key_string ''locationName'' location, dquoted ''cameranames'' @ '':'' @ json_strings cameranames] @
       detection_fields F detectedobjects state @ [json_key_string ''unit'' unit_name] @ margins_field F margins @
       [cloud_text]) JNull timeout))"

definition RemoveObjectsWithPrefix :: "'d exec \<Rightarrow> string \<Rightarrow> rat \<Rightarrow> ('d, unit) tasks" where
  "RemoveObjectsWithPrefix exec name_prefix timeout =
     ignore_reply (command exec (\<lambda>_. [json_key_string ''command'' ''RemoveObjectsWithPrefix'',
       json_key_string ''prefix'' name_prefix]) JNull timeout)"

definition VisualizePointCloud ::
  "'d formats \<Rightarrow> 'd exec \<Rightarrow> 'd list list \<Rightarrow> 'd \<Rightarrow> string list \<Rightarrow> string \<Rightarrow> rat \<Rightarrow> ('d, unit) tasks" where
  "VisualizePointCloud F exec pointslist pointsize names unit_name timeout =
     ignore_reply (command exec (\<lambda>tasktype. [json_key_string ''command'' ''VisualizePointCloud'',
       json_key_string ''tasktype'' tasktype, json_text ''pointslist'' @ '': '' @ json_list (map (json_floats F) pointslist),
       json_text ''pointsize'' @ '': '' @ precise_real F pointsize, json_text ''names'' @ '': '' @ json_strings names,
       json_key_string ''unit'' unit_name]) (JObject []) timeout)"

definition ClearVisualization :: "'d exec \<Rightarrow> rat \<Rightarrow> ('d, unit) tasks" where
  "ClearVisualization exec timeout =
     ignore_reply (command exec (\<lambda>tasktype. [json_key_string ''command'' ''ClearVisualization'',
       json_key_string ''tasktype'' tasktype]) JNull timeout)"

definition GetPickedPositions ::
  "'d lib \<Rightarrow> 'd exec \<Rightarrow> string \<Rightarrow> rat \<Rightarrow> ('d Transform \<times> 64 word) list \<Rightarrow> ('d, ('d Transform \<times> 64 word) list) tasks" where
  "GetPickedPositions lib exec unit_name timeout r =
     parse_reply (command exec (\<lambda>tasktype. [json_key_string ''command'' ''GetPickedPositions'' @ '','' @
       json_key_string ''tasktype'' tasktype, json_key_string ''unit'' unit_name]) (JObject []) timeout)
       (\<lambda>pt. ResultGetPickedPositions_Parse lib pt r)"

definition IsRobotOccludingBody ::
  "'d lib \<Rightarrow> 'd exec \<Rightarrow> string \<Rightarrow> string \<Rightarrow> 64 word \<Rightarrow> 64 word \<Rightarrow> rat \<Rightarrow> ('d, bool) tasks" where
  "IsRobotOccludingBody lib exec bodyname cameraname starttime endtime timeout =
     parse_reply (command exec (\<lambda>tasktype. [json_key_string ''command'' ''IsRobotOccludingBody'',
       json_key_string ''tasktype'' tasktype,
       json_occlusion_check \<lparr> soc_bodyname = bodyname, soc_cameraname = cameraname, soc_starttime = starttime, soc_endtime = endtime \<rparr>])
       (JObject []) timeout) (ResultIsRobotOccludingBody_Parse lib)"

section \<open>Objects and states\<close>

text \<open>The sensor selections are written by \<^verbatim>\<open>mujinjson::GetJsonString\<close>.\<close>

definition selections_text :: "'d lib \<Rightarrow> SensorSelectionInfo list \<Rightarrow> string result" where
  "selections_text lib infos = bindR (mapR SensorSelectionInfo_SaveToJson infos) (\<lambda>vs. GetJsonString lib (JArray vs))"

definition GetInstObjectAndSensorInfo ::
  "'d lib \<Rightarrow> 'd reals \<Rightarrow> 'd compiled \<Rightarrow> 'd SensorData \<Rightarrow> 'd exec \<Rightarrow> string list \<Rightarrow> SensorSelectionInfo list \<Rightarrow> string \<Rightarrow> rat \<Rightarrow>
   'd ResultGetInstObjectAndSensorInfo \<Rightarrow> ('d, 'd ResultGetInstObjectAndSensorInfo) tasks" where
  "GetInstObjectAndSensorInfo lib R c d0 exec instobjectnames sensorSelectionInfos unit_name timeout r =
     bindT (liftT (selections_text lib sensorSelectionInfos)) (\<lambda>selections.
     parse_reply (command exec (\<lambda>tasktype. [json_key_string ''command'' ''GetInstObjectAndSensorInfo'',
       json_key_string ''tasktype'' tasktype, json_text ''instobjectnames'' @ '': '' @ json_strings instobjectnames,
       json_text ''sensorSelectionInfos'' @ '': '' @ selections, json_key_string ''unit'' unit_name]) (JObject []) timeout)
       (\<lambda>pt. ResultGetInstObjectAndSensorInfo_Parse lib R c d0 pt r))"

definition GetInstObjectInfoFromURI ::
  "'d lib \<Rightarrow> 'd formats \<Rightarrow> 'd exec \<Rightarrow> string \<Rightarrow> 'd Transform \<Rightarrow> string \<Rightarrow> rat \<Rightarrow> 'd ResultInstObjectInfo \<Rightarrow> ('d, 'd ResultInstObjectInfo) tasks" where
  "GetInstObjectInfoFromURI lib F exec objecturi t unit_name timeout r =
     parse_reply (command exec (\<lambda>_. [json_key_string ''command'' ''GetInstObjectInfoFromURI'', json_key_string ''unit'' unit_name,
       dquoted ''objecturi'' @ '':'' @ json_text objecturi,
       dquoted ''instobjectpose'' @ '':'' @ json_doubles F (quaternion t @ translate t)]) (JObject []) timeout)
       (\<lambda>pt. ResultInstObjectInfo_Parse lib pt r)"

definition get_state ::
  "'d lib \<Rightarrow> 'd reals \<Rightarrow> 'd compiled \<Rightarrow> 'd exec \<Rightarrow> string \<Rightarrow> string \<Rightarrow> rat \<Rightarrow> 'd ResultGetBinpickingState \<Rightarrow>
   ('d, 'd ResultGetBinpickingState) tasks" where
  "get_state lib R c exec robotname unit_name timeout r =
     bindT (getT (\<lambda>t. SerializeGetStateCommand (bp_mapTaskParameters t) ''GetState'' (bp_tasktype t) robotname unit_name)) (\<lambda>text.
     parse_reply (exec text (JObject []) timeout) (\<lambda>pt. ResultGetBinpickingState_Parse lib R c pt r))"

definition GetBinpickingState ::
  "'d lib \<Rightarrow> 'd reals \<Rightarrow> 'd compiled \<Rightarrow> 'd exec \<Rightarrow> string \<Rightarrow> string \<Rightarrow> rat \<Rightarrow> 'd ResultGetBinpickingState \<Rightarrow>
   ('d, 'd ResultGetBinpickingState) tasks" where
  "GetBinpickingState = get_state"

definition GetITLState ::
  "'d lib \<Rightarrow> 'd reals \<Rightarrow> 'd compiled \<Rightarrow> 'd exec \<Rightarrow> string \<Rightarrow> string \<Rightarrow> rat \<Rightarrow> 'd ResultGetBinpickingState \<Rightarrow>
   ('d, 'd ResultGetBinpickingState) tasks" where
  "GetITLState = get_state"

text \<open>The published state, or the state that is asked for as long as none has been published.\<close>

definition GetPublishedTaskState ::
  "'d lib \<Rightarrow> 'd reals \<Rightarrow> 'd compiled \<Rightarrow> 'd exec \<Rightarrow> string \<Rightarrow> string \<Rightarrow> rat \<Rightarrow> 'd ResultGetBinpickingState \<Rightarrow>
   ('d, 'd ResultGetBinpickingState) tasks" where
  "GetPublishedTaskState lib R c exec robotname unit_name timeout r =
     bindT (getT bp_taskstate) (\<lambda>taskstate.
     if bs_timestamp taskstate = 0 then
       bindT (getT bp_tasktype) (\<lambda>tasktype.
       bindT (if tasktype = ''binpicking'' then GetBinpickingState lib R c exec robotname unit_name timeout r
              else GetITLState lib R c exec robotname unit_name timeout r) (\<lambda>r.
       bindT (modifyT (bp_taskstate_update (\<lambda>_. r))) (\<lambda>_. retT r)))
     else retT taskstate)"

section \<open>Motions\<close>

definition SetJogModeVelocities ::
  "'d reals \<Rightarrow> 'd formats \<Rightarrow> 'd exec \<Rightarrow> string \<Rightarrow> 32 word list \<Rightarrow> string \<Rightarrow> string \<Rightarrow> 'd \<Rightarrow> 'd \<Rightarrow> rat \<Rightarrow> ('d, unit) tasks" where
  "SetJogModeVelocities R F exec jogtype movejointsigns robotname toolname robotspeed robotaccelmult timeout =
     ignore_reply (command exec (\<lambda>_. [json_key_string ''command'' ''SetJogModeVelocities'', json_key_string ''jogtype'' jogtype] @
       field_unless_empty ''robotname'' robotname @ field_unless_empty ''toolname'' toolname @
       field_unless_negative R F ''robotspeed'' robotspeed @ field_unless_negative R F ''robotaccelmult'' robotaccelmult @
       [json_text ''movejointsigns'' @ '': '' @ json_ints movejointsigns]) JNull timeout)"

definition set_linear_parameters :: "'d reals \<Rightarrow> 'd formats \<Rightarrow> 'd \<Rightarrow> 'd \<Rightarrow> bool \<Rightarrow> ('d, unit) tasks" where
  "set_linear_parameters R F workspeedlin workspeedrot checkEndeffectorCollision =
     (let ignorethresh = (if checkEndeffectorCollision then ''0.0'' else ''1000.0'') in
     bindT (set_parameter ''workignorefirstcollisionee'' ignorethresh) (\<lambda>_.
     bindT (set_parameter ''workignorelastcollisionee'' ignorethresh) (\<lambda>_.
     bindT (set_parameter ''workignorefirstcollision'' ignorethresh) (\<lambda>_.
     if r_less R (r_lit R 0) workspeedlin \<and> r_less R (r_lit R 0) workspeedrot
     then set_parameter ''workspeed'' (''['' @ stream_real F workspeedrot @ '', '' @ stream_real F workspeedlin @ '']'')
     else retT ()))))"

text \<open>The end of the four motions: \<open>text\<close> gives the command from the task parameters.\<close>

definition run_motion ::
  "'d lib \<Rightarrow> 'd exec \<Rightarrow> ((string \<times> string) list \<Rightarrow> string) \<Rightarrow> rat \<Rightarrow> bool \<Rightarrow> ('d, string option) tasks" where
  "run_motion lib exec text timeout want_trajectory =
     bindT (getT (\<lambda>t. text (bp_mapTaskParameters t))) (\<lambda>s.
     parse_reply (exec s (JObject []) timeout) (trajectory_if lib want_trajectory))"

definition MoveToolLinear ::
  "'d lib \<Rightarrow> 'd reals \<Rightarrow> 'd formats \<Rightarrow> 'd exec \<Rightarrow> string \<Rightarrow> 'd list \<Rightarrow> string \<Rightarrow> string \<Rightarrow> 'd \<Rightarrow> 'd \<Rightarrow> bool \<Rightarrow> rat \<Rightarrow> bool \<Rightarrow>
   ('d, string option) tasks" where
  "MoveToolLinear lib R F exec goaltype goals robotname toolname workspeedlin workspeedrot checkEndeffectorCollision timeout want_trajectory =
     bindT (set_execute want_trajectory) (\<lambda>_.
     bindT (set_linear_parameters R F workspeedlin workspeedrot checkEndeffectorCollision) (\<lambda>_.
     run_motion lib exec (GenerateMoveToolCommand R F ''MoveToolLinear'' goaltype goals robotname toolname (r_lit R (-1)) (r_lit R (-1)))
       timeout want_trajectory))"

definition MoveToolLinear_ikparam ::
  "'d lib \<Rightarrow> 'd reals \<Rightarrow> 'd formats \<Rightarrow> 'd exec \<Rightarrow> string \<Rightarrow> string \<Rightarrow> string \<Rightarrow> string \<Rightarrow> 'd \<Rightarrow> 'd \<Rightarrow> bool \<Rightarrow> rat \<Rightarrow> bool \<Rightarrow>
   ('d, string option) tasks" where
  "MoveToolLinear_ikparam lib R F exec instobjectname ikparamname robotname toolname workspeedlin workspeedrot
     checkEndeffectorCollision timeout want_trajectory =
     bindT (set_execute want_trajectory) (\<lambda>_.
     bindT (set_linear_parameters R F workspeedlin workspeedrot checkEndeffectorCollision) (\<lambda>_.
     run_motion lib exec (GenerateMoveToolByIkParamCommand R F ''MoveToolLinear'' instobjectname ikparamname robotname toolname
       (r_lit R (-1)) (r_lit R (-1))) timeout want_trajectory))"

definition MoveToHandPosition ::
  "'d lib \<Rightarrow> 'd reals \<Rightarrow> 'd formats \<Rightarrow> 'd exec \<Rightarrow> string \<Rightarrow> 'd list \<Rightarrow> string \<Rightarrow> string \<Rightarrow> 'd \<Rightarrow> rat \<Rightarrow> 'd \<Rightarrow> bool \<Rightarrow>
   ('d, string option) tasks" where
  "MoveToHandPosition lib R F exec goaltype goals robotname toolname robotspeed timeout envclearance want_trajectory =
     bindT (set_execute want_trajectory) (\<lambda>_.
     run_motion lib exec (GenerateMoveToolCommand R F ''MoveToHandPosition'' goaltype goals robotname toolname robotspeed envclearance)
       timeout want_trajectory)"

definition MoveToHandPosition_ikparam ::
  "'d lib \<Rightarrow> 'd reals \<Rightarrow> 'd formats \<Rightarrow> 'd exec \<Rightarrow> string \<Rightarrow> string \<Rightarrow> string \<Rightarrow> string \<Rightarrow> 'd \<Rightarrow> rat \<Rightarrow> 'd \<Rightarrow> bool \<Rightarrow>
   ('d, string option) tasks" where
  "MoveToHandPosition_ikparam lib R F exec instobjectname ikparamname robotname toolname robotspeed timeout envclearance want_trajectory =
     bindT (set_execute want_trajectory) (\<lambda>_.
     run_motion lib exec (GenerateMoveToolByIkParamCommand R F ''MoveToHandPosition'' instobjectname ikparamname robotname toolname
       robotspeed envclearance) timeout want_trajectory)"

section \<open>Grabbing, trajectories and signals\<close>

definition GetGrabbed :: "'d lib \<Rightarrow> 'd exec \<Rightarrow> string \<Rightarrow> rat \<Rightarrow> ('d, string list) tasks" where
  "GetGrabbed lib exec robotname timeout =
     parse_reply (command_value lib exec ''GetGrabbed'' (\<lambda>v.
         if robotname \<noteq> [] then SetJsonValueByKey SaveJsonString v ''robotname'' robotname else Inr v) timeout) (\<lambda>d.
       bindR (output_of d) (\<lambda>v.
       bindR (find_member v ''names'') (\<lambda>x.
       if (case x of None \<Rightarrow> False | Some names \<Rightarrow> \<not> IsNull names)
       then bindR (LoadJsonValueByKey (LoadJsonVector [] (LoadJsonString lib)) v ''names'' []) (\<lambda>(_, grabbed). Inr grabbed)
       else Inr [])))"

definition ExecuteSingleXMLTrajectory :: "'d exec \<Rightarrow> string \<Rightarrow> bool \<Rightarrow> rat \<Rightarrow> ('d, unit) tasks" where
  "ExecuteSingleXMLTrajectory exec trajectory filterTraj timeout =
     ignore_reply (command exec (\<lambda>_. [json_key_string ''command'' ''ExecuteSingleXMLTrajectory'',
       json_key_int ''filtertraj'' (of_bool filterTraj), json_key_string ''trajectory'' trajectory]) JNull timeout)"

definition Grab :: "'d exec \<Rightarrow> string \<Rightarrow> string \<Rightarrow> string \<Rightarrow> rat \<Rightarrow> ('d, unit) tasks" where
  "Grab exec targetname robotname toolname timeout =
     ignore_reply (command exec (\<lambda>_. [json_key_string ''command'' ''Grab'', json_key_string ''targetname'' targetname] @
       field_unless_empty ''robotname'' robotname @ field_unless_empty ''toolname'' toolname) JNull timeout)"

definition Release :: "'d exec \<Rightarrow> string \<Rightarrow> string \<Rightarrow> string \<Rightarrow> rat \<Rightarrow> ('d, unit) tasks" where
  "Release exec targetname robotname toolname timeout =
     ignore_reply (command exec (\<lambda>_. [json_key_string ''command'' ''Release'', json_key_string ''targetname'' targetname] @
       field_unless_empty ''robotname'' robotname @ field_unless_empty ''toolname'' toolname) JNull timeout)"

text \<open>The values of the caller are kept for the names that are not in the reply; new places are empty.\<close>

definition io_value :: "'d lib \<Rightarrow> 'd json \<Rightarrow> string \<times> string \<Rightarrow> string result" where
  "io_value lib rIOOutputs entry =
     bindR (has_member rIOOutputs (c_str (fst entry))) (\<lambda>found.
     if found then GetStringJsonValueByKey lib rIOOutputs (c_str (fst entry)) [] else Inr (snd entry))"

definition GetRobotBridgeIOVariableString ::
  "'d lib \<Rightarrow> 'd exec \<Rightarrow> string list \<Rightarrow> string list \<Rightarrow> rat \<Rightarrow> ('d, string list) tasks" where
  "GetRobotBridgeIOVariableString lib exec ionames iovalues timeout =
     parse_reply (command exec (\<lambda>_. [json_key_string ''command'' ''GetRobotBridgeIOVariableString'',
       dquoted ''ionames'' @ '':'' @ json_strings ionames]) JNull timeout) (\<lambda>d.
       bindR (output_of d) (\<lambda>rIOOutputs.
       mapR (io_value lib rIOOutputs) (zip ionames (iovalues @ replicate (length ionames) []))))"

end
