(* ===== verification/RegionLaws.thy ===== *)
theory RegionLaws
  imports BinPickingData
begin

text \<open>
  Saving a minimum viable region and loading it again. The value that is saved is written out as a list
  of members, in which every key is found by evaluation.
\<close>

definition well_formed_region :: "'d RegisterMinViableRegionInfo \<Rightarrow> bool" where
  "well_formed_region t \<longleftrightarrow> length (mvr_size2D (rm_minViableRegion t)) = 2 \<and>
     length (mvr_maxPossibleSize (rm_minViableRegion t)) = 3 \<and>
     length (mvr_maxPossibleSizeOriginal (rm_minViableRegion t)) = 3 \<and>
     length (rm_translation t) = 3 \<and> length (rm_quaternion t) = 4 \<and> length (rm_liftedWorldOffset t) = 3 \<and>
     length (rm_maxCandidateSize t) = 3 \<and> length (rm_minCandidateSize t) = 3"

definition size_members :: "'d MinViableRegionInfo \<Rightarrow> (string \<times> 'd json) list" where
  "size_members t = [(''size2D'', save_reals (mvr_size2D t)), (''maxPossibleSize'', save_reals (mvr_maxPossibleSize t)),
     (''maxPossibleSizeOriginal'', save_reals (mvr_maxPossibleSizeOriginal t)),
     (''cornerMask'', SaveJsonUint8 (mvr_cornerMask t)), (''cornerMaskOriginal'', SaveJsonUint8 (mvr_cornerMaskOriginal t))]"

definition document_member :: "string \<Rightarrow> 'd json \<Rightarrow> (string \<times> 'd json) list" where
  "document_member key v = (if IsNull v then [] else [(key, v)])"

definition region_members :: "'d RegisterMinViableRegionInfo \<Rightarrow> (string \<times> 'd json) list" where
  "region_members t =
     [(''minViableRegion'', JObject (size_members (rm_minViableRegion t))),
      (''locationName'', SaveJsonString (rm_locationName t)), (''translation'', save_reals (rm_translation t)),
      (''quaternion'', save_reals (rm_quaternion t)), (''objectWeight'', SaveJsonDouble (rm_objectWeight t)),
      (''objectType'', SaveJsonString (rm_objectType t)), (''sensorTimeStampMS'', SaveJsonUint64 (rm_sensorTimeStampMS t)),
      (''robotDepartStopTimestamp'', SaveJsonDouble (rm_robotDepartStopTimestamp t)),
      (''liftedWorldOffset'', save_reals (rm_liftedWorldOffset t)), (''minCandidateSize'', save_reals (rm_minCandidateSize t)),
      (''maxCandidateSize'', save_reals (rm_maxCandidateSize t)),
      (''transferSpeedPostMult'', SaveJsonDouble (rm_transferSpeedPostMult t))] @
     document_member ''targetTemplateSceneData'' (rm_targetTemplateSceneData t) @
     [(''graspModelInfo'', rm_graspModelInfo t)] @
     document_member ''registrationVisionInfo'' (rm_registrationVisionInfo t) @
     [(''minCornerVisibleDist'', SaveJsonDouble (rm_minCornerVisibleDist t)),
      (''minCornerVisibleInsideDist'', SaveJsonDouble (rm_minCornerVisibleInsideDist t)),
      (''maxCornerAngleDeviation'', SaveJsonDouble (rm_maxCornerAngleDeviation t)),
      (''occlusionFreeCornerMask'', SaveJsonUint8 (rm_occlusionFreeCornerMask t)),
      (''registrationMode'', SaveJsonCString (GetMinViableRegionRegistrationModeString (rm_registrationMode t))),
      (''skipAppendingToObjectSet'', SaveJsonBool (rm_skipAppendingToObjectSet t)),
      (''maxPossibleSizePadding'', SaveJsonDouble (rm_maxPossibleSizePadding t)),
      (''fullDofValues'', SaveJsonVector SaveJsonDouble (rm_fullDofValues t)),
      (''connectedBodyActiveStates'', SaveJsonVector SaveJsonInt8 (rm_connectedBodyActiveStates t))]"

lemma set_new_key:
  "CHR 0x00 \<notin> set key \<Longrightarrow> key \<notin> fst ` set ms \<Longrightarrow>
     SetJsonValueByKey save (JObject ms) key x = Inr (JObject (ms @ [(key, save x)]))"
  by (auto simp: SetJsonValueByKey_def set_member_def HasMember_def FindMember_def SaveJsonCString_def
      map_of_eq_None_iff split: option.splits dest: map_of_SomeD)

lemma add_to_object: "add_member key x (JObject ms) = Inr (JObject (ms @ [(key, x)]))"
  by (simp add: add_member_def)

lemma add_unless_null: "add_unless_null key x (JObject ms) = Inr (JObject (ms @ document_member key x))"
  by (simp add: add_unless_null_def document_member_def add_to_object)

lemma document_member_other: "k \<noteq> key \<Longrightarrow> k \<notin> fst ` set (document_member key v)"
  by (simp add: document_member_def)

lemma save_sizes: "MinViableRegionInfo_save t = Inr (JObject (size_members t))"
  unfolding MinViableRegionInfo_save_def size_members_def by (simp add: set_new_key)

lemma save_region: "MinViableRegion_SerializeJSON t = Inr (JObject (region_members t))"
  unfolding MinViableRegion_SerializeJSON_def region_members_def save_sizes
  by (simp add: set_new_key add_to_object add_unless_null document_member_other image_Un)

lemma map_of_document_member [simp]:
  "map_of (document_member k v @ ms) key = (if key = k \<and> \<not> IsNull v then Some v else map_of ms key)"
  by (simp add: document_member_def)

lemma find_size:
  "FindMember (JObject (size_members t)) ''size2D'' = Some (save_reals (mvr_size2D t))"
  "FindMember (JObject (size_members t)) ''maxPossibleSize'' = Some (save_reals (mvr_maxPossibleSize t))"
  "FindMember (JObject (size_members t)) ''maxPossibleSizeOriginal'' = Some (save_reals (mvr_maxPossibleSizeOriginal t))"
  "FindMember (JObject (size_members t)) ''cornerMask'' = Some (SaveJsonUint8 (mvr_cornerMask t))"
  "FindMember (JObject (size_members t)) ''cornerMaskOriginal'' = Some (SaveJsonUint8 (mvr_cornerMaskOriginal t))"
  by (simp_all add: FindMember_def size_members_def)

lemma find_region:
  "FindMember (JObject (region_members t)) ''minViableRegion'' = Some (JObject (size_members (rm_minViableRegion t)))"
  "FindMember (JObject (region_members t)) ''locationName'' = Some (SaveJsonString (rm_locationName t))"
  "FindMember (JObject (region_members t)) ''translation'' = Some (save_reals (rm_translation t))"
  "FindMember (JObject (region_members t)) ''quaternion'' = Some (save_reals (rm_quaternion t))"
  "FindMember (JObject (region_members t)) ''objectWeight'' = Some (SaveJsonDouble (rm_objectWeight t))"
  "FindMember (JObject (region_members t)) ''objectType'' = Some (SaveJsonString (rm_objectType t))"
  "FindMember (JObject (region_members t)) ''sensorTimeStampMS'' = Some (SaveJsonUint64 (rm_sensorTimeStampMS t))"
  "FindMember (JObject (region_members t)) ''robotDepartStopTimestamp'' = Some (SaveJsonDouble (rm_robotDepartStopTimestamp t))"
  "FindMember (JObject (region_members t)) ''liftedWorldOffset'' = Some (save_reals (rm_liftedWorldOffset t))"
  "FindMember (JObject (region_members t)) ''minCandidateSize'' = Some (save_reals (rm_minCandidateSize t))"
  "FindMember (JObject (region_members t)) ''maxCandidateSize'' = Some (save_reals (rm_maxCandidateSize t))"
  "FindMember (JObject (region_members t)) ''transferSpeedPostMult'' = Some (SaveJsonDouble (rm_transferSpeedPostMult t))"
  "FindMember (JObject (region_members t)) ''targetTemplateSceneData'' =
     (if IsNull (rm_targetTemplateSceneData t) then None else Some (rm_targetTemplateSceneData t))"
  "FindMember (JObject (region_members t)) ''graspModelInfo'' = Some (rm_graspModelInfo t)"
  "FindMember (JObject (region_members t)) ''registrationVisionInfo'' =
     (if IsNull (rm_registrationVisionInfo t) then None else Some (rm_registrationVisionInfo t))"
  "FindMember (JObject (region_members t)) ''minCornerVisibleDist'' = Some (SaveJsonDouble (rm_minCornerVisibleDist t))"
  "FindMember (JObject (region_members t)) ''minCornerVisibleInsideDist'' = Some (SaveJsonDouble (rm_minCornerVisibleInsideDist t))"
  "FindMember (JObject (region_members t)) ''maxCornerAngleDeviation'' = Some (SaveJsonDouble (rm_maxCornerAngleDeviation t))"
  "FindMember (JObject (region_members t)) ''occlusionFreeCornerMask'' = Some (SaveJsonUint8 (rm_occlusionFreeCornerMask t))"
  "FindMember (JObject (region_members t)) ''registrationMode'' =
     Some (SaveJsonCString (GetMinViableRegionRegistrationModeString (rm_registrationMode t)))"
  "FindMember (JObject (region_members t)) ''skipAppendingToObjectSet'' = Some (SaveJsonBool (rm_skipAppendingToObjectSet t))"
  "FindMember (JObject (region_members t)) ''maxPossibleSizePadding'' = Some (SaveJsonDouble (rm_maxPossibleSizePadding t))"
  "FindMember (JObject (region_members t)) ''fullDofValues'' = Some (SaveJsonVector SaveJsonDouble (rm_fullDofValues t))"
  "FindMember (JObject (region_members t)) ''connectedBodyActiveStates'' =
     Some (SaveJsonVector SaveJsonInt8 (rm_connectedBodyActiveStates t))"
  by (simp_all add: FindMember_def region_members_def del: map_of_append)

lemma load_real_array:
  assumes "FindMember (JObject ms) key = Some (save_reals xs)" "length (get r) = length xs"
  shows "load_field (LoadJsonArray (LoadJsonDouble lib)) (JObject ms) key get upd r = Inr (upd xs r)"
proof -
  have "LoadJsonArray (LoadJsonDouble lib) (save_reals xs) (get r) = Inr xs"
    using assms(2) by (intro double_codec.load_array) (simp_all add: list_all_iff)
  with assms(1) show ?thesis
    by (simp add: load_field_def LoadJsonValueByKey_def parsing_value_of_def SaveJsonArray_def)
qed

lemma load_real_vector:
  assumes "FindMember (JObject ms) key = Some (SaveJsonVector SaveJsonDouble xs)"
  shows "load_field (LoadJsonVector d (LoadJsonDouble lib)) (JObject ms) key get upd r = Inr (upd xs r)"
proof -
  have "LoadJsonVector d (LoadJsonDouble lib) (SaveJsonVector SaveJsonDouble xs) (get r) = Inr xs"
    by (intro double_codec.load_vector) (simp add: list_all_iff)
  with assms show ?thesis by (simp add: load_field_def LoadJsonValueByKey_def parsing_value_of_def SaveJsonVector_def)
qed

lemma load_int8_vector:
  assumes "FindMember (JObject ms) key = Some (SaveJsonVector SaveJsonInt8 xs)"
  shows "load_field (LoadJsonVector d (LoadJsonInt8 lib)) (JObject ms) key get upd r = Inr (upd xs r)"
proof -
  have "LoadJsonVector d (LoadJsonInt8 lib) (SaveJsonVector SaveJsonInt8 xs) (get r) = Inr xs"
    by (intro int8_codec.load_vector) (simp add: list_all_iff)
  with assms show ?thesis by (simp add: load_field_def LoadJsonValueByKey_def parsing_value_of_def SaveJsonVector_def)
qed

lemma load_saved_mask:
  "FindMember (JObject ms) key = Some (SaveJsonUint8 w) \<Longrightarrow> get_mask lib (JObject ms) key = Inr w"
proof -
  have w: "uint w < 256" using uint_lt2p [of w] by simp
  have "- 2147483648 \<le> uint w" using uint_ge_0 [of w] by linarith
  with w have "sint (ucast w :: 32 word) = uint w"
    using signed_take_bit_int_eq_self [of 31 "uint w"] by (simp add: signed_ucast_eq)
  moreover note w
  moreover have "ucast (ucast w :: 32 word) = w" by (rule ucast_up_ucast_id) (simp add: is_up)
  ultimately show "FindMember (JObject ms) key = Some (SaveJsonUint8 w) \<Longrightarrow> ?thesis"
    by (simp add: get_mask_def GetJsonValueByKey_default_def SaveJsonUint8_def SaveJsonInt_def LoadJsonUint_def IsUint_def
      parsing_value_of_def)
qed

lemma load_saved_real:
  "FindMember (JObject ms) key = Some (SaveJsonDouble x) \<Longrightarrow> get_real lib (JObject ms) key d = Inr x"
  by (simp add: get_real_def double_codec.load_by_key)

lemma load_saved_string:
  "FindMember (JObject ms) key = Some (SaveJsonString s) \<Longrightarrow> plain s \<Longrightarrow>
     load_field (LoadJsonString lib) (JObject ms) key get upd r = Inr (upd s r)"
  by (simp add: load_field_def string_codec.load_by_key plain_def)

lemma load_saved_mode:
  "FindMember (JObject ms) key = Some (SaveJsonCString (GetMinViableRegionRegistrationModeString m)) \<Longrightarrow>
     bindR (GetStringJsonValueByKey lib (JObject ms) key []) (\<lambda>s.
       bindR (GetMinViableRegionRegistrationModeFromString (Some (c_str s)) d) f) = f m"
  by (cases m) (simp_all add: GetStringJsonValueByKey_def GetJsonValueByKey_default_def SaveJsonCString_def LoadJsonString_def
    parsing_value_of_def GetMinViableRegionRegistrationModeFromString_def)

lemma load_saved_document:
  "FindMember (JObject ms) key = (if IsNull v then None else Some v) \<Longrightarrow> get_document (JObject ms) key = Inr v"
  "FindMember (JObject ms) key = Some v \<Longrightarrow> get_document (JObject ms) key = Inr v"
  by (cases v; simp add: get_document_def find_member_def)+

lemma load_sizes:
  assumes "length (mvr_size2D t) = length (mvr_size2D u)"
    "length (mvr_maxPossibleSize t) = length (mvr_maxPossibleSize u)"
    "length (mvr_maxPossibleSizeOriginal t) = length (mvr_maxPossibleSizeOriginal u)"
  shows "MinViableRegionInfo_load lib (JObject (size_members t)) u = Inr t"
  using assms by (simp add: MinViableRegionInfo_load_def load_real_array find_size load_saved_mask)

text \<open>C28: A minimum viable region that is saved is loaded back, into any region: nothing of the old one is
  left, whether or not the optional documents were there.\<close>

theorem MinViableRegion_roundtrip:
  assumes "well_formed_region t" and "well_formed_region old" and "plain (rm_locationName t)" and "plain (rm_objectType t)"
  shows "\<exists>v. MinViableRegion_SerializeJSON t = Inr v \<and> MinViableRegion_DeserializeJSON lib R v old = Inr t"
proof -
  have sizes: "MinViableRegionInfo_load lib (JObject (size_members (rm_minViableRegion t))) (MinViableRegionInfo_default R) =
      Inr (rm_minViableRegion t)"
    using assms(1) by (intro load_sizes) (simp_all add: well_formed_region_def MinViableRegionInfo_default_def)
  have "MinViableRegion_DeserializeJSON lib R (JObject (region_members t)) old = Inr t"
    using assms unfolding MinViableRegion_DeserializeJSON_def well_formed_region_def
    by (simp add: find_member_def find_region sizes load_real_array load_real_vector load_int8_vector load_saved_real
      load_saved_string load_saved_mask load_saved_document load_saved_mode uint64_codec.load_by_key bool_codec.load_by_key)
  with save_region show ?thesis by blast
qed

definition sample_region :: "nat RegisterMinViableRegionInfo" where
  "sample_region = (RegisterMinViableRegionInfo_default nat_reals MVRRM_Drag)
     \<lparr> rm_locationName := ''l'', rm_objectType := ''t'', rm_graspModelInfo := JObject [(''g'', JInt 1)],
       rm_registrationVisionInfo := JString ''v'', rm_occlusionFreeCornerMask := 9, rm_fullDofValues := [1, 2],
       rm_connectedBodyActiveStates := [1, -1], rm_sensorTimeStampMS := 5 \<rparr>"

lemma MinViableRegion_roundtrip_witness:
  "\<exists>v. MinViableRegion_SerializeJSON sample_region = Inr v \<and>
     MinViableRegion_DeserializeJSON sample_lib nat_reals v (RegisterMinViableRegionInfo_default nat_reals MVRRM_None) =
       Inr sample_region"
  by (rule MinViableRegion_roundtrip)
    (simp_all add: sample_region_def well_formed_region_def RegisterMinViableRegionInfo_default_def
      MinViableRegionInfo_default_def plain_def)

section \<open>Assignment\<close>

text \<open>C31: Assigning another object copies every member of it and changes no other object. Assigning an object to
  itself throws: the first of its documents is cleared, and then rapidjson refuses to copy a document from itself; the
  other members and the other two documents are as they were.\<close>

theorem RegisterMinViableRegionInfo_assign_copies:
  "RegisterMinViableRegionInfo_assign this rhs st =
     (if rhs = this then (Inl rapidjson_assertion, st(this := (st this) \<lparr> rm_targetTemplateSceneData := JNull \<rparr>))
      else (Inr (), st(this := st rhs)))"
  by (cases "rhs = this")
    (simp_all add: RegisterMinViableRegionInfo_assign_def copy_document_def assign_with_def fun_eq_iff Let_def)

end
