(* ===== verification/Scenes.thy ===== *)
theory Scenes
  imports BinPicking
begin

text \<open>
  Scenes (\<^verbatim>\<open>src/mujincontrollerclient.cpp\<close>): the instance objects of a scene and what they grab, the
  tasks of a scene, which are looked up or created, and the functions of \<^verbatim>\<open>mujinclient::utils\<close> that
  search a scene (\<^verbatim>\<open>src/binpickingtask.cpp\<close>).
\<close>

section \<open>Instance objects\<close>

record 'd InstLink =
  il_name :: string
  il_quaternion :: "'d list"
  il_translate :: "'d list"

record 'd InstTool =
  it_name :: string
  it_direction :: "'d list"
  it_quaternion :: "'d list"
  it_translate :: "'d list"

datatype GrabRecord = GrabRecord (instobjectpk: string) (grabbed_linkpk: string) (grabbing_linkpk: string)

record 'd InstAttachedSensor =
  ia_name :: string
  ia_quaternion :: "'d list"
  ia_translate :: "'d list"

record 'd InstObject = WebResource +
  io_dofvalues :: "'d list"
  io_name :: string
  io_pk :: string
  io_object_pk :: string
  io_reference_object_pk :: string
  io_reference_uri :: string
  io_quaternion :: "'d list"
  io_translate :: "'d list"
  io_grabs :: "GrabRecord list"
  io_links :: "'d InstLink list"
  io_tools :: "'d InstTool list"
  io_attachedsensors :: "'d InstAttachedSensor list"

fun Serialize :: "GrabRecord \<Rightarrow> string" where
  "Serialize (GrabRecord obj grabbed grabbing) =
     ''{'' @ string_field ''instobjectpk'' '' '' obj @ '', '' @ string_field ''grabbed_linkpk'' '' '' grabbed @ '',  '' @
     string_field ''grabbing_linkpk'' '' '' grabbing @ ''}''"

definition InstObject_new :: "'d http_env \<Rightarrow> string \<Rightarrow> string \<Rightarrow> 'd InstObject result" where
  "InstObject_new env scenepk pk =
     bindR (check_pk pk) (\<lambda>_.
     Inr \<lparr> resourcename = ''scene/'' @ scenepk @ ''/instobject'', primary_key = pk, io_dofvalues = [], io_name = [],
       io_pk = pk, io_object_pk = [], io_reference_object_pk = [], io_reference_uri = [],
       io_quaternion = identity_quaternion env, io_translate = zeros env 3, io_grabs = [], io_links = [], io_tools = [],
       io_attachedsensors = [] \<rparr>)"

definition put_instobject :: "'d http_env \<Rightarrow> 'x WebResource_scheme \<Rightarrow> string \<Rightarrow> ('d, unit) http" where
  "put_instobject env r data = bindM (CallPutJSON env (resource_path r @ ''?format=json'') data 202 5) (\<lambda>_. ret ())"

definition pose_fields :: "'d http_env \<Rightarrow> string \<Rightarrow> 'd list \<Rightarrow> 'd list \<Rightarrow> string" where
  "pose_fields env sep quat transl =
     dquoted ''quaternion'' @ '':['' @ joined sep (map (print_real env) quat) @ ''], '' @
     dquoted ''translate'' @ '':['' @ joined sep (map (print_real env) transl) @ '']''"

definition SetTransform :: "'d http_env \<Rightarrow> 'd InstObject \<Rightarrow> 'd Transform \<Rightarrow> ('d, unit) http" where
  "SetTransform env r t =
     put_instobject env r (''{'' @ pose_fields env '', '' (Transform.quaternion t) (Transform.translate t) @ ''}'')"

definition SetDOFValues :: "'d http_env \<Rightarrow> 'd formats \<Rightarrow> 'd InstObject \<Rightarrow> ('d, unit) http" where
  "SetDOFValues env F r =
     put_instobject env r (''{'' @ dquoted ''dofvalues'' @ '':['' @ joined '', '' (map (stream_real F) (io_dofvalues r)) @ '']}'')"

definition grabs_text :: "string \<Rightarrow> string" where
  "grabs_text contents = ''{'' @ dquoted ''grabs'' @ '':['' @ contents @ '']}''"

text \<open>An object that is grabbed already is only logged.\<close>

definition GrabObject :: "'d http_env \<Rightarrow> 'd InstObject \<Rightarrow> 'd InstObject \<Rightarrow> string \<Rightarrow> string \<Rightarrow> ('d, unit) http" where
  "GrabObject env r grabbedobject grabbedobjectlinkpk grabbinglinkpk =
     (let grab = GrabRecord (io_pk grabbedobject) grabbedobjectlinkpk grabbinglinkpk in
      if grab \<in> set (io_grabs r) then ret ()
      else put_instobject env r
        (grabs_text (concat (map (\<lambda>g. Serialize g @ '', '') (io_grabs r)) @ Serialize grab)))"

text \<open>\<^verbatim>\<open>std::remove\<close> from the position of a grab on, with a reference to that position as the value: the
  first element that is kept is moved there, and is the value from then on.\<close>

fun remove_aliased :: "'a \<Rightarrow> 'a list \<Rightarrow> 'a list" where
  "remove_aliased x [] = []"
| "remove_aliased x (y # ys) = (if y = x then remove_aliased x ys else y # filter (\<lambda>z. z \<noteq> y) ys)"

lemma length_remove_aliased: "length (remove_aliased x ys) \<le> length ys"
  by (induction ys) (auto intro: le_trans [OF length_filter_le])

definition erase_at :: "nat \<Rightarrow> 'a list \<Rightarrow> 'a list" where
  "erase_at k xs = take k xs @ remove_aliased (xs ! k) (drop (Suc k) xs)"

definition release_text :: "nat \<Rightarrow> GrabRecord list \<Rightarrow> string" where
  "release_text igrab grabs =
     grabs_text (concat (map (\<lambda>g. Serialize g @ '', '') grabs) @
       (if grabs \<noteq> [] \<and> igrab \<noteq> length grabs - 1 then '', '' else []))"

text \<open>The loop goes on behind a grab that was erased. The grabs are what the object is left with, after
  an exception too.\<close>

function release_loop ::
  "'d http_env \<Rightarrow> 'd InstObject \<Rightarrow> GrabRecord \<Rightarrow> nat \<Rightarrow> GrabRecord list \<Rightarrow> 'd client \<Rightarrow> (unit result \<times> GrabRecord list) \<times> 'd client" where
  "release_loop env r grab igrab grabs s =
     (if igrab < length grabs then
        if grabs ! igrab = grab then
          (let grabs = erase_at igrab grabs in
           case put_instobject env r (release_text igrab grabs) s of
             (Inl e, s) \<Rightarrow> ((Inl e, grabs), s)
           | (Inr _, s) \<Rightarrow> release_loop env r grab (Suc igrab) grabs s)
        else release_loop env r grab (Suc igrab) grabs s
      else ((Inr (), grabs), s))"
  by pat_completeness auto

lemma length_erase_at: "k < length xs \<Longrightarrow> length (erase_at k xs) < length xs"
  using length_remove_aliased [of "xs ! k" "drop (Suc k) xs"] by (simp add: erase_at_def)

termination release_loop
  by (relation "measure (\<lambda>(env, r, grab, igrab, grabs, s). length grabs - igrab)")
    (use length_erase_at in \<open>force simp: diff_less_mono2\<close>)+

declare release_loop.simps [simp del]

definition ReleaseObject ::
  "'d http_env \<Rightarrow> 'd InstObject \<Rightarrow> 'd InstObject \<Rightarrow> string \<Rightarrow> string \<Rightarrow> 'd client \<Rightarrow> (unit result \<times> 'd InstObject) \<times> 'd client" where
  "ReleaseObject env r grabbedobject grabbedobjectlinkpk grabbinglinkpk s =
     (case release_loop env r (GrabRecord (io_pk grabbedobject) grabbedobjectlinkpk grabbinglinkpk) 0 (io_grabs r) s of
        ((res, grabs), s) \<Rightarrow> ((res, r \<lparr> io_grabs := grabs \<rparr>), s))"

section \<open>Tasks of a scene\<close>

type_synonym SceneResource = WebResource

definition SceneResource_new :: "string \<Rightarrow> SceneResource result" where
  "SceneResource_new pk = bindR (check_pk pk) (\<lambda>_. Inr \<lparr> resourcename = ''scene'', primary_key = pk \<rparr>)"

text \<open>The pointers to a task that the functions return.\<close>

datatype 'd task_ptr =
    NoTask
  | PlainTask TaskResource
  | BinPickingWeb "'d BinPickingTask"
  | BinPickingZmq "'d BinPickingTask"

definition internal_tasktype :: "string \<Rightarrow> string" where
  "internal_tasktype tasktype = (if tasktype = ''realtimeitlplanning'' then ''realtimeitlplanning3'' else tasktype)"

definition is_binpicking_type :: "string \<Rightarrow> bool" where
  "is_binpicking_type tasktype \<longleftrightarrow> tasktype \<in> {''binpicking'', ''realtimeitlplanning3'', ''packing''}"

text \<open>With the option of ZeroMQ the key of the task is that of the scene, and the server is not asked.\<close>

definition zmq_task :: "'d http_env \<Rightarrow> 'd reals \<Rightarrow> 'd compiled \<Rightarrow> string option \<Rightarrow> string \<Rightarrow> string \<Rightarrow> ('d, 'd task_ptr) http" where
  "zmq_task env R c media_root scenepk tasktype =
     (if use_zmq c then
        bindM (BinPickingTaskZmqResource_new env R c media_root scenepk scenepk tasktype) (\<lambda>t. ret (BinPickingZmq t))
      else throw (MujinException ''cannot create binpicking zmq task since not compiled with zeromq library'' MEC_Failed))"

definition local_task :: "'d http_env \<Rightarrow> 'd reals \<Rightarrow> 'd compiled \<Rightarrow> string option \<Rightarrow> string \<Rightarrow> string \<Rightarrow> ('d, 'd task_ptr) http" where
  "local_task env R c media_root scenepk tasktype =
     (if is_binpicking_type tasktype then zmq_task env R c media_root scenepk tasktype
      else if tasktype = ''cablepicking'' then zmq_task env R c media_root scenepk ''binpicking''
      else bindM (liftR (TaskResource_new scenepk)) (\<lambda>t. ret (PlainTask t)))"

definition task_exists :: "string \<Rightarrow> string \<Rightarrow> string \<Rightarrow> error" where
  "task_exists pk currenttasktype expected =
     MujinException (''task pk '' @ pk @ '' exists and has type '' @ currenttasktype @ '', expected is '' @ expected) MEC_InvalidState"

definition get_task :: "'d http_env \<Rightarrow> SceneResource \<Rightarrow> string \<Rightarrow> ('d, 'd json) http" where
  "get_task env scene taskname =
     get_json env (''scene/'' @ primary_key scene @ ''/task/?format=json&limit=1&name='' @ EscapeString env taskname @
       ''&fields=pk,tasktype'')"

definition create_task :: "'d http_env \<Rightarrow> SceneResource \<Rightarrow> string \<Rightarrow> string \<Rightarrow> ('d, string) http" where
  "create_task env scene taskname tasktype =
     bindM (CallPost env (''scene/'' @ primary_key scene @ ''/task/?format=json&fields=pk'')
       (''{'' @ string_field ''name'' [] taskname @ '', '' @ string_field ''tasktype'' [] tasktype @ '', '' @
        string_field ''scenepk'' [] (primary_key scene) @ ''}'') 201 5) (\<lambda>(_, pt).
     liftR (bindR (LoadJsonValueByKey (str_at env) pt ''pk'' []) (\<lambda>(_, pk). Inr pk)))"

text \<open>The key of the task in the reply, or of a new task; a task of another type is an error.\<close>

definition find_or_create_pk :: "'d http_env \<Rightarrow> SceneResource \<Rightarrow> string \<Rightarrow> string \<Rightarrow> 'd json \<Rightarrow> ('d, string) http" where
  "find_or_create_pk env scene taskname tasktype pt =
     (case array_member pt ''objects'' of
        Some (object # _) \<Rightarrow>
          bindM (liftR (key_string env object ''pk'')) (\<lambda>pk.
          bindM (liftR (key_string env object ''tasktype'')) (\<lambda>currenttasktype.
          if currenttasktype \<noteq> tasktype \<and> (currenttasktype \<noteq> ''realtimeitlplanning'' \<or> tasktype \<noteq> ''realtimeitlplanning3'')
          then throw (task_exists pk currenttasktype tasktype) else ret pk))
      | _ \<Rightarrow> create_task env scene taskname tasktype)"

text \<open>The type of a bin picking task is the default of its constructor.\<close>

definition GetOrCreateTaskFromName_UTF8 ::
  "'d http_env \<Rightarrow> 'd reals \<Rightarrow> 'd compiled \<Rightarrow> string option \<Rightarrow> SceneResource \<Rightarrow> string \<Rightarrow> string \<Rightarrow> int \<Rightarrow> ('d, 'd task_ptr) http" where
  "GetOrCreateTaskFromName_UTF8 env R c media_root scene taskname tasktype options =
     (let tasktype_internal = internal_tasktype tasktype in
      if odd options then local_task env R c media_root (primary_key scene) tasktype_internal
      else
        bindM (get_task env scene taskname) (\<lambda>pt.
        bindM (find_or_create_pk env scene taskname tasktype_internal pt) (\<lambda>pk.
        if pk = [] then ret NoTask
        else if is_binpicking_type tasktype_internal \<or> tasktype_internal = ''cablepicking'' then
          bindM (BinPickingTaskResource_new env R c media_root pk (primary_key scene) ''binpicking'') (\<lambda>t. ret (BinPickingWeb t))
        else bindM (liftR (TaskResource_new pk)) (\<lambda>t. ret (PlainTask t)))))"

definition GetOrCreateTaskFromName_UTF8_default ::
  "'d http_env \<Rightarrow> 'd reals \<Rightarrow> 'd compiled \<Rightarrow> string option \<Rightarrow> SceneResource \<Rightarrow> string \<Rightarrow> int \<Rightarrow> ('d, 'd task_ptr) http" where
  "GetOrCreateTaskFromName_UTF8_default env R c media_root scene taskname options =
     bindM (getM m_defaulttasktype) (\<lambda>tasktype.
     GetOrCreateTaskFromName_UTF8 env R c media_root scene taskname tasktype options)"

definition GetOrCreateTaskFromName_UTF16 ::
  "'d http_env \<Rightarrow> 'd reals \<Rightarrow> 'd compiled \<Rightarrow> string option \<Rightarrow> SceneResource \<Rightarrow> wstring \<Rightarrow> string \<Rightarrow> int \<Rightarrow> ('d, 'd task_ptr) http" where
  "GetOrCreateTaskFromName_UTF16 env R c media_root scene taskname tasktype options =
     bindM (liftR (narrow taskname)) (\<lambda>taskname_utf8.
     GetOrCreateTaskFromName_UTF8 env R c media_root scene taskname_utf8 tasktype options)"

definition GetTaskFromName_UTF8 :: "'d http_env \<Rightarrow> SceneResource \<Rightarrow> string \<Rightarrow> ('d, TaskResource) http" where
  "GetTaskFromName_UTF8 env scene taskname =
     bindM (get_task env scene taskname) (\<lambda>pt.
     case array_member pt ''objects'' of
       Some (object # _) \<Rightarrow> liftR (bindR (key_string env object ''pk'') TaskResource_new)
     | _ \<Rightarrow> throw (MujinException (''could not find task with name '' @ taskname) MEC_InvalidState))"

definition GetTaskFromName_UTF16 :: "'d http_env \<Rightarrow> SceneResource \<Rightarrow> wstring \<Rightarrow> ('d, TaskResource) http" where
  "GetTaskFromName_UTF16 env scene taskname = bindM (liftR (narrow taskname)) (GetTaskFromName_UTF8 env scene)"

text \<open>\<^verbatim>\<open>boost::dynamic_pointer_cast<BinPickingTaskResource>\<close>.\<close>

fun cast_binpicking :: "'d task_ptr \<Rightarrow> 'd task_ptr" where
  "cast_binpicking (PlainTask _) = NoTask"
| "cast_binpicking t = t"

definition GetOrCreateBinPickingTaskFromName_UTF8 ::
  "'d http_env \<Rightarrow> 'd reals \<Rightarrow> 'd compiled \<Rightarrow> string option \<Rightarrow> SceneResource \<Rightarrow> string \<Rightarrow> string \<Rightarrow> int \<Rightarrow> ('d, 'd task_ptr) http" where
  "GetOrCreateBinPickingTaskFromName_UTF8 env R c media_root scene taskname tasktype options =
     bindM (GetOrCreateTaskFromName_UTF8 env R c media_root scene taskname tasktype options) (\<lambda>t. ret (cast_binpicking t))"

definition GetOrCreateBinPickingTaskFromName_UTF16 ::
  "'d http_env \<Rightarrow> 'd reals \<Rightarrow> 'd compiled \<Rightarrow> string option \<Rightarrow> SceneResource \<Rightarrow> wstring \<Rightarrow> string \<Rightarrow> int \<Rightarrow> ('d, 'd task_ptr) http" where
  "GetOrCreateBinPickingTaskFromName_UTF16 env R c media_root scene taskname tasktype options =
     bindM (GetOrCreateTaskFromName_UTF16 env R c media_root scene taskname tasktype options) (\<lambda>t. ret (cast_binpicking t))"

definition list_task_keys :: "'d http_env \<Rightarrow> SceneResource \<Rightarrow> string \<Rightarrow> ('d, string list) http" where
  "list_task_keys env scene field =
     bindM (get_json env (''scene/'' @ primary_key scene @ ''/task/?format=json&limit=0&fields='' @ field)) (\<lambda>pt.
     liftR (bindR (elements_at pt ''objects'') (mapR (\<lambda>v. key_string env v field))))"

definition GetTaskPrimaryKeys :: "'d http_env \<Rightarrow> SceneResource \<Rightarrow> ('d, string list) http" where
  "GetTaskPrimaryKeys env scene = list_task_keys env scene ''pk''"

definition GetTaskNames :: "'d http_env \<Rightarrow> SceneResource \<Rightarrow> ('d, string list) http" where
  "GetTaskNames env scene = list_task_keys env scene ''name''"

section \<open>Reading the instance objects\<close>

definition load_inst_link :: "'d http_env \<Rightarrow> 'd json \<Rightarrow> 'd InstLink result" where
  "load_inst_link env v =
     bindR (load_field (str_at env) v ''name'' il_name (\<lambda>x. il_name_update (\<lambda>_. x))
       \<lparr> il_name = [], il_quaternion = identity_quaternion env, il_translate = zeros env 3 \<rparr>) (\<lambda>l.
     bindR (load_field (reals_at env) v ''quaternion'' il_quaternion (\<lambda>x. il_quaternion_update (\<lambda>_. x)) l) (\<lambda>l.
     load_field (reals_at env) v ''translate'' il_translate (\<lambda>x. il_translate_update (\<lambda>_. x)) l))"

definition load_inst_tool :: "'d http_env \<Rightarrow> 'd json \<Rightarrow> 'd InstTool result" where
  "load_inst_tool env v =
     bindR (load_field (str_at env) v ''name'' it_name (\<lambda>x. it_name_update (\<lambda>_. x))
       \<lparr> it_name = [], it_direction = zeros env 3, it_quaternion = identity_quaternion env, it_translate = zeros env 3 \<rparr>) (\<lambda>t.
     bindR (load_field (reals_at env) v ''quaternion'' it_quaternion (\<lambda>x. it_quaternion_update (\<lambda>_. x)) t) (\<lambda>t.
     bindR (load_field (reals_at env) v ''translate'' it_translate (\<lambda>x. it_translate_update (\<lambda>_. x)) t) (\<lambda>t.
     load_field (reals_at env) v ''direction'' it_direction (\<lambda>x. it_direction_update (\<lambda>_. x)) t)))"

definition load_grab :: "'d http_env \<Rightarrow> 'd json \<Rightarrow> GrabRecord result" where
  "load_grab env v =
     bindR (LoadJsonValueByKey (str_at env) v ''instobjectpk'' []) (\<lambda>(_, obj).
     bindR (LoadJsonValueByKey (str_at env) v ''grabbed_linkpk'' []) (\<lambda>(_, grabbed).
     bindR (LoadJsonValueByKey (str_at env) v ''grabbing_linkpk'' []) (\<lambda>(_, grabbing).
     Inr (GrabRecord obj grabbed grabbing))))"

definition load_inst_sensor :: "'d http_env \<Rightarrow> 'd json \<Rightarrow> 'd InstAttachedSensor result" where
  "load_inst_sensor env v =
     bindR (load_field (str_at env) v ''name'' ia_name (\<lambda>x. ia_name_update (\<lambda>_. x))
       \<lparr> ia_name = [], ia_quaternion = identity_quaternion env, ia_translate = zeros env 3 \<rparr>) (\<lambda>a.
     bindR (load_field (reals_at env) v ''quaternion'' ia_quaternion (\<lambda>x. ia_quaternion_update (\<lambda>_. x)) a) (\<lambda>a.
     load_field (reals_at env) v ''translate'' ia_translate (\<lambda>x. ia_translate_update (\<lambda>_. x)) a))"

text \<open>An array under a key that may be missing.\<close>

definition load_part :: "('d json \<Rightarrow> 'a result) \<Rightarrow> 'd json \<Rightarrow> string \<Rightarrow> ('a list \<Rightarrow> 't \<Rightarrow> 't) \<Rightarrow> 't \<Rightarrow> 't result" where
  "load_part load v key upd t =
     bindR (has_member v key) (\<lambda>found.
     if found then bindR (elements_at v key) (\<lambda>vs. bindR (mapR load vs) (\<lambda>xs. Inr (upd xs t))) else Inr t)"

text \<open>The members that the reply to a new object has too.\<close>

definition load_inst_head :: "'d http_env \<Rightarrow> 'd json \<Rightarrow> 'd InstObject \<Rightarrow> 'd InstObject result" where
  "load_inst_head env v r =
     bindR (load_field (str_at env) v ''object_pk'' io_object_pk (\<lambda>x. io_object_pk_update (\<lambda>_. x)) r) (\<lambda>r.
     bindR (LoadJsonValueByKey_default (str_at env) v ''reference_object_pk'' (io_reference_object_pk r) []) (\<lambda>x.
     let r = r \<lparr> io_reference_object_pk := x \<rparr> in
     bindR (load_field (str_at env) v ''reference_uri'' io_reference_uri (\<lambda>x. io_reference_uri_update (\<lambda>_. x)) r) (\<lambda>r.
     bindR (load_field (LoadJsonVector (number env 0) (real_at env)) v ''dofvalues'' io_dofvalues
       (\<lambda>x. io_dofvalues_update (\<lambda>_. x)) r) (\<lambda>r.
     bindR (load_field (reals_at env) v ''quaternion'' io_quaternion (\<lambda>x. io_quaternion_update (\<lambda>_. x)) r) (\<lambda>r.
     load_field (reals_at env) v ''translate'' io_translate (\<lambda>x. io_translate_update (\<lambda>_. x)) r)))))"

definition load_instobject :: "'d http_env \<Rightarrow> SceneResource \<Rightarrow> 'd json \<Rightarrow> 'd InstObject result" where
  "load_instobject env scene v =
     bindR (key_string env v ''pk'') (\<lambda>pk.
     bindR (InstObject_new env (primary_key scene) pk) (\<lambda>r.
     bindR (load_field (str_at env) v ''name'' io_name (\<lambda>x. io_name_update (\<lambda>_. x)) r) (\<lambda>r.
     bindR (load_inst_head env v r) (\<lambda>r.
     bindR (load_part (load_inst_link env) v ''links'' (\<lambda>x. io_links_update (\<lambda>_. x)) r) (\<lambda>r.
     bindR (load_part (load_inst_tool env) v ''tools'' (\<lambda>x. io_tools_update (\<lambda>_. x)) r) (\<lambda>r.
     bindR (load_part (load_grab env) v ''grabs'' (\<lambda>x. io_grabs_update (\<lambda>_. x)) r) (\<lambda>r.
     load_part (load_inst_sensor env) v ''attachedsensors'' (\<lambda>x. io_attachedsensors_update (\<lambda>_. x)) r)))))))"

definition GetInstObjects :: "'d http_env \<Rightarrow> SceneResource \<Rightarrow> ('d, 'd InstObject list) http" where
  "GetInstObjects env scene =
     bindM (get_json env (''scene/'' @ primary_key scene @ ''/instobject/?format=json&limit=0'')) (\<lambda>pt.
     liftR (bindR (elements_at pt ''objects'') (mapR (load_instobject env scene))))"

definition FindInstObject :: "'d http_env \<Rightarrow> SceneResource \<Rightarrow> string \<Rightarrow> ('d, 'd InstObject option) http" where
  "FindInstObject env scene name =
     bindM (GetInstObjects env scene) (\<lambda>instobjects. ret (find (\<lambda>r. io_name r = name) instobjects))"

definition CreateInstObject ::
  "'d http_env \<Rightarrow> SceneResource \<Rightarrow> string \<Rightarrow> string \<Rightarrow> 'd list \<Rightarrow> 'd list \<Rightarrow> rat \<Rightarrow> ('d, 'd InstObject) http" where
  "CreateInstObject env scene name referenceUri quat transl timeout =
     bindM (CallPost env (''scene/'' @ primary_key scene @
       ''/instobject/?format=json&fields=pk,object_pk,reference_object_pk,reference_uri,dofvalues,quaternion,translate'')
       (''{'' @ string_field ''name'' [] name @ '', '' @ pose_fields env '','' quat transl @
        (if referenceUri \<noteq> [] then '', '' @ string_field ''reference_uri'' '' '' referenceUri else []) @ ''}'') 201 timeout) (\<lambda>(_, pt).
     liftR (
       bindR (key_string env pt ''pk'') (\<lambda>inst_pk.
       bindR (InstObject_new env (primary_key scene) inst_pk) (load_inst_head env pt))))"

definition DeleteInstObject :: "'d http_env \<Rightarrow> SceneResource \<Rightarrow> string \<Rightarrow> ('d, unit) http" where
  "DeleteInstObject env scene pk = CallDelete env (''scene/'' @ primary_key scene @ ''/instobject/'' @ pk @ ''/'') 204 5"

definition Scene_Copy :: "'d http_env \<Rightarrow> SceneResource \<Rightarrow> string \<Rightarrow> ('d, SceneResource) http" where
  "Scene_Copy env scene name =
     bindM (CallPost env ''scene/?format=json''
       (''{'' @ string_field ''name'' [] name @ '', '' @ string_field ''reference_pk'' [] (primary_key scene) @ '', '' @
        string_field ''overwrite'' '' '' ''1'' @ ''}'') 201 5) (\<lambda>(_, pt).
     liftR (bindR (key_string env pt ''pk'') SceneResource_new))"

section \<open>States of several objects\<close>

definition instobject_state_text :: "'d http_env \<Rightarrow> 'd InstObject \<times> 'd InstanceObjectState \<Rightarrow> string" where
  "instobject_state_text env entry =
     (case entry of (r, state) \<Rightarrow>
        ''{'' @ string_field ''pk'' [] (io_pk r) @ '','' @
        pose_fields env '', '' (Transform.quaternion (ios_transform state)) (Transform.translate (ios_transform state)) @ '' '' @
        (if ios_dofvalues state \<noteq> []
         then '', '' @ dquoted ''dofvalues'' @ '':['' @ joined '', '' (map (print_real env) (ios_dofvalues state)) @ '']''
         else []) @ ''}'')"

definition sizes_differ :: "nat \<Rightarrow> nat \<Rightarrow> error" where
  "sizes_differ n k =
     MujinException (''the size of instobjects ('' @ dec_of_nat n @ '') and the one of states ('' @ dec_of_nat k @ '') must be the same'')
       MEC_InvalidArguments"

definition SetInstObjectsState ::
  "'d http_env \<Rightarrow> SceneResource \<Rightarrow> 'd InstObject list \<Rightarrow> 'd InstanceObjectState list \<Rightarrow> ('d, unit) http" where
  "SetInstObjectsState env scene instobjects states =
     (if length instobjects \<noteq> length states then throw (sizes_differ (length instobjects) (length states))
      else
        bindM (CallPutJSON env (resource_path scene @ ''instobject/?format=json'')
          (''{'' @ dquoted ''objects'' @ '': ['' @ joined '','' (map (instobject_state_text env) (zip instobjects states)) @ '']}'') 202 5)
          (\<lambda>_. ret ()))"

section \<open>Sensors of a scene\<close>

text \<open>The links of the sensors that a robot has, as the names of \<^verbatim>\<open>SensorSelectionInfo\<close>.\<close>

definition sensor_infos ::
  "'d http_env \<Rightarrow> string \<Rightarrow> string \<Rightarrow> string \<Rightarrow> ('d, SensorSelectionInfo list) http" where
  "sensor_infos env sensor_name link_prefix objectPk =
     bindM (get_json env (''robot/'' @ objectPk @ ''/attachedsensor/?format=json'')) (\<lambda>pt.
     liftR (bindR (elements_at pt ''attachedsensors'')
       (mapR (\<lambda>v. bindR (key_string env v ''linkName'') (\<lambda>linkName.
         Inr (SensorSelectionInfo sensor_name (link_prefix @ linkName)))))))"

definition connected_object_infos ::
  "'d http_env \<Rightarrow> string \<Rightarrow> string \<Rightarrow> 'd json \<Rightarrow> ('d, SensorSelectionInfo list) http" where
  "connected_object_infos env sensor_name connectedBodyName v =
     bindM (liftR (has_elements v ''attachedsensors'')) (\<lambda>found.
     if \<not> found then ret []
     else bindM (liftR (key_string env v ''object_pk'')) (sensor_infos env sensor_name (connectedBodyName @ ''_'')))"

definition connected_body_infos ::
  "'d http_env \<Rightarrow> string \<Rightarrow> 'd json \<Rightarrow> ('d, SensorSelectionInfo list) http" where
  "connected_body_infos env sensor_name body =
     bindM (liftR (key_string env body ''url'')) (\<lambda>url.
     bindM (liftR (GetScenePrimaryKeyFromURI_UTF8 env url)) (\<lambda>connectedBodyScenePk.
     bindM (liftR (key_string env body ''name'')) (\<lambda>connectedBodyName.
     bindM (get_json env (''scene/'' @ connectedBodyScenePk @ ''/instobject/?format=json&limit=0&fields=attachedsensors,object_pk,name''))
       (\<lambda>instobjects.
     bindM (liftR (elements_at instobjects ''objects'')) (\<lambda>objects.
     concat_loop (connected_object_infos env sensor_name connectedBodyName) objects [])))))"

definition instobject_infos :: "'d http_env \<Rightarrow> 'd json \<Rightarrow> ('d, SensorSelectionInfo list) http" where
  "instobject_infos env v =
     bindM (liftR (key_string env v ''name'')) (\<lambda>sensor_name.
     bindM (liftR (key_string env v ''object_pk'')) (\<lambda>objectPk.
     bindM (liftR (has_elements v ''attachedsensors'')) (\<lambda>attached.
     bindM (if attached then sensor_infos env sensor_name [] objectPk else ret []) (\<lambda>own.
     bindM (liftR (has_elements v ''connectedBodies'')) (\<lambda>connected.
     if \<not> connected then ret own
     else
       bindM (get_json env (''robot/'' @ objectPk @ ''/connectedBody/?format=json'')) (\<lambda>pt.
       bindM (liftR (elements_at pt ''connectedBodies'')) (\<lambda>bodies.
       concat_loop (connected_body_infos env sensor_name) bodies own)))))))"

definition GetAllSensorSelectionInfos :: "'d http_env \<Rightarrow> SceneResource \<Rightarrow> ('d, SensorSelectionInfo list) http" where
  "GetAllSensorSelectionInfos env scene =
     bindM (get_json env (''scene/'' @ primary_key scene @
       ''/instobject/?format=json&limit=0&fields=attachedsensors,connectedBodies,object_pk,name'')) (\<lambda>pt.
     bindM (liftR (elements_at pt ''objects'')) (\<lambda>objects. concat_loop (instobject_infos env) objects []))"

text \<open>The functions of \<^verbatim>\<open>utils\<close>.\<close>

definition utils_GetAttachedSensors ::
  "'d http_env \<Rightarrow> 'd compiled \<Rightarrow> SceneResource \<Rightarrow> string \<Rightarrow> ('d, 'd AttachedSensorResource list) http" where
  "utils_GetAttachedSensors env c scene bodyname =
     bindM (FindInstObject env scene bodyname) (\<lambda>found.
     case found of
       None \<Rightarrow> throw (MujinException (''Could not find instobject with name: '' @ bodyname @ ''.'') MEC_Failed)
     | Some sensorinstobject \<Rightarrow>
         bindM (liftR (RobotResource_new env (io_object_pk sensorinstobject))) (\<lambda>sensorrobot.
         bindM (GetAttachedSensors env c sensorrobot True) (\<lambda>attachedsensors.
         if attachedsensors = []
         then throw (MujinException (''Could not find attached sensor. Is calibration done for sensor: '' @ bodyname @ ''?'') MEC_Failed)
         else ret attachedsensors)))"

definition find_sensor ::
  "'d http_env \<Rightarrow> 'd compiled \<Rightarrow> SceneResource \<Rightarrow> string \<Rightarrow> string \<Rightarrow> ('d, 'd AttachedSensorResource) http" where
  "find_sensor env c scene bodyname sensor_name =
     bindM (utils_GetAttachedSensors env c scene bodyname) (\<lambda>attachedsensors.
     case find (\<lambda>a. as_name a = sensor_name) attachedsensors of
       Some a \<Rightarrow> ret a
     | None \<Rightarrow> throw (MujinException (''Could not find attached sensor '' @ sensor_name @ '' on '' @ bodyname @ ''.'') MEC_Failed))"

definition GetSensorData ::
  "'d http_env \<Rightarrow> 'd compiled \<Rightarrow> SceneResource \<Rightarrow> string \<Rightarrow> string \<Rightarrow> ('d, 'd SensorData) http" where
  "GetSensorData env c scene bodyname sensor_name =
     bindM (find_sensor env c scene bodyname sensor_name) (\<lambda>a. ret (as_sensordata a))"

definition GetSensorTransform ::
  "'d http_env \<Rightarrow> 'd reals \<Rightarrow> 'd compiled \<Rightarrow> SceneResource \<Rightarrow> string \<Rightarrow> string \<Rightarrow> string \<Rightarrow> ('d, 'd Transform) http" where
  "GetSensorTransform env R c scene bodyname sensor_name unit_name =
     bindM (find_sensor env c scene bodyname sensor_name) (\<lambda>a.
     ret \<lparr> quaternion = as_quaternion a,
           translate = (if unit_name = ''m'' then map (\<lambda>x. r_mul R x (r_lit R (1 / 1000))) (as_translate a) else as_translate a) \<rparr>)"

text \<open>The first object whose name contains the given one.\<close>

definition DeleteObject :: "'d http_env \<Rightarrow> SceneResource \<Rightarrow> string \<Rightarrow> ('d, unit) http" where
  "DeleteObject env scene name =
     bindM (GetInstObjects env scene) (\<lambda>instobjects.
     case find (\<lambda>r. find_str name (io_name r) \<noteq> None) instobjects of
       Some r \<Rightarrow> Delete_resource env r 5
     | None \<Rightarrow> ret ())"

section \<open>Conversions of transforms\<close>

text \<open>They are not implemented: each one throws.\<close>

definition ComputeMatrixFromTransform :: "'d Transform \<Rightarrow> 'd list result" where
  "ComputeMatrixFromTransform t = Inl (MujinException ''not implemented yet'' MEC_Failed)"

definition ComputeZXYFromMatrix :: "'d list \<Rightarrow> 'd list result" where
  "ComputeZXYFromMatrix matrix = Inl (MujinException ''not implemented yet'' MEC_Failed)"

definition ComputeZXYFromTransform :: "'d Transform \<Rightarrow> 'd list result" where
  "ComputeZXYFromTransform t = Inl (MujinException ''not implemented yet'' MEC_Failed)"

end
