(* ===== verification/ResourceProps.thy ===== *)
theory ResourceProps
  imports Scenes HttpProps
begin

text \<open>
  Properties of the web resources and scenes: the visibility of an object, releasing a grabbed object,
  and looking up or creating a task.
\<close>

section \<open>Visibility\<close>

text \<open>What \<^verbatim>\<open>GetVisible\<close> means: 0 for off, 1 for on, 2 for partial, and -1 without any geometry.\<close>

definition visibility :: "bool list \<Rightarrow> int" where
  "visibility bs = (if bs = [] then -1 else if True \<notin> set bs then 0 else if False \<notin> set bs then 1 else 2)"

text \<open>The accumulator of the loops.\<close>

definition vmask :: "bool list \<Rightarrow> int" where
  "vmask bs = of_bool (False \<in> set bs) + 2 * of_bool (True \<in> set bs)"

lemma visibility_mask: "visibility bs = vmask bs - 1"
  by (cases bs; cases "hd bs") (auto simp: visibility_def vmask_def)

lemma vmask_Nil [simp]: "vmask [] = 0"
  by (simp add: vmask_def)

lemma or_mask: "or (vmask as) (vmask bs) = vmask (as @ bs)"
  by (auto simp: vmask_def)

lemma mask_single: "of_bool b + 1 = vmask [b]"
  by (simp add: vmask_def)

lemma or_loop_mask: "or_loop (\<lambda>x. ret (of_bool (f x))) xs (vmask bs) = ret (vmask (bs @ map f xs) - 1)"
proof (induction xs arbitrary: bs)
  case (Cons x xs)
  from Cons [of "bs @ [f x]"] show ?case
    by (simp add: bindM_def ret_def fun_eq_iff mask_single or_mask)
qed simp

lemmas or_loop_from_0 = or_loop_mask [where bs = "[]", simplified]

lemma Link_GetVisible_mask:
  "Link_GetVisible env l = bindM (GetGeometries env l []) (\<lambda>gs. ret (vmask (map geo_visible gs) - 1))"
  by (simp add: Link_GetVisible_def Geometry_GetVisible_def or_loop_from_0)

lemma link_loop_mask:
  "or_loop (Link_GetVisible env) links (vmask (map geo_visible acc)) s =
     bindM (concat_loop (\<lambda>l. GetGeometries env l []) links acc) (\<lambda>gs. ret (vmask (map geo_visible gs) - 1)) s"
proof (induction links arbitrary: acc s)
  case (Cons l links)
  obtain r s' where m: "GetGeometries env l [] s = (r, s')" by fastforce
  show ?case
  proof (cases r)
    case (Inr gs)
    have "or_loop (Link_GetVisible env) (l # links) (vmask (map geo_visible acc)) s =
        or_loop (Link_GetVisible env) links (vmask (map geo_visible (acc @ gs))) s'"
      by (simp add: Link_GetVisible_mask bindM_def m Inr ret_def or_mask)
    with Cons [of "acc @ gs" s'] show ?thesis by (simp add: bindM_def m Inr)
  qed (simp add: Link_GetVisible_mask bindM_def m)
qed (simp add: bindM_def ret_def)

lemma link_loop_from_0:
  "or_loop (Link_GetVisible env) links 0 =
     bindM (concat_loop (\<lambda>l. GetGeometries env l []) links []) (\<lambda>gs. ret (vmask (map geo_visible gs) - 1))"
  by (rule ext) (simp add: link_loop_mask [where acc = "[]", simplified])

text \<open>C33: \<^verbatim>\<open>ObjectResource::GetVisible\<close>, a loop over the links with a loop over the geometries of each, whose
  answers are combined bit by bit, computes the visibility of all geometries of the object together, with
  the same requests and the same exceptions as collecting them.\<close>

theorem GetVisible_all_geometries:
  "GetVisible env obj =
     bindM (GetLinks env obj) (\<lambda>links.
     bindM (concat_loop (\<lambda>l. GetGeometries env l []) links []) (\<lambda>gs. ret (visibility (map geo_visible gs))))"
  by (simp add: GetVisible_def visibility_mask link_loop_from_0)

section \<open>Releasing\<close>

lemma remove_aliased_distinct: "distinct (x # ys) \<Longrightarrow> remove_aliased x ys = ys"
proof (cases ys)
  case (Cons y zs)
  moreover assume "distinct (x # ys)"
  ultimately have "y \<noteq> x" and "filter (\<lambda>z. z \<noteq> y) zs = zs" by (auto simp: filter_id_conv)
  with Cons show ?thesis by simp
qed simp

lemma erase_at_distinct:
  assumes "distinct xs" "k < length xs"
  shows "erase_at k xs = take k xs @ drop (Suc k) xs"
proof -
  have "distinct (drop k xs)" using assms(1) by simp
  then have "distinct (xs ! k # drop (Suc k) xs)" by (simp add: Cons_nth_drop_Suc assms(2))
  then show ?thesis by (simp add: erase_at_def remove_aliased_distinct)
qed

text \<open>The loop passes over the grabs that are others.\<close>

lemma release_loop_skip:
  "k + n \<le> length grabs \<Longrightarrow> grab \<notin> set (take n (drop k grabs)) \<Longrightarrow>
     release_loop env r grab k grabs s = release_loop env r grab (k + n) grabs s"
proof (induction n arbitrary: k)
  case (Suc n)
  then have k: "k < length grabs" by simp
  with Suc.prems have "grabs ! k \<noteq> grab" "grab \<notin> set (take n (drop (Suc k) grabs))"
    by (auto simp: Cons_nth_drop_Suc [symmetric])
  with k Suc.prems Suc.IH [of "Suc k"] show ?case by (subst release_loop.simps) simp
qed simp

lemma release_loop_absent:
  assumes "grab \<notin> set (drop k grabs)"
  shows "release_loop env r grab k grabs s = ((Inr (), grabs), s)"
proof (cases "k \<le> length grabs")
  case True
  with assms have "release_loop env r grab k grabs s = release_loop env r grab (length grabs) grabs s"
    using release_loop_skip [of k "length grabs - k" grabs grab] by simp
  then show ?thesis by (simp add: release_loop.simps [of _ _ _ "length grabs"])
qed (simp add: release_loop.simps [of _ _ _ k])

lemma release_loop_found:
  assumes "distinct (xs @ grab # ys)"
  shows "release_loop env r grab 0 (xs @ grab # ys) s =
    (case put_instobject env r (release_text (length xs) (xs @ ys)) s of (res, s) \<Rightarrow> ((res, xs @ ys), s))"
proof -
  have "release_loop env r grab 0 (xs @ grab # ys) s = release_loop env r grab (length xs) (xs @ grab # ys) s"
    using assms release_loop_skip [of 0 "length xs" "xs @ grab # ys" grab] by simp
  moreover have "erase_at (length xs) (xs @ grab # ys) = xs @ ys"
    using assms erase_at_distinct [of "xs @ grab # ys" "length xs"] by simp
  moreover have "grab \<notin> set (drop (Suc (length xs)) (xs @ ys))"
    using assms by (auto dest: in_set_dropD)
  ultimately show ?thesis
    by (simp add: release_loop.simps [of _ _ _ "length xs"] release_loop_absent Let_def split: prod.splits sum.splits)
qed

lemma release_text_left:
  "grabs \<noteq> [] \<Longrightarrow> \<exists>body. release_text k grabs = body @ '', ]}''"
  by (cases grabs rule: rev_cases) (auto simp: release_text_def grabs_text_def)

text \<open>C34: Releasing: when no grab is listed twice, a grab that is not listed leaves object and server alone.
  One that is listed is erased, whatever the server answers, the others are kept in their order, and
  exactly one request is made. Its body ends in a comma, which JSON does not allow, whenever a grab is left.\<close>

theorem ReleaseObject_erases_one:
  assumes "distinct (io_grabs r)" and "grab = GrabRecord (io_pk obj) grabbed grabbing"
    and "body = release_text (length (takeWhile (\<lambda>g. g \<noteq> grab) (io_grabs r))) (remove1 grab (io_grabs r))"
  shows "ReleaseObject env r obj grabbed grabbing s =
    (if grab \<notin> set (io_grabs r) then ((Inr (), r), s)
     else case put_instobject env r body s of
       (res, s') \<Rightarrow> ((res, r \<lparr> io_grabs := remove1 grab (io_grabs r) \<rparr>), s')) \<and>
    (remove1 grab (io_grabs r) = [] \<or> suffix '', ]}'' body)" (is "?run \<and> ?comma")
proof
  show ?comma using release_text_left assms(3) by (auto simp: suffix_def)
  show ?run
  proof (cases "grab \<in> set (io_grabs r)")
    case True
    then obtain xs ys where split: "io_grabs r = xs @ grab # ys" "grab \<notin> set xs"
      by (meson split_list_first)
    then have "takeWhile (\<lambda>g. g \<noteq> grab) (io_grabs r) = xs" "remove1 grab (io_grabs r) = xs @ ys"
      by (auto simp: takeWhile_tail remove1_append intro: takeWhile_eq_all_conv [THEN iffD2])
    with True assms split show ?thesis
      by (simp add: ReleaseObject_def release_loop_found split: prod.splits)
  next
    case False
    with assms show ?thesis by (simp add: ReleaseObject_def release_loop_absent)
  qed
qed

section \<open>Tasks\<close>

text \<open>A type of task that may be used for the one that is asked for.\<close>

definition same_task_type :: "string \<Rightarrow> string \<Rightarrow> bool" where
  "same_task_type current tasktype \<longleftrightarrow> current = internal_tasktype tasktype \<or>
     current = ''realtimeitlplanning'' \<and> tasktype \<in> {''realtimeitlplanning'', ''realtimeitlplanning3''}"

lemma bind_liftR_Inr: "bindM (liftR (Inr x)) g = g x"
  by (rule ext) (simp add: bindM_def liftR_def)

lemma find_or_create_existing:
  assumes "array_member pt ''objects'' = Some (v # vs)"
    and "key_string env v ''pk'' = Inr pk" and "key_string env v ''tasktype'' = Inr current"
  shows "find_or_create_pk env scene taskname (internal_tasktype tasktype) pt =
    (if same_task_type current tasktype then ret pk else throw (task_exists pk current (internal_tasktype tasktype)))"
proof -
  have "(current \<noteq> internal_tasktype tasktype \<and>
      (current \<noteq> ''realtimeitlplanning'' \<or> internal_tasktype tasktype \<noteq> ''realtimeitlplanning3'')) = (\<not> same_task_type current tasktype)"
    by (auto simp: same_task_type_def internal_tasktype_def)
  with assms show ?thesis
    by (simp only: find_or_create_pk_def option.case list.case bind_liftR_Inr if_not_P not_not) (simp split: if_split)
qed

text \<open>Constructing a task makes no request.\<close>

lemma silent_intros:
  "steady (=) (ret x)" "steady (=) (throw e)" "steady (=) (liftR r)" "steady (=) (getM f)"
  "steady (=) m \<Longrightarrow> (\<And>x. steady (=) (g x)) \<Longrightarrow> steady (=) (bindM m g)"
  by (auto intro: steady_intros simp: reflp_def transp_def)

lemma silent_constructors:
  "steady (=) (BinPickingTaskResource_new env R c media_root pk scenepk tasktype)"
  unfolding BinPickingTaskResource_new_def by (intro silent_intros)

lemma silentD: "steady (=) m \<Longrightarrow> snd (m s) = s"
  by (simp add: steady_def)

text \<open>C14: A name that the server knows is never created again: looking the task up is the only request.
  A task of another type is not handed out, the call fails with an invalid state; only the old name of the
  realtime type stands for the new one.\<close>

theorem GetOrCreateTask_existing:
  assumes "get_task env scene taskname s = (Inr pt, s')" and "array_member pt ''objects'' = Some (v # vs)"
    and "key_string env v ''pk'' = Inr pk" and "key_string env v ''tasktype'' = Inr current" and "even options"
  shows "snd (GetOrCreateTaskFromName_UTF8 env R c media_root scene taskname tasktype options s) = s' \<and>
    (same_task_type current tasktype \<or>
     fst (GetOrCreateTaskFromName_UTF8 env R c media_root scene taskname tasktype options s) =
       Inl (task_exists pk current (internal_tasktype tasktype)))"
proof (cases "same_task_type current tasktype")
  case True
  define k where "k pk = (if pk = [] then ret NoTask
    else if is_binpicking_type (internal_tasktype tasktype) \<or> internal_tasktype tasktype = ''cablepicking'' then
      bindM (BinPickingTaskResource_new env R c media_root pk (primary_key scene) ''binpicking'') (\<lambda>t. ret (BinPickingWeb t))
    else bindM (liftR (TaskResource_new pk)) (\<lambda>t. ret (PlainTask t)))" for pk
  have "steady (=) (k pk)"
    unfolding k_def by (intro steady_if silent_intros silent_constructors)
  with True assms(1,5) show ?thesis
    by (simp add: GetOrCreateTaskFromName_UTF8_def Let_def k_def [symmetric] bindM_def silentD ret_def
        find_or_create_existing [OF assms(2-4)])
next
  case False
  with assms(1,5) show ?thesis
    by (simp add: GetOrCreateTaskFromName_UTF8_def Let_def bindM_def throw_def find_or_create_existing [OF assms(2-4)])
qed

section \<open>Examples\<close>

definition sample_object :: "string \<Rightarrow> GrabRecord list \<Rightarrow> nat InstObject" where
  "sample_object pk grabs = \<lparr> resourcename = ''scene/s/instobject'', primary_key = pk, io_dofvalues = [], io_name = [],
     io_pk = pk, io_object_pk = [], io_reference_object_pk = [], io_reference_uri = [], io_quaternion = [],
     io_translate = [], io_grabs = grabs, io_links = [], io_tools = [], io_attachedsensors = [] \<rparr>"

lemma ReleaseObject_erases_one_witness:
  "snd (fst (ReleaseObject (sample_http sample_lib 202 [])
       (sample_object ''r'' [GrabRecord ''p'' ''l'' ''h'', GrabRecord ''o'' ''l'' ''h'']) (sample_object ''o'' []) ''l'' ''h'' ready_client)) =
   sample_object ''r'' [GrabRecord ''p'' ''l'' ''h'']"
  using ReleaseObject_erases_one [OF _ refl refl,
      of "sample_object ''r'' [GrabRecord ''p'' ''l'' ''h'', GrabRecord ''o'' ''l'' ''h'']" "sample_http sample_lib 202 []"
        "sample_object ''o'' []" "''l''" "''h''" ready_client]
  by (simp add: sample_object_def split: prod.splits)

definition task_lib :: "nat lib" where
  "task_lib = sample_lib \<lparr> parse_json := \<lambda>_.
     Inr (JObject [(''objects'', JArray [JObject [(''pk'', JString ''7''), (''tasktype'', JString ''other'')]])]) \<rparr>"

lemma GetOrCreateTask_existing_witness:
  "\<forall>R c. fst (GetOrCreateTaskFromName_UTF8 (sample_http task_lib 200 [''x'']) R c None \<lparr> resourcename = ''scene'', primary_key = ''s'' \<rparr>
       ''t'' ''binpicking'' 0 ready_client) = Inl (task_exists ''7'' ''other'' ''binpicking'')"
proof (intro allI)
  fix R :: "nat reals" and c :: "nat compiled"
  let ?env = "sample_http task_lib 200 [''x'']" and ?scene = "\<lparr> resourcename = ''scene'', primary_key = ''s'' \<rparr>"
  let ?v = "JObject [(''pk'', JString ''7''), (''tasktype'', JString ''other'')]"
  have "\<exists>s'. get_task ?env ?scene ''t'' ready_client = (Inr (JObject [(''objects'', JArray [?v])]), s')"
    by (simp add: get_task_def get_json_def CallGet_def at_api_uri_def CallGet_json_def call_defs ready_defs
        ParseJson_stream_def task_lib_def)
  then obtain s' where "get_task ?env ?scene ''t'' ready_client = (Inr (JObject [(''objects'', JArray [?v])]), s')" ..
  moreover have "key_string ?env ?v ''pk'' = Inr ''7''" "key_string ?env ?v ''tasktype'' = Inr ''other''"
    by (simp_all add: key_string_def sample_http_def task_lib_def GetJsonValueByKey_def FindMember_def parsing_value_of_def
        LoadJsonString_def)
  ultimately show "fst (GetOrCreateTaskFromName_UTF8 ?env R c None ?scene ''t'' ''binpicking'' 0 ready_client) =
      Inl (task_exists ''7'' ''other'' ''binpicking'')"
    using GetOrCreateTask_existing [of ?env ?scene "''t''" ready_client _ s' ?v "[]" "''7''" "''other''" 0 R c None "''binpicking''"]
    by (simp add: array_member_def FindMember_def same_task_type_def internal_tasktype_def)
qed

end
