(* ===== verification/HeartbeatProps.thy ===== *)
theory HeartbeatProps
  imports Heartbeat ZmqLaws
begin

text \<open>
  What the threads that watch the heartbeats promise: a watchdog over what the environment answers, which opens
  sockets, listens, publishes states and tells when it ends. What a message means is defined here from its JSON. The
  contract of a handler of messages is the locale \<open>heartbeat_handler\<close>; the handlers of both threads of the code
  are instances, and the threads refine the watchdog.
\<close>

section \<open>The watchdog\<close>

text \<open>The readings of the environment are counted; \<open>watch_last\<close> is the time of the last heartbeat while a
  socket is watched, \<open>watch_opened\<close> the addresses connected to so far; the state a watchdog holds is the one that the
  messages have reported, the published one is what the task sees.\<close>

record 'p watch =
  watch_tick :: nat
  watch_last :: "64 word option"
  watch_opened :: "string list"
  watch_held :: 'p
  watch_published :: 'p

definition arrives :: "zmq_env \<Rightarrow> nat \<Rightarrow> string \<Rightarrow> bool" where
  "arrives env k message \<longleftrightarrow> raw_poll env k = Inr True \<and>
     (raw_recv env (Suc k) = Inr message \<or> raw_recv env (Suc k) = Inl EAGAIN \<and> message = [])"

text \<open>One test of the flag and what follows. \<open>says message held p alive\<close>: the message is understood, reports the
  state \<open>p\<close> to whoever holds \<open>held\<close>, and comes from a slave that is alive or not. \<open>cuts message held e\<close>: it carries a
  state that cannot be read because of \<open>e\<close>.\<close>

inductive watchdog ::
  "string \<times> nat option \<Rightarrow> zmq_env \<Rightarrow> (64 word \<Rightarrow> bool) \<Rightarrow> (string \<Rightarrow> 'p \<Rightarrow> 'p \<Rightarrow> bool \<Rightarrow> bool) \<Rightarrow>
   (string \<Rightarrow> 'p \<Rightarrow> error \<Rightarrow> bool) \<Rightarrow> bool \<Rightarrow> 'p watch \<Rightarrow> thread_outcome \<Rightarrow> 'p watch \<Rightarrow> bool"
  for endpoint env expired says cuts where
  ends: "watch_last w = None \<Longrightarrow> watchdog endpoint env expired says cuts True w Ended w"
| opens: "watch_last w = None \<Longrightarrow> snd endpoint \<noteq> None \<Longrightarrow> raw_attach env (watch_tick w) = 0 \<Longrightarrow>
    watchdog endpoint env expired says cuts False w Running
      (w \<lparr> watch_tick := watch_tick w + 2, watch_last := Some (clock_ms env (watch_tick w + 1)),
           watch_opened := watch_opened w @ [fst endpoint] \<rparr>)"
| unreachable: "watch_last w = None \<Longrightarrow> snd endpoint \<noteq> None \<Longrightarrow> raw_attach env (watch_tick w) = err \<Longrightarrow> err \<noteq> 0 \<Longrightarrow>
    watchdog endpoint env expired says cuts False w (Terminated (ZmqError err))
      (w \<lparr> watch_tick := watch_tick w + 1, watch_opened := watch_opened w @ [fst endpoint] \<rparr>)"
| homeless: "watch_last w = None \<Longrightarrow> snd endpoint = None \<Longrightarrow>
    watchdog endpoint env expired says cuts False w (Terminated (UndefinedBehaviour ''null context'')) w"
| told: "watch_last w = Some since \<Longrightarrow> watchdog endpoint env expired says cuts True w Running (w \<lparr> watch_last := None \<rparr>)"
| silence: "watch_last w = Some since \<Longrightarrow> expired (clock_ms env (watch_tick w) - since) \<Longrightarrow>
    watchdog endpoint env expired says cuts False w Running (w \<lparr> watch_tick := watch_tick w + 1, watch_last := None \<rparr>)"
| nothing: "watch_last w = Some since \<Longrightarrow> \<not> expired (clock_ms env (watch_tick w) - since) \<Longrightarrow>
    raw_poll env (watch_tick w + 1) = Inr False \<Longrightarrow>
    watchdog endpoint env expired says cuts False w Running (w \<lparr> watch_tick := watch_tick w + 2 \<rparr>)"
| poll_fails: "watch_last w = Some since \<Longrightarrow> \<not> expired (clock_ms env (watch_tick w) - since) \<Longrightarrow>
    raw_poll env (watch_tick w + 1) = Inl err \<Longrightarrow>
    watchdog endpoint env expired says cuts False w (Terminated (ZmqError err)) (w \<lparr> watch_tick := watch_tick w + 2 \<rparr>)"
| recv_fails: "watch_last w = Some since \<Longrightarrow> \<not> expired (clock_ms env (watch_tick w) - since) \<Longrightarrow>
    raw_poll env (watch_tick w + 1) = Inr True \<Longrightarrow> raw_recv env (watch_tick w + 2) = Inl err \<Longrightarrow> err \<noteq> EAGAIN \<Longrightarrow>
    watchdog endpoint env expired says cuts False w (Terminated (ZmqError err)) (w \<lparr> watch_tick := watch_tick w + 3 \<rparr>)"
| heartbeat: "watch_last w = Some since \<Longrightarrow> \<not> expired (clock_ms env (watch_tick w) - since) \<Longrightarrow>
    arrives env (watch_tick w + 1) message \<Longrightarrow> says message (watch_held w) p True \<Longrightarrow>
    watchdog endpoint env expired says cuts False w Running
      (w \<lparr> watch_tick := watch_tick w + 4, watch_last := Some (clock_ms env (watch_tick w + 3)),
           watch_held := p, watch_published := p \<rparr>)"
| lost: "watch_last w = Some since \<Longrightarrow> \<not> expired (clock_ms env (watch_tick w) - since) \<Longrightarrow>
    arrives env (watch_tick w + 1) message \<Longrightarrow> says message (watch_held w) p False \<Longrightarrow>
    watchdog endpoint env expired says cuts False w Running
      (w \<lparr> watch_tick := watch_tick w + 3, watch_held := p, watch_published := p \<rparr>)"
| noise: "watch_last w = Some since \<Longrightarrow> \<not> expired (clock_ms env (watch_tick w) - since) \<Longrightarrow>
    arrives env (watch_tick w + 1) message \<Longrightarrow> \<forall>p alive. \<not> says message (watch_held w) p alive \<Longrightarrow>
    \<forall>e. cuts message (watch_held w) e \<longrightarrow> is_exception e \<Longrightarrow>
    h = watch_held w \<or> (\<exists>e. cuts message (watch_held w) e) \<Longrightarrow>
    watchdog endpoint env expired says cuts False w Running (w \<lparr> watch_tick := watch_tick w + 3, watch_held := h \<rparr>)"
| broken: "watch_last w = Some since \<Longrightarrow> \<not> expired (clock_ms env (watch_tick w) - since) \<Longrightarrow>
    arrives env (watch_tick w + 1) message \<Longrightarrow> cuts message (watch_held w) e \<Longrightarrow> \<not> is_exception e \<Longrightarrow>
    watchdog endpoint env expired says cuts False w (Terminated e) (w \<lparr> watch_tick := watch_tick w + 3, watch_held := h \<rparr>)"

inductive watchdog_run ::
  "string \<times> nat option \<Rightarrow> zmq_env \<Rightarrow> (64 word \<Rightarrow> bool) \<Rightarrow> (string \<Rightarrow> 'p \<Rightarrow> 'p \<Rightarrow> bool \<Rightarrow> bool) \<Rightarrow>
   (string \<Rightarrow> 'p \<Rightarrow> error \<Rightarrow> bool) \<Rightarrow> bool list \<Rightarrow> 'p watch \<Rightarrow> thread_outcome \<Rightarrow> 'p watch \<Rightarrow> bool"
  for endpoint env expired says cuts where
  running: "watchdog_run endpoint env expired says cuts [] w Running w"
| turn: "watchdog endpoint env expired says cuts flag w Running w' \<Longrightarrow>
    watchdog_run endpoint env expired says cuts flags w' out w'' \<Longrightarrow>
    watchdog_run endpoint env expired says cuts (flag # flags) w out w''"
| over: "watchdog endpoint env expired says cuts flag w out w' \<Longrightarrow> out \<noteq> Running \<Longrightarrow>
    watchdog_run endpoint env expired says cuts (flag # flags) w out w'"

inductive_cases watchdog_told: "watchdog endpoint env expired says cuts True w out w'"

text \<open>A state that is published was published before, or a message that arrived reports it.\<close>

lemma watchdog_published:
  assumes "watchdog endpoint env expired says cuts flag w out w'"
  shows "watch_published w' = watch_published w \<or>
    (\<exists>k message h alive. arrives env k message \<and> says message h (watch_published w') alive)"
  using assms by cases auto

lemma watchdog_run_published:
  "watchdog_run endpoint env expired says cuts flags w out w' \<Longrightarrow> watch_published w' = watch_published w \<or>
    (\<exists>k message h alive. arrives env k message \<and> says message h (watch_published w') alive)"
  by (induction rule: watchdog_run.induct) (use watchdog_published in fastforce)+

text \<open>A watchdog that is told twice in a row ends.\<close>

lemma watchdog_run_told:
  assumes "watchdog_run endpoint env expired says cuts (True # True # flags) w out w'"
  shows "out = Ended"
  using assms by (auto elim!: watchdog_run.cases [of _ _ _ _ _ "True # _"] watchdog_told)

section \<open>The readings of a thread\<close>

definition endpoint_of :: "zmq_state \<Rightarrow> string \<times> nat option" where
  "endpoint_of s = (c_str (''tcp://'' @ zhost s @ '':'' @ dec_of_int (sint (zport s))), zcontext s)"

definition connects :: "zmq_state \<Rightarrow> string list" where
  "connects s = concat (map (\<lambda>x. case x of Connect _ a \<Rightarrow> [a] | _ \<Rightarrow> []) (ops s))"

lemma zmq_host [simp]:
  "zhost (advance s) = zhost s" "zport (advance s) = zport s" "zhost (setsockopt x v s) = zhost s" "zport (setsockopt x v s) = zport s"
  "zhost (keepalive s) = zhost s" "zport (keepalive s) = zport s" "zhost (close_socket k s) = zhost s"
  "zport (close_socket k s) = zport s" "zhost (new_socket t s) = zhost s" "zport (new_socket t s) = zport s"
  by (simp_all add: advance_def setsockopt_def keepalive_def close_socket_def new_socket_def Let_def split: option.split)

lemma endpoint_advance [simp]: "endpoint_of (advance s) = endpoint_of s"
  by (simp add: endpoint_of_def)

lemma zmq_connects [simp]:
  "connects (perform x s) = connects s @ (case x of Connect _ a \<Rightarrow> [a] | _ \<Rightarrow> [])" "connects (advance s) = connects s"
  "connects (setsockopt y v s) = connects s" "connects (keepalive s) = connects s" "connects (close_socket k s) = connects s"
  "connects (new_socket t s) = connects s"
  by (simp_all add: connects_def perform_def advance_def setsockopt_def keepalive_def close_socket_def new_socket_def Let_def
      split: option.split)

lemma open_effect:
  assumes "open_heartbeat_socket env s = (r, s')"
  shows "if zcontext s = None
    then r = Inl (UndefinedBehaviour ''null context'') \<and> tick s' = tick s \<and> connects s' = connects s
    else tick s' = Suc (tick s) \<and> connects s' = connects s @ [fst (endpoint_of s)] \<and> endpoint_of s' = endpoint_of s \<and>
      zsocket s' \<noteq> None \<and>
      r = (if raw_attach env (tick s) = 0 then Inr () else Inl (ZmqError (raw_attach env (tick s))))"
  using assms
  by (auto simp: open_heartbeat_socket_def attach_def endpoint_of_def Let_def split: option.splits if_splits)

lemma next_message_effect:
  assumes "next_message env s = (r, s')" "zsocket s \<noteq> None"
  shows "endpoint_of s' = endpoint_of s" "zsocket s' \<noteq> None" "connects s' = connects s"
    "case r of
       Inr None \<Rightarrow> raw_poll env (tick s) = Inr False \<and> tick s' = tick s + 1
     | Inr (Some message) \<Rightarrow> arrives env (tick s) message \<and> tick s' = tick s + 2
     | Inl e \<Rightarrow> (\<exists>err. e = ZmqError err \<and>
         (raw_poll env (tick s) = Inl err \<and> tick s' = tick s + 1 \<or>
          raw_poll env (tick s) = Inr True \<and> raw_recv env (tick s + 1) = Inl err \<and> err \<noteq> EAGAIN \<and> tick s' = tick s + 2))"
  using assms
  by (auto simp: next_message_def poll_answer_def socket_recv_def endpoint_of_def arrives_def
      split: option.splits sum.splits bool.splits if_splits)

section \<open>The interface of a handler\<close>

locale heartbeat_handler =
  fixes handler :: "string \<Rightarrow> 'h \<Rightarrow> bool result \<times> 'h"
    and says :: "string \<Rightarrow> 'p \<Rightarrow> 'p \<Rightarrow> bool \<Rightarrow> bool"
    and cuts :: "string \<Rightarrow> 'p \<Rightarrow> error \<Rightarrow> bool"
    and held :: "'h \<Rightarrow> 'p"
    and published :: "'h \<Rightarrow> 'p"
    and valid :: "'h \<Rightarrow> bool"
  assumes handler_news: "valid h \<Longrightarrow> says message (held h) p alive \<Longrightarrow>
      \<exists>h'. handler message h = (Inr alive, h') \<and> valid h' \<and> held h' = p \<and> published h' = p"
    and handler_noise: "valid h \<Longrightarrow> \<forall>p alive. \<not> says message (held h) p alive \<Longrightarrow>
      (\<exists>h'. handler message h = (Inr False, h') \<and> valid h' \<and> published h' = published h \<and>
         (\<forall>e. cuts message (held h) e \<longrightarrow> is_exception e) \<and> (held h' = held h \<or> (\<exists>e. cuts message (held h) e))) \<or>
      (\<exists>e h'. handler message h = (Inl e, h') \<and> published h' = published h \<and> cuts message (held h) e \<and> \<not> is_exception e)"
begin

definition watch_of :: "'h monitor \<Rightarrow> 'p watch" where
  "watch_of m = \<lparr> watch_tick = tick (mon_zmq m), watch_last = mon_lastheartbeat m, watch_opened = connects (mon_zmq m),
     watch_held = held (mon_data m), watch_published = published (mon_data m) \<rparr>"

text \<open>Inside of the inner loop there is a socket.\<close>

definition sound :: "string \<times> nat option \<Rightarrow> 'h monitor \<Rightarrow> bool" where
  "sound endpoint m \<longleftrightarrow> endpoint_of (mon_zmq m) = endpoint \<and> valid (mon_data m) \<and>
     (mon_lastheartbeat m \<noteq> None \<longrightarrow> zsocket (mon_zmq m) \<noteq> None)"

lemma handled:
  assumes "handle_message env handler message m = (out, m')" "sound endpoint m"
    and "mon_lastheartbeat m = Some since" "tick (mon_zmq m) = watch_tick w + 3" "arrives env (watch_tick w + 1) message"
    and "\<not> expired (clock_ms env (watch_tick w) - since)"
    and w: "w = watch_of m \<lparr> watch_tick := watch_tick w \<rparr>"
  shows "watchdog endpoint env expired says cuts False w out (watch_of m') \<and> (out = Running \<longrightarrow> sound endpoint m')"
proof -
  have v: "valid (mon_data m)" using assms(2) by (simp add: sound_def)
  have held: "watch_held w = held (mon_data m)" "watch_last w = Some since"
    using assms(3) by (subst w, simp add: watch_of_def)+
  show ?thesis
  proof (cases "\<exists>p alive. says message (held (mon_data m)) p alive")
    case True
    then obtain p alive where says: "says message (held (mon_data m)) p alive" by blast
    from handler_news [OF v says] obtain h where
      h: "handler message (mon_data m) = (Inr alive, h)" "valid h" "held h = p" "published h = p" by blast
    show ?thesis
    proof (cases alive)
      case True
      with h assms(1) have out: "out = Running" "m' = m \<lparr> mon_data := h,
          mon_lastheartbeat := Some (clock_ms env (tick (mon_zmq m))), mon_zmq := advance (mon_zmq m) \<rparr>"
        by (auto simp: handle_message_def now_def)
      have "watch_of m' = w \<lparr> watch_tick := watch_tick w + 4, watch_last := Some (clock_ms env (watch_tick w + 3)),
           watch_held := p, watch_published := p \<rparr>"
        using h assms(4) by (subst w) (simp add: out watch_of_def)
      moreover have "watchdog endpoint env expired says cuts False w Running (w \<lparr> watch_tick := watch_tick w + 4,
          watch_last := Some (clock_ms env (watch_tick w + 3)), watch_held := p, watch_published := p \<rparr>)"
        by (rule watchdog.heartbeat [where message = message, OF held(2)]) (use assms(5,6) says True held(1) in simp_all)
      ultimately show ?thesis using out h(2) assms(2,3) by (simp add: sound_def)
    next
      case False
      with h assms(1) have out: "out = Running" "m' = m \<lparr> mon_data := h \<rparr>" by (auto simp: handle_message_def)
      have "watch_of m' = w \<lparr> watch_tick := watch_tick w + 3, watch_held := p, watch_published := p \<rparr>"
        using h assms(4) by (subst w) (simp add: out watch_of_def)
      moreover have "watchdog endpoint env expired says cuts False w Running
          (w \<lparr> watch_tick := watch_tick w + 3, watch_held := p, watch_published := p \<rparr>)"
        by (rule watchdog.lost [where message = message, OF held(2)]) (use assms(5,6) says False held(1) in simp_all)
      ultimately show ?thesis using out h(2) assms(2) by (simp add: sound_def)
    qed
  next
    case False
    then have none: "\<forall>p alive. \<not> says message (held (mon_data m)) p alive" by blast
    from handler_noise [OF v none] consider
      h where "handler message (mon_data m) = (Inr False, h)" "valid h" "published h = published (mon_data m)"
        "\<forall>e. cuts message (held (mon_data m)) e \<longrightarrow> is_exception e"
        "held h = held (mon_data m) \<or> (\<exists>e. cuts message (held (mon_data m)) e)"
    | e h where "handler message (mon_data m) = (Inl e, h)" "published h = published (mon_data m)"
        "cuts message (held (mon_data m)) e" "\<not> is_exception e"
      by blast
    then show ?thesis
    proof cases
      case h: (1 h)
      with assms(1) have out: "out = Running" "m' = m \<lparr> mon_data := h \<rparr>" by (auto simp: handle_message_def)
      have "watch_of m' = w \<lparr> watch_tick := watch_tick w + 3, watch_held := held h \<rparr>"
        using h(3) assms(4) by (subst w) (simp add: out watch_of_def)
      moreover have "watchdog endpoint env expired says cuts False w Running
          (w \<lparr> watch_tick := watch_tick w + 3, watch_held := held h \<rparr>)"
        by (rule watchdog.noise [where message = message, OF held(2)]) (use assms(5,6) none h held(1) in simp_all)
      ultimately show ?thesis using out h(2) assms(2) by (simp add: sound_def)
    next
      case h: (2 e h)
      with assms(1) have out: "out = Terminated e" "m' = m \<lparr> mon_data := h \<rparr>" by (auto simp: handle_message_def)
      have "watch_of m' = w \<lparr> watch_tick := watch_tick w + 3, watch_held := held h \<rparr>"
        using h(2) assms(4) by (subst w) (simp add: out watch_of_def)
      moreover have "watchdog endpoint env expired says cuts False w (Terminated e)
          (w \<lparr> watch_tick := watch_tick w + 3, watch_held := held h \<rparr>)"
        by (rule watchdog.broken [where message = message, OF held(2)]) (use assms(5,6) h held(1) in simp_all)
      ultimately show ?thesis using out by simp
    qed
  qed
qed

lemma refines_turn:
  assumes "monitor_turn env expired handler flag m = (out, m')" "sound endpoint m"
  shows "watchdog endpoint env expired says cuts flag (watch_of m) out (watch_of m') \<and> (out = Running \<longrightarrow> sound endpoint m')"
proof (cases "mon_lastheartbeat m")
  case None
  show ?thesis
  proof (cases flag)
    case True
    with None assms(1) show ?thesis by (auto simp: monitor_turn_def watch_of_def intro!: watchdog.ends)
  next
    case False
    obtain r z where op: "open_heartbeat_socket env (mon_zmq m) = (r, z)" by fastforce
    note e = open_effect [OF op]
    show ?thesis
    proof (cases "zcontext (mon_zmq m)")
      case no: None
      with e have r: "r = Inl (UndefinedBehaviour ''null context'')" "tick z = tick (mon_zmq m)" "connects z = connects (mon_zmq m)"
        by simp_all
      have "watchdog endpoint env expired says cuts False (watch_of m) (Terminated (UndefinedBehaviour ''null context'')) (watch_of m)"
        by (rule watchdog.homeless) (use None no assms(2) in \<open>auto simp: watch_of_def sound_def endpoint_of_def\<close>)
      with assms(1) False None op r show ?thesis by (auto simp: monitor_turn_def watch_of_def)
    next
      case (Some c)
      with e assms(2) have z: "tick z = Suc (tick (mon_zmq m))" "connects z = connects (mon_zmq m) @ [fst endpoint]"
        "endpoint_of z = endpoint" "zsocket z \<noteq> None"
        "r = (if raw_attach env (tick (mon_zmq m)) = 0 then Inr () else Inl (ZmqError (raw_attach env (tick (mon_zmq m)))))"
        by (simp_all add: sound_def)
      have home: "snd endpoint \<noteq> None" using Some assms(2) by (auto simp: sound_def endpoint_of_def)
      show ?thesis
      proof (cases "raw_attach env (tick (mon_zmq m)) = 0")
        case True
        have "watchdog endpoint env expired says cuts False (watch_of m) Running (watch_of m \<lparr> watch_tick := tick (mon_zmq m) + 2,
            watch_last := Some (clock_ms env (tick (mon_zmq m) + 1)), watch_opened := connects (mon_zmq m) @ [fst endpoint] \<rparr>)"
          using watchdog.opens [of "watch_of m" endpoint env] None home True by (simp add: watch_of_def)
        with assms False None op z True show ?thesis
          by (auto simp: monitor_turn_def watch_of_def now_def sound_def)
      next
        case bad: False
        have "watchdog endpoint env expired says cuts False (watch_of m) (Terminated (ZmqError (raw_attach env (tick (mon_zmq m)))))
            (watch_of m \<lparr> watch_tick := tick (mon_zmq m) + 1, watch_opened := connects (mon_zmq m) @ [fst endpoint] \<rparr>)"
          using watchdog.unreachable [of "watch_of m" endpoint env] None home bad by (simp add: watch_of_def)
        with assms(1) False None op z bad show ?thesis by (auto simp: monitor_turn_def watch_of_def)
      qed
    qed
  qed
next
  case since: (Some since)
  note Some = since
  have w: "watch_last (watch_of m) = Some since" "watch_tick (watch_of m) = tick (mon_zmq m)" using Some by (simp_all add: watch_of_def)
  show ?thesis
  proof (cases flag)
    case True
    have "watchdog endpoint env expired says cuts True (watch_of m) Running (watch_of m \<lparr> watch_last := None \<rparr>)"
      by (rule watchdog.told [OF w(1)])
    with True Some assms show ?thesis by (auto simp: monitor_turn_def watch_of_def sound_def)
  next
    case False
    show ?thesis
    proof (cases "expired (clock_ms env (tick (mon_zmq m)) - since)")
      case True
      have "watchdog endpoint env expired says cuts False (watch_of m) Running
          (watch_of m \<lparr> watch_tick := watch_tick (watch_of m) + 1, watch_last := None \<rparr>)"
        by (rule watchdog.silence [OF w(1)]) (use True w(2) in simp)
      with True Some False assms show ?thesis by (auto simp: monitor_turn_def watch_of_def sound_def now_def)
    next
      case awake: False
      let ?z = "advance (mon_zmq m)"
      obtain r z where nx: "next_message env ?z = (r, z)" by fastforce
      have sock: "zsocket ?z \<noteq> None" using Some assms(2) by (simp add: sound_def)
      note e = next_message_effect [OF nx sock]
      have ez: "endpoint_of z = endpoint" using e(1) assms(2) by (simp add: sound_def endpoint_of_def)
      note turn = assms(1) [unfolded monitor_turn_def Some now_def, simplified False awake nx prod.case option.case if_False]
      show ?thesis
      proof (cases r)
        case (Inl x)
        with e(4) obtain err where err: "x = ZmqError err"
          "raw_poll env (Suc (tick (mon_zmq m))) = Inl err \<and> tick z = tick (mon_zmq m) + 2 \<or>
           raw_poll env (Suc (tick (mon_zmq m))) = Inr True \<and> raw_recv env (tick (mon_zmq m) + 2) = Inl err \<and> err \<noteq> EAGAIN \<and>
             tick z = tick (mon_zmq m) + 3"
          by (auto simp: numeral_3_eq_3)
        have "watchdog endpoint env expired says cuts False (watch_of m) (Terminated (ZmqError err)) (watch_of m \<lparr> watch_tick := tick z \<rparr>)"
          using err(2)
        proof (elim disjE conjE)
          assume "raw_poll env (Suc (tick (mon_zmq m))) = Inl err" "tick z = tick (mon_zmq m) + 2"
          with watchdog.poll_fails [OF w(1), of expired env err endpoint says cuts] awake w(2) show ?thesis by simp
        next
          assume "raw_poll env (Suc (tick (mon_zmq m))) = Inr True" "raw_recv env (tick (mon_zmq m) + 2) = Inl err"
            "err \<noteq> EAGAIN" "tick z = tick (mon_zmq m) + 3"
          with watchdog.recv_fails [OF w(1), of expired env err endpoint says cuts] awake w(2) show ?thesis by simp
        qed
        with turn Inl e(3) err(1) False show ?thesis by (auto simp: watch_of_def)
      next
        case (Inr message)
        show ?thesis
        proof (cases message)
          case None
          with e(4) Inr have poll: "raw_poll env (watch_tick (watch_of m) + 1) = Inr False" and t: "tick z = tick (mon_zmq m) + 2"
            by (simp_all add: w(2))
          have "watchdog endpoint env expired says cuts False (watch_of m) Running (watch_of m \<lparr> watch_tick := tick (mon_zmq m) + 2 \<rparr>)"
            using watchdog.nothing [OF w(1), of expired env endpoint says cuts] awake poll by (simp add: w(2))
          with None turn Inr e(2,3) ez t False assms(2) show ?thesis by (auto simp: watch_of_def sound_def)
        next
          case (Some reply)
          with turn Inr have "handle_message env handler reply (m \<lparr> mon_zmq := z \<rparr>) = (out, m')" by simp
          moreover have "sound endpoint (m \<lparr> mon_zmq := z \<rparr>)" using ez e(2) assms(2) by (simp add: sound_def)
          ultimately have "watchdog endpoint env expired says cuts False (watch_of m) out (watch_of m') \<and> (out = Running \<longrightarrow> sound endpoint m')"
            by (rule handled) (use since e Inr Some w(2) awake in \<open>simp_all add: watch_of_def numeral_3_eq_3\<close>)
          with False show ?thesis by simp
        qed
      qed
    qed
  qed
qed

theorem refines:
  assumes "monitor_turns (monitor_turn env expired handler) flags m = (out, m')" "sound endpoint m"
  shows "watchdog_run endpoint env expired says cuts flags (watch_of m) out (watch_of m')"
  using assms
proof (induction flags arbitrary: m)
  case Nil
  then show ?case by (auto intro: watchdog_run.running)
next
  case (Cons flag flags)
  obtain out1 m1 where turn: "monitor_turn env expired handler flag m = (out1, m1)" by fastforce
  note 1 = refines_turn [OF turn Cons.prems(2)]
  show ?case
    using Cons.prems(1) 1 Cons.IH [of m1] turn
    by (cases out1) (auto intro: watchdog_run.turn watchdog_run.over)
qed

lemma told_to_end:
  assumes "sound endpoint m"
  shows "fst (monitor_turns (monitor_turn env expired handler) (True # True # flags) m) = Ended"
  using watchdog_run_told [OF refines [OF surjective_pairing assms]] .

end

section \<open>The thread of the web task\<close>

text \<open>One message counts, and there is no state.\<close>

interpretation web_heartbeat: heartbeat_handler "\<lambda>replystring data. (Inr (replystring = ''255''), data)"
  "\<lambda>message _ _ alive. alive = (message = ''255'')" "\<lambda>_ _ _. False" "\<lambda>_. ()" "\<lambda>_. ()" "\<lambda>_. True"
  by unfold_locales auto

lemma web_thread_told:
  "fst (HeartbeatMonitorThread_web env expired (True # True # flags) m) = Ended"
  if "mon_lastheartbeat m \<noteq> None \<longrightarrow> zsocket (mon_zmq m) \<noteq> None"
  unfolding HeartbeatMonitorThread_web_def
  by (rule web_heartbeat.told_to_end [of "endpoint_of (mon_zmq m)"]) (use that in \<open>simp add: web_heartbeat.sound_def\<close>)

section \<open>What a heartbeat means\<close>

text \<open>A member of a message; a missing one and null are the default.\<close>

definition member_value :: "('d, 'a) loader \<Rightarrow> (string \<times> 'd json) list \<Rightarrow> string \<Rightarrow> 'a \<Rightarrow> 'a result" where
  "member_value load ms key d =
     (case map_of ms key of None \<Rightarrow> Inr d | Some v \<Rightarrow> if v = JNull then Inr d else load v d)"

text \<open>The state of the slave in a message: none when the slave has no id, is not mentioned or has no state, and no
  answer when one of the values on the way is no object.\<close>

definition state_in :: "string \<Rightarrow> (string \<times> 'd json) list \<Rightarrow> 'd json option option" where
  "state_in slave ms =
     (if slave = [] then Some None
      else case map_of ms ''slavestates'' of
        None \<Rightarrow> Some None
      | Some (JObject states) \<Rightarrow>
          (case map_of states (c_str (''slaverequestid-'' @ slave)) of
             None \<Rightarrow> Some None | Some (JObject slots) \<Rightarrow> Some (map_of slots ''taskstate'') | Some _ \<Rightarrow> None)
      | Some _ \<Rightarrow> None)"

text \<open>A message that is understood: a JSON object whose members status, message and timestamp can be loaded.\<close>

definition understood :: "'d lib \<Rightarrow> 'd reals \<Rightarrow> string \<Rightarrow> string \<Rightarrow> string \<Rightarrow> 'd json option \<Rightarrow> bool" where
  "understood lib R slave message status st \<longleftrightarrow>
     (\<exists>ms info stamp. ParseJson lib message = Inr (JObject ms) \<and>
       member_value (LoadJsonString lib) ms ''status'' [] = Inr status \<and>
       member_value (LoadJsonString lib) ms ''message'' [] = Inr info \<and>
       member_value (LoadJsonDouble lib) ms ''timestamp'' (r_lit R 0) = Inr stamp \<and> state_in slave ms = Some st)"

text \<open>What it reports: the state of the slave as it is read over the one that is held, else the one that is held. The
  slave is alive when its status has two characters at least and is not \<open>lost\<close>.\<close>

definition heartbeat_says ::
  "'d lib \<Rightarrow> 'd reals \<Rightarrow> 'd compiled \<Rightarrow> string \<Rightarrow> string \<Rightarrow> 'd ResultGetBinpickingState \<Rightarrow> 'd ResultGetBinpickingState \<Rightarrow>
   bool \<Rightarrow> bool" where
  "heartbeat_says lib R c slave message held p alive \<longleftrightarrow>
     (\<exists>status st. understood lib R slave message status st \<and> alive = (2 \<le> length status \<and> status \<noteq> ''lost'') \<and>
       (case st of
          None \<Rightarrow> p = held
        | Some state \<Rightarrow> ResultGetBinpickingState_Parse lib R c (JObject [(''output'', state)]) held = Inr p))"

definition heartbeat_cuts ::
  "'d lib \<Rightarrow> 'd reals \<Rightarrow> 'd compiled \<Rightarrow> string \<Rightarrow> string \<Rightarrow> 'd ResultGetBinpickingState \<Rightarrow> error \<Rightarrow> bool" where
  "heartbeat_cuts lib R c slave message held e \<longleftrightarrow>
     (\<exists>status state. understood lib R slave message status (Some state) \<and>
       ResultGetBinpickingState_Parse lib R c (JObject [(''output'', state)]) held = Inl e)"

section \<open>The thread of the ZeroMQ task\<close>

lemma load_field_member:
  "load_field load (JObject ms) key get upd r = bindR (parsing_value_of key (member_value load ms key (get r))) (\<lambda>x. Inr (upd x r))"
  by (auto simp: load_field_def LoadJsonValueByKey_def member_value_def FindMember_def parsing_value_of_def bindR_def
      split: option.split sum.split json.split error.split)

lemma string_error: "LoadJsonString lib v d = Inl e \<Longrightarrow> is_exception e"
  by (auto simp: LoadJsonString_def cannot_convert_def GetJsonString_def DumpJson_def bindR_def split: if_splits option.splits)

lemma double_error: "LoadJsonDouble lib v d = Inl e \<Longrightarrow> is_exception e"
  by (auto simp: LoadJsonDouble_def LexicalCast_def cannot_convert_def GetJsonString_def DumpJson_def bindR_def
      split: if_splits option.splits)

lemma member_error:
  assumes "\<And>v d e. load v d = Inl e \<Longrightarrow> is_exception e" "parsing_value_of key (member_value load ms key' d) = Inl e"
  shows "is_exception e"
proof -
  obtain e' where e': "member_value load ms key' d = Inl e'" "e = e' \<or> (\<exists>m. e = JsonExc m)"
    using assms(2) by (cases "member_value load ms key' d") (auto simp: parsing_value_of_def split: error.splits)
  from e'(1) have "is_exception e'"
    using assms(1) by (auto simp: member_value_def split: option.splits if_splits)
  with e' show ?thesis by auto
qed

lemma field_errors:
  "parsing_value_of key (member_value (LoadJsonString lib) ms key' x) = Inl e \<Longrightarrow> is_exception e"
  "parsing_value_of key (member_value (LoadJsonDouble lib) ms key' d) = Inl e \<Longrightarrow> is_exception e"
  by (erule member_error [rotated], erule string_error) (erule member_error [rotated], erule double_error)

lemma parsing_Inr: "parsing_value_of key r = Inr x \<longleftrightarrow> r = Inr x"
  by (auto simp: parsing_value_of_def split: sum.splits error.splits)

lemma assertion_exception [simp]: "is_exception rapidjson_assertion"
  by (simp add: rapidjson_assertion_def assertion_failed_def MujinException_def)

lemma slave_taskstate_in:
  assumes "slave \<noteq> []" "map_of ms ''slavestates'' \<noteq> None"
  shows "slave_taskstate (JObject ms) (c_str (slave_key slave)) =
    (case state_in slave ms of None \<Rightarrow> Inl rapidjson_assertion | Some st \<Rightarrow> Inr st)"
  using assms
  by (auto simp: slave_taskstate_def state_in_def at_key_def find_member_def FindMember_def slave_key_def
      split: option.split json.split)

text \<open>The handler on a message that is understood, and on any other.\<close>

lemma Parse_object:
  fixes lib :: "'d lib" and hb :: "'d ResultHeartBeat"
  assumes "member_value (LoadJsonString lib) ms ''status'' [] = Inr status"
    and "member_value (LoadJsonString lib) ms ''message'' [] = Inr info"
    and "member_value (LoadJsonDouble lib) ms ''timestamp'' (r_lit R 0) = Inr stamp"
  shows "ResultHeartBeat_Parse lib R c interrupted (JObject ms) hb =
    (let hb' = hb \<lparr> hb_status := status, hb_msg := info, hb_timestamp := stamp \<rparr> in
     case state_in (hb_slaverequestid hb) ms of
       None \<Rightarrow> (Inl rapidjson_assertion, hb')
     | Some None \<Rightarrow> (Inr (), hb')
     | Some (Some state) \<Rightarrow>
         (case ResultGetBinpickingState_Parse lib R c (JObject [(''output'', state)]) (hb_taskstate hb) of
            Inl e \<Rightarrow> (Inl e, hb' \<lparr> hb_taskstate := interrupted state (hb_taskstate hb) \<rparr>)
          | Inr p \<Rightarrow> (Inr (), hb' \<lparr> hb_taskstate := p \<rparr>)))"
proof (cases "hb_slaverequestid hb \<noteq> [] \<and> map_of ms ''slavestates'' \<noteq> None")
  case True
  then show ?thesis
    using slave_taskstate_in [of "hb_slaverequestid hb" ms]
    by (auto simp: ResultHeartBeat_Parse_def load_field_member assms parsing_Inr parsing_value_of_def HasMember_def FindMember_def Let_def
        split: option.split sum.split)
next
  case False
  then have "state_in (hb_slaverequestid hb) ms = Some None" by (auto simp: state_in_def)
  with False show ?thesis
    by (auto simp: ResultHeartBeat_Parse_def load_field_member assms parsing_value_of_def HasMember_def FindMember_def)
qed

lemma Parse_refused:
  fixes lib :: "'d lib"
  assumes "\<forall>ms status info stamp. pt = JObject ms \<longrightarrow> \<not> (member_value (LoadJsonString lib) ms ''status'' [] = Inr status \<and>
    member_value (LoadJsonString lib) ms ''message'' [] = Inr info \<and>
    member_value (LoadJsonDouble lib) ms ''timestamp'' (r_lit R 0) = Inr stamp)"
  shows "\<exists>e hb'. ResultHeartBeat_Parse lib R c interrupted pt hb = (Inl e, hb') \<and> is_exception e \<and>
    hb_taskstate hb' = hb_taskstate hb \<and> hb_slaverequestid hb' = hb_slaverequestid hb"
proof (cases "\<exists>ms. pt = JObject ms")
  case True
  then obtain ms where ms: "pt = JObject ms" by blast
  note field = load_field_member [of _ ms]
  show ?thesis
  proof (cases "parsing_value_of ''status'' (member_value (LoadJsonString lib) ms ''status'' [])")
    case (Inl e)
    then show ?thesis by (simp add: ms ResultHeartBeat_Parse_def field field_errors)
  next
    case s: (Inr status)
    show ?thesis
    proof (cases "parsing_value_of ''message'' (member_value (LoadJsonString lib) ms ''message'' [])")
      case (Inl e)
      with s show ?thesis by (simp add: ms ResultHeartBeat_Parse_def field field_errors)
    next
      case i: (Inr info)
      show ?thesis
      proof (cases "parsing_value_of ''timestamp'' (member_value (LoadJsonDouble lib) ms ''timestamp'' (r_lit R 0))")
        case (Inl e)
        with s i show ?thesis by (simp add: ms ResultHeartBeat_Parse_def field field_errors)
      next
        case (Inr stamp)
        with s i ms assms show ?thesis unfolding parsing_Inr by blast
      qed
    qed
  qed
next
  case False
  then have "\<not> IsObject pt" by (cases pt) auto
  then show ?thesis by (simp add: ResultHeartBeat_Parse_def load_field_def LoadJsonValueByKey_def)
qed

lemma ParseJson_error: "ParseJson lib message = Inl e \<Longrightarrow> is_exception e"
  by (auto simp: ParseJson_def split: sum.splits)

lemma reply_understood:
  fixes lib :: "'d lib" and hb :: "'d ResultHeartBeat"
  assumes "understood lib R (hb_slaverequestid hb) message status st"
  shows "\<exists>hb'. hb_slaverequestid hb' = hb_slaverequestid hb \<and> hb_taskstate hb' = hb_taskstate hb \<and> hb_status hb' = status \<and>
    monitor_reply lib R c interrupted message (hb, published) =
    (case st of
       None \<Rightarrow> (Inr (is_alive status), hb', hb_taskstate hb)
     | Some state \<Rightarrow>
         (case ResultGetBinpickingState_Parse lib R c (JObject [(''output'', state)]) (hb_taskstate hb) of
            Inl e \<Rightarrow> (if is_exception e then Inr False else Inl e, hb' \<lparr> hb_taskstate := interrupted state (hb_taskstate hb) \<rparr>, published)
          | Inr p \<Rightarrow> (Inr (is_alive status), hb' \<lparr> hb_taskstate := p \<rparr>, p)))"
proof -
  from assms obtain ms info stamp where parse: "ParseJson lib message = Inr (JObject ms)"
    and fields: "member_value (LoadJsonString lib) ms ''status'' [] = Inr status"
      "member_value (LoadJsonString lib) ms ''message'' [] = Inr info"
      "member_value (LoadJsonDouble lib) ms ''timestamp'' (r_lit R 0) = Inr stamp"
    and st: "state_in (hb_slaverequestid hb) ms = Some st"
    unfolding understood_def by blast
  show ?thesis
    by (rule exI [of _ "hb \<lparr> hb_status := status, hb_msg := info, hb_timestamp := stamp \<rparr>"])
      (simp add: monitor_reply_def parse Parse_object [OF fields] st Let_def split: option.split sum.split)
qed

lemma reply_refused:
  fixes lib :: "'d lib" and hb :: "'d ResultHeartBeat"
  assumes "\<And>status st. \<not> understood lib R (hb_slaverequestid hb) message status st"
  shows "\<exists>hb'. monitor_reply lib R c interrupted message (hb, published) = (Inr False, hb', published) \<and>
    hb_taskstate hb' = hb_taskstate hb \<and> hb_slaverequestid hb' = hb_slaverequestid hb"
proof (cases "ParseJson lib message")
  case (Inl e)
  then show ?thesis by (simp add: monitor_reply_def ParseJson_error)
next
  case parse: (Inr pt)
  show ?thesis
  proof (cases "\<exists>ms status info stamp. pt = JObject ms \<and> member_value (LoadJsonString lib) ms ''status'' [] = Inr status \<and>
      member_value (LoadJsonString lib) ms ''message'' [] = Inr info \<and>
      member_value (LoadJsonDouble lib) ms ''timestamp'' (r_lit R 0) = Inr stamp")
    case True
    then obtain ms status info stamp where pt: "pt = JObject ms"
      and fields: "member_value (LoadJsonString lib) ms ''status'' [] = Inr status"
        "member_value (LoadJsonString lib) ms ''message'' [] = Inr info"
        "member_value (LoadJsonDouble lib) ms ''timestamp'' (r_lit R 0) = Inr stamp" by blast
    have "state_in (hb_slaverequestid hb) ms = None"
    proof (rule ccontr)
      assume "state_in (hb_slaverequestid hb) ms \<noteq> None"
      then obtain st where "state_in (hb_slaverequestid hb) ms = Some st" by blast
      with parse pt fields assms show False unfolding understood_def by blast
    qed
    then show ?thesis by (simp add: monitor_reply_def parse pt Parse_object [OF fields] Let_def)
  next
    case False
    then obtain e hb' where "ResultHeartBeat_Parse lib R c interrupted pt hb = (Inl e, hb')" "is_exception e"
      "hb_taskstate hb' = hb_taskstate hb" "hb_slaverequestid hb' = hb_slaverequestid hb"
      using Parse_refused [of pt lib R c interrupted hb] by blast
    with parse show ?thesis by (simp add: monitor_reply_def)
  qed
qed

lemma is_alive_iff: "is_alive status \<longleftrightarrow> 2 \<le> length status \<and> status \<noteq> ''lost''"
  by (auto simp: is_alive_def)

text \<open>A message is understood in one way.\<close>

lemma understood_unique:
  "understood lib R slave message status st \<Longrightarrow> understood lib R slave message status' st' \<Longrightarrow> status = status' \<and> st = st'"
  unfolding understood_def by (elim exE conjE) simp

interpretation zmq_heartbeat: heartbeat_handler "monitor_reply lib R c interrupted" "heartbeat_says lib R c slave"
  "heartbeat_cuts lib R c slave" "\<lambda>data. hb_taskstate (fst data)" snd "\<lambda>data. hb_slaverequestid (fst data) = slave"
  for lib R c interrupted slave
proof (unfold_locales, goal_cases)
  case (1 data message p alive)
  obtain hb published where data: "data = (hb, published)" by (cases data)
  from 1(2) obtain status st where u: "understood lib R slave message status st"
    and alive: "alive = is_alive status"
    and st: "case st of None \<Rightarrow> p = hb_taskstate hb
      | Some state \<Rightarrow> ResultGetBinpickingState_Parse lib R c (JObject [(''output'', state)]) (hb_taskstate hb) = Inr p"
    by (auto simp: heartbeat_says_def is_alive_iff data)
  from reply_understood [of lib R hb message status st c interrupted published] u 1(1) st alive show ?case
    by (cases st) (auto simp: data)
next
  case (2 data message)
  obtain hb published where data: "data = (hb, published)" by (cases data)
  show ?case
  proof (cases "\<exists>status st. understood lib R slave message status st")
    case True
    then obtain status st where u: "understood lib R slave message status st" by blast
    have "\<not> heartbeat_says lib R c slave message (hb_taskstate hb) p (2 \<le> length status \<and> status \<noteq> ''lost'')" for p
      using 2(2) by (simp add: data)
    with u have none: "\<not> (case st of None \<Rightarrow> p = hb_taskstate hb
        | Some state \<Rightarrow> ResultGetBinpickingState_Parse lib R c (JObject [(''output'', state)]) (hb_taskstate hb) = Inr p)" for p
      unfolding heartbeat_says_def by blast
    then obtain state where "st = Some state" by (cases st) auto
    with none obtain e where st: "st = Some state"
      "ResultGetBinpickingState_Parse lib R c (JObject [(''output'', state)]) (hb_taskstate hb) = Inl e"
      by (cases "ResultGetBinpickingState_Parse lib R c (JObject [(''output'', state)]) (hb_taskstate hb)") auto
    have cuts: "heartbeat_cuts lib R c slave message (hb_taskstate hb) e' \<longleftrightarrow> e' = e" for e'
    proof
      assume "heartbeat_cuts lib R c slave message (hb_taskstate hb) e'"
      with st show "e' = e" unfolding heartbeat_cuts_def by (auto dest!: understood_unique [OF u])
    qed (use u st in \<open>auto simp: heartbeat_cuts_def\<close>)
    obtain hb' where "hb_slaverequestid hb' = slave" "monitor_reply lib R c interrupted message (hb, published) =
        (if is_exception e then Inr False else Inl e, hb' \<lparr> hb_taskstate := interrupted state (hb_taskstate hb) \<rparr>, published)"
      using reply_understood [of lib R hb message status st c interrupted published] u 2(1) st by (auto simp: data)
    with cuts show ?thesis by (cases "is_exception e") (simp_all add: data)
  next
    case False
    then have "\<not> heartbeat_cuts lib R c slave message (hb_taskstate hb) e" for e by (auto simp: heartbeat_cuts_def)
    with reply_refused [of lib R hb message c interrupted published] False 2(1) show ?thesis by (auto simp: data)
  qed
qed

definition zmq_watch ::
  "('d ResultHeartBeat \<times> 'd ResultGetBinpickingState) monitor \<Rightarrow> 'd ResultGetBinpickingState watch" where
  "zmq_watch m = \<lparr> watch_tick = tick (mon_zmq m), watch_last = mon_lastheartbeat m, watch_opened = connects (mon_zmq m),
     watch_held = hb_taskstate (fst (mon_data m)), watch_published = snd (mon_data m) \<rparr>"

lemma zmq_watch_of: "zmq_heartbeat.watch_of = zmq_watch"
  by (simp add: fun_eq_iff zmq_heartbeat.watch_of_def zmq_watch_def)

lemma heartbeat_start_sound:
  "zmq_heartbeat.sound slave (c_str (''tcp://'' @ ip @ '':'' @ dec_of_int (sint port)), context)
     (heartbeat_start R c ip port context slave taskstate s)"
  by (simp add: zmq_heartbeat.sound_def heartbeat_start_def endpoint_of_def)

lemma zmq_thread_told:
  "zmq_heartbeat.sound slave endpoint m \<Longrightarrow>
     fst (HeartbeatMonitorThread lib R c interrupted env expired (True # True # flags) m) = Ended"
  unfolding HeartbeatMonitorThread_def by (rule zmq_heartbeat.told_to_end)

text \<open>C3: The heartbeat thread of the ZeroMQ task, from its start, implements the watchdog on whatever the clock, the
  sockets and the flag answer: it connects to the port of the task, again whenever the clock has expired or the inner loop was
  left; a message is a heartbeat, at which the clock starts again, exactly when it is a JSON object whose fields can be loaded, whose
  status is neither lost nor shorter than two characters, and whose state for the slave, if it has one, can be
  read; that state is then published, or the one held if it has none; any other message publishes nothing;
  an exception of the sockets ends the thread; and it ends otherwise exactly when the outer loop sees the flag.\<close>

theorem HeartbeatMonitorThread_refines_watchdog:
  "let m = heartbeat_start R c ip port context slave taskstate s;
       (out, m') = HeartbeatMonitorThread lib R c interrupted env expired flags m in
   watchdog_run (c_str (''tcp://'' @ ip @ '':'' @ dec_of_int (sint port)), context) env expired
     (heartbeat_says lib R c slave) (heartbeat_cuts lib R c slave) flags (zmq_watch m) out (zmq_watch m')"
  unfolding HeartbeatMonitorThread_def Let_def split_beta zmq_watch_of [symmetric]
  by (rule zmq_heartbeat.refines [OF surjective_pairing heartbeat_start_sound])

end
