(* ===== verification/TaskProps.thy ===== *)
theory TaskProps
  imports BinPicking Heartbeat
begin

text \<open>
  Properties of the bin picking tasks: a command with a timeout returns, and the planning slave that is chosen.
\<close>

section \<open>A command with a timeout returns\<close>

definition tick :: "'d reals \<Rightarrow> 'd \<Rightarrow> 'd" where
  "tick R x = r_add R x (r_lit R (1 / 10))"

lemma poll_result_returns:
  "timeout \<noteq> 0 \<Longrightarrow> r_less R (r_lit R timeout) ((tick R ^^ Suc n) x) \<Longrightarrow>
     \<exists>y. poll_result env R F t getresult timeout v x s = Some y"
proof (induction n arbitrary: x s)
  case 0
  then show ?case
    by (subst poll_result.simps) (auto simp: Let_def tick_def [symmetric] split: prod.split sum.split option.split)
next
  case (Suc n)
  then have "\<exists>y. poll_result env R F t getresult timeout v (tick R x) s' = Some y" for s'
    using Suc.IH [OF Suc.prems(1), of "tick R x" s'] by (simp only: funpow_Suc_right o_apply)
  with Suc.prems(1) show ?case
    by (subst poll_result.simps) (auto simp: Let_def tick_def [symmetric] split: prod.split sum.split option.split)
qed

lemma bindT_returns:
  "\<exists>r w'. m w = Some (r, w') \<Longrightarrow> (\<And>x w'. \<exists>r w''. f x w' = Some (r, w'')) \<Longrightarrow> \<exists>r w'. bindT m f w = Some (r, w')"
  by (auto simp: bindT_def split: sum.split)

lemma basic_returns:
  "\<exists>r w'. liftT x w = Some (r, w')" "\<exists>r w'. retT y w = Some (r, w')" "\<exists>r w'. on_client m w = Some (r, w')"
  "\<exists>r w'. getT f w = Some (r, w')" "\<exists>r w'. modifyT g w = Some (r, w')"
  by (simp_all add: task_defs split: prod.split)

lemma check_initialized_returns: "\<exists>r w'. check_initialized w = Some (r, w')"
  unfolding check_initialized_def by (intro bindT_returns basic_returns) (simp add: basic_returns)

lemma web_returns:
  assumes "timeout \<noteq> 0" and "r_less R (r_lit R timeout) ((tick R ^^ Suc n) (r_lit R 0))"
  shows "\<exists>r w'. ExecuteCommand_web env R F stamp getresult taskparameters v timeout w = Some (r, w')"
proof -
  have "\<exists>r w'. map_option (\<lambda>(r, s). (r, w \<lparr> w_client := s \<rparr>))
      (poll_result env R F t getresult timeout v (r_lit R 0) (w_client w)) = Some (r, w')" for t and w :: "'a world"
    using poll_result_returns [OF assms, of env F t getresult v "w_client w"] by (auto split: prod.split)
  then show ?thesis
    unfolding ExecuteCommand_web_def by (intro bindT_returns basic_returns check_initialized_returns)
qed

section \<open>The planning slave that is chosen\<close>

definition numbered :: "string \<Rightarrow> bool" where
  "numbered s \<longleftrightarrow> CHR ''_'' \<in> set s \<and> is_digit (last s)"

text \<open>The digits at the end of an id, the last one first, and their value.\<close>

definition end_digits :: "string \<Rightarrow> string" where
  "end_digits s = takeWhile is_digit (rev s)"

fun value_rev :: "string \<Rightarrow> int" where
  "value_rev [] = 0"
| "value_rev (c # cs) = digit_val c + 10 * value_rev cs"

definition slave_number :: "string \<Rightarrow> int" where
  "slave_number s = value_rev (end_digits s)"

lemma digit_val_bounds: "is_digit c \<Longrightarrow> 0 \<le> digit_val c \<and> digit_val c \<le> 9"
  by (simp add: is_digit_def digit_val_def)

lemma value_rev_bounds: "\<forall>c\<in>set cs. is_digit c \<Longrightarrow> 0 \<le> value_rev cs \<and> value_rev cs < 10 ^ length cs"
proof (induction cs)
  case (Cons c cs)
  with digit_val_bounds [of c] show ?case by auto
qed simp

lemma slave_number_bounds: "length (end_digits s) \<le> 9 \<Longrightarrow> 0 \<le> slave_number s \<and> slave_number s < 2 ^ 31 - 1"
proof -
  assume len: "length (end_digits s) \<le> 9"
  have "\<forall>c\<in>set (end_digits s). is_digit c" by (auto simp: end_digits_def dest: set_takeWhileD)
  note value_rev_bounds [OF this]
  moreover have "(10::int) ^ length (end_digits s) \<le> 10 ^ 9" using len by (intro power_increasing) auto
  ultimately show ?thesis by (simp add: slave_number_def)
qed

lemma suffix_loop_value:
  "k + length (takeWhile is_digit cs) \<le> 9 \<Longrightarrow> 0 \<le> a \<Longrightarrow> a < 10 ^ k \<Longrightarrow>
     suffix_loop cs a (10 ^ k) = Inr (a + 10 ^ k * value_rev (takeWhile is_digit cs))"
proof (induction cs arbitrary: k a)
  case (Cons c cs)
  show ?case
  proof (cases "is_digit c")
    case True
    note d = digit_val_bounds [OF True]
    have le: "digit_val c * 10 ^ k \<le> 9 * 10 ^ k" "0 \<le> digit_val c * 10 ^ k"
      using d by (auto intro: mult_right_mono)
    have pow: "(10::int) ^ Suc k \<le> 10 ^ 9" using Cons.prems(1) True by (intro power_increasing) auto
    have new: "0 \<le> a + digit_val c * 10 ^ k \<and> a + digit_val c * 10 ^ k < 10 ^ Suc k"
      using Cons.prems(2,3) le unfolding power_Suc by (intro conjI; linarith)
    have small: "int_ok x" if "0 \<le> x" "x \<le> 10 ^ 9" for x :: int
      using that by (simp add: int_ok_def)
    have "int_ok (digit_val c * 10 ^ k)" "int_ok (a + digit_val c * 10 ^ k)" "int_ok (10 ^ k * 10)"
      using le pow new Cons.prems(2,3) unfolding power_Suc by (auto intro!: small)
    with True Cons.IH [of "Suc k" "a + digit_val c * 10 ^ k"] Cons.prems(1) new show ?thesis
      by (simp add: Let_def algebra_simps)
  qed simp
qed simp

lemma suffix_loop_number: "length (end_digits s) \<le> 9 \<Longrightarrow> suffix_loop (rev s) 0 1 = Inr (slave_number s)"
  using suffix_loop_value [of 0 "rev s" 0] by (simp add: slave_number_def end_digits_def)

text \<open>The first id with the smallest number.\<close>

fun first_smallest :: "string list \<Rightarrow> int \<Rightarrow> string option \<Rightarrow> string option" where
  "first_smallest [] m best = best"
| "first_smallest (s # ss) m best =
     (if slave_number s < m then first_smallest ss (slave_number s) (Some s) else first_smallest ss m best)"

lemma smallest_loop_first:
  "\<forall>s\<in>set ids. length (end_digits s) \<le> 9 \<Longrightarrow> smallest_loop ids m best = Inr (first_smallest (filter numbered ids) m best)"
  by (induction ids arbitrary: m best) (auto simp: numbered_def suffix_loop_number)

lemma first_smallest_None: "\<forall>s\<in>set ss. m \<le> slave_number s \<Longrightarrow> first_smallest ss m best = best"
  by (induction ss) auto

lemma first_smallest_at:
  "\<forall>s\<in>set xs. slave_number x < slave_number s \<Longrightarrow> \<forall>s\<in>set ys. slave_number x \<le> slave_number s \<Longrightarrow> slave_number x < m \<Longrightarrow>
     first_smallest (xs @ x # ys) m best = Some x"
  by (induction xs arbitrary: m best) (auto simp: first_smallest_None)

lemma first_minimum:
  "xs \<noteq> [] \<Longrightarrow> \<exists>as x bs. xs = as @ x # bs \<and> (\<forall>s\<in>set as. f x < f s) \<and> (\<forall>s\<in>set bs. f x \<le> f s)"
  for f :: "'a \<Rightarrow> int"
proof (induction xs)
  case (Cons y ys)
  show ?case
  proof (cases "\<forall>s\<in>set ys. f y \<le> f s")
    case True
    then show ?thesis by (intro exI [of _ "[]"]) simp
  next
    case False
    then have "ys \<noteq> []" by auto
    with Cons.IH obtain as x bs where *: "ys = as @ x # bs" "\<forall>s\<in>set as. f x < f s" "\<forall>s\<in>set bs. f x \<le> f s" by blast
    from False obtain s where s: "s \<in> set ys" "f s < f y" by auto
    with * have "f x \<le> f s" by auto
    with s * show ?thesis by (intro exI [of _ "y # as"] exI [of _ x] exI [of _ bs]) simp
  qed
qed simp

text \<open>C18: With at most nine digits at the end of each id, the choice is the first id with the smallest number among
  those that end in one; without such an id the search fails with an exception.\<close>

theorem FindSmallestSlaveRequestId_first:
  assumes "slave_ids pt = Inr ids" and "\<forall>s\<in>set ids. length (end_digits s) \<le> 9"
  shows "if filter numbered ids = [] then \<exists>e. FindSmallestSlaveRequestId pt = Inl e
    else \<exists>xs x ys. filter numbered ids = xs @ x # ys \<and> (\<forall>s\<in>set xs. slave_number x < slave_number s) \<and>
      (\<forall>s\<in>set ys. slave_number x \<le> slave_number s) \<and> FindSmallestSlaveRequestId pt = Inr x"
proof -
  have run: "FindSmallestSlaveRequestId pt = bindR (Inr (first_smallest (filter numbered ids) (2 ^ 31 - 1) None))
      (\<lambda>best. case best of
         None \<Rightarrow> Inl (MujinException ''Failed to find slave request id like hostname_slave### where ### is a number'' MEC_Failed)
       | Some s \<Rightarrow> Inr s)"
    by (simp only: FindSmallestSlaveRequestId_def assms(1) smallest_loop_first [OF assms(2)] bindR_simps)
  show ?thesis
  proof (cases "filter numbered ids = []")
    case False
    from first_minimum [OF this, of slave_number] obtain xs x ys where *: "filter numbered ids = xs @ x # ys"
      "\<forall>s\<in>set xs. slave_number x < slave_number s" "\<forall>s\<in>set ys. slave_number x \<le> slave_number s" by blast
    from *(1) have "x \<in> set (filter numbered ids)" by simp
    with assms(2) slave_number_bounds [of x] have "slave_number x < 2 ^ 31 - 1" by simp
    with * have "FindSmallestSlaveRequestId pt = Inr x" by (simp add: run first_smallest_at)
    with False * show ?thesis by (simp only: if_False) blast
  qed (simp add: run)
qed

section \<open>Examples\<close>

text \<open>Real numbers that count tenths of a second.\<close>

definition tenths :: "nat reals" where
  "tenths = \<lparr> r_add = (+), r_sub = (-), r_mul = (*), r_div = (div), r_sqrt = id, r_fabs = id, r_less = (<),
     r_lit = (\<lambda>q. nat \<lfloor>q * 10\<rfloor>), r_eq = (=), r_isnan = (\<lambda>_. False), r_uint64 = (\<lambda>n. Some (of_nat n)) \<rparr>"

lemma tick_tenths: "(tick tenths ^^ n) 0 = n"
  by (induction n) (simp_all add: tick_def tenths_def)

lemma FindSmallestSlaveRequestId_first_witness:
  "FindSmallestSlaveRequestId (JObject [(''slavestates'',
     JObject [(''slaverequestid-h_slave12'', JNull), (''other_1'', JNull), (''slaverequestid-h_slave3'', JNull)])] :: nat json) =
   Inr ''slaverequestid-h_slave3''" (is "FindSmallestSlaveRequestId ?pt = Inr ?b")
proof -
  let ?a = "''slaverequestid-h_slave12''"
  have ids: "slave_ids ?pt = Inr [?a, ?b]" by code_simp
  have digits: "\<forall>s\<in>set [?a, ?b]. length (end_digits s) \<le> 9" by code_simp
  have some: "filter numbered [?a, ?b] = [?a, ?b]" by code_simp
  have number: "slave_number ?b < slave_number ?a" by code_simp
  from FindSmallestSlaveRequestId_first [OF ids digits] obtain xs x ys where x: "[?a, ?b] = xs @ x # ys"
    "\<forall>s\<in>set xs. slave_number x < slave_number s" "\<forall>s\<in>set ys. slave_number x \<le> slave_number s"
    "FindSmallestSlaveRequestId ?pt = Inr x"
    unfolding some by (simp only: list.distinct if_False) blast
  have "x = ?b"
  proof (cases xs)
    case Nil
    with x(1) have "x = ?a" "?b \<in> set ys" by auto
    with x(3) number show ?thesis by force
  next
    case (Cons z zs)
    with x(1) show ?thesis by (cases zs) auto
  qed
  with x(4) show ?thesis by simp
qed

end
