(* ===== verification/WideUploadLaws.thy ===== *)
theory WideUploadLaws
  imports WideUpload HttpProps
begin

text \<open>
  Uploading a directory with UTF-16 names is uploading it with the names in UTF-8, when the wide names are
  UTF-16: no octet of a character of several is a separator, so that both versions find the same
  components of a path.
\<close>

section \<open>Separators in both encodings\<close>

lemma append_high: "utf8_append cp = Inr os \<Longrightarrow> \<not> cp < 0x80 \<Longrightarrow> b \<in> set os \<Longrightarrow> bit b 7"
  by (auto simp: utf8_append_def octet_bits split: if_splits)

lemma append_low: "cp < 0x80 \<Longrightarrow> utf8_append cp = Inr os \<Longrightarrow> os = [ucast cp]"
  by (simp add: utf8_append_def split: if_splits)

lemma append_not_Nil: "utf8_append cp = Inr os \<Longrightarrow> os \<noteq> []"
  by (auto simp: utf8_append_def split: if_splits)

lemma append_sep: "utf8_append 0x2f = Inr [0x2f]"
  by code_simp

lemma sep_octet: "utf8_append cp = Inr os \<Longrightarrow> 0x2f \<in> set os \<Longrightarrow> cp = 0x2f"
proof (cases "cp < 0x80")
  case True
  moreover assume "utf8_append cp = Inr os" "0x2f \<in> set os"
  ultimately have "(ucast cp :: 8 word) = 0x2f" using append_low by force
  then have "ucast (ucast cp :: 8 word) = (0x2f :: 32 word)" by simp
  with one_octet [OF True] show ?thesis by simp
next
  case False
  moreover have "\<not> bit (0x2f :: 8 word) 7" by code_simp
  moreover assume "utf8_append cp = Inr os" "0x2f \<in> set os"
  ultimately show ?thesis using append_high by blast
qed

lemma char_47 [simp]: "char_of (47 :: nat) = CHR ''/''"
  by code_simp

lemma octet_char_sep: "char_of (unat b) = CHR ''/'' \<longleftrightarrow> b = 0x2f" for b :: "8 word"
proof
  assume "char_of (unat b) = CHR ''/''"
  then have "(of_char (char_of (unat b)) :: nat) = of_char (CHR ''/'')" by simp
  moreover have "unat b < 256" using unsigned_less [of b, where ?'a = nat] by simp
  ultimately have "unat b = unat (0x2f :: 8 word)" by simp
  then show "b = 0x2f" by (simp only: word_unat_eq_iff)
qed simp

lemma mask16_sep [simp]: "mask16 wide_sep = 0x2f" "\<not> is_lead_surrogate 0x2f" "\<not> is_trail_surrogate 0x2f"
  by (simp_all add: mask16_def wide_sep_def is_lead_surrogate_def is_trail_surrogate_def)

lemma utf16to8_split:
  "utf16to8 (a @ wide_sep # b) = Inr os \<Longrightarrow> \<exists>x y. utf16to8 a = Inr x \<and> utf16to8 b = Inr y \<and> os = x @ 0x2f # y"
proof (induction a arbitrary: os rule: utf16to8.induct)
  case 1
  then show ?case by (auto simp: append_sep bindR_Inr_iff)
next
  case (2 c start)
  consider (pair) t rest where "is_lead_surrogate (mask16 c)" "start = t # rest" "is_trail_surrogate (mask16 t)"
    | (lone) "is_lead_surrogate (mask16 c)" "\<not> (\<exists>t rest. start = t # rest \<and> is_trail_surrogate (mask16 t))"
    | (trail) "\<not> is_lead_surrogate (mask16 c)" "is_trail_surrogate (mask16 c)"
    | (plain) "\<not> is_lead_surrogate (mask16 c)" "\<not> is_trail_surrogate (mask16 c)"
    by blast
  then show ?case
  proof cases
    case pair
    with 2(3) 2(1) [OF refl pair(1,2) refl pair(3)] show ?thesis by (fastforce simp: bindR_Inr_iff)
  next
    case lone
    with 2(3) show ?thesis by (cases start) auto
  next
    case trail
    with 2(3) show ?thesis by simp
  next
    case plain
    with 2(3) 2(2) [OF refl plain] show ?thesis by (fastforce simp: bindR_Inr_iff)
  qed
qed

text \<open>A wide string of 16-bit units.\<close>

definition units :: "wstring \<Rightarrow> bool" where
  "units ws \<longleftrightarrow> (\<forall>c\<in>set ws. mask16 c = c)"

lemma surrogate_not_sep: "is_lead_surrogate c \<Longrightarrow> is_trail_surrogate t \<Longrightarrow> push_bit 10 c + t + SURROGATE_OFFSET \<noteq> 0x2f"
proof
  assume a: "is_lead_surrogate c" "is_trail_surrogate t" and "push_bit 10 c + t + SURROGATE_OFFSET = 0x2f"
  with surrogate_value(2) [OF a] have "map ucast (utf16_units 0x2f) = [c, t]" by simp
  moreover have "length (utf16_units 0x2f) = 1" by code_simp
  ultimately show False by (metis length_Cons length_map list.size(3) n_not_Suc_n One_nat_def)
qed

lemma utf16to8_no_sep:
  "utf16to8 a = Inr os \<Longrightarrow> units a \<Longrightarrow> wide_sep \<notin> set a \<Longrightarrow> 0x2f \<notin> set os"
proof (induction a arbitrary: os rule: utf16to8.induct)
  case (2 c start)
  have c: "mask16 c \<noteq> 0x2f" using 2(4,5) by (auto simp: units_def wide_sep_def)
  consider (pair) t rest where "is_lead_surrogate (mask16 c)" "start = t # rest" "is_trail_surrogate (mask16 t)"
    | (lone) "is_lead_surrogate (mask16 c)" "\<not> (\<exists>t rest. start = t # rest \<and> is_trail_surrogate (mask16 t))"
    | (trail) "\<not> is_lead_surrogate (mask16 c)" "is_trail_surrogate (mask16 c)"
    | (plain) "\<not> is_lead_surrogate (mask16 c)" "\<not> is_trail_surrogate (mask16 c)"
    by blast
  then show ?case
  proof cases
    case pair
    with 2(3-5) 2(1) [OF refl pair(1,2) refl pair(3)] surrogate_not_sep [OF pair(1,3)] show ?thesis
      by (auto simp: bindR_Inr_iff units_def dest: sep_octet)
  next
    case lone
    with 2(3) show ?thesis by (cases start) auto
  next
    case trail
    with 2(3) show ?thesis by simp
  next
    case plain
    with 2(3-5) 2(2) [OF refl plain] c show ?thesis by (auto simp: bindR_Inr_iff units_def dest: sep_octet)
  qed
qed simp

lemma narrow_split:
  "narrow (a @ wide_sep # b) = Inr s \<Longrightarrow> \<exists>x y. narrow a = Inr x \<and> narrow b = Inr y \<and> s = x @ CHR ''/'' # y"
  by (auto simp: narrow_def bindR_Inr_iff octets_string_def dest!: utf16to8_split)

lemma narrow_no_sep: "narrow a = Inr s \<Longrightarrow> units a \<Longrightarrow> wide_sep \<notin> set a \<Longrightarrow> CHR ''/'' \<notin> set s"
  using utf16to8_no_sep [of a]
  by (auto simp: narrow_def bindR_Inr_iff octets_string_def octet_char_sep [unfolded eq_commute [of "char_of _"]])

lemma narrow_Nil_iff: "narrow a = Inr s \<Longrightarrow> s = [] \<longleftrightarrow> a = []"
proof (cases a)
  case (Cons c rest)
  moreover assume "narrow a = Inr s"
  ultimately show ?thesis
    by (auto simp: narrow_def octets_string_def bindR_Inr_iff Let_def split: if_splits list.splits dest!: append_not_Nil)
qed (simp add: narrow_def octets_string_def)

section \<open>The last component and the address\<close>

lemma rfind_char_last: "c \<notin> set y \<Longrightarrow> rfind_char c (x @ c # y) = Some (length x)"
proof (induction x)
  case Nil
  then show ?case by (simp add: rfind_char_None [THEN iffD2])
qed simp

lemma base_start_split: "wide_sep \<notin> set b \<Longrightarrow> base_start (a @ wide_sep # b) = Suc (length a)"
  by (simp add: base_start_def dropWhile_append)

lemma base_start_none: "wide_sep \<notin> set b \<Longrightarrow> base_start b = 0"
  by (auto simp: base_start_def)

definition base_name :: "string \<Rightarrow> string" where
  "base_name s = (case rfind_char (CHR ''/'') s of Some k \<Rightarrow> drop (k + 1) s | None \<Rightarrow> s)"

lemma narrow_components:
  assumes "narrow w = Inr s" "units w" "w \<noteq> []"
  shows "narrow (drop (base_start w) w) = Inr (base_name s) \<and> (last s = CHR ''/'' \<longleftrightarrow> last w = wide_sep) \<and> s \<noteq> []"
proof (cases "wide_sep \<in> set w")
  case True
  then obtain a b where w: "w = a @ wide_sep # b" "wide_sep \<notin> set b" by (metis split_list_last)
  with assms(1) obtain x y where xy: "narrow b = Inr y" "s = x @ CHR ''/'' # y" by (auto dest: narrow_split)
  have y: "CHR ''/'' \<notin> set y" using narrow_no_sep [OF xy(1)] w assms(2) by (simp add: units_def)
  moreover have "y = [] \<longleftrightarrow> b = []" by (rule narrow_Nil_iff [OF xy(1)])
  moreover have "last b \<noteq> wide_sep" if "b \<noteq> []" using w(2) last_in_set [OF that] by metis
  moreover have "last y \<noteq> CHR ''/''" if "y \<noteq> []" using y last_in_set [OF that] by metis
  ultimately show ?thesis
    by (auto simp: w xy base_start_split [OF w(2)] base_name_def rfind_char_last)
next
  case False
  from narrow_no_sep [OF assms(1,2) False] have n: "CHR ''/'' \<notin> set s" .
  moreover have "s \<noteq> []" using narrow_Nil_iff [OF assms(1)] assms(3) by simp
  ultimately have "last s \<noteq> CHR ''/''" by (metis last_in_set)
  moreover have "last w \<noteq> wide_sep" using False assms(3) last_in_set by metis
  ultimately show ?thesis using assms(1) n \<open>s \<noteq> []\<close>
    by (simp add: base_start_none [OF False] base_name_def rfind_char_None [THEN iffD2, OF n])
qed

lemma upload_uri_same:
  assumes "narrow w = Inr s" "units w" "w \<noteq> []" "rawuri \<noteq> []"
  shows "upload_directory_uri_UTF16 env w rawuri = upload_directory_uri env s rawuri"
  using narrow_components [OF assms(1-3)] assms
  by (auto simp: upload_directory_uri_UTF16_def upload_directory_uri_def base_name_def)

section \<open>Directories\<close>

text \<open>The two forms of a path agree: the wide one is made of 16-bit units, and is the other one in UTF-16.\<close>

definition agrees :: "path_codec \<Rightarrow> string \<Rightarrow> wstring \<Rightarrow> bool" where
  "agrees conv s w \<longleftrightarrow> from_fs conv s = Inr w \<and> to_fs conv w = Inr s \<and> narrow w = Inr s \<and> units w"

function tree_agrees :: "path_codec \<Rightarrow> string \<Rightarrow> (string \<times> fs_node) list option \<Rightarrow> bool" where
  "tree_agrees conv dir listing =
     (case listing of
        None \<Rightarrow> True
      | Some entries \<Rightarrow>
          (\<forall>(name, node)\<in>set entries. Ex (agrees conv name) \<and> Ex (agrees conv (path_join dir name)) \<and>
             (case node of Directory inner \<Rightarrow> tree_agrees conv (path_join dir name) inner | _ \<Rightarrow> True)))"
  by pat_completeness auto
termination
  by (relation "measure (\<lambda>(_, _, listing). size_option (size_list (size_prod (\<lambda>_. 0) size)) listing)")
    (auto simp: directory_size)

declare tree_agrees.simps [simp del]

lemma path_join_not_Nil: "name \<noteq> [] \<or> dir \<noteq> [] \<Longrightarrow> path_join dir name \<noteq> []"
  by (auto simp: path_join_def)


lemma lift_Inr: "bindM (liftR (Inr x)) f = f x"
  by (rule ext) (simp add: bindM_def liftR_def)

lemma then_webdav: "thenM (bindM (webdav_filename uri) (\<lambda>_. ret ())) (UploadFile env f c uri) = UploadFile env f c uri"
  by (rule ext) (simp add: UploadFile_def webdav_filename_def monad_defs)

lemma upload_file_same: "narrow w = Inr s \<Longrightarrow> UploadFile_UTF16 env w contents uri = UploadFile env s (contents s) uri"
  by (simp add: UploadFile_UTF16_def lift_Inr then_webdav)

text \<open>What both versions do with an entry, and the directory as a loop over the entries.\<close>

definition wide_entry :: "'d http_env \<Rightarrow> path_codec \<Rightarrow> string \<Rightarrow> string \<Rightarrow> string \<times> fs_node \<Rightarrow> ('d, unit) http" where
  "wide_entry env conv dir uri = (\<lambda>(name, node).
     bindM (liftR (from_fs conv name)) (\<lambda>dirfilename_utf16.
     bindM (liftR (narrow dirfilename_utf16)) (\<lambda>dirfilename.
     case node of
       Directory inner \<Rightarrow>
         bindM (liftR (from_fs conv (path_join dir name))) (\<lambda>path.
         UploadDirectory_UTF16 env conv path inner (uri @ ''/'' @ EscapeString env dirfilename))
     | RegularFile contents \<Rightarrow>
         bindM (liftR (from_fs conv (path_join dir name))) (\<lambda>path.
         UploadFile_UTF16 env path (\<lambda>_. contents) (uri @ ''/'' @ EscapeString env dirfilename))
     | OtherFile \<Rightarrow> ret ())))"

definition plain_entry :: "'d http_env \<Rightarrow> string \<Rightarrow> string \<Rightarrow> string \<times> fs_node \<Rightarrow> ('d, unit) http" where
  "plain_entry env dir uri = (\<lambda>(name, node).
     case node of
       Directory inner \<Rightarrow> UploadDirectory env (path_join dir name) inner (uri @ ''/'' @ EscapeString env name)
     | RegularFile contents \<Rightarrow> UploadFile env (path_join dir name) contents (uri @ ''/'' @ EscapeString env name)
     | OtherFile \<Rightarrow> ret ())"

lemma directory_loops:
  "agrees conv dir copydir \<Longrightarrow> UploadDirectory_UTF16 env conv copydir listing rawuri =
     bindM (liftR (upload_directory_uri_UTF16 env copydir rawuri)) (\<lambda>uri.
     writing_to env WriteStringStream BufferSink (thenM (make_collection env uri)
       (case listing of None \<Rightarrow> throw (FilesystemError dir) | Some entries \<Rightarrow> mapMs (wide_entry env conv dir uri) entries)))"
  "UploadDirectory env dir listing rawuri =
     bindM (liftR (upload_directory_uri env dir rawuri)) (\<lambda>uri.
     writing_to env WriteStringStream BufferSink (thenM (make_collection env uri)
       (case listing of None \<Rightarrow> throw (FilesystemError dir) | Some entries \<Rightarrow> mapMs (plain_entry env dir uri) entries)))"
  by (cases listing; simp add: UploadDirectory_UTF16.simps [of env conv copydir] UploadDirectory.simps [of env dir] agrees_def
      lift_Inr wide_entry_def plain_entry_def)+

text \<open>C15: Uploading a directory under its wide name sends the requests that uploading it under its UTF-8 name sends,
  in the same order, with the same exceptions, whenever the wide forms of all paths in it are UTF-16.\<close>

theorem UploadDirectory_UTF16_same:
  assumes "agrees conv dir copydir" and "copydir \<noteq> []" and "rawuri \<noteq> []" and "tree_agrees conv dir listing"
  shows "UploadDirectory_UTF16 env conv copydir listing rawuri = UploadDirectory env dir listing rawuri"
  using assms
proof (induction env dir listing rawuri arbitrary: copydir rule: UploadDirectory.induct)
  case (1 env dir listing rawuri)
  note path = 1(2)[unfolded agrees_def]
  have uri: "upload_directory_uri_UTF16 env copydir rawuri = upload_directory_uri env dir rawuri"
    using path 1(3,4) by (intro upload_uri_same) auto
  have entry: "wide_entry env conv dir uri (name, node) = plain_entry env dir uri (name, node)"
    if "listing = Some entries" "(name, node) \<in> set entries" for entries name node uri
  proof -
    from 1(5) that obtain wn wp where w: "agrees conv name wn" "agrees conv (path_join dir name) wp"
      and inner: "\<And>inner. node = Directory inner \<Longrightarrow> tree_agrees conv (path_join dir name) inner"
      by (subst (asm) tree_agrees.simps) fastforce
    have "dir \<noteq> []" using path 1(3) narrow_Nil_iff by blast
    then have "wp \<noteq> []" using w(2) narrow_Nil_iff path_join_not_Nil unfolding agrees_def by blast
    with w 1(1) [OF that(1) that(2) refl _ w(2)] inner show ?thesis
      by (auto simp: wide_entry_def plain_entry_def agrees_def lift_Inr upload_file_same split: fs_node.split)
  qed
  have "mapMs (wide_entry env conv dir uri) entries = mapMs (plain_entry env dir uri) entries"
    if "listing = Some entries" for entries uri
    using entry [OF that] by (intro mapMs_cong [OF refl]) (metis surj_pair)
  then show ?case
    by (cases listing) (simp_all add: directory_loops(1) [OF 1(2)] directory_loops(2) uri del: UploadDirectory.simps)
qed

section \<open>Example\<close>

text \<open>Paths in ASCII.\<close>

definition ascii_codec :: path_codec where
  "ascii_codec = \<lparr> to_fs = narrow, from_fs = (\<lambda>s. Inr (map (\<lambda>c. word_of_nat (of_char c)) s)) \<rparr>"

lemma ascii_agrees:
  "agrees ascii_codec ''d'' [0x64]" "agrees ascii_codec ''f'' [0x66]" "agrees ascii_codec ''d/f'' [0x64, 0x2f, 0x66]"
  by code_simp+

lemma UploadDirectory_UTF16_same_witness:
  "UploadDirectory_UTF16 (sample_http sample_lib 201 []) ascii_codec [0x64] (Some [(''f'', RegularFile (Some ''x''))]) ''w/d'' =
   UploadDirectory (sample_http sample_lib 201 []) ''d'' (Some [(''f'', RegularFile (Some ''x''))]) ''w/d''"
proof (rule UploadDirectory_UTF16_same [OF ascii_agrees(1)])
  show "tree_agrees ascii_codec ''d'' (Some [(''f'', RegularFile (Some ''x''))])"
    using ascii_agrees by (subst tree_agrees.simps) (auto simp: path_join_def)
qed simp_all

end
