(* ===== verification/ResourceLaws.thy ===== *)
theory ResourceLaws
  imports Scenes HttpLaws
begin

text \<open>
  What holds of every method of a resource, a scene, an optimization or a task, however it ends:
  they are made of the operations of the client, so that each relation of the locale
  \<open>http_relation\<close> is kept by them as well.
\<close>

section \<open>The methods of the resources\<close>

context http_relation
begin

lemma steady_get_json: "steady R (get_json env u)"
  unfolding get_json_def by (intro steady_rules steady_requests)

lemmas resource_rules = steady_rules steady_get_json steady_operations

lemma steady_resource:
  "steady R (GetWrap env r f t)" "steady R (Get_field env dflt load r f t)" "steady R (Set_field r f u t)"
  "steady R (SetJSON env r u t)" "steady R (Delete_resource env r t)" "steady R (Copy_resource r u n t)"
  unfolding GetWrap_def Get_field_def Set_field_def SetJSON_def Delete_resource_def Copy_resource_def
  by (intro resource_rules)+

lemma steady_geometry:
  "steady R (GetMesh env g mesh)" "steady R (SetGeometryFromRawSTL env g u v t)"
  "steady R (Geometry_SetVisible env g b)"
  unfolding GetMesh_def SetGeometryFromRawSTL_def Geometry_SetVisible_def
  by (intro resource_rules steady_resource)+

lemma steady_or_loop: "(\<And>x. steady R (f x)) \<Longrightarrow> steady R (or_loop f xs v)"
  by (induction xs arbitrary: v) (auto intro: resource_rules)

lemma steady_concat_loop: "(\<And>x. steady R (f x)) \<Longrightarrow> steady R (concat_loop f xs acc)"
  by (induction xs arbitrary: acc) (auto intro: resource_rules)

lemma steady_geometries:
  "steady R (GetGeometryFromName env l u)" "steady R (GetGeometries env l gs)"
  unfolding GetGeometryFromName_def GetGeometries_def by (intro resource_rules)+

lemma steady_link:
  "steady R (AddPrimitiveGeometry env l u v t)" "steady R (AddGeometryFromRawSTL env l u v w t)"
  "steady R (Link_SetCollision env l b)" "steady R (Link_SetVisible env l b)" "steady R (Link_GetVisible env l)"
  "steady R (AddChildLink env l u q tr)"
  unfolding AddPrimitiveGeometry_def AddGeometryFromRawSTL_def Link_SetCollision_def Link_SetVisible_def
    Link_GetVisible_def AddChildLink_def Let_def
  by (intro resource_rules steady_resource steady_geometry steady_geometries steady_or_loop)+

lemma steady_object:
  "steady R (GetLinks env obj)" "steady R (SetCollision env obj b)" "steady R (GetCollision env obj)"
  "steady R (SetVisible env obj b)" "steady R (GetVisible env obj)" "steady R (AddLink env obj u q tr)"
  "steady R (AddIkParam env obj u v)" "steady R (GetIkParams env obj)" "steady R (GetTools env robot)"
proof -
  show links: "steady R (GetLinks env obj)"
    unfolding GetLinks_def by (intro resource_rules)
  show "steady R (SetCollision env obj b)" "steady R (GetCollision env obj)" "steady R (SetVisible env obj b)"
    "steady R (GetVisible env obj)" "steady R (AddLink env obj u q tr)" "steady R (AddIkParam env obj u v)"
    "steady R (GetIkParams env obj)" "steady R (GetTools env robot)"
    unfolding SetCollision_def GetCollision_def SetVisible_def GetVisible_def AddLink_def AddIkParam_def
      GetIkParams_def GetTools_def
    by (intro resource_rules links steady_link steady_or_loop)+
qed

lemma steady_own_sensors: "steady R (own_attachedsensors env c robot)"
  unfolding own_attachedsensors_def by (intro resource_rules)

lemma steady_connected_sensors:
  "steady R (connected_sensors env c u v)" "steady R (connected_body_sensors env c v)"
proof -
  show s: "steady R (connected_sensors env c u v)" for u v
    unfolding connected_sensors_def by (intro resource_rules steady_own_sensors)
  show "steady R (connected_body_sensors env c v)"
    unfolding connected_body_sensors_def by (intro resource_rules steady_concat_loop s)
qed

lemma steady_sensors: "steady R (GetAttachedSensors env c robot b)"
  unfolding GetAttachedSensors_def
  by (intro resource_rules steady_own_sensors steady_concat_loop steady_connected_sensors)

subsection \<open>Results, optimizations and tasks\<close>

lemma steady_results:
  "steady R (GetEnvironmentState env Q r)" "steady R (GetAllRawProgramData env r u)"
  "steady R (GetRobotRawProgramData env r u v)" "steady R (GetPrograms env r u)" "steady R (DebugResource_Download env d t)"
  unfolding GetEnvironmentState_def GetAllRawProgramData_def GetRobotRawProgramData_def GetPrograms_def
    DebugResource_Download_def
  by (intro resource_rules)+

lemma steady_option_list:
  "steady R m \<Longrightarrow> (\<And>x xs. steady R (f x xs)) \<Longrightarrow>
     steady R (case v of None \<Rightarrow> m | Some [] \<Rightarrow> m | Some (x # xs) \<Rightarrow> f x xs)"
  by (auto split: option.split list.split)

lemmas list_rules = resource_rules steady_option_list

lemma steady_optimization:
  "steady R (Optimization_Execute env opt b)" "steady R Cancel" "steady R (Optimization_GetRunTimeStatus env opt st n)"
  "steady R (SetOptimizationParameters_robot env opt p)"
  "steady R (SetOptimizationParameters_placements env opt u i t1 t2)" "steady R (GetResults env opt rs i j)"
  unfolding Optimization_Execute_def Cancel_def Optimization_GetRunTimeStatus_def SetOptimizationParameters_robot_def
    SetOptimizationParameters_placements_def put_optimization_def GetResults_def
  by (intro list_rules)+

lemma steady_task:
  "steady R (Task_Execute env t)" "steady R (Task_GetRunTimeStatus env t st n)"
  "steady R (GetOrCreateOptimizationFromName_UTF8 env t u v)" "steady R (GetOrCreateOptimizationFromName_UTF16 env t wu v)"
  "steady R (GetOptimizationPrimaryKeys env t)" "steady R (Task_GetResult env t)"
  "steady R (GetTaskParameters env Q t p)" "steady R (SetTaskParameters env F t p)"
proof -
  show o: "steady R (GetOrCreateOptimizationFromName_UTF8 env t u v)" for u
    unfolding GetOrCreateOptimizationFromName_UTF8_def by (intro list_rules)
  show "steady R (Task_Execute env t)" "steady R (Task_GetRunTimeStatus env t st n)"
    "steady R (GetOrCreateOptimizationFromName_UTF16 env t wu v)"
    "steady R (GetOptimizationPrimaryKeys env t)" "steady R (Task_GetResult env t)"
    "steady R (GetTaskParameters env Q t p)" "steady R (SetTaskParameters env F t p)"
    unfolding Task_Execute_def Task_GetRunTimeStatus_def GetOrCreateOptimizationFromName_UTF16_def
      GetOptimizationPrimaryKeys_def Task_GetResult_def GetTaskParameters_def SetTaskParameters_def
    by (intro list_rules o)+
qed

subsection \<open>Instance objects and scenes\<close>

lemma steady_put_instobject: "steady R (put_instobject env r u)"
  unfolding put_instobject_def by (intro resource_rules)

lemma steady_instobject:
  "steady R (SetTransform env io tr)" "steady R (SetDOFValues env F io)" "steady R (GrabObject env io io' u v)"
  unfolding SetTransform_def SetDOFValues_def GrabObject_def Let_def
  by (intro resource_rules steady_put_instobject)+

lemma release_loop_kept: "R s (snd (release_loop env r grab k grabs s))"
proof -
  have "e = env \<longrightarrow> R s (snd (release_loop e r grab k grabs s))" for e
  proof (induction e r grab k grabs s rule: release_loop.induct)
    case (1 e r grab k grabs s)
    show ?case
    proof
      assume e: "e = env"
      obtain q s' where put: "put_instobject env r (release_text k (erase_at k grabs)) s = (q, s')" by fastforce
      have "R s s'" using steadyD [OF steady_put_instobject put] .
      then show "R s (snd (release_loop e r grab k grabs s))"
        using 1 e put reflpD [OF reflexive, of s] transpD [OF transitive, of s s']
        by (subst release_loop.simps) (auto simp: Let_def split: sum.split)
    qed
  qed
  then show ?thesis by simp
qed

lemma ReleaseObject_kept: "R s (snd (ReleaseObject env io io' u v s))"
  using release_loop_kept [of s io "GrabRecord (io_pk io') u v" 0 "io_grabs io"]
  by (auto simp: ReleaseObject_def split: prod.split)

lemma steady_binpicking_new:
  "steady R (BinPickingTaskResource_new env Q c media u v w)" "steady R (BinPickingTaskZmqResource_new env Q c media u v w)"
proof -
  show n: "steady R (BinPickingTaskResource_new env Q c media u v w)"
    unfolding BinPickingTaskResource_new_def by (intro resource_rules)
  show "steady R (BinPickingTaskZmqResource_new env Q c media u v w)"
    unfolding BinPickingTaskZmqResource_new_def by (intro resource_rules n)
qed

lemma steady_local_task: "steady R (zmq_task env Q c media u v)" "steady R (local_task env Q c media u v)"
proof -
  show z: "steady R (zmq_task env Q c media u v)" for v
    unfolding zmq_task_def by (intro resource_rules steady_binpicking_new)
  show "steady R (local_task env Q c media u v)"
    unfolding local_task_def by (intro resource_rules z)
qed

lemma steady_find_task: "steady R (get_task env sc u)" "steady R (find_or_create_pk env sc u v pt)"
  unfolding get_task_def find_or_create_pk_def create_task_def by (intro list_rules)+

lemma steady_get_or_create:
  "steady R (GetOrCreateTaskFromName_UTF8 env Q c media sc u v i)"
  "steady R (GetOrCreateTaskFromName_UTF8_default env Q c media sc u i)"
  "steady R (GetOrCreateTaskFromName_UTF16 env Q c media sc wu v i)"
  "steady R (GetOrCreateBinPickingTaskFromName_UTF8 env Q c media sc u v i)"
  "steady R (GetOrCreateBinPickingTaskFromName_UTF16 env Q c media sc wu v i)"
proof -
  show t: "steady R (GetOrCreateTaskFromName_UTF8 env Q c media sc u v i)" for u v
    unfolding GetOrCreateTaskFromName_UTF8_def Let_def
    by (intro resource_rules steady_local_task steady_find_task steady_binpicking_new)
  show w: "steady R (GetOrCreateTaskFromName_UTF16 env Q c media sc wu v i)"
    unfolding GetOrCreateTaskFromName_UTF16_def by (intro resource_rules t)
  show "steady R (GetOrCreateTaskFromName_UTF8_default env Q c media sc u i)"
    "steady R (GetOrCreateBinPickingTaskFromName_UTF8 env Q c media sc u v i)"
    "steady R (GetOrCreateBinPickingTaskFromName_UTF16 env Q c media sc wu v i)"
    unfolding GetOrCreateTaskFromName_UTF8_default_def GetOrCreateBinPickingTaskFromName_UTF8_def
      GetOrCreateBinPickingTaskFromName_UTF16_def
    by (intro resource_rules t w)+
qed

lemma steady_scene_tasks:
  "steady R (GetTaskFromName_UTF8 env sc u)" "steady R (GetTaskFromName_UTF16 env sc wu)"
  "steady R (GetTaskPrimaryKeys env sc)" "steady R (GetTaskNames env sc)"
proof -
  show t: "steady R (GetTaskFromName_UTF8 env sc u)" for u
    unfolding GetTaskFromName_UTF8_def by (intro list_rules steady_find_task)
  show "steady R (GetTaskFromName_UTF16 env sc wu)"
    unfolding GetTaskFromName_UTF16_def by (intro resource_rules t)
  show "steady R (GetTaskPrimaryKeys env sc)" "steady R (GetTaskNames env sc)"
    unfolding GetTaskPrimaryKeys_def GetTaskNames_def list_task_keys_def by (intro resource_rules)+
qed

lemma steady_scene_objects:
  "steady R (GetInstObjects env sc)" "steady R (FindInstObject env sc u)" "steady R (CreateInstObject env sc u v q tr t)"
  "steady R (DeleteInstObject env sc u)" "steady R (Scene_Copy env sc u)" "steady R (SetInstObjectsState env sc ios sts)"
  "steady R (DeleteObject env sc u)"
proof -
  show g: "steady R (GetInstObjects env sc)"
    unfolding GetInstObjects_def by (intro resource_rules)
  show "steady R (FindInstObject env sc u)" "steady R (CreateInstObject env sc u v q tr t)"
    "steady R (DeleteInstObject env sc u)" "steady R (Scene_Copy env sc u)" "steady R (SetInstObjectsState env sc ios sts)"
    "steady R (DeleteObject env sc u)"
    unfolding FindInstObject_def CreateInstObject_def DeleteInstObject_def Scene_Copy_def SetInstObjectsState_def
      DeleteObject_def
    by (intro resource_rules g steady_resource)+
qed

lemma steady_sensor_infos:
  "steady R (sensor_infos env u v w)" "steady R (connected_object_infos env u v x)"
  "steady R (connected_body_infos env u x)" "steady R (instobject_infos env x)" "steady R (GetAllSensorSelectionInfos env sc)"
proof -
  show s: "steady R (sensor_infos env u v w)" for u v w
    unfolding sensor_infos_def by (intro resource_rules)
  show o: "steady R (connected_object_infos env u v x)" for u v x
    unfolding connected_object_infos_def by (intro resource_rules s)
  show b: "steady R (connected_body_infos env u x)" for u x
    unfolding connected_body_infos_def by (intro resource_rules steady_concat_loop o)
  show i: "steady R (instobject_infos env x)" for x
    unfolding instobject_infos_def by (intro resource_rules steady_concat_loop b s)
  show "steady R (GetAllSensorSelectionInfos env sc)"
    unfolding GetAllSensorSelectionInfos_def by (intro resource_rules steady_concat_loop i)
qed

lemma steady_sensor_data:
  "steady R (utils_GetAttachedSensors env c sc u)" "steady R (find_sensor env c sc u v)"
  "steady R (GetSensorData env c sc u v)" "steady R (GetSensorTransform env Q c sc u v w)"
proof -
  show a: "steady R (utils_GetAttachedSensors env c sc u)"
    unfolding utils_GetAttachedSensors_def by (intro resource_rules steady_scene_objects steady_sensors)
  show f: "steady R (find_sensor env c sc u v)"
    unfolding find_sensor_def by (intro resource_rules a)
  show "steady R (GetSensorData env c sc u v)" "steady R (GetSensorTransform env Q c sc u v w)"
    unfolding GetSensorData_def GetSensorTransform_def by (intro resource_rules f)+
qed

lemmas steady_methods = steady_resource steady_geometry steady_geometries steady_link steady_object steady_sensors
  steady_results steady_optimization steady_task steady_instobject steady_get_or_create steady_scene_tasks
  steady_scene_objects steady_sensor_infos(5) steady_sensor_data(1,3,4)

end

section \<open>The calls of the resources\<close>

text \<open>One method of a resource, a scene, an optimization or a task, or one function of \<^verbatim>\<open>utils\<close>; the result
  is not looked at.\<close>

inductive resource_call ::
  "'d http_env \<Rightarrow> 'd reals \<Rightarrow> 'd formats \<Rightarrow> 'd compiled \<Rightarrow> ('d client \<Rightarrow> 'd client) \<Rightarrow> bool"
  for env :: "'d http_env" and Q F c where
  "resource_call env Q F c (\<lambda>s. snd (GetWrap env (r :: WebResource) u t s))"
| "resource_call env Q F c (\<lambda>s. snd (Get_field env (JNull :: 'd json) load (r :: WebResource) u t s))"
| "resource_call env Q F c (\<lambda>s. snd (Set_field (r :: WebResource) u v t s))"
| "resource_call env Q F c (\<lambda>s. snd (SetJSON env (r :: WebResource) u t s))"
| "resource_call env Q F c (\<lambda>s. snd (Delete_resource env (r :: WebResource) t s))"
| "resource_call env Q F c (\<lambda>s. snd (Copy_resource (r :: WebResource) u n t s))"
| "resource_call env Q F c (\<lambda>s. snd (GetMesh env g mesh s))"
| "resource_call env Q F c (\<lambda>s. snd (SetGeometryFromRawSTL env g u v t s))"
| "resource_call env Q F c (\<lambda>s. snd (Geometry_SetVisible env g b s))"
| "resource_call env Q F c (\<lambda>s. snd (GetGeometryFromName env l u s))"
| "resource_call env Q F c (\<lambda>s. snd (GetGeometries env l gs s))"
| "resource_call env Q F c (\<lambda>s. snd (AddPrimitiveGeometry env l u v t s))"
| "resource_call env Q F c (\<lambda>s. snd (AddGeometryFromRawSTL env l u v w t s))"
| "resource_call env Q F c (\<lambda>s. snd (Link_SetCollision env l b s))"
| "resource_call env Q F c (\<lambda>s. snd (Link_SetVisible env l b s))"
| "resource_call env Q F c (\<lambda>s. snd (Link_GetVisible env l s))"
| "resource_call env Q F c (\<lambda>s. snd (AddChildLink env l u q tr s))"
| "resource_call env Q F c (\<lambda>s. snd (GetLinks env (obj :: 'd ObjectResource) s))"
| "resource_call env Q F c (\<lambda>s. snd (SetCollision env (obj :: 'd ObjectResource) b s))"
| "resource_call env Q F c (\<lambda>s. snd (GetCollision env (obj :: 'd ObjectResource) s))"
| "resource_call env Q F c (\<lambda>s. snd (SetVisible env (obj :: 'd ObjectResource) b s))"
| "resource_call env Q F c (\<lambda>s. snd (GetVisible env (obj :: 'd ObjectResource) s))"
| "resource_call env Q F c (\<lambda>s. snd (AddLink env (obj :: 'd ObjectResource) u q tr s))"
| "resource_call env Q F c (\<lambda>s. snd (AddIkParam env (obj :: 'd ObjectResource) u v s))"
| "resource_call env Q F c (\<lambda>s. snd (GetIkParams env (obj :: 'd ObjectResource) s))"
| "resource_call env Q F c (\<lambda>s. snd (GetTools env robot s))"
| "resource_call env Q F c (\<lambda>s. snd (GetAttachedSensors env c (robot :: 'd RobotResource) b s))"
| "resource_call env Q F c (\<lambda>s. snd (GetEnvironmentState env Q (r :: WebResource) s))"
| "resource_call env Q F c (\<lambda>s. snd (GetAllRawProgramData env (r :: WebResource) u s))"
| "resource_call env Q F c (\<lambda>s. snd (GetRobotRawProgramData env (r :: WebResource) u v s))"
| "resource_call env Q F c (\<lambda>s. snd (GetPrograms env (r :: WebResource) u s))"
| "resource_call env Q F c (\<lambda>s. snd (DebugResource_Download env d t s))"
| "resource_call env Q F c (\<lambda>s. snd (Optimization_Execute env opt b s))"
| "resource_call env Q F c (\<lambda>s. snd (Cancel s))"
| "resource_call env Q F c (\<lambda>s. snd (Optimization_GetRunTimeStatus env opt st n s))"
| "resource_call env Q F c (\<lambda>s. snd (SetOptimizationParameters_robot env opt p s))"
| "resource_call env Q F c (\<lambda>s. snd (SetOptimizationParameters_placements env opt u i t1 t2 s))"
| "resource_call env Q F c (\<lambda>s. snd (GetResults env opt rs i j s))"
| "resource_call env Q F c (\<lambda>s. snd (Task_Execute env (task :: TaskResource) s))"
| "resource_call env Q F c (\<lambda>s. snd (Task_GetRunTimeStatus env (task :: TaskResource) st n s))"
| "resource_call env Q F c (\<lambda>s. snd (GetOrCreateOptimizationFromName_UTF8 env (task :: TaskResource) u v s))"
| "resource_call env Q F c (\<lambda>s. snd (GetOrCreateOptimizationFromName_UTF16 env (task :: TaskResource) wu v s))"
| "resource_call env Q F c (\<lambda>s. snd (GetOptimizationPrimaryKeys env (task :: TaskResource) s))"
| "resource_call env Q F c (\<lambda>s. snd (Task_GetResult env (task :: TaskResource) s))"
| "resource_call env Q F c (\<lambda>s. snd (GetTaskParameters env Q (task :: TaskResource) ip s))"
| "resource_call env Q F c (\<lambda>s. snd (SetTaskParameters env F (task :: TaskResource) ip s))"
| "resource_call env Q F c (\<lambda>s. snd (SetTransform env io pose s))"
| "resource_call env Q F c (\<lambda>s. snd (SetDOFValues env F io s))"
| "resource_call env Q F c (\<lambda>s. snd (GrabObject env io io' u v s))"
| "resource_call env Q F c (\<lambda>s. snd (ReleaseObject env io io' u v s))"
| "resource_call env Q F c (\<lambda>s. snd (GetOrCreateTaskFromName_UTF8 env Q c media sc u v i s))"
| "resource_call env Q F c (\<lambda>s. snd (GetOrCreateTaskFromName_UTF8_default env Q c media sc u i s))"
| "resource_call env Q F c (\<lambda>s. snd (GetOrCreateTaskFromName_UTF16 env Q c media sc wu v i s))"
| "resource_call env Q F c (\<lambda>s. snd (GetOrCreateBinPickingTaskFromName_UTF8 env Q c media sc u v i s))"
| "resource_call env Q F c (\<lambda>s. snd (GetOrCreateBinPickingTaskFromName_UTF16 env Q c media sc wu v i s))"
| "resource_call env Q F c (\<lambda>s. snd (GetTaskFromName_UTF8 env sc u s))"
| "resource_call env Q F c (\<lambda>s. snd (GetTaskFromName_UTF16 env sc wu s))"
| "resource_call env Q F c (\<lambda>s. snd (GetTaskPrimaryKeys env sc s))"
| "resource_call env Q F c (\<lambda>s. snd (GetTaskNames env sc s))"
| "resource_call env Q F c (\<lambda>s. snd (GetInstObjects env sc s))"
| "resource_call env Q F c (\<lambda>s. snd (FindInstObject env sc u s))"
| "resource_call env Q F c (\<lambda>s. snd (CreateInstObject env sc u v qs ts t s))"
| "resource_call env Q F c (\<lambda>s. snd (DeleteInstObject env sc u s))"
| "resource_call env Q F c (\<lambda>s. snd (Scene_Copy env sc u s))"
| "resource_call env Q F c (\<lambda>s. snd (SetInstObjectsState env sc ios sts s))"
| "resource_call env Q F c (\<lambda>s. snd (GetAllSensorSelectionInfos env sc s))"
| "resource_call env Q F c (\<lambda>s. snd (utils_GetAttachedSensors env c sc u s))"
| "resource_call env Q F c (\<lambda>s. snd (GetSensorData env c sc u v s))"
| "resource_call env Q F c (\<lambda>s. snd (GetSensorTransform env Q c sc u v w s))"
| "resource_call env Q F c (\<lambda>s. snd (DeleteObject env sc u s))"

context http_relation
begin

lemma resource_call_kept: "resource_call env Q F c f \<Longrightarrow> R s (f s)"
  by (induction rule: resource_call.induct; (rule ReleaseObject_kept | rule steady_snd, rule steady_methods))

end

end
