(* ===== verification/CommandLaws.thy ===== *)
theory CommandLaws
  imports BinPickingCommands ResourceLaws TaskProps ZmqLaws
begin

text \<open>
  What holds of every command of a bin picking task. The commands rely on \<^verbatim>\<open>ExecuteCommand\<close>, which
  is virtual: the locale \<open>command_relation\<close> states what they need of it, and is interpreted for
  the execution over HTTP and for the one over ZeroMQ. A second locale, \<open>refusing\<close>, is about tasks
  that have not been initialized.
\<close>

section \<open>Relations that commands keep\<close>

text \<open>However \<open>m\<close> leaves, the worlds before and after are related by \<open>R\<close>; with \<open>T\<close> it does leave.\<close>

definition kept :: "bool \<Rightarrow> ('d world \<Rightarrow> 'd world \<Rightarrow> bool) \<Rightarrow> ('d, 'a) tasks \<Rightarrow> bool" where
  "kept T R m \<longleftrightarrow> (\<forall>w. case m w of None \<Rightarrow> \<not> T | Some (r, w') \<Rightarrow> R w w')"

lemma keptD: "kept T R m \<Longrightarrow> m w = Some (r, w') \<Longrightarrow> R w w'"
  by (auto simp: kept_def split: option.split_asm dest: spec [of _ w])

lemma kept_returns: "kept True R m \<Longrightarrow> \<exists>r w'. m w = Some (r, w')"
  by (auto simp: kept_def split: option.split_asm dest: spec [of _ w])

lemma kept_bindT:
  assumes "transp R" "kept T R m" "\<And>x. kept T R (f x)"
  shows "kept T R (bindT m f)"
  unfolding kept_def
proof
  fix w
  show "case bindT m f w of None \<Rightarrow> \<not> T | Some (r, w') \<Rightarrow> R w w'"
  proof (cases "m w")
    case None
    with assms(2) show ?thesis by (auto simp: kept_def bindT_def dest: spec [of _ w])
  next
    case (Some p)
    obtain r w1 where p: "p = (r, w1)" by fastforce
    with keptD [OF assms(2)] Some have 1: "R w w1" by simp
    show ?thesis
    proof (cases r)
      case (Inr x)
      with assms(3) [of x] 1 Some p show ?thesis
        by (auto simp: kept_def bindT_def split: option.splits dest: spec [of _ w1] intro: transpD [OF assms(1) 1])
    qed (use 1 Some p in \<open>simp add: bindT_def\<close>)
  qed
qed

lemma kept_if: "(b \<Longrightarrow> kept T R m) \<Longrightarrow> (\<not> b \<Longrightarrow> kept T R n) \<Longrightarrow> kept T R (if b then m else n)"
  by simp

lemma kept_case: "(\<And>x y. p = (x, y) \<Longrightarrow> kept T R (g x y)) \<Longrightarrow> kept T R (case p of (x, y) \<Rightarrow> g x y)"
  by (cases p) simp

text \<open>The result is not looked at.\<close>

definition discard :: "('d, 'a) tasks \<Rightarrow> ('d, unit) tasks" where
  "discard m = bindT m (\<lambda>_. retT ())"

locale task_relation =
  fixes T :: bool and R :: "'d world \<Rightarrow> 'd world \<Rightarrow> bool"
  assumes reflexive: "reflp R" and transitive: "transp R"
    and parameters_change: "R w (w \<lparr> w_task := bp_mapTaskParameters_update (map_put k v) (w_task w) \<rparr>)"
    and state_change: "R w (w \<lparr> w_task := (w_task w) \<lparr> bp_taskstate := st \<rparr> \<rparr>)"
begin

lemma kept_atoms: "kept T R (retT x)" "kept T R (liftT r)" "kept T R (getT f)" "kept T R check_initialized"
proof -
  show 1: "kept T R (retT x)" "kept T R (liftT r)" "kept T R (getT f)" for x :: 'x and r :: "'y result" and f :: "_ \<Rightarrow> 'z"
    using reflpD [OF reflexive] by (simp_all add: kept_def task_defs)
  show "kept T R check_initialized"
    unfolding check_initialized_def by (intro kept_bindT [OF transitive] kept_if 1)
qed

lemma kept_changes:
  "kept T R (set_parameter k v)" "kept T R (set_execute b)" "kept T R (modifyT (bp_taskstate_update (\<lambda>_. st)))"
proof -
  show p: "kept T R (set_parameter k v)" for k v
    using parameters_change by (simp add: kept_def set_parameter_def modifyT_def)
  then show "kept T R (set_execute b)" by (simp add: set_execute_def)
  show "kept T R (modifyT (bp_taskstate_update (\<lambda>_. st)))"
    using state_change by (simp add: kept_def modifyT_def)
qed

lemmas kept_rules = kept_atoms kept_changes kept_bindT [OF transitive] kept_if kept_case

lemma kept_linear_parameters: "kept T R (set_linear_parameters Q F x y b)"
  unfolding set_linear_parameters_def Let_def by (intro kept_rules)

lemma kept_ignore: "kept T R m \<Longrightarrow> kept T R (ignore_reply m)"
  unfolding ignore_reply_def by (intro kept_rules)

lemma kept_parse: "kept T R m \<Longrightarrow> kept T R (parse_reply m f)"
  unfolding parse_reply_def by (intro kept_rules)

lemma kept_discard: "kept T R m \<Longrightarrow> kept T R (discard m)"
  unfolding discard_def by (intro kept_rules)

end

section \<open>The commands\<close>

text \<open>One command of the interface with its timeout.\<close>

inductive task_command ::
  "'d lib \<Rightarrow> 'd reals \<Rightarrow> 'd formats \<Rightarrow> 'd compiled \<Rightarrow> 'd exec \<Rightarrow> rat \<Rightarrow> ('d, unit) tasks \<Rightarrow> bool"
  for lib Q F c exec timeout where
  "task_command lib Q F c exec timeout (discard (exec text doc timeout))"
| "task_command lib Q F c exec timeout (discard (GetJointValues lib Q exec u timeout jr))"
| "task_command lib Q F c exec timeout (SetInstantaneousJointValues lib exec xs u timeout)"
| "task_command lib Q F c exec timeout (discard (ComputeIkParamPosition lib exec n u timeout ir))"
| "task_command lib Q F c exec timeout (discard (ComputeIKFromParameters lib exec n ns fo li timeout kr))"
| "task_command lib Q F c exec timeout (discard (MoveJoints lib F exec xs is x y timeout b mr))"
| "task_command lib Q F c exec timeout (discard (GetTransform lib Q exec n u timeout))"
| "task_command lib Q F c exec timeout (SendMVRRegistrationResult lib exec v timeout)"
| "task_command lib Q F c exec timeout (SendRemoveObjectsFromObjectListResult exec infos b timeout)"
| "task_command lib Q F c exec timeout (SendTriggerDetectionCaptureResult exec n u timeout)"
| "task_command lib Q F c exec timeout (BinPicking_SetTransform F exec n tr u timeout)"
| "task_command lib Q F c exec timeout (discard (GetManipTransformToRobot lib Q exec u timeout))"
| "task_command lib Q F c exec timeout (discard (GetManipTransform lib Q exec u timeout))"
| "task_command lib Q F c exec timeout (discard (GetAABB lib exec n u timeout ar))"
| "task_command lib Q F c exec timeout (discard (GetInnerEmptyRegionOBB lib exec n l u timeout br))"
| "task_command lib Q F c exec timeout (discard (GetOBB lib exec n l u timeout br))"
| "task_command lib Q F c exec timeout (UpdateObjects F exec n ds rs u timeout)"
| "task_command lib Q F c exec timeout (AddPointCloudObstacle Q F exec cloud t1 t2 b u occ loc b' ms off timeout)"
| "task_command lib Q F c exec timeout (UpdateEnvironmentState Q F exec n ds cloud rs u loc ns ms timeout)"
| "task_command lib Q F c exec timeout (RemoveObjectsWithPrefix exec n timeout)"
| "task_command lib Q F c exec timeout (VisualizePointCloud F exec pss x ns u timeout)"
| "task_command lib Q F c exec timeout (ClearVisualization exec timeout)"
| "task_command lib Q F c exec timeout (discard (GetPickedPositions lib exec u timeout pr))"
| "task_command lib Q F c exec timeout (discard (IsRobotOccludingBody lib exec n l t1 t2 timeout))"
| "task_command lib Q F c exec timeout (discard (GetInstObjectAndSensorInfo lib Q c d0 exec ns sel u timeout sr))"
| "task_command lib Q F c exec timeout (discard (GetInstObjectInfoFromURI lib F exec n tr u timeout our))"
| "task_command lib Q F c exec timeout (discard (GetBinpickingState lib Q c exec n u timeout st))"
| "task_command lib Q F c exec timeout (discard (GetITLState lib Q c exec n u timeout st))"
| "task_command lib Q F c exec timeout (SetJogModeVelocities Q F exec n is l u x y timeout)"
| "task_command lib Q F c exec timeout (discard (MoveToolLinear lib Q F exec g xs n l x y b timeout b'))"
| "task_command lib Q F c exec timeout (discard (MoveToolLinear_ikparam lib Q F exec i k n l x y b timeout b'))"
| "task_command lib Q F c exec timeout (discard (MoveToHandPosition lib Q F exec g xs n l x timeout y b'))"
| "task_command lib Q F c exec timeout (discard (MoveToHandPosition_ikparam lib Q F exec i k n l x timeout y b'))"
| "task_command lib Q F c exec timeout (discard (GetGrabbed lib exec n timeout))"
| "task_command lib Q F c exec timeout (ExecuteSingleXMLTrajectory exec n b timeout)"
| "task_command lib Q F c exec timeout (Grab exec n l u timeout)"
| "task_command lib Q F c exec timeout (Release exec n l u timeout)"
| "task_command lib Q F c exec timeout (discard (GetRobotBridgeIOVariableString lib exec ns vs timeout))"

text \<open>What the commands need of the execution, for the timeouts that are \<open>allowed\<close>.\<close>

locale command_relation = task_relation T R for T :: bool and R :: "'d world \<Rightarrow> 'd world \<Rightarrow> bool" +
  fixes exec :: "'d exec" and allowed :: "rat \<Rightarrow> bool"
  assumes executed: "allowed timeout \<Longrightarrow> kept T R (exec text doc timeout)"
begin

lemma kept_command:
  "allowed timeout \<Longrightarrow> kept T R (command exec parts doc timeout)"
  "allowed timeout \<Longrightarrow> kept T R (command_value lib exec name jparts timeout)"
  "allowed timeout \<Longrightarrow> kept T R (run_motion lib exec txt timeout b)"
  unfolding command_def command_value_def run_motion_def by (intro kept_rules executed kept_parse; assumption)+

lemmas command_rules = kept_rules kept_command executed kept_ignore kept_parse kept_discard kept_linear_parameters

lemma kept_published: "allowed timeout \<Longrightarrow> kept T R (GetPublishedTaskState lib Q c exec n u timeout st)"
  unfolding GetPublishedTaskState_def GetBinpickingState_def GetITLState_def get_state_def
  by (intro command_rules; assumption)

lemma kept_task_command: "task_command lib Q F c exec timeout m \<Longrightarrow> allowed timeout \<Longrightarrow> kept T R m"
proof (induction rule: task_command.induct)
qed (unfold GetJointValues_def SetInstantaneousJointValues_def ComputeIkParamPosition_def
    ComputeIKFromParameters_def MoveJoints_def GetTransform_def transform_command_def SendMVRRegistrationResult_def
    SendRemoveObjectsFromObjectListResult_def SendTriggerDetectionCaptureResult_def BinPicking_SetTransform_def
    GetManipTransformToRobot_def GetManipTransform_def GetAABB_def GetInnerEmptyRegionOBB_def GetOBB_def
    UpdateObjects_def AddPointCloudObstacle_def UpdateEnvironmentState_def RemoveObjectsWithPrefix_def
    VisualizePointCloud_def ClearVisualization_def GetPickedPositions_def IsRobotOccludingBody_def
    GetInstObjectAndSensorInfo_def GetInstObjectInfoFromURI_def GetBinpickingState_def GetITLState_def get_state_def
    SetJogModeVelocities_def MoveToolLinear_def MoveToolLinear_ikparam_def MoveToHandPosition_def
    MoveToHandPosition_ikparam_def GetGrabbed_def ExecuteSingleXMLTrajectory_def Grab_def Release_def
    GetRobotBridgeIOVariableString_def,
    (intro command_rules; assumption)+)

lemma kept_called:
  assumes "task_command lib Q F c exec timeout m \<or> m = discard (GetPublishedTaskState lib Q c exec n u timeout st)"
    and "allowed timeout"
  shows "kept T R m"
  using assms kept_task_command [of lib Q F c timeout m] kept_published [THEN kept_discard] by auto

end

section \<open>Execution over HTTP\<close>

text \<open>Between the commands a task keeps all but the key of its job, its parameters and its state, and the
  parameters stay in order.\<close>

definition commanded :: "'d BinPickingTask \<Rightarrow> 'd BinPickingTask \<Rightarrow> bool" where
  "commanded t t' \<longleftrightarrow>
     resourcename t' = resourcename t \<and> primary_key t' = primary_key t \<and> bp_mujinControllerIp t' = bp_mujinControllerIp t \<and>
     bp_zmqcontext t' = bp_zmqcontext t \<and> bp_zmqPort t' = bp_zmqPort t \<and> bp_heartbeatPort t' = bp_heartbeatPort t \<and>
     bp_rUserInfo t' = bp_rUserInfo t \<and> bp_rSceneParams t' = bp_rSceneParams t \<and> bp_sceneparams_json t' = bp_sceneparams_json t \<and>
     bp_userinfo_json t' = bp_userinfo_json t \<and> bp_slaverequestid t' = bp_slaverequestid t \<and> bp_scenepk t' = bp_scenepk t \<and>
     bp_callerid t' = bp_callerid t \<and> bp_tasktype t' = bp_tasktype t \<and> bp_bIsInitialized t' = bp_bIsInitialized t \<and>
     bp_bShutdownHeartbeatMonitor t' = bp_bShutdownHeartbeatMonitor t \<and>
     bp_pHeartbeatMonitorThread t' = bp_pHeartbeatMonitorThread t \<and>
     (sorted_wrt (<) (map fst (bp_mapTaskParameters t)) \<longrightarrow> sorted_wrt (<) (map fst (bp_mapTaskParameters t')))"

definition over_client :: "('d client \<Rightarrow> 'd client \<Rightarrow> bool) \<Rightarrow> 'd world \<Rightarrow> 'd world \<Rightarrow> bool" where
  "over_client R w w' \<longleftrightarrow> R (w_client w) (w_client w') \<and> commanded (w_task w) (w_task w')"

lemma map_put_keys: "set (map fst (map_put k v m)) = insert k (set (map fst m))"
  by (induction k v m rule: map_put.induct) auto

lemma map_put_sorted: "sorted_wrt (<) (map fst m) \<Longrightarrow> sorted_wrt (<) (map fst (map_put k v m))"
  by (induction k v m rule: map_put.induct) (auto simp: map_put_keys simp flip: set_map)

lemma commanded_refl: "commanded t t" and commanded_trans: "commanded t t' \<Longrightarrow> commanded t' t'' \<Longrightarrow> commanded t t''"
  by (simp_all add: commanded_def)

lemma commanded_updates:
  "commanded t (bp_mapTaskParameters_update (map_put k v) t)" "commanded t (t \<lparr> bp_taskstate := st \<rparr>)"
  "commanded t (t \<lparr> task_jobpk := j \<rparr>)"
  by (simp_all add: commanded_def map_put_sorted)

sublocale http_relation < world: task_relation False "over_client R"
proof
  show "reflp (over_client R)"
    using reflpD [OF reflexive] by (simp add: reflp_def over_client_def commanded_refl)
  show "transp (over_client R)"
    by (auto simp: transp_def over_client_def intro: transpD [OF transitive] commanded_trans)
qed (use reflpD [OF reflexive] in \<open>simp_all add: over_client_def commanded_updates\<close>)

context http_relation
begin

lemma steady_result_requests: "steady R (BinPicking_GetResult env t)" "steady R (GetResultJson env r pt)"
  unfolding BinPicking_GetResult_def GetResultJson_def by (intro list_rules)+

lemma poll_result_kept:
  assumes "poll_result e Q F t b timeout v x s = Some y"
  shows "e = env \<longrightarrow> R s (snd y)"
proof (rule poll_result.raw_induct [OF _ assms, where P = "\<lambda>e Q F t b timeout v x s y. e = env \<longrightarrow> R s (snd y)"])
  fix poll e Q F t b timeout v x s y
  assume 1: "\<And>e Q F t b timeout v x s y. poll e Q F t b timeout v x s = Some y \<Longrightarrow> e = env \<longrightarrow> R s (snd y)"
    "(case BinPicking_GetResult e t s of
        (Inl z, s) \<Rightarrow> Some (Inl z, s)
      | (Inr None, s) \<Rightarrow>
          (let x = r_add Q x (r_lit Q (1 / 10)) in
           if timeout \<noteq> 0 \<and> r_less Q (r_lit Q timeout) x
           then Some (thenM (CancelAllJobs e) (throw (operation_timed_out F x)) s)
           else poll e Q F t b timeout v x s)
      | (Inr (Some r), s) \<Rightarrow> Some (if b then GetResultJson e r v s else (Inr v, s))) = Some y"
  show "e = env \<longrightarrow> R s (snd y)"
  proof
    assume e: "e = env"
    obtain q s' where get: "BinPicking_GetResult env t s = (q, s')" by fastforce
    note 2 = steadyD [OF steady_result_requests(1) get]
    have 3: "R s' (snd (GetResultJson env r v s'))" for r :: WebResource
      using steady_snd [OF steady_result_requests(2)] .
    have "steady R (thenM (CancelAllJobs env) (throw z))" for z by (intro resource_rules)
    note 4 = steady_snd [OF this, of s']
    have 5: "poll env Q F t b u v x' s' = Some y \<Longrightarrow> R s' (snd y)" for u x'
      using 1(1) by blast
    from 1(2) get e 3 4 5 reflpD [OF reflexive, of s'] have "q = Inr z \<Longrightarrow> R s' (snd y)" for z
      by (auto simp: Let_def split: option.splits if_splits)
    with 1(2) get e 2 show "R s (snd y)"
      by (cases q) (auto intro: transpD [OF transitive])
  qed
qed

lemma Task_Execute_job: "Task_Execute env t s = (Inr t', s') \<Longrightarrow> \<exists>j. t' = t \<lparr> task_jobpk := j \<rparr>"
  by (auto simp: Task_Execute_def monad_Inr split: prod.splits)

lemma ExecuteCommand_web_kept: "kept False (over_client R) (ExecuteCommand_web env Q F stamp b text v timeout)"
  unfolding kept_def
proof
  fix w :: "'d world"
  let ?t = "w_task w"
  obtain q1 s1 where put: "CallPutJSON env (''task/'' @ primary_key ?t @ ''/?format=json'') (web_command_text ?t stamp text) 202 5
      (w_client w) = (q1, s1)" by fastforce
  obtain q2 s2 where exe: "Task_Execute env ?t s1 = (q2, s2)" by fastforce
  note 1 = steadyD [OF steady_put_delete(3) put]
  note 2 = transpD [OF transitive 1 steadyD [OF steady_task(1) exe]]
  note 3 = transpD [OF transitive 2 poll_result_kept [THEN mp]]
  show "case ExecuteCommand_web env Q F stamp b text v timeout w of None \<Rightarrow> \<not> False | Some (r, w') \<Rightarrow> over_client R w w'"
  proof (cases "bp_bIsInitialized ?t")
    case True
    then show ?thesis
      using put exe 1 2 3 reflpD [OF reflexive, of "w_client w"] Task_Execute_job [of ?t s1]
      by (auto simp: ExecuteCommand_web_def check_initialized_def task_defs over_client_def commanded_refl commanded_updates
          split: sum.splits option.splits)
  next
    case False
    then show ?thesis
      using reflpD [OF reflexive, of "w_client w"]
      by (simp add: ExecuteCommand_web_def check_initialized_def task_defs over_client_def commanded_refl)
  qed
qed

end

sublocale http_relation < web: command_relation False "over_client R" "ExecuteCommand_web env Q F stamp True" "\<lambda>_. True"
  for Q F stamp
  by unfold_locales (rule ExecuteCommand_web_kept)

end
