(* ===== verification/CommandProps.thy ===== *)
theory CommandProps
  imports CommandLaws HttpProps HeartbeatProps
begin

text \<open>
  The executions of commands satisfy the locales of the theory CommandLaws, and what follows for the process:
  the invariant of a client and a task in every run, commands that return, and commands of a task that
  is not initialized.
\<close>

section \<open>Execution over ZeroMQ\<close>

abbreviation polls :: "zmq_env \<Rightarrow> bool" where
  "polls zenv \<equiv> \<forall>k. raw_poll zenv k \<noteq> Inl EAGAIN"

text \<open>A call with this timeout does not wait for ever: it is not 0, or there is always a message.\<close>

definition bounded_wait :: "zmq_env \<Rightarrow> rat \<Rightarrow> bool" where
  "bounded_wait zenv timeout \<longleftrightarrow> timeout \<noteq> 0 \<or> (\<forall>k. raw_poll zenv k \<noteq> Inr False)"

interpretation apart: task_relation T "over_client (=)" for T
  by unfold_locales (auto simp: reflp_def transp_def over_client_def commanded_refl commanded_updates intro: commanded_trans)

lemma kept_connect: "kept T (over_client (=)) (connect_zmq zenv)"
  by (simp add: kept_def connect_zmq_def Let_def over_client_def commanded_refl split: prod.split sum.split)

lemma call_effect: "call_zmq zenv cmd timeout w = Some (r, w') \<Longrightarrow> over_client (=) w w'"
  by (auto simp: call_zmq_def over_client_def commanded_refl)

lemma kept_call: "kept (polls zenv \<and> bounded_wait zenv timeout) (over_client (=)) (call_zmq zenv cmd timeout)"
  unfolding kept_def
proof
  fix w
  show "case call_zmq zenv cmd timeout w of None \<Rightarrow> \<not> (polls zenv \<and> bounded_wait zenv timeout) | Some (r, w') \<Rightarrow> over_client (=) w w'"
    using ZmqClient_Call_ends [of zenv timeout cmd 0 "w_zmq w"] call_effect [of zenv cmd timeout w]
    by (cases "polls zenv \<and> bounded_wait zenv timeout")
      (auto simp: call_zmq_def bounded_wait_def split: option.split)
qed

lemma kept_weaker:
  assumes "kept T R m" "T' \<Longrightarrow> T"
  shows "kept T' R m"
  unfolding kept_def
proof
  fix w
  show "case m w of None \<Rightarrow> \<not> T' | Some (r, w') \<Rightarrow> R w w'"
    using spec [OF assms(1) [unfolded kept_def], of w] assms(2) by (cases "m w") auto
qed

lemma kept_rename: "kept T R m \<Longrightarrow> kept T R (rename_timeout e m)"
  unfolding kept_def
proof
  fix w
  assume "\<forall>w. case m w of None \<Rightarrow> \<not> T | Some (r, w') \<Rightarrow> R w w'"
  then show "case rename_timeout e m w of None \<Rightarrow> \<not> T | Some (r, w') \<Rightarrow> R w w'"
    by (cases "m w") (auto simp: rename_timeout_def dest: spec [of _ w])
qed

lemma kept_catch:
  assumes "kept T (over_client (=)) m"
  shows "kept T (over_client (=)) (catch_no_response zenv m)"
  unfolding kept_def
proof
  fix w
  have again: "kept T (over_client (=)) (bindT (connect_zmq zenv) (\<lambda>_. retT []))"
    by (intro apart.kept_rules kept_connect)
  show "case catch_no_response zenv m w of None \<Rightarrow> \<not> T | Some (r, w') \<Rightarrow> over_client (=) w w'"
  proof (cases "m w")
    case None
    with assms show ?thesis by (auto simp: kept_def catch_no_response_def dest: spec [of _ w])
  next
    case (Some p)
    obtain r w1 where p: "p = (r, w1)" by fastforce
    with keptD [OF assms] Some have "over_client (=) w w1" by simp
    with again Some p show ?thesis
      by (auto simp: kept_def catch_no_response_def intro: transpD [OF apart.transitive]
          split: option.splits sum.splits dest: spec [of _ w1])
  qed
qed

lemma kept_ExecuteCommandZMQ:
  "kept (polls zenv \<and> bounded_wait zenv timeout) (over_client (=)) (ExecuteCommandZMQ lib zenv cmd timeout)"
proof -
  have "kept T (over_client (=)) (\<lambda>w. if w_connected w then retT () w else connect_zmq zenv w)" for T
    using kept_connect [of T zenv] apart.kept_atoms(1) [of T "()"] by (auto simp only: kept_def split: if_split)
  then show ?thesis
    unfolding ExecuteCommandZMQ_def by (intro apart.kept_rules kept_catch kept_call)
qed

lemma kept_ExecuteCommand_zmq:
  "kept (polls zenv \<and> bounded_wait zenv timeout) (over_client (=)) (ExecuteCommand_zmq lib zenv stamp cmd doc timeout)"
  unfolding ExecuteCommand_zmq_def by (intro apart.kept_rules kept_rename kept_ExecuteCommandZMQ)

text \<open>Once as it is, whatever the timeout, and once where it returns.\<close>

interpretation zmq: command_relation False "over_client (=)" "ExecuteCommand_zmq lib zenv stamp" "\<lambda>_. True"
  for lib zenv stamp
  by unfold_locales (blast intro: kept_weaker [OF kept_ExecuteCommand_zmq])

interpretation zmq_returning: command_relation "polls zenv" "over_client (=)" "ExecuteCommand_zmq lib zenv stamp" "bounded_wait zenv"
  for lib zenv stamp
  by unfold_locales (blast intro: kept_weaker [OF kept_ExecuteCommand_zmq])

section \<open>Commands over HTTP that return\<close>

text \<open>The sum of the intervals exceeds the timeout at some point.\<close>

definition passes :: "'d reals \<Rightarrow> rat \<Rightarrow> bool" where
  "passes Q timeout \<longleftrightarrow> timeout \<noteq> 0 \<and> (\<exists>n. r_less Q (r_lit Q timeout) ((tick Q ^^ Suc n) (r_lit Q 0)))"

interpretation returning: command_relation True "\<lambda>_ _. True" "ExecuteCommand_web env Q F stamp b" "passes Q"
  for env Q F stamp b
proof unfold_locales
  show "kept True (\<lambda>_ _. True) (ExecuteCommand_web env Q F stamp b cmd doc timeout)" if "passes Q timeout" for cmd doc timeout
    using that web_returns [of timeout Q _ env F stamp b cmd doc] unfolding passes_def kept_def
    by (fastforce split: option.split)
qed (simp_all add: reflp_def transp_def)

section \<open>Tasks that are not initialized\<close>

definition untouched :: "'d world \<Rightarrow> 'd world \<Rightarrow> bool" where
  "untouched w w' \<longleftrightarrow> w_client w' = w_client w \<and> w_zmq w' = w_zmq w \<and> w_connected w' = w_connected w \<and>
     bp_bIsInitialized (w_task w') = bp_bIsInitialized (w_task w)"

interpretation quiet: task_relation True untouched
  by unfold_locales (auto simp: reflp_def transp_def untouched_def)

text \<open>An exception, without a request.\<close>

definition refused :: "('d, 'a) tasks \<Rightarrow> bool" where
  "refused m \<longleftrightarrow> (\<forall>w. \<not> bp_bIsInitialized (w_task w) \<longrightarrow> (\<exists>e w'. m w = Some (Inl e, w') \<and> untouched w w'))"

lemma refused_first: "refused m \<Longrightarrow> refused (bindT m f)"
  by (fastforce simp: refused_def bindT_def)

lemma refused_later:
  fixes m :: "('d, 'a) tasks"
  assumes "kept True untouched m" "\<And>x. refused (f x)"
  shows "refused (bindT m f)"
  unfolding refused_def
proof (intro allI impI)
  fix w :: "'d world"
  assume w: "\<not> bp_bIsInitialized (w_task w)"
  obtain r w1 where m: "m w = Some (r, w1)" using kept_returns [OF assms(1)] by blast
  with keptD [OF assms(1)] have 1: "untouched w w1" by blast
  show "\<exists>e w'. bindT m f w = Some (Inl e, w') \<and> untouched w w'"
  proof (cases r)
    case (Inr x)
    from w 1 have "\<not> bp_bIsInitialized (w_task w1)" by (simp add: untouched_def)
    with assms(2) [of x] obtain e w' where "f x w1 = Some (Inl e, w')" "untouched w1 w'"
      unfolding refused_def by blast
    with m Inr transpD [OF quiet.transitive 1] show ?thesis by (auto simp: bindT_def)
  qed (use m 1 in \<open>simp add: bindT_def\<close>)
qed

lemma refused_check: "refused (bindT check_initialized f)"
  using reflpD [OF quiet.reflexive] by (auto simp: refused_def check_initialized_def task_defs)

lemma refused_rename: "refused m \<Longrightarrow> refused (rename_timeout e m)"
  by (fastforce simp: refused_def rename_timeout_def)

text \<open>An execution that refuses tasks that are not initialized.\<close>

locale refusing =
  fixes exec :: "'d exec"
  assumes exec_refuses: "refused (exec text doc timeout)"
begin

lemma refused_reply: "refused m \<Longrightarrow> refused (ignore_reply m)" "refused m \<Longrightarrow> refused (parse_reply m f)"
  unfolding ignore_reply_def parse_reply_def by (erule refused_first)+

lemma refused_command:
  "refused (command exec parts doc timeout)" "refused (command_value lib exec name jparts timeout)"
  "refused (run_motion lib exec txt timeout b)"
  unfolding command_def command_value_def run_motion_def
  by (intro refused_later quiet.kept_rules exec_refuses refused_reply)+

lemmas refused_rules = refused_later refused_command refused_reply exec_refuses quiet.kept_rules quiet.kept_linear_parameters

lemma refused_discard: "refused m \<Longrightarrow> refused (discard m)"
  unfolding discard_def by (rule refused_first)

lemma refused_task_command: "task_command lib Q F c exec timeout m \<Longrightarrow> refused m"
proof (induction rule: task_command.induct)
qed (unfold GetJointValues_def SetInstantaneousJointValues_def ComputeIkParamPosition_def
    ComputeIKFromParameters_def MoveJoints_def GetTransform_def transform_command_def SendMVRRegistrationResult_def
    SendRemoveObjectsFromObjectListResult_def SendTriggerDetectionCaptureResult_def BinPicking_SetTransform_def
    GetManipTransformToRobot_def GetManipTransform_def GetAABB_def GetInnerEmptyRegionOBB_def GetOBB_def
    UpdateObjects_def AddPointCloudObstacle_def UpdateEnvironmentState_def RemoveObjectsWithPrefix_def
    VisualizePointCloud_def ClearVisualization_def GetPickedPositions_def IsRobotOccludingBody_def
    GetInstObjectAndSensorInfo_def GetInstObjectInfoFromURI_def GetBinpickingState_def GetITLState_def get_state_def
    SetJogModeVelocities_def MoveToolLinear_def MoveToolLinear_ikparam_def MoveToHandPosition_def
    MoveToHandPosition_ikparam_def GetGrabbed_def ExecuteSingleXMLTrajectory_def Grab_def Release_def
    GetRobotBridgeIOVariableString_def,
    (intro refused_discard refused_rules)+)

end

interpretation web_refuses: refusing "ExecuteCommand_web env Q F stamp b" for env Q F stamp b
  by unfold_locales (simp add: ExecuteCommand_web_def refused_check)

interpretation zmq_refuses: refusing "ExecuteCommand_zmq lib zenv stamp" for lib zenv stamp
  by unfold_locales (unfold ExecuteCommand_zmq_def ExecuteCommandZMQ_def,
    intro refused_later refused_rename refused_check quiet.kept_rules)

section \<open>Runs of a process\<close>

text \<open>A client and a task of it: calls and settings of the client, methods of other resources, initialization and
  commands of the task, over HTTP or over ZeroMQ, however they end.\<close>

inductive process_run ::
  "'d http_env \<Rightarrow> 'd reals \<Rightarrow> 'd formats \<Rightarrow> 'd compiled \<Rightarrow> zmq_env \<Rightarrow> 'd world \<Rightarrow> bool"
  for env Q F c zenv where
  web_task: "client_run env s \<Longrightarrow> BinPickingTaskResource_new env Q c media pk scenepk tasktype s = (Inr t, s') \<Longrightarrow>
    process_run env Q F c zenv \<lparr> w_client = s', w_task = t, w_zmq = z, w_connected = False \<rparr>"
| zmq_task: "client_run env s \<Longrightarrow> BinPickingTaskZmqResource_new env Q c media pk scenepk tasktype s = (Inr t, s') \<Longrightarrow>
    process_run env Q F c zenv \<lparr> w_client = s', w_task = t, w_zmq = z, w_connected = False \<rparr>"
| called: "process_run env Q F c zenv w \<Longrightarrow> client_call env f \<or> client_setting env f \<or> resource_call env Q F c f \<Longrightarrow>
    process_run env Q F c zenv (w \<lparr> w_client := f (w_client w) \<rparr>)"
| initialized: "process_run env Q F c zenv w \<Longrightarrow> Initialize (json_lib env) ps ports ui slave w = Some (r, w') \<Longrightarrow>
    process_run env Q F c zenv w'"
| initialized_zmq: "process_run env Q F c zenv w \<Longrightarrow>
    Initialize_zmq (json_lib env) zenv ps port hport ctx b reinit timeout ui slave w = Some (r, w') \<Longrightarrow> process_run env Q F c zenv w'"
| monitored: "process_run env Q F c zenv w \<Longrightarrow> InitializeZMQ c reinit timeout w = Some (r, w') \<Longrightarrow> process_run env Q F c zenv w'"
| caller: "process_run env Q F c zenv w \<Longrightarrow> SetCallerId u w = Some (r, w') \<Longrightarrow> process_run env Q F c zenv w'"
| commanded: "process_run env Q F c zenv w \<Longrightarrow>
    exec = ExecuteCommand_web env Q F stamp True \<or> exec = ExecuteCommand_zmq (json_lib env) zenv stamp \<Longrightarrow>
    task_command (json_lib env) Q F c exec timeout m \<or> m = discard (GetPublishedTaskState (json_lib env) Q c exec n u timeout st) \<Longrightarrow>
    m w = Some (r, w') \<Longrightarrow> process_run env Q F c zenv w'"

text \<open>What a task keeps: it has a key, the text of the scene parameters is that of the JSON value, the user
  information is null or what its text says, and there is none before the task is initialized, the task parameters are in
  order, and a thread that watches heartbeats has not been told to end.\<close>

definition task_ok :: "'d lib \<Rightarrow> 'd BinPickingTask \<Rightarrow> bool" where
  "task_ok lib t \<longleftrightarrow> resourcename t = ''task'' \<and> primary_key t \<noteq> [] \<and>
     DumpJson lib (bp_rSceneParams t) 0 = Inr (bp_sceneparams_json t) \<and>
     (bp_rUserInfo t = JNull \<or> ParseJson lib (bp_userinfo_json t) = Inr (bp_rUserInfo t)) \<and>
     (bp_bIsInitialized t \<or> bp_userinfo_json t = [] \<and> bp_slaverequestid t = []) \<and>
     sorted_wrt (<) (map fst (bp_mapTaskParameters t)) \<and>
     (bp_pHeartbeatMonitorThread t = None \<or> bp_bShutdownHeartbeatMonitor t = Some False)"

definition process_ok :: "'d http_env \<Rightarrow> 'd world \<Rightarrow> bool" where
  "process_ok env w \<longleftrightarrow> idle (w_client w) \<and> consistent (w_client w) \<and> task_ok (json_lib env) (w_task w)"

lemma commanded_ok: "commanded t t' \<Longrightarrow> task_ok lib t \<Longrightarrow> task_ok lib t'"
  by (auto simp: commanded_def task_ok_def)

lemma over_client_ok:
  assumes "over_client calm w w'" "over_client grows w w'" "process_ok env w"
  shows "process_ok env w'"
  using assms calm_idle grows_consistent commanded_ok unfolding process_ok_def over_client_def by blast

lemma over_same_ok: "over_client (=) w w' \<Longrightarrow> process_ok env w \<Longrightarrow> process_ok env w'"
  using commanded_ok unfolding process_ok_def over_client_def by metis

lemma called_ok:
  assumes "client_call env f \<or> client_setting env f \<or> resource_call env Q F c f" "idle s" "consistent s"
  shows "idle (f s) \<and> consistent (f s)"
  using assms calm_idle [OF calm_call] grows_consistent [OF grows_call] keeps_setting [of env f s]
    calm_idle [OF calm.resource_call_kept] grows_consistent [OF grows.resource_call_kept]
  unfolding keeps_def by blast

lemma new_task_ok:
  assumes "BinPickingTaskResource_new env Q c media pk scenepk tasktype s = (Inr t, s')"
  shows "s' = s \<and> task_ok (json_lib env) t"
  using assms
  by (auto simp: BinPickingTaskResource_new_def monad_Inr TaskResource_new_def check_pk_def check_assert_def task_ok_def
      TaskResource.extend_def split: if_splits)

lemma new_zmq_task_ok:
  assumes "BinPickingTaskZmqResource_new env Q c media pk scenepk tasktype s = (Inr t, s')"
  shows "s' = s \<and> task_ok (json_lib env) t"
  using assms new_task_ok by (fastforce simp: BinPickingTaskZmqResource_new_def monad_Inr task_ok_def)

text \<open>Nothing but the task parameters changes when the defaults are stored.\<close>

definition parameters_change :: "'d world \<Rightarrow> 'd world \<Rightarrow> bool" where
  "parameters_change w w' \<longleftrightarrow> (\<exists>ps. sorted_wrt (<) (map fst ps) \<and>
     w' = w \<lparr> w_task := w_task w \<lparr> bp_mapTaskParameters := ps \<rparr> \<rparr>)"

lemma store_defaults_effect:
  "store_defaults lib ms w = Some (r, w') \<Longrightarrow> sorted_wrt (<) (map fst (bp_mapTaskParameters (w_task w))) \<Longrightarrow> parameters_change w w'"
proof (induction ms arbitrary: w)
  case Nil
  then show ?case by (auto simp: task_defs parameters_change_def intro!: exI [of _ "bp_mapTaskParameters (w_task w)"])
next
  case (Cons m ms)
  obtain name v where m: "m = (name, v)" by fastforce
  show ?case
  proof (cases "write_json lib 0 v")
    case None
    with Cons.prems show ?thesis
      by (auto simp: m task_defs parameters_change_def intro!: exI [of _ "bp_mapTaskParameters (w_task w)"])
  next
    case (Some written)
    let ?w = "w \<lparr> w_task := bp_mapTaskParameters_update (map_put (c_str name) written) (w_task w) \<rparr>"
    from Some Cons.prems(1) have "store_defaults lib ms ?w = Some (r, w')" by (simp add: m task_defs)
    from Cons.IH [OF this] Cons.prems(2) show ?thesis by (auto simp: map_put_sorted parameters_change_def)
  qed
qed

lemma load_defaults_effect: "load_defaults lib ps w = Some (r, w') \<Longrightarrow> parameters_change w w'"
proof -
  let ?w = "w \<lparr> w_task := w_task w \<lparr> bp_mapTaskParameters := [] \<rparr> \<rparr>"
  have here: "parameters_change w ?w" unfolding parameters_change_def by (rule exI [of _ "[]"]) simp
  have there: "parameters_change ?w w' \<Longrightarrow> parameters_change w w'" by (auto simp: parameters_change_def)
  assume "load_defaults lib ps w = Some (r, w')"
  then have "w' = ?w \<or> (\<exists>ms. store_defaults lib ms ?w = Some (r, w'))"
    by (auto simp: load_defaults_def task_defs split: sum.splits json.splits)
  with here there store_defaults_effect [where w = ?w and lib = lib and r = r and w' = w'] show ?thesis by auto
qed

lemma modify_then: "bindT (modifyT f) g w = g () (w \<lparr> w_task := f (w_task w) \<rparr>)"
  by (simp add: task_defs)

definition initialized_task :: "(32 word \<times> 32 word \<times> nat option) option \<Rightarrow> 'd BinPickingTask \<Rightarrow> 'd BinPickingTask" where
  "initialized_task zmq t = (case zmq of
     Some (zmqPort, heartbeatPort, context) \<Rightarrow>
       t \<lparr> bp_zmqPort := zmqPort, bp_heartbeatPort := heartbeatPort, bp_zmqcontext := context \<rparr>
   | None \<Rightarrow> t) \<lparr> bp_bIsInitialized := True, bp_rUserInfo := JNull \<rparr>"

lemma initialized_task_ok:
  "task_ok lib t \<Longrightarrow> task_ok lib (initialized_task zmq t)"
  "task_ok lib t \<Longrightarrow> ParseJson lib userinfo = Inr info \<Longrightarrow> task_ok lib (initialized_task zmq t
     \<lparr> bp_rUserInfo := info, bp_userinfo_json := userinfo, bp_slaverequestid := slave \<rparr>)"
  by (auto simp: initialized_task_def task_ok_def split: option.split)

lemma Initialize_eq:
  "Initialize lib ps zmq ui slave =
     bindT (if length ps > 0 then load_defaults lib ps else retT ()) (\<lambda>_ w.
       case ParseJson lib ui of
         Inl e \<Rightarrow> Some (Inl e, w \<lparr> w_task := initialized_task zmq (w_task w) \<rparr>)
       | Inr info \<Rightarrow> Some (Inr (), w \<lparr> w_task := initialized_task zmq (w_task w)
           \<lparr> bp_rUserInfo := info, bp_userinfo_json := ui, bp_slaverequestid := slave \<rparr> \<rparr>))"
  unfolding Initialize_def modify_then
  by (intro arg_cong [where f = "bindT _"] ext)
    (simp add: initialized_task_def bindT_def liftT_def modifyT_def split: sum.split)

lemma Initialize_ok:
  assumes "Initialize lib ps zmq ui slave w = Some (r, w')"
  shows "w_client w' = w_client w \<and> (task_ok lib (w_task w) \<longrightarrow> task_ok lib (w_task w'))"
proof -
  obtain r1 w1 where first: "(if length ps > 0 then load_defaults lib ps else retT ()) w = Some (r1, w1)"
    using assms by (auto simp: Initialize_eq bindT_def bind_eq_Some_conv)
  have "w_client w1 = w_client w" "task_ok lib (w_task w) \<longrightarrow> task_ok lib (w_task w1)"
    using first load_defaults_effect [of lib ps w r1 w1]
    by (auto simp: retT_def parameters_change_def task_ok_def split: if_splits)
  moreover have "w' = w1 \<or> w' = w1 \<lparr> w_task := initialized_task zmq (w_task w1) \<rparr> \<or>
      (\<exists>info. ParseJson lib ui = Inr info \<and> w' = w1 \<lparr> w_task := initialized_task zmq (w_task w1)
         \<lparr> bp_rUserInfo := info, bp_userinfo_json := ui, bp_slaverequestid := slave \<rparr> \<rparr>)"
    using assms unfolding Initialize_eq bindT_def first by (auto split: sum.splits)
  ultimately show ?thesis
    using initialized_task_ok by auto
qed

lemma start_monitor_ok: "task_ok lib t \<Longrightarrow> task_ok lib (start_monitor reinit timeout t)"
  by (auto simp: task_ok_def start_monitor_def)

text \<open>An operation that leaves a process in order.\<close>

definition in_order :: "'d http_env \<Rightarrow> ('d, 'a) tasks \<Rightarrow> bool" where
  "in_order env m \<longleftrightarrow> (\<forall>w r w'. m w = Some (r, w') \<longrightarrow> process_ok env w \<longrightarrow> process_ok env w')"

lemma in_order_bindT: "in_order env m \<Longrightarrow> (\<And>x. in_order env (f x)) \<Longrightarrow> in_order env (bindT m f)"
  by (fastforce simp: in_order_def bindT_def split: bind_splits sum.splits)

lemma in_order_Initialize: "in_order env (Initialize (json_lib env) ps ports ui slave)"
  using Initialize_ok by (fastforce simp: in_order_def process_ok_def)

lemma in_order_start: "in_order env (modifyT (start_monitor reinit timeout))"
  by (auto simp: in_order_def modifyT_def process_ok_def start_monitor_ok)

lemma in_order_retT: "in_order env (retT x)"
  by (simp add: in_order_def retT_def)

lemma in_order_connect: "in_order env (connect_zmq zenv)"
  unfolding in_order_def using over_same_ok [OF keptD [OF kept_connect]] by blast

lemma in_order_Initialize_zmq:
  "in_order env (Initialize_zmq (json_lib env) zenv ps port hport ctx b reinit timeout ui slave)"
  unfolding Initialize_zmq_def InitializeZMQ_zmq_def
  by (intro in_order_bindT in_order_Initialize in_order_connect in_order_start) (simp add: in_order_retT)

lemma in_order_InitializeZMQ: "in_order env (InitializeZMQ c reinit timeout)"
  by (simp add: InitializeZMQ_def in_order_start in_order_retT)

lemma process_run_ok: "process_run env Q F c zenv w \<Longrightarrow> process_ok env w"
proof (induction rule: process_run.induct)
  case (web_task s media pk scenepk tasktype t s' z)
  with new_task_ok [OF web_task(2)] reachable_client show ?case by (auto simp: process_ok_def)
next
  case (zmq_task s media pk scenepk tasktype t s' z)
  with new_zmq_task_ok [OF zmq_task(2)] reachable_client show ?case by (auto simp: process_ok_def)
next
  case (called w f)
  with called_ok [OF called(2)] show ?case by (auto simp: process_ok_def)
next
  case (initialized w ps ports ui slave r w')
  from initialized(2,3) show ?case by (rule in_order_Initialize [unfolded in_order_def, rule_format])
next
  case (initialized_zmq w ps port hport ctx b reinit timeout ui slave r w')
  from initialized_zmq(2,3) show ?case by (rule in_order_Initialize_zmq [unfolded in_order_def, rule_format])
next
  case (monitored w reinit timeout r w')
  from monitored(2,3) show ?case by (rule in_order_InitializeZMQ [unfolded in_order_def, rule_format])
next
  case (caller w u r w')
  then show ?case by (auto simp: SetCallerId_def modifyT_def process_ok_def task_ok_def)
next
  case (commanded w exec stamp timeout m n u st r w')
  note m = commanded(3) and ok = commanded(5)
  from commanded(2) show ?case
  proof
    assume exec: "exec = ExecuteCommand_web env Q F stamp True"
    have "kept False (over_client calm) m" "kept False (over_client grows) m"
      using calm.web.kept_called [OF m [unfolded exec] TrueI] grows.web.kept_called [OF m [unfolded exec] TrueI] .
    from over_client_ok [OF this [THEN keptD, OF commanded(4)] ok] show ?thesis .
  next
    assume exec: "exec = ExecuteCommand_zmq (json_lib env) zenv stamp"
    have "kept False (over_client (=)) m"
      using zmq.kept_called [OF m [unfolded exec] TrueI] .
    from over_same_ok [OF keptD [OF this commanded(4)] ok] show ?thesis .
  qed
qed

section \<open>Properties\<close>

text \<open>C2: Whatever a process does with a client and a task, over HTTP and over ZeroMQ, with whatever answers and
  exceptions: the mutex of the client is free, its request options are at their defaults and its addresses and
  headers fit its settings; the task has a key, the text of its scene parameters is that of the JSON value, its user
  information is null, which a failed initialization leaves, or what its text says, and empty before the first initialization,
  its task parameters are in order, and a thread that watches heartbeats has not been told to end.\<close>

theorem process_run_invariant:
  assumes "process_run env Q F c zenv w"
  shows "idle (w_client w) \<and> consistent (w_client w) \<and> task_ok (json_lib env) (w_task w)"
  using process_run_ok [OF assms] unfolding process_ok_def .

text \<open>C7: Every command over HTTP that is given a timeout returns, with a result, an exception of the server or the timeout,
  whatever the server answers and however often there is no result yet, when the sum of the intervals of
  the polling loop exceeds the timeout at some point; and the process is left in order.\<close>

theorem web_command_returns:
  assumes "process_run env Q F c zenv w" and "passes Q timeout"
    and "task_command (json_lib env) Q F c (ExecuteCommand_web env Q F stamp True) timeout m"
  shows "\<exists>r w'. m w = Some (r, w') \<and> process_ok env w'"
proof -
  obtain r w' where m: "m w = Some (r, w')"
    using kept_returns [OF returning.kept_task_command [OF assms(3,2)]] by blast
  from process_run.commanded [OF assms(1) disjI1 [OF refl] disjI1 [OF assms(3)] m] have "process_ok env w'"
    by (rule process_run_ok)
  with m show ?thesis by blast
qed

text \<open>C16: Every command over ZeroMQ with a timeout other than 0 returns, whatever the clock and the messages, when polling never
  reports \<^verbatim>\<open>EAGAIN\<close>, and one with the timeout 0 when there is always a message; it makes no HTTP request, and the process is
  left in order.\<close>

theorem zmq_command_returns:
  assumes "process_run env Q F c zenv w" and "\<forall>k. raw_poll zenv k \<noteq> Inl EAGAIN"
    and "timeout \<noteq> 0 \<or> (\<forall>k. raw_poll zenv k \<noteq> Inr False)"
    and "task_command (json_lib env) Q F c (ExecuteCommand_zmq (json_lib env) zenv stamp) timeout m"
  shows "\<exists>r w'. m w = Some (r, w') \<and> w_client w' = w_client w \<and> process_ok env w'"
proof -
  note k = zmq_returning.kept_task_command [OF assms(4) assms(3) [folded bounded_wait_def]]
  with assms(2) have "kept True (over_client (=)) m" by simp
  from kept_returns [OF this] obtain r w' where m: "m w = Some (r, w')" by blast
  from process_run.commanded [OF assms(1) disjI2 [OF refl] disjI1 [OF assms(4)] m] have "process_ok env w'"
    by (rule process_run_ok)
  with m keptD [OF k m] show ?thesis by (auto simp: over_client_def)
qed

text \<open>C8: Every command of a task that is not initialized ends with an exception, over HTTP and over ZeroMQ: no request is made
  and no socket is opened.\<close>

theorem uninitialized_command_refused:
  assumes "\<not> bp_bIsInitialized (w_task w)"
    and "exec = ExecuteCommand_web env Q F stamp b \<or> exec = ExecuteCommand_zmq lib zenv stamp"
    and "task_command lib Q F c exec timeout m"
  shows "\<exists>e w'. m w = Some (Inl e, w') \<and> w_client w' = w_client w \<and> w_zmq w' = w_zmq w \<and>
    w_connected w' = w_connected w \<and> \<not> bp_bIsInitialized (w_task w')"
proof -
  from assms(2,3) have "refused m"
    using web_refuses.refused_task_command zmq_refuses.refused_task_command by blast
  with assms(1) show ?thesis by (auto simp: refused_def untouched_def)
qed

section \<open>Destruction\<close>

text \<open>The destructor of a task returns, for both classes, when the thread looks at the flag twice from then on.\<close>

lemma task_destroyed:
  assumes "2 \<le> n"
  shows "zmq_heartbeat.sound slave endpoint m \<Longrightarrow>
      BinPickingTaskResource_destroy (\<lambda>flags. fst (HeartbeatMonitorThread lib Q c interrupted env expired flags m)) n t =
      Some (t \<lparr> bp_bShutdownHeartbeatMonitor := Some True \<rparr>)"
    "mon_lastheartbeat l \<noteq> None \<longrightarrow> zsocket (mon_zmq l) \<noteq> None \<Longrightarrow>
      BinPickingTaskResource_destroy (\<lambda>flags. fst (HeartbeatMonitorThread_web env expired flags l)) n t =
      Some (t \<lparr> bp_bShutdownHeartbeatMonitor := Some True \<rparr>)"
proof -
  from le_Suc_ex [OF assms] obtain k where "n = 2 + k" by blast
  then have n: "n = Suc (Suc k)" by simp
  have joined: "thread (replicate n True) = Ended \<Longrightarrow>
      BinPickingTaskResource_destroy thread n t = Some (t \<lparr> bp_bShutdownHeartbeatMonitor := Some True \<rparr>)" for thread
    by (simp only: BinPickingTaskResource_destroy_def Let_def) simp
  show "zmq_heartbeat.sound slave endpoint m \<Longrightarrow>
      BinPickingTaskResource_destroy (\<lambda>flags. fst (HeartbeatMonitorThread lib Q c interrupted env expired flags m)) n t =
      Some (t \<lparr> bp_bShutdownHeartbeatMonitor := Some True \<rparr>)"
    by (rule joined) (simp only: n replicate_Suc zmq_thread_told)
  show "mon_lastheartbeat l \<noteq> None \<longrightarrow> zsocket (mon_zmq l) \<noteq> None \<Longrightarrow>
      BinPickingTaskResource_destroy (\<lambda>flags. fst (HeartbeatMonitorThread_web env expired flags l)) n t =
      Some (t \<lparr> bp_bShutdownHeartbeatMonitor := Some True \<rparr>)"
    by (rule joined) (unfold n replicate_Suc, rule web_thread_told)
qed

section \<open>Witnesses\<close>

definition sample_controller :: "nat http_env" where
  "sample_controller = sample_http sample_lib 200 []"

definition sample_compiled :: "nat compiled" where
  "sample_compiled = \<lparr> index_first = False, indeterminate = 0, indeterminate_mode = MVRRM_None, use_zmq = True \<rparr>"

definition sample_formats :: "nat formats" where
  "sample_formats = \<lparr> stream_real = (\<lambda>_. []), precise_real = (\<lambda>_. []), fixed_real = (\<lambda>_. []), float_real = (\<lambda>_. []) \<rparr>"

definition new_task :: "nat BinPickingTask result" where
  "new_task = fst (BinPickingTaskResource_new sample_controller tenths sample_compiled None ''1'' ''2'' ''binpicking'' HttpProps.sample_client)"

definition sample_world :: "nat world" where
  "sample_world = \<lparr> w_client = HttpProps.sample_client, w_task = projr new_task, w_zmq = ZmqLaws.sample_client,
     w_connected = False \<rparr>"

lemma fold_put_opt_base: "m_baseuri (fold (\<lambda>(opt, v). put_opt opt v) xs s) = m_baseuri s"
  by (induction xs arbitrary: s) auto

lemma constructed_base:
  "ControllerClientImpl env up uri [] [] flag (blank_client info) = (Inr (), s) \<Longrightarrow> m_baseuri s = ensure_slash uri"
  by (auto simp: ControllerClientImpl_def monad_Inr Let_def parse_base_uri_def set_addresses_def default_headers_def
      SetupHTTPHeadersJSON_def SetupHTTPHeadersSTL_def SetupHTTPHeadersMultipartFormData_def throw_def fold_put_opt_base
      split: option.splits prod.splits dest!: set_cookie_Inr setters_Inr)

lemma sample_base: "controller_ip (m_baseuri HttpProps.sample_client) = Inr ''h''"
proof -
  have "\<exists>s. ControllerClientImpl (sample_http sample_lib 200 []) ''u:p'' ''http://h'' [] [] False (blank_client sample_info0) = (Inr (), s)"
    by (rule construction_succeeds [OF _ _ _ _ sample_parses, where k = 1 and h = "''h''"]) (simp_all add: sample_http_def)
  then have "m_baseuri HttpProps.sample_client = ensure_slash ''http://h''"
    unfolding HttpProps.sample_client_def by (auto simp: constructed_base)
  moreover have "controller_ip (ensure_slash ''http://h'') = Inr ''h''" by code_simp
  ultimately show ?thesis by (simp only:)
qed

lemma object_set: "\<exists>ms'. SetJsonValueByKey save (JObject ms) k x = Inr (JObject ms')"
  by (simp add: SetJsonValueByKey_def set_member_def)

lemma scene_params_Inr: "\<exists>v. scene_params dir user base = (Inr v :: 'd json result)"
proof -
  obtain a where a: "SetJsonValueByKey SaveJsonCString (JObject []) ''scenetype'' ''mujin'' = (Inr (JObject a) :: 'd json result)"
    using object_set by metis
  obtain b where b: "SetJsonValueByKey SaveJsonString (JObject a) ''sceneuri'' (''mujin:/'' @ base) = Inr (JObject b)"
    using object_set by metis
  obtain c where "SetJsonValueByKey SaveJsonString (JObject b) ''scenefilename'' (dir @ ''/'' @ user @ ''/'' @ base) = Inr (JObject c)"
    using object_set by metis
  with a b show ?thesis by (simp only: scene_params_def bindR_simps) blast
qed

lemma sample_task: "\<exists>t. BinPickingTaskResource_new sample_controller tenths sample_compiled None ''1'' ''2'' ''binpicking''
    HttpProps.sample_client = (Inr t, HttpProps.sample_client) \<and> \<not> bp_bIsInitialized t"
proof -
  obtain v where "scene_params ''/var/www/media/u'' (m_username HttpProps.sample_client)
      (GetNameFromPrimaryKey_UTF8 sample_controller ''2'') = (Inr v :: nat json result)"
    using scene_params_Inr by blast
  moreover have "DumpJson (json_lib sample_controller) v 0 = Inr (GetJsonTypeName v)"
    by (simp add: DumpJson_def sample_controller_def sample_http_def sample_lib_def)
  ultimately show ?thesis
    by (simp add: BinPickingTaskResource_new_def monad_defs sample_base TaskResource_new_def check_pk_def check_assert_def
        TaskResource.extend_def)
qed

lemma sample_world_fields:
  "\<exists>t. BinPickingTaskResource_new sample_controller tenths sample_compiled None ''1'' ''2'' ''binpicking'' HttpProps.sample_client =
       (Inr t, HttpProps.sample_client) \<and> \<not> bp_bIsInitialized t \<and>
     sample_world = \<lparr> w_client = HttpProps.sample_client, w_task = t, w_zmq = ZmqLaws.sample_client, w_connected = False \<rparr>"
proof -
  from sample_task obtain t where t: "BinPickingTaskResource_new sample_controller tenths sample_compiled None ''1'' ''2'' ''binpicking''
    HttpProps.sample_client = (Inr t, HttpProps.sample_client)" "\<not> bp_bIsInitialized t" by blast
  have "new_task = Inr t" unfolding new_task_def t(1) by simp
  have "sample_world = \<lparr> w_client = HttpProps.sample_client, w_task = t, w_zmq = ZmqLaws.sample_client, w_connected = False \<rparr>"
    unfolding sample_world_def by (subst \<open>new_task = Inr t\<close>) (simp only: sum.sel)
  with t show ?thesis by blast
qed

lemma sample_process_run: "process_run sample_controller tenths sample_formats sample_compiled sample_env sample_world"
proof -
  from sample_world_fields obtain t where t: "BinPickingTaskResource_new sample_controller tenths sample_compiled None ''1'' ''2''
      ''binpicking'' HttpProps.sample_client = (Inr t, HttpProps.sample_client)"
    "sample_world = \<lparr> w_client = HttpProps.sample_client, w_task = t, w_zmq = ZmqLaws.sample_client, w_connected = False \<rparr>"
    by blast
  show ?thesis
    unfolding t(2) by (rule process_run.web_task [OF sample_client_run [folded sample_controller_def] t(1)])
qed

lemma sample_uninitialized: "\<not> bp_bIsInitialized (w_task sample_world)"
  using sample_world_fields by (metis world.select_convs(2))

lemma process_run_invariant_witness:
  "idle (w_client sample_world) \<and> consistent (w_client sample_world) \<and> task_ok (json_lib sample_controller) (w_task sample_world)"
  by (rule process_run_invariant [OF sample_process_run])

lemma web_command_returns_witness:
  "\<exists>r w'. ClearVisualization (ExecuteCommand_web sample_controller tenths sample_formats ''0'' True) 1 sample_world = Some (r, w') \<and>
     process_ok sample_controller w'"
proof (rule web_command_returns [OF sample_process_run _ task_command.intros(22)])
  have "r_lit tenths 0 = 0" by (simp add: tenths_def)
  then have "r_less tenths (r_lit tenths 1) ((tick tenths ^^ Suc 10) (r_lit tenths 0))"
    by (simp only: tick_tenths) (simp add: tenths_def)
  moreover have "(1::rat) \<noteq> 0" by simp
  ultimately show "passes tenths 1" unfolding passes_def by blast
qed

lemma zmq_command_returns_witness:
  "\<exists>r w'. ClearVisualization (ExecuteCommand_zmq sample_lib sample_env ''0'') 1 sample_world = Some (r, w') \<and>
     w_client w' = w_client sample_world \<and> process_ok sample_controller w'"
proof -
  have lib: "json_lib sample_controller = sample_lib" by (simp add: sample_controller_def sample_http_def)
  have poll: "\<forall>k. raw_poll sample_env k \<noteq> Inl EAGAIN" by (simp add: sample_env_def)
  have "(1::rat) \<noteq> 0" by simp
  from zmq_command_returns [OF sample_process_run poll disjI1 [OF this] task_command.intros(22)]
  show ?thesis by (simp only: lib)
qed

lemma uninitialized_command_refused_witness:
  "\<exists>e w'. ClearVisualization (ExecuteCommand_web sample_controller tenths sample_formats ''0'' True) 1 sample_world = Some (Inl e, w') \<and>
     w_client w' = w_client sample_world \<and> w_zmq w' = w_zmq sample_world \<and> w_connected w' = w_connected sample_world \<and>
     \<not> bp_bIsInitialized (w_task w')"
  by (rule uninitialized_command_refused [OF sample_uninitialized disjI1 [OF refl] task_command.intros(22)])

end
