(* ===== verification/Clock.thy ===== *)
theory Clock
  imports Zmq
begin

text \<open>
  The clock of \<^verbatim>\<open>src/common.h\<close>, which the timeouts and the time stamps of commands are read from: seconds and
  nanoseconds of 32 bits, put together in 64 bits. What the system answers is the argument.
\<close>

section \<open>Reading the clock\<close>

text \<open>The answer of \<^verbatim>\<open>clock_gettime\<close>, or of \<^verbatim>\<open>gettimeofday\<close> where there is none.\<close>

datatype system_time =
    Timespec (tv_sec: "64 word") (tv_nsec: "64 word")
  | Timeval (tv_sec: "64 word") (tv_usec: "64 word")

fun GetWallTime :: "system_time \<Rightarrow> 32 word \<times> 32 word" where
  "GetWallTime (Timespec s ns) = (ucast s, ucast ns)"
| "GetWallTime (Timeval s us) = (ucast s, ucast (us * 1000))"

definition GetMilliTimeOfDay :: "64 word \<Rightarrow> 64 word \<Rightarrow> 64 word" where
  "GetMilliTimeOfDay sec usec = sec * 1000 + usec div 1000"

definition GetNanoTime :: "system_time \<Rightarrow> 64 word" where
  "GetNanoTime t = (case GetWallTime t of (sec, nsec) \<Rightarrow> ucast sec * 1000000000 + ucast nsec)"

definition GetMicroTime :: "system_time \<Rightarrow> 64 word" where
  "GetMicroTime t = (case GetWallTime t of (sec, nsec) \<Rightarrow> ucast sec * 1000000 + ucast nsec div 1000)"

definition GetMilliTime :: "system_time \<Rightarrow> 64 word" where
  "GetMilliTime t = (case GetWallTime t of (sec, nsec) \<Rightarrow> ucast sec * 1000 + ucast nsec div 1000000)"

text \<open>With a monotonic clock its answer is taken, and otherwise that of the wall clock.\<close>

definition GetNanoPerformanceTime :: "(64 word \<times> 64 word) option \<Rightarrow> system_time \<Rightarrow> 64 word" where
  "GetNanoPerformanceTime monotonic t =
     (case monotonic of
        Some (s, ns) \<Rightarrow> ucast (ucast s :: 32 word) * 1000000000 + ucast (ucast ns :: 32 word)
      | None \<Rightarrow> GetNanoTime t)"

section \<open>Bounds\<close>

text \<open>What the system guarantees, and the nanoseconds of the second.\<close>

fun nanoseconds :: "system_time \<Rightarrow> nat" where
  "nanoseconds (Timespec s ns) = unat ns"
| "nanoseconds (Timeval s us) = unat us * 1000"

definition valid_time :: "system_time \<Rightarrow> bool" where
  "valid_time t \<longleftrightarrow> nanoseconds t < 1000000000"

definition seconds :: "system_time \<Rightarrow> nat" where
  "seconds t = unat (tv_sec t) mod 2 ^ 32"

lemma GetWallTime_values:
  assumes "valid_time t"
  shows "unat (fst (GetWallTime t)) = seconds t" "unat (snd (GetWallTime t)) = nanoseconds t"
proof -
  show "unat (fst (GetWallTime t)) = seconds t"
    by (cases t) (simp_all add: seconds_def unsigned_ucast_eq take_bit_eq_mod)
  show "unat (snd (GetWallTime t)) = nanoseconds t"
  proof (cases t)
    case (Timespec s ns)
    with assms show ?thesis by (simp add: valid_time_def unsigned_ucast_eq take_bit_eq_mod)
  next
    case (Timeval s us)
    with assms have us: "unat us * 1000 < 1000000000" by (simp add: valid_time_def)
    then have "unat (us * 1000) = unat us * 1000" by (simp add: unat_word_ariths)
    with us Timeval show ?thesis by (simp add: unsigned_ucast_eq take_bit_eq_mod)
  qed
qed

lemma narrow_bound: "unat x < 2 ^ 32" for x :: "32 word"
  using unsigned_less [where 'a = nat, of x] by simp

lemma unat_wide: "unat (ucast x :: 64 word) = unat x" for x :: "32 word"
  using narrow_bound [of x] by (simp add: unsigned_ucast_eq take_bit_eq_mod)

lemma scaled_time:
  fixes sec nsec :: "32 word"
  assumes "unat k \<le> 1000000000"
  shows "unat (ucast sec * k + ucast nsec div d :: 64 word) = unat sec * unat k + unat nsec div unat d"
proof -
  have "unat sec * unat k \<le> 2 ^ 32 * 1000000000"
    using assms narrow_bound [of sec] by (intro mult_le_mono) simp_all
  moreover have "unat nsec div unat d < 2 ^ 32"
    using narrow_bound [of nsec] div_le_dividend [of "unat nsec" "unat d"] by (rule le_less_trans [rotated])
  ultimately have b: "unat sec * unat k + unat nsec div unat d < 2 ^ 64" by simp
  then have p: "unat (ucast sec * k :: 64 word) = unat sec * unat k" by (simp add: unat_word_ariths unat_wide)
  have q: "unat (ucast nsec div d :: 64 word) = unat nsec div unat d" by (simp add: unat_div_distrib unat_wide)
  from b show ?thesis by (simp add: unat_word_ariths(1) p q)
qed

lemma clock_values:
  assumes "valid_time t"
  shows "unat (GetNanoTime t) = seconds t * 1000000000 + nanoseconds t"
    "unat (GetMicroTime t) = seconds t * 1000000 + nanoseconds t div 1000"
    "unat (GetMilliTime t) = seconds t * 1000 + nanoseconds t div 1000000"
proof -
  obtain sec nsec where w: "GetWallTime t = (sec, nsec)" by fastforce
  with GetWallTime_values [OF assms] have v: "unat sec = seconds t" "unat nsec = nanoseconds t" by simp_all
  show "unat (GetNanoTime t) = seconds t * 1000000000 + nanoseconds t"
    using scaled_time [of 1000000000 sec nsec 1] by (simp add: GetNanoTime_def w v)
  show "unat (GetMicroTime t) = seconds t * 1000000 + nanoseconds t div 1000"
    using scaled_time [of 1000000 sec nsec 1000] by (simp add: GetMicroTime_def w v)
  show "unat (GetMilliTime t) = seconds t * 1000 + nanoseconds t div 1000000"
    using scaled_time [of 1000 sec nsec 1000000] by (simp add: GetMilliTime_def w v)
qed

text \<open>The milliseconds of the clock, and what the 64-bit difference of two readings is, whichever comes first.\<close>

definition milliseconds :: "system_time \<Rightarrow> nat" where
  "milliseconds t = seconds t * 1000 + nanoseconds t div 1000000"

lemma milliseconds_bound:
  assumes "valid_time t"
  shows "milliseconds t < 2 ^ 64"
proof -
  have "seconds t < 2 ^ 32" by (simp add: seconds_def)
  moreover have "nanoseconds t div 1000000 < 1000" using assms by (simp add: valid_time_def less_mult_imp_div_less)
  ultimately show ?thesis by (simp add: milliseconds_def)
qed

lemma unat_difference:
  fixes x y :: "64 word"
  shows "unat (x - y) = (if unat y \<le> unat x then unat x - unat y else 2 ^ 64 - (unat y - unat x))"
proof -
  have "(2 :: nat) ^ 64 + unat x - unat y = 2 ^ 64 - (unat y - unat x)" if "\<not> unat y \<le> unat x" using that by simp
  then show ?thesis by (simp add: unat_sub_if_size word_size add.commute [of "unat x"])
qed

text \<open>C36: The clock does not overflow: its nanoseconds are those of the system, with the seconds taken modulo \<open>2 ^ 32\<close>
  as the code truncates them, and its microseconds and milliseconds are these nanoseconds divided. The time that
  a timeout of a call is compared with is exactly the time that has passed when the clock has not gone back
  since the start; when it has, because the system time was set or the 32 bits of the seconds are used up, it
  is close to \<open>2 ^ 64\<close> milliseconds and not negative.\<close>

theorem clock_exact:
  assumes "valid_time s" and "valid_time t"
  shows "unat (GetNanoTime t) = (unat (tv_sec t) mod 2 ^ 32) * 1000000000 + nanoseconds t \<and>
    unat (GetMicroTime t) = unat (GetNanoTime t) div 1000 \<and>
    unat (GetMilliTime t) = unat (GetNanoTime t) div 1000000 \<and>
    elapsed_ms (GetMilliTime t) (GetMilliTime s) =
      (if milliseconds s \<le> milliseconds t then of_nat (milliseconds t - milliseconds s)
       else 2 ^ 64 - of_nat (milliseconds s - milliseconds t))"
proof -
  note c = clock_values [OF assms(2)] clock_values [OF assms(1)]
  have "milliseconds s - milliseconds t \<le> 2 ^ 64" using milliseconds_bound [OF assms(1)] by simp
  then have e: "elapsed_ms (GetMilliTime t) (GetMilliTime s) =
      (if milliseconds s \<le> milliseconds t then of_nat (milliseconds t - milliseconds s)
       else 2 ^ 64 - of_nat (milliseconds s - milliseconds t))"
    by (simp add: elapsed_ms_def unat_difference c milliseconds_def of_nat_diff del: unat_sub_if')
  have d: "(x * 1000000000 + y) div 1000 = x * 1000000 + y div 1000"
    "(x * 1000000000 + y) div 1000000 = x * 1000 + y div 1000000" for x y :: nat
    using div_mult_self3 [of 1000 "x * 1000000" y] div_mult_self3 [of 1000000 "x * 1000" y] by simp_all
  show ?thesis by (simp only: e c d seconds_def [symmetric] simp_thms)
qed

theorem clock_exact_witness:
  "elapsed_ms (GetMilliTime (Timespec 4294967295 999000000)) (GetMilliTime (Timeval 4294967294 500)) = 1999 \<and>
   elapsed_ms (GetMilliTime (Timespec 4294967296 0)) (GetMilliTime (Timespec 4294967295 999000000)) =
     2 ^ 64 - 4294967295999"
  using clock_exact [of "Timeval 4294967294 500" "Timespec 4294967295 999000000"]
    clock_exact [of "Timespec 4294967295 999000000" "Timespec 4294967296 0"]
  by (simp add: valid_time_def milliseconds_def seconds_def)

end
