(* ===== verification/Spec2Isabelle.thy ===== *)
theory Spec2Isabelle
  imports TextTools HttpProps ZmqLaws JsonFile Definitions BinPickingCommands RegionLaws ResourceProps HeartbeatProps TaskProps WideUploadLaws CommandProps Clock
begin

text \<open>
  \<^bold>\<open>A verification development of the Mujin controller client library for C++.\<close>

  The library is a client of a robot controller. It talks to the controller over HTTP (libcurl), over
  WebDAV for files, over a websocket for GraphQL subscriptions, and over ZeroMQ for commands and heartbeats;
  it converts between C++ values and JSON, and offers the objects of the server, scenes, robots, tasks, as
  classes whose methods are requests. Paths below are those of the repository.

  \<^bold>\<open>Conventions.\<close> A call that may throw has the type \<open>error + 'a\<close> of the theory \<open>Prelude\<close>; a method that
  changes its object takes the state and returns a result and the state, also when it throws, for the members
  assigned before an exception keep their values. A loop that may not end is a partial function with the
  result \<open>None\<close> for not ending. Fixed-width integers are words with the wrap-around of the code, and a signed
  overflow is the error \<open>UndefinedBehaviour\<close>. What rapidjson asserts of its arguments is thrown, as \<^verbatim>\<open>BOOST_ASSERT\<close> is
  in this build. A JSON value is the datatype \<open>json\<close> over a type \<open>'d\<close> of doubles;
  floating point arithmetic, which the theories never compute with, is the record \<open>reals\<close>. What is not
  code of this repository is an argument: rapidjson, boost and the C library in the record \<open>lib\<close>, libcurl
  and the server in \<open>http_env\<close>, ZeroMQ and the clock in \<open>zmq_env\<close>, the websocket in \<open>ws_env\<close>, the file
  system in \<open>file_env\<close>, the printing of doubles in \<open>formats\<close>, constants of the build in \<open>compiled\<close>. Nothing is
  assumed of these arguments beyond what a theorem states.

  \<^bold>\<open>The theories.\<close>
  \<^item> \<open>Prelude\<close>, \<open>Exceptions\<close>: results, states with exceptions, loops that stop at an exception, searches in
    strings, decimal numbers; the error codes and exception classes of \<^verbatim>\<open>mujinexceptions.h\<close>.
  \<^item> \<open>TextTools\<close>: \<^verbatim>\<open>src/common.cpp\<close>. The index loops of \<^verbatim>\<open>SearchAndReplace\<close> compute a leftmost longest
    replacement and end; \<^verbatim>\<open>ConvertTimestampToFloat\<close>.
  \<^item> \<open>Json\<close>, \<open>JsonLaws\<close>: \<^verbatim>\<open>mujinjson.h\<close>, one definition for each overload of \<^verbatim>\<open>LoadJsonValue\<close> and
    \<^verbatim>\<open>SaveJsonValue\<close>, the access by key and by path, and \<^verbatim>\<open>UpdateJsonRecursively\<close>. The locales \<open>json_codec\<close> and
    \<open>json_value_codec\<close> state that loading undoes saving, and lift it through the containers.
  \<^item> \<open>JsonFile\<close>: \<^verbatim>\<open>ParseJsonFile\<close> of \<^verbatim>\<open>src/mujinjson.cpp\<close> with its descriptor and buffer.
  \<^item> \<open>ClientInfo\<close>: \<^verbatim>\<open>ControllerClientInfo\<close> and the parser of URLs.
  \<^item> \<open>Utf8\<close>: \<^verbatim>\<open>utf16to8\<close> and \<^verbatim>\<open>utf8to16\<close> of \<^verbatim>\<open>src/utf8\<close>, on words.
  \<^item> \<open>Zmq\<close>, \<open>ZmqLaws\<close>: \<^verbatim>\<open>src/mujinzmq.cpp\<close>. The locale \<open>socket_owner\<close> is the contract of the four classes that
    own a socket; \<^verbatim>\<open>ZmqClient::Call\<close>, what it sends, when it ends, and that with the timeout 0 it may not. \<open>Clock\<close>: the clock its timeouts are read from, at its width.
  \<^item> \<open>Subscription\<close>: \<^verbatim>\<open>GraphSubscriptionWebSocketHandler\<close> as a state machine of the calls of the client and
    the completed reads (\<open>ws_step\<close>, \<open>ws_run\<close>), and its destruction.
  \<^item> \<open>Http\<close>, \<open>ControllerClient\<close>, \<open>WideUpload\<close>, \<open>HttpLaws\<close>, \<open>HttpProps\<close>, \<open>WideUploadLaws\<close>: \<^verbatim>\<open>src/controllerclientimpl.cpp\<close>. The state \<open>client\<close> holds
    the options of the curl handle, the mutex, the header lists and the requests made. The locale
    \<open>http_relation\<close> carries a relation between the states before and after a call through every operation;
    its instances give the invariant of every reachable client. Uploading with UTF-16 names is the same as with UTF-8 names.
  \<^item> \<open>Resources\<close>, \<open>Tasks\<close>, \<open>Scenes\<close>, \<open>ResourceProps\<close>, \<open>ResourceLaws\<close>: \<^verbatim>\<open>src/mujincontrollerclient.cpp\<close>, the objects of the
    server, on top of the requests of \<open>Http\<close>; each method keeps the relations of \<open>http_relation\<close>.
  \<^item> \<open>Definitions\<close>: \<^verbatim>\<open>mujindefinitions.h\<close> and \<^verbatim>\<open>src/mujindefinitions.cpp\<close>, transforms, boxes, modes, history items.
  \<^item> \<open>BinPickingData\<close>, \<open>RegionLaws\<close>, \<open>Heartbeat\<close>, \<open>BinPicking\<close>, \<open>BinPickingCommands\<close>: \<^verbatim>\<open>src/binpickingtask.cpp\<close> and
    \<^verbatim>\<open>src/binpickingtaskzmq.cpp\<close>. The texts of the commands, the results and how they are parsed, the published
    state, the execution over HTTP and over ZeroMQ, and every command of the task with the execution as an argument.
  \<^item> \<open>HeartbeatProps\<close>, \<open>TaskProps\<close>: the threads that watch the heartbeats refine an abstract watchdog, by way of
    the locale \<open>heartbeat_handler\<close>, where the meaning of a message is read from its JSON; the polling loop with a timeout ends; the choice of a slave.
  \<^item> \<open>CommandLaws\<close>, \<open>CommandProps\<close>: the commands rely on the virtual \<^verbatim>\<open>ExecuteCommand\<close>, whose contracts are the locales
    \<open>command_relation\<close> and \<open>refusing\<close>, interpreted for both executions. A process (\<open>process_run\<close>) is a client and a task
    with any sequence of calls: its invariant, the commands that return, and those that are refused. The heartbeat
    thread is started once and ended by the destructor.

  \<^bold>\<open>How the parts interact.\<close> A task (\<open>world\<close>) consists of its own members, the client it belongs to, and the ZeroMQ
  client of the derived class. The web execution changes the client only, through the operations of \<open>Http\<close>, so that
  the invariant of the client holds between any two commands; the ZeroMQ execution changes the sockets only. Each
  request goes through \<open>CURL_PERFORM\<close>, which logs the options as they are when the request is made; each reply
  goes through \<open>ParseJson\<close> and the loaders of \<open>Json\<close>. \<open>sublocale\<close> carries a relation between clients to one
  between worlds, so that what is shown of the operations of the client holds of the commands too.

  \<^bold>\<open>Loops, bounds and fuel.\<close> No definition has a bound of its own. Structural loops are \<open>fun\<close>; the others are
  partial functions, and that they end is proved where the code makes them end: the replacement loop always, the
  loops of \<^verbatim>\<open>ZmqClient::Call\<close> for any clock when polling does not report \<^verbatim>\<open>EAGAIN\<close> and has an end or a message, the read loops of \<^verbatim>\<open>ParseJsonFile\<close> for a read that is not
  interrupted for ever, the polling of a command when the sum of its intervals exceeds the timeout. A heartbeat
  thread runs on a given sequence of values of its shutdown flag, which may be any sequence.

  \<^bold>\<open>Not modelled.\<close> The vendored headers and binaries (\<^verbatim>\<open>zmq.hpp\<close>, \<^verbatim>\<open>msvc_binaries\<close>, the unused parts of \<^verbatim>\<open>utf8\<close>),
  the samples, tests and logging. Of the code itself: the branches for Windows (also of the clock) and for
  version 2 of \<^verbatim>\<open>boost::filesystem\<close>; the destructors that only free memory; the structures without operations, such as \<^verbatim>\<open>SceneInformation\<close>; the reading of XML. The interleaving
  of threads appears as the order of the steps of the websocket and of the loop tests of the heartbeat thread; a data
  race is not expressible. What an output argument of a resource holds after an exception is left out, and what
  \<^verbatim>\<open>ResultGetBinpickingState::Parse\<close> leaves of a state when it throws on the way is the argument \<open>interrupted\<close> of the
  heartbeat thread. The calls of ZeroMQ other than an unbounded poll return. Assertions about the identity of references, as in
  \<^verbatim>\<open>SearchAndReplace\<close>, are left out, but for the assignment of a minimum viable region.
\<close>

end
